(* ===== verification/Prelude.thy ===== *)
theory Prelude
  imports Main "HOL-Library.AList" "HOL-Library.Sublist" "HOL-Library.Word"
begin

text \<open>
  Shared vocabulary of the development: Go slices and maps (with the nil value kept apart from
  the empty one), the byte-string functions of Go's \<^verbatim>\<open>strings\<close> package that the
  provider calls, run-time panics, fixed-width integers, and the generic lemmas and
  collections the component theories rest on.
\<close>

section \<open>A collection of facts\<close>

text \<open>\<open>frame_simps\<close>: facts of the form "this operation leaves that field alone".\<close>

named_theorems frame_simps

section \<open>Integers\<close>

type_synonym int32 = "32 word"
type_synonym int64 = "64 word"

text \<open>The conversion \<^verbatim>\<open>int32(x)\<close> of an \<^verbatim>\<open>int64\<close>: Go keeps the low 32 bits.\<close>

definition int32_of :: "int64 \<Rightarrow> int32" where
  "int32_of x = ucast x"

lemma sint_int32_of:
  assumes "- (2 ^ 31) \<le> sint x" and "sint x < 2 ^ 31"
  shows "sint (int32_of x) = sint x"
proof -
  have "sint (int32_of x) = signed_take_bit 31 (sint x)"
    by (simp add: int32_of_def signed_take_bit_eq_if_positive sint_uint
        signed_take_bit_take_bit unsigned_ucast_eq)
  also have "\<dots> = sint x"
    using assms by (intro signed_take_bit_int_eq_self) auto
  finally show ?thesis .
qed

section \<open>Run-time panics\<close>

text \<open>
  A Go call either returns or panics. Only the operations that dereference a pointer that may
  be nil, or index a slice, have this result type.
\<close>

datatype 'a outcome = Return 'a | Panic string

fun returns :: "'a outcome \<Rightarrow> bool" where
  "returns (Return x) = True"
| "returns (Panic p) = False"

section \<open>Slices\<close>

text \<open>\<open>None\<close> is the nil slice; \<open>Some []\<close> is an allocated slice of length 0.\<close>

type_synonym 'a slice = "'a list option"

definition elems :: "'a slice \<Rightarrow> 'a list" where
  "elems s = (case s of None \<Rightarrow> [] | Some xs \<Rightarrow> xs)"

definition go_len :: "'a slice \<Rightarrow> nat" where
  "go_len s = length (elems s)"

text \<open>\<^verbatim>\<open>append(s, xs...)\<close>: nil stays nil when nothing is appended.\<close>

definition go_append :: "'a slice \<Rightarrow> 'a list \<Rightarrow> 'a slice" where
  "go_append s xs = (if xs = [] then s else Some (elems s @ xs))"

text \<open>\<^verbatim>\<open>if s == nil { s = []T{} }\<close>\<close>

definition non_nil :: "'a slice \<Rightarrow> 'a slice" where
  "non_nil s = (case s of None \<Rightarrow> Some [] | Some xs \<Rightarrow> Some xs)"

lemma elems_simps [simp]: "elems None = []" "elems (Some xs) = xs"
  by (simp_all add: elems_def)

lemma elems_go_append [simp]: "elems (go_append s xs) = elems s @ xs"
  by (simp add: go_append_def)

lemma elems_non_nil [simp]: "elems (non_nil s) = elems s"
  by (simp add: non_nil_def split: option.split)

lemma go_append_Cons: "go_append s (x # xs) = Some (elems s @ x # xs)"
  by (simp add: go_append_def)

lemma go_append_Nil [simp]: "go_append s [] = s"
  by (simp add: go_append_def)

lemma go_len_0_iff [simp]: "go_len s = 0 \<longleftrightarrow> elems s = []"
  by (simp add: go_len_def)

section \<open>Maps with string keys\<close>

text \<open>
  A Go map is an association list, nil being \<open>None\<close>. Go iterates over a map in no fixed
  order: the list's order stands for the order of one iteration, and the theorems hold for
  every list.
\<close>

type_synonym 'v gomap = "(string \<times> 'v) list option"

definition entries :: "'v gomap \<Rightarrow> (string \<times> 'v) list" where
  "entries m = (case m of None \<Rightarrow> [] | Some kvs \<Rightarrow> kvs)"

text \<open>\<^verbatim>\<open>v, ok := m[k]\<close>: reading a nil map is allowed.\<close>

definition gm_get :: "'v gomap \<Rightarrow> string \<Rightarrow> 'v option" where
  "gm_get m k = map_of (entries m) k"

text \<open>\<^verbatim>\<open>m[k]\<close> on a map of strings: the zero value for a missing key.\<close>

definition gm_str :: "string gomap \<Rightarrow> string \<Rightarrow> string" where
  "gm_str m k = (case gm_get m k of None \<Rightarrow> '''' | Some v \<Rightarrow> v)"

lemma entries_simps [simp]: "entries None = []" "entries (Some kvs) = kvs"
  by (simp_all add: entries_def)

lemma gm_get_simps [simp]: "gm_get None k = None" "gm_get (Some kvs) k = map_of kvs k"
  by (simp_all add: gm_get_def)

text \<open>
  The loop \<^verbatim>\<open>for k, v := range src { if skip(k) { continue }; dst[k] = v }\<close>.
\<close>

fun copy_entries :: "(string \<Rightarrow> bool) \<Rightarrow> (string \<times> 'v) list \<Rightarrow> (string \<times> 'v) list \<Rightarrow> (string \<times> 'v) list"
  where
  "copy_entries skip [] dst = dst"
| "copy_entries skip ((k, v) # kvs) dst =
     copy_entries skip kvs (if skip k then dst else AList.update k v dst)"

lemma map_of_copy_entries:
  "distinct (map fst src) \<Longrightarrow>
   map_of (copy_entries skip src dst) k =
     (if skip k \<or> map_of src k = None then map_of dst k else map_of src k)"
proof (induction skip src dst arbitrary: k rule: copy_entries.induct)
  case (1 skip dst)
  then show ?case by simp
next
  case (2 skip a v kvs dst)
  then have "map_of kvs a = None"
    by (auto simp: map_of_eq_None_iff image_iff)
  with 2 show ?case
    by (auto simp: update_conv')
qed

lemma distinct_copy_entries:
  "distinct (map fst dst) \<Longrightarrow> distinct (map fst (copy_entries skip src dst))"
  by (induction skip src dst rule: copy_entries.induct) (auto simp: distinct_update)

lemma update_same:
  "distinct (map fst kvs) \<Longrightarrow> map_of kvs k = Some v \<Longrightarrow> AList.update k v kvs = kvs"
proof (induction kvs)
  case Nil
  then show ?case by simp
next
  case (Cons p kvs)
  then show ?case by (cases p) (auto split: if_splits)
qed

text \<open>Copying a second time changes nothing, not even the order of the entries.\<close>

lemma copy_entries_absorbed:
  assumes "distinct (map fst dst)"
    and "\<forall>(k, v) \<in> set src. skip k \<or> map_of dst k = Some v"
  shows "copy_entries skip src dst = dst"
  using assms(2)
proof (induction src)
  case Nil
  show ?case by simp
next
  case (Cons p src)
  obtain k v where p: "p = (k, v)"
    by (cases p)
  with Cons.prems have "skip k \<or> AList.update k v dst = dst"
    using update_same [OF assms(1)] by auto
  with Cons p show ?case
    by auto
qed

section \<open>Byte strings\<close>

text \<open>
  A Go string is a sequence of bytes, here a list of \<open>char\<close> (which is a byte).
\<close>

definition HasPrefix :: "string \<Rightarrow> string \<Rightarrow> bool" where
  "HasPrefix s p \<longleftrightarrow> take (length p) s = p"

definition TrimPrefix :: "string \<Rightarrow> string \<Rightarrow> string" where
  "TrimPrefix s p = (if HasPrefix s p then drop (length p) s else s)"

lemma HasPrefix_append [simp]: "HasPrefix (p @ s) p"
  by (simp add: HasPrefix_def)

lemma HasPrefixE: "HasPrefix s p \<Longrightarrow> s = p @ drop (length p) s"
  unfolding HasPrefix_def by (metis append_take_drop_id)

lemma TrimPrefix_append [simp]: "TrimPrefix (p @ s) p = s"
  by (simp add: TrimPrefix_def)

text \<open>\<^verbatim>\<open>strings.Split(s, sep)\<close> for a separator of one byte.\<close>

fun Split :: "char \<Rightarrow> string \<Rightarrow> string list" where
  "Split c [] = [[]]"
| "Split c (x # xs) =
     (if x = c then [] # Split c xs
      else (case Split c xs of [] \<Rightarrow> [[x]] | y # ys \<Rightarrow> (x # y) # ys))"

lemma Split_nonempty: "Split c s \<noteq> []"
  by (induction s) (auto split: list.splits)

lemma length_Split: "length (Split c s) = Suc (count_list s c)"
  by (induction s) (auto split: list.splits)

lemma Split_no_sep: "c \<notin> set s \<Longrightarrow> Split c s = [s]"
  by (induction s) auto

lemma Split_append_sep: "c \<notin> set a \<Longrightarrow> Split c (a @ c # b) = a # Split c b"
  by (induction a) auto

lemma Split_length_one_iff: "length (Split c s) = 1 \<longleftrightarrow> c \<notin> set s"
  by (simp add: length_Split count_list_0_iff)

text \<open>\<^verbatim>\<open>IndexByte\<close> and \<^verbatim>\<open>LastIndexByte\<close>, with \<open>None\<close> for -1.\<close>

fun index_byte :: "char \<Rightarrow> string \<Rightarrow> nat option" where
  "index_byte c [] = None"
| "index_byte c (x # xs) = (if x = c then Some 0 else map_option Suc (index_byte c xs))"

fun last_index_byte :: "char \<Rightarrow> string \<Rightarrow> nat option" where
  "last_index_byte c [] = None"
| "last_index_byte c (x # xs) =
     (case last_index_byte c xs of
        Some i \<Rightarrow> Some (Suc i)
      | None \<Rightarrow> if x = c then Some 0 else None)"

lemma index_byte_None_iff [simp]: "index_byte c s = None \<longleftrightarrow> c \<notin> set s"
  by (induction s) auto

lemma last_index_byte_None_iff [simp]: "last_index_byte c s = None \<longleftrightarrow> c \<notin> set s"
  by (induction s) (auto split: option.splits)

lemma index_byte_append: "c \<notin> set a \<Longrightarrow> index_byte c (a @ c # b) = Some (length a)"
  by (induction a) auto

lemma last_index_byte_append: "c \<notin> set b \<Longrightarrow> last_index_byte c (a @ c # b) = Some (length a)"
proof (induction a)
  case Nil
  then have "last_index_byte c b = None"
    by (rule last_index_byte_None_iff [THEN iffD2])
  then show ?case
    by (simp del: last_index_byte_None_iff)
next
  case (Cons x a)
  then show ?case by simp
qed

text \<open>Inversion: the string is cut at the byte that was found.\<close>

lemma index_byte_SomeE:
  assumes "index_byte c s = Some i"
  obtains a b where "s = a @ c # b" "c \<notin> set a" "i = length a"
proof -
  have "\<exists>a b. s = a @ c # b \<and> c \<notin> set a \<and> i = length a"
    using assms
  proof (induction s arbitrary: i)
    case Nil
    then show ?case by simp
  next
    case (Cons x s)
    show ?case
    proof (cases "x = c")
      case True
      with Cons.prems have "x # s = [] @ c # s \<and> c \<notin> set [] \<and> i = length []"
        by simp
      then show ?thesis by blast
    next
      case False
      with Cons.prems obtain j where "index_byte c s = Some j" "i = Suc j"
        by auto
      with Cons.IH obtain a b where "s = a @ c # b \<and> c \<notin> set a \<and> j = length a"
        by blast
      with False \<open>i = Suc j\<close> have "x # s = (x # a) @ c # b \<and> c \<notin> set (x # a) \<and> i = length (x # a)"
        by simp
      then show ?thesis by blast
    qed
  qed
  then show ?thesis using that by blast
qed

lemma last_index_byte_SomeE:
  assumes "last_index_byte c s = Some i"
  obtains a b where "s = a @ c # b" "c \<notin> set b" "i = length a"
proof -
  have "\<exists>a b. s = a @ c # b \<and> c \<notin> set b \<and> i = length a"
    using assms
  proof (induction s arbitrary: i)
    case Nil
    then show ?case by simp
  next
    case (Cons x s)
    show ?case
    proof (cases "last_index_byte c s")
      case None
      with Cons.prems have "x = c" "i = 0"
        by (simp_all split: if_splits)
      with None have "x # s = [] @ c # s \<and> c \<notin> set s \<and> i = length []"
        by simp
      then show ?thesis by blast
    next
      case (Some j)
      with Cons.IH obtain a b where "s = a @ c # b \<and> c \<notin> set b \<and> j = length a"
        by blast
      with Some Cons.prems have "x # s = (x # a) @ c # b \<and> c \<notin> set b \<and> i = length (x # a)"
        by simp
      then show ?thesis by blast
    qed
  qed
  then show ?thesis using that by blast
qed

lemmas byte_index_simps = index_byte_append last_index_byte_append

end
