(* ===== verification/ApiTypes.thy ===== *)
theory ApiTypes
  imports Prelude
begin

text \<open>
  The API objects: \<^verbatim>\<open>KamajiControlPlane\<close> and \<^verbatim>\<open>KamajiControlPlaneTemplate\<close>
  (\<^verbatim>\<open>api/v1alpha2\<close>) field by field, and of the objects of other projects
  (\<^verbatim>\<open>Cluster\<close>, \<^verbatim>\<open>Secret\<close>, \<^verbatim>\<open>TenantControlPlane\<close>) the fields the provider
  reads or writes, every remaining field being kept together in a component called \<open>rest\<close>.
  A struct of another project that is only handed on is carried in its serialised form.
  A pointer is an \<open>option\<close>, a slice or map the types of \<open>Prelude\<close>, a time the number of
  ticks since the zero time, a byte slice a \<open>string slice\<close> of bytes.
\<close>

type_synonym json = string
type_synonym bytes = "char slice"

section \<open>Values of other projects that are handed on unread\<close>

datatype VolumeMount = VolumeMount json
datatype ResourceRequirements = ResourceRequirements json
datatype ProbeSpec = ProbeSpec json
datatype AdditionalPort = AdditionalPort json
datatype DataStoreOverride = DataStoreOverride json
datatype AddonSpec = AddonSpec json
datatype AdmissionController = AdmissionController string
datatype KubeletSpec = KubeletSpec json
datatype DeploymentStrategy = DeploymentStrategy json
datatype Affinity = Affinity json
datatype Toleration = Toleration json
datatype TopologySpreadConstraint = TopologySpreadConstraint json
datatype Container = Container json
datatype Volume = Volume json

section \<open>Object metadata and conditions\<close>

record OwnerReference =
  or_Kind :: string
  or_Name :: string
  or_UID :: string
  or_rest :: json

record ObjectMeta =
  om_Name :: string
  om_Namespace :: string
  om_UID :: string
  om_ResourceVersion :: string
  om_Generation :: int64
  om_DeletionTimestamp :: "nat option"
  om_Labels :: "string gomap"
  om_Annotations :: "string gomap"
  om_Finalizers :: "string slice"
  om_OwnerReferences :: "OwnerReference slice"
  om_rest :: json

record NamespacedName =
  nn_Namespace :: string
  nn_Name :: string

text \<open>\<^verbatim>\<open>client.ObjectKeyFromObject\<close>\<close>

definition ObjectKey :: "ObjectMeta \<Rightarrow> NamespacedName" where
  "ObjectKey m = \<lparr>nn_Namespace = om_Namespace m, nn_Name = om_Name m\<rparr>"

text \<open>\<open>StatusUnset\<close> is the zero value of \<^verbatim>\<open>metav1.ConditionStatus\<close>.\<close>

datatype ConditionStatus = ConditionTrue | ConditionFalse | ConditionUnknown | StatusUnset

record Condition =
  co_Type :: string
  co_Status :: ConditionStatus
  co_ObservedGeneration :: int64
  co_LastTransitionTime :: nat
  co_Reason :: string
  co_Message :: string

section \<open>KamajiControlPlane\<close>

record ProbeSet =
  ps_Liveness :: "ProbeSpec option"
  ps_Readiness :: "ProbeSpec option"
  ps_Startup :: "ProbeSpec option"

record ControlPlaneComponent =
  cpc_ExtraVolumeMounts :: "VolumeMount slice"
  cpc_ExtraArgs :: "string slice"
  cpc_Resources :: ResourceRequirements
  cpc_ContainerImageName :: string
  cpc_Probes :: "ProbeSet option"

record KineComponent =
  kc_ExtraArgs :: "string slice"
  kc_Resources :: ResourceRequirements

record GatewayComponent =
  gc_Name :: string
  gc_Namespace :: string
  gc_Hostname :: string
  gc_SectionName :: string
  gc_Port :: "int32 option"
  gc_ExtraLabels :: "string gomap"
  gc_ExtraAnnotations :: "string gomap"

record IngressComponent =
  ic_ClassName :: string
  ic_Hostname :: string
  ic_ExtraLabels :: "string gomap"
  ic_ExtraAnnotations :: "string gomap"

record LoadBalancerConfig =
  lb_LoadBalancerSourceRanges :: "string slice"
  lb_LoadBalancerClass :: "string option"

record NetworkComponent =
  nc_LoadBalancerConfig :: "LoadBalancerConfig option"
  nc_Gateway :: "GatewayComponent option"
  nc_Ingress :: "IngressComponent option"
  nc_ServiceType :: string
  nc_ServiceAddress :: string
  nc_AdvertiseAddress :: string
  nc_ServiceLabels :: "string gomap"
  nc_ServiceAnnotations :: "string gomap"
  nc_AdditionalServicePorts :: "AdditionalPort slice"
  nc_CertSANs :: "string slice"
  nc_DNSServiceIPs :: "string slice"

text \<open>
  The add-ons of Kamaji (\<^verbatim>\<open>kamajiv1alpha1.AddonsSpec\<close>), embedded in
  \<^verbatim>\<open>v1alpha2.AddonsSpec\<close>, whose own \<^verbatim>\<open>CoreDNS\<close> field shadows the embedded one.
\<close>

record KamajiAddonsSpec =
  kas_CoreDNS :: "AddonSpec option"
  kas_rest :: json

record CoreDNSAddonSpec =
  cda_AddonSpec :: "AddonSpec option"
  cda_DNSServiceIPs :: "string slice"

record AddonsSpec =
  as_AddonsSpec :: KamajiAddonsSpec
  as_CoreDNS :: "CoreDNSAddonSpec option"

record APIEndpoint =
  ep_Host :: string
  ep_Port :: int32

record AdditionalMetadata =
  am_Labels :: "string gomap"
  am_Annotations :: "string gomap"

record ExternalClusterReference =
  ecr_KubeconfigSecretName :: string
  ecr_KubeconfigSecretKey :: string
  ecr_KubeconfigSecretNamespace :: string
  ecr_DeploymentNamespace :: string

record DeploymentComponent =
  dc_NodeSelector :: "string gomap"
  dc_RuntimeClassName :: string
  dc_AdditionalMetadata :: AdditionalMetadata
  dc_PodAdditionalMetadata :: AdditionalMetadata
  dc_ServiceAccountName :: string
  dc_Strategy :: DeploymentStrategy
  dc_Affinity :: "Affinity option"
  dc_Tolerations :: "Toleration slice"
  dc_TopologySpreadConstraints :: "TopologySpreadConstraint slice"
  dc_ExtraInitContainers :: "Container slice"
  dc_ExtraContainers :: "Container slice"
  dc_ExtraVolumes :: "Volume slice"
  dc_ExternalClusterReference :: "ExternalClusterReference option"
  dc_Probes :: "ProbeSet option"

record KamajiControlPlaneFields =
  f_DataStoreName :: string
  f_DataStoreSchema :: string
  f_DataStoreUsername :: string
  f_DataStoreOverrides :: "DataStoreOverride slice"
  f_Addons :: AddonsSpec
  f_AdmissionControllers :: "AdmissionController slice"
  f_ContainerRegistry :: string
  f_ControllerManager :: ControlPlaneComponent
  f_ApiServer :: ControlPlaneComponent
  f_Scheduler :: ControlPlaneComponent
  f_Kine :: KineComponent
  f_Kubelet :: KubeletSpec
  f_Network :: NetworkComponent
  f_Deployment :: DeploymentComponent

text \<open>\<^verbatim>\<open>KamajiControlPlaneSpec\<close> embeds the fields it shares with the template.\<close>

record KamajiControlPlaneSpec = KamajiControlPlaneFields +
  s_ControlPlaneEndpoint :: APIEndpoint
  s_Replicas :: "int32 option"
  s_Version :: string

record KamajiControlPlaneInitializationStatus =
  is_ControlPlaneInitialized :: "bool option"

record KamajiControlPlaneStatus =
  st_Initialization :: "KamajiControlPlaneInitializationStatus option"
  st_Ready :: bool
  st_ReadyReplicas :: "int32 option"
  st_Replicas :: "int32 option"
  st_Selector :: "string option"
  st_AvailableReplicas :: "int32 option"
  st_UpToDateReplicas :: "int32 option"
  st_ExternalManagedControlPlane :: "bool option"
  st_FailureReason :: string
  st_FailureMessage :: string
  st_Version :: string
  st_Conditions :: "Condition slice"

record KamajiControlPlane =
  kcp_meta :: ObjectMeta
  kcp_Spec :: KamajiControlPlaneSpec
  kcp_Status :: KamajiControlPlaneStatus

text \<open>\<^verbatim>\<open>KamajiControlPlaneTemplate\<close>: the template carries the shared fields only.\<close>

record KamajiControlPlaneTemplateResource =
  tr_ObjectMeta :: json
  tr_Spec :: KamajiControlPlaneFields

record KamajiControlPlaneTemplate =
  kcpt_meta :: ObjectMeta
  kcpt_Template :: KamajiControlPlaneTemplateResource

section \<open>Initialization status\<close>

definition GetControlPlaneInitialized :: "KamajiControlPlaneInitializationStatus option \<Rightarrow> bool option" where
  "GetControlPlaneInitialized s =
     (case s of None \<Rightarrow> None | Some i \<Rightarrow> is_ControlPlaneInitialized i)"

definition IsControlPlaneInitialized :: "KamajiControlPlaneStatus \<Rightarrow> bool" where
  "IsControlPlaneInitialized s =
     (case st_Initialization s of
        Some i \<Rightarrow> (case is_ControlPlaneInitialized i of Some b \<Rightarrow> b | None \<Rightarrow> False)
      | None \<Rightarrow> False)"

definition SetControlPlaneInitialized :: "bool \<Rightarrow> KamajiControlPlaneStatus \<Rightarrow> KamajiControlPlaneStatus" where
  "SetControlPlaneInitialized v s =
     (let i = (case st_Initialization s of
                 None \<Rightarrow> \<lparr>is_ControlPlaneInitialized = None\<rparr>
               | Some i \<Rightarrow> i)
      in s\<lparr>st_Initialization := Some (i\<lparr>is_ControlPlaneInitialized := Some v\<rparr>)\<rparr>)"

lemma IsControlPlaneInitialized_Set [simp]:
  "IsControlPlaneInitialized (SetControlPlaneInitialized v s) = v"
  by (simp add: IsControlPlaneInitialized_def SetControlPlaneInitialized_def Let_def)

lemma GetControlPlaneInitialized_Set [simp]:
  "GetControlPlaneInitialized (st_Initialization (SetControlPlaneInitialized v s)) = Some v"
  by (simp add: GetControlPlaneInitialized_def SetControlPlaneInitialized_def Let_def)

lemma IsControlPlaneInitialized_iff:
  "IsControlPlaneInitialized s \<longleftrightarrow> GetControlPlaneInitialized (st_Initialization s) = Some True"
  by (auto simp: IsControlPlaneInitialized_def GetControlPlaneInitialized_def split: option.splits)

lemma SetControlPlaneInitialized_frame [frame_simps]:
  "st_Conditions (SetControlPlaneInitialized v s) = st_Conditions s"
  "st_Ready (SetControlPlaneInitialized v s) = st_Ready s"
  "st_Version (SetControlPlaneInitialized v s) = st_Version s"
  by (simp_all add: SetControlPlaneInitialized_def Let_def)

section \<open>Objects of other projects\<close>

subsection \<open>Cluster (Cluster API)\<close>

record ContractVersionedObjectReference =
  ref_Kind :: string
  ref_Name :: string
  ref_APIGroup :: string

record Cluster =
  cl_meta :: ObjectMeta
  cl_APIServerPort :: int32
  cl_ServicesCIDRBlocks :: "string slice"
  cl_PodsCIDRBlocks :: "string slice"
  cl_ServiceDomain :: string
  cl_ControlPlaneEndpoint :: APIEndpoint
  cl_InfrastructureRef :: ContractVersionedObjectReference
  cl_InfrastructureProvisioned :: "bool option"
  cl_rest :: json

subsection \<open>Secret\<close>

record Secret =
  se_meta :: ObjectMeta
  se_Data :: "bytes gomap"
  se_Type :: string
  se_rest :: json

subsection \<open>TenantControlPlane (Kamaji)\<close>

record RegistrySettings =
  rs_Registry :: string
  rs_ControllerManagerImage :: string
  rs_SchedulerImage :: string
  rs_APIServerImage :: string
  rs_rest :: json

record AdditionalVolumeMounts =
  avm_ControllerManager :: "VolumeMount slice"
  avm_Scheduler :: "VolumeMount slice"
  avm_APIServer :: "VolumeMount slice"
  avm_rest :: json

record ControlPlaneExtraArgs =
  xa_ControllerManager :: "string slice"
  xa_Scheduler :: "string slice"
  xa_APIServer :: "string slice"
  xa_Kine :: "string slice"
  xa_rest :: json

record ControlPlaneComponentsResources =
  res_ControllerManager :: "ResourceRequirements option"
  res_Scheduler :: "ResourceRequirements option"
  res_APIServer :: "ResourceRequirements option"
  res_Kine :: "ResourceRequirements option"
  res_rest :: json

record ControlPlaneProbes =
  cpp_APIServer :: "ProbeSet option"
  cpp_ControllerManager :: "ProbeSet option"
  cpp_Scheduler :: "ProbeSet option"
  cpp_Liveness :: "ProbeSpec option"
  cpp_Readiness :: "ProbeSpec option"
  cpp_Startup :: "ProbeSpec option"

record TcpDeployment =
  td_Replicas :: "int32 option"
  td_RegistrySettings :: RegistrySettings
  td_AdditionalVolumeMounts :: "AdditionalVolumeMounts option"
  td_ExtraArgs :: "ControlPlaneExtraArgs option"
  td_Resources :: "ControlPlaneComponentsResources option"
  td_NodeSelector :: "string gomap"
  td_RuntimeClassName :: string
  td_ServiceAccountName :: string
  td_AdditionalMetadata :: AdditionalMetadata
  td_PodAdditionalMetadata :: AdditionalMetadata
  td_Strategy :: DeploymentStrategy
  td_Affinity :: "Affinity option"
  td_Tolerations :: "Toleration slice"
  td_TopologySpreadConstraints :: "TopologySpreadConstraint slice"
  td_AdditionalInitContainers :: "Container slice"
  td_AdditionalContainers :: "Container slice"
  td_AdditionalVolumes :: "Volume slice"
  td_Probes :: "ControlPlaneProbes option"
  td_rest :: json

record TcpService =
  ts_ServiceType :: string
  ts_AdditionalMetadata :: AdditionalMetadata
  ts_AdditionalPorts :: "AdditionalPort slice"
  ts_rest :: json

record ParentReference =
  pr_Name :: string
  pr_Namespace :: "string option"
  pr_SectionName :: "string option"
  pr_Port :: "int32 option"

record GatewaySpec =
  gs_Hostname :: string
  gs_GatewayParentRefs :: "ParentReference slice"
  gs_AdditionalMetadata :: AdditionalMetadata

record IngressSpec =
  in_AdditionalMetadata :: AdditionalMetadata
  in_IngressClassName :: string
  in_Hostname :: string

record TcpControlPlane =
  tc_Deployment :: TcpDeployment
  tc_Service :: TcpService
  tc_Gateway :: "GatewaySpec option"
  tc_Ingress :: "IngressSpec option"

record NetworkProfile =
  np_Port :: int32
  np_ServiceCIDRs :: "string slice"
  np_PodCIDRs :: "string slice"
  np_ClusterDomain :: string
  np_DNSServiceIPs :: "string slice"
  np_Address :: string
  np_AdvertiseAddress :: string
  np_CertSANs :: "string slice"
  np_LoadBalancerClass :: "string option"
  np_LoadBalancerSourceRanges :: "string slice"
  np_rest :: json

record TcpKubernetes =
  tk_Version :: string
  tk_AdmissionControllers :: "AdmissionController slice"
  tk_Kubelet :: KubeletSpec

record TenantControlPlaneSpec =
  tp_ControlPlane :: TcpControlPlane
  tp_NetworkProfile :: NetworkProfile
  tp_Kubernetes :: TcpKubernetes
  tp_Addons :: KamajiAddonsSpec
  tp_DataStore :: string
  tp_DataStoreSchema :: string
  tp_DataStoreUsername :: string
  tp_DataStoreOverrides :: "DataStoreOverride slice"
  tp_rest :: json

record DeploymentStatus =
  ds_ReadyReplicas :: int32
  ds_Replicas :: int32
  ds_AvailableReplicas :: int32
  ds_UpdatedReplicas :: int32
  ds_Selector :: string

text \<open>
  The status fields the provider reads: \<^verbatim>\<open>ControlPlaneEndpoint\<close>,
  \<^verbatim>\<open>Kubernetes.Version.Status\<close>, \<^verbatim>\<open>Kubernetes.Version.Version\<close>,
  \<^verbatim>\<open>Kubernetes.Deployment\<close>, \<^verbatim>\<open>KubeConfig.Admin.SecretName\<close> and
  \<^verbatim>\<open>Certificates.CA.SecretName\<close>.
\<close>

record TenantControlPlaneStatus =
  tst_ControlPlaneEndpoint :: string
  tst_VersionStatus :: "string option"
  tst_Version :: string
  tst_Deployment :: DeploymentStatus
  tst_AdminSecretName :: string
  tst_CASecretName :: string
  tst_rest :: json

record TenantControlPlane =
  tcp_meta :: ObjectMeta
  tcp_Spec :: TenantControlPlaneSpec
  tcp_Status :: TenantControlPlaneStatus

subsection \<open>Zero values\<close>

definition zero_meta :: ObjectMeta where
  "zero_meta = \<lparr>om_Name = '''', om_Namespace = '''', om_UID = '''', om_ResourceVersion = '''',
     om_Generation = 0, om_DeletionTimestamp = None, om_Labels = None, om_Annotations = None,
     om_Finalizers = None, om_OwnerReferences = None, om_rest = ''''\<rparr>"

definition zero_endpoint :: APIEndpoint where
  "zero_endpoint = \<lparr>ep_Host = '''', ep_Port = 0\<rparr>"

definition zero_cluster :: Cluster where
  "zero_cluster = \<lparr>cl_meta = zero_meta, cl_APIServerPort = 0, cl_ServicesCIDRBlocks = None,
     cl_PodsCIDRBlocks = None, cl_ServiceDomain = '''', cl_ControlPlaneEndpoint = zero_endpoint,
     cl_InfrastructureRef = \<lparr>ref_Kind = '''', ref_Name = '''', ref_APIGroup = ''''\<rparr>,
     cl_InfrastructureProvisioned = None, cl_rest = ''''\<rparr>"

definition zero_secret :: Secret where
  "zero_secret = \<lparr>se_meta = zero_meta, se_Data = None, se_Type = '''', se_rest = ''''\<rparr>"

definition zero_am :: AdditionalMetadata where
  "zero_am = \<lparr>am_Labels = None, am_Annotations = None\<rparr>"

definition zero_avm :: AdditionalVolumeMounts where
  "zero_avm = \<lparr>avm_ControllerManager = None, avm_Scheduler = None, avm_APIServer = None, avm_rest = ''''\<rparr>"

definition zero_xa :: ControlPlaneExtraArgs where
  "zero_xa = \<lparr>xa_ControllerManager = None, xa_Scheduler = None, xa_APIServer = None, xa_Kine = None,
     xa_rest = ''''\<rparr>"

definition zero_res :: ControlPlaneComponentsResources where
  "zero_res = \<lparr>res_ControllerManager = None, res_Scheduler = None, res_APIServer = None,
     res_Kine = None, res_rest = ''''\<rparr>"

definition zero_addon :: AddonSpec where
  "zero_addon = AddonSpec ''''"

definition zero_fields_component :: ControlPlaneComponent where
  "zero_fields_component = \<lparr>cpc_ExtraVolumeMounts = None, cpc_ExtraArgs = None,
     cpc_Resources = ResourceRequirements '''', cpc_ContainerImageName = '''', cpc_Probes = None\<rparr>"

definition zero_network :: NetworkComponent where
  "zero_network = \<lparr>nc_LoadBalancerConfig = None, nc_Gateway = None, nc_Ingress = None,
     nc_ServiceType = '''', nc_ServiceAddress = '''', nc_AdvertiseAddress = '''',
     nc_ServiceLabels = None, nc_ServiceAnnotations = None, nc_AdditionalServicePorts = None,
     nc_CertSANs = None, nc_DNSServiceIPs = None\<rparr>"

definition zero_deployment :: DeploymentComponent where
  "zero_deployment = \<lparr>dc_NodeSelector = None, dc_RuntimeClassName = '''',
     dc_AdditionalMetadata = zero_am, dc_PodAdditionalMetadata = zero_am,
     dc_ServiceAccountName = '''', dc_Strategy = DeploymentStrategy '''', dc_Affinity = None,
     dc_Tolerations = None, dc_TopologySpreadConstraints = None, dc_ExtraInitContainers = None,
     dc_ExtraContainers = None, dc_ExtraVolumes = None, dc_ExternalClusterReference = None,
     dc_Probes = None\<rparr>"

definition zero_kcp_spec :: KamajiControlPlaneSpec where
  "zero_kcp_spec = \<lparr>f_DataStoreName = '''', f_DataStoreSchema = '''', f_DataStoreUsername = '''',
     f_DataStoreOverrides = None,
     f_Addons = \<lparr>as_AddonsSpec = \<lparr>kas_CoreDNS = None, kas_rest = ''''\<rparr>, as_CoreDNS = None\<rparr>,
     f_AdmissionControllers = None, f_ContainerRegistry = '''',
     f_ControllerManager = zero_fields_component, f_ApiServer = zero_fields_component,
     f_Scheduler = zero_fields_component,
     f_Kine = \<lparr>kc_ExtraArgs = None, kc_Resources = ResourceRequirements ''''\<rparr>,
     f_Kubelet = KubeletSpec '''', f_Network = zero_network, f_Deployment = zero_deployment,
     s_ControlPlaneEndpoint = zero_endpoint, s_Replicas = None, s_Version = ''''\<rparr>"

definition zero_kcp_status :: KamajiControlPlaneStatus where
  "zero_kcp_status = \<lparr>st_Initialization = None, st_Ready = False, st_ReadyReplicas = None,
     st_Replicas = None, st_Selector = None, st_AvailableReplicas = None, st_UpToDateReplicas = None,
     st_ExternalManagedControlPlane = None, st_FailureReason = '''', st_FailureMessage = '''',
     st_Version = '''', st_Conditions = None\<rparr>"

definition zero_kcp :: KamajiControlPlane where
  "zero_kcp = \<lparr>kcp_meta = zero_meta, kcp_Spec = zero_kcp_spec, kcp_Status = zero_kcp_status\<rparr>"

definition zero_tcp_deployment :: TcpDeployment where
  "zero_tcp_deployment = \<lparr>td_Replicas = None,
     td_RegistrySettings = \<lparr>rs_Registry = '''', rs_ControllerManagerImage = '''',
       rs_SchedulerImage = '''', rs_APIServerImage = '''', rs_rest = ''''\<rparr>,
     td_AdditionalVolumeMounts = None, td_ExtraArgs = None, td_Resources = None,
     td_NodeSelector = None, td_RuntimeClassName = '''', td_ServiceAccountName = '''',
     td_AdditionalMetadata = zero_am, td_PodAdditionalMetadata = zero_am,
     td_Strategy = DeploymentStrategy '''', td_Affinity = None, td_Tolerations = None,
     td_TopologySpreadConstraints = None, td_AdditionalInitContainers = None,
     td_AdditionalContainers = None, td_AdditionalVolumes = None, td_Probes = None, td_rest = ''''\<rparr>"

definition zero_tcp :: TenantControlPlane where
  "zero_tcp = \<lparr>tcp_meta = zero_meta,
     tcp_Spec = \<lparr>tp_ControlPlane = \<lparr>tc_Deployment = zero_tcp_deployment,
         tc_Service = \<lparr>ts_ServiceType = '''', ts_AdditionalMetadata = zero_am,
           ts_AdditionalPorts = None, ts_rest = ''''\<rparr>,
         tc_Gateway = None, tc_Ingress = None\<rparr>,
       tp_NetworkProfile = \<lparr>np_Port = 0, np_ServiceCIDRs = None, np_PodCIDRs = None,
         np_ClusterDomain = '''', np_DNSServiceIPs = None, np_Address = '''',
         np_AdvertiseAddress = '''', np_CertSANs = None, np_LoadBalancerClass = None,
         np_LoadBalancerSourceRanges = None, np_rest = ''''\<rparr>,
       tp_Kubernetes = \<lparr>tk_Version = '''', tk_AdmissionControllers = None,
         tk_Kubelet = KubeletSpec ''''\<rparr>,
       tp_Addons = \<lparr>kas_CoreDNS = None, kas_rest = ''''\<rparr>,
       tp_DataStore = '''', tp_DataStoreSchema = '''', tp_DataStoreUsername = '''',
       tp_DataStoreOverrides = None, tp_rest = ''''\<rparr>,
     tcp_Status = \<lparr>tst_ControlPlaneEndpoint = '''', tst_VersionStatus = None, tst_Version = '''',
       tst_Deployment = \<lparr>ds_ReadyReplicas = 0, ds_Replicas = 0, ds_AvailableReplicas = 0,
         ds_UpdatedReplicas = 0, ds_Selector = ''''\<rparr>,
       tst_AdminSecretName = '''', tst_CASecretName = '''', tst_rest = ''''\<rparr>\<rparr>"

definition zero_condition :: Condition where
  "zero_condition = \<lparr>co_Type = '''', co_Status = StatusUnset, co_ObservedGeneration = 0,
     co_LastTransitionTime = 0, co_Reason = '''', co_Message = ''''\<rparr>"

end
