(* ===== verification/GoStd.thy ===== *)
theory GoStd
  imports Prelude
begin

text \<open>
  The functions of Go's standard library whose exact behaviour the provider depends on:
  \<^verbatim>\<open>net.SplitHostPort\<close> and \<^verbatim>\<open>strconv.ParseInt\<close> in base 10. Both are translated
  with every error branch; the lemmas characterise them completely: a pair is split exactly
  when it has one of the two shapes \<^verbatim>\<open>host:port\<close> and \<^verbatim>\<open>[host]:port\<close>, and a
  string of digits is accepted exactly when its value fits the requested width.
\<close>

section \<open>net.SplitHostPort\<close>

text \<open>\<^verbatim>\<open>net.AddrError{Err, Addr}\<close>\<close>

datatype addr_error = AddrError string string

abbreviation colon :: char where "colon \<equiv> CHR '':''"
abbreviation lbr :: char where "lbr \<equiv> CHR ''[''"
abbreviation rbr :: char where "rbr \<equiv> CHR '']''"

definition missingPort :: string where
  "missingPort = ''missing port in address''"

definition tooManyColons :: string where
  "tooManyColons = ''too many colons in address''"

text \<open>
  The host part and the offsets \<open>j\<close>, \<open>k\<close> from which the final checks for stray brackets
  start; \<open>i\<close> is the index of the last colon.
\<close>

definition split_host :: "string \<Rightarrow> nat \<Rightarrow> string + string \<times> nat \<times> nat" where
  "split_host hp i =
     (if take 1 hp = [lbr] then
        (case index_byte rbr hp of
           None \<Rightarrow> Inl ''missing ']' in address''
         | Some e \<Rightarrow>
             if e + 1 = length hp then Inl missingPort
             else if e + 1 = i then Inr (drop 1 (take e hp), 1, e + 1)
             else if hp ! (e + 1) = colon then Inl tooManyColons
             else Inl missingPort)
      else
        (let host = take i hp
         in if index_byte colon host \<noteq> None then Inl tooManyColons else Inr (host, 0, 0)))"

definition SplitHostPort :: "string \<Rightarrow> addr_error + string \<times> string" where
  "SplitHostPort hp =
     (case last_index_byte colon hp of
        None \<Rightarrow> Inl (AddrError missingPort hp)
      | Some i \<Rightarrow>
          (case split_host hp i of
             Inl why \<Rightarrow> Inl (AddrError why hp)
           | Inr (host, j, k) \<Rightarrow>
               if index_byte lbr (drop j hp) \<noteq> None then
                 Inl (AddrError ''unexpected '[' in address'' hp)
               else if index_byte rbr (drop k hp) \<noteq> None then
                 Inl (AddrError ''unexpected ']' in address'' hp)
               else Inr (host, drop (i + 1) hp)))"

definition bracket_free :: "string \<Rightarrow> bool" where
  "bracket_free s \<longleftrightarrow> lbr \<notin> set s \<and> rbr \<notin> set s"

text \<open>The two shapes that split.\<close>

lemma SplitHostPort_plain:
  assumes "colon \<notin> set h" "colon \<notin> set p" "bracket_free h" "bracket_free p"
  shows "SplitHostPort (h @ colon # p) = Inr (h, p)"
proof -
  have "take 1 (h @ colon # p) \<noteq> [lbr]"
    using assms(3) by (cases h) (auto simp: bracket_free_def)
  then have "split_host (h @ colon # p) (length h) = Inr (h, 0, 0)"
    using assms by (simp add: split_host_def)
  moreover have "last_index_byte colon (h @ colon # p) = Some (length h)"
    using assms by (intro last_index_byte_append)
  ultimately show ?thesis
    using assms by (auto simp: SplitHostPort_def bracket_free_def)
qed

lemma SplitHostPort_bracketed:
  assumes "colon \<notin> set p" "bracket_free h" "bracket_free p"
  shows "SplitHostPort (lbr # h @ rbr # colon # p) = Inr (h, p)" (is "SplitHostPort ?hp = _")
proof -
  have "last_index_byte colon ((lbr # h @ [rbr]) @ colon # p) = Some (length (lbr # h @ [rbr]))"
    using assms by (intro last_index_byte_append)
  then have i: "last_index_byte colon ?hp = Some (length h + 2)"
    by simp
  have "index_byte rbr ((lbr # h) @ rbr # colon # p) = Some (length (lbr # h))"
    using assms by (intro index_byte_append) (auto simp: bracket_free_def)
  then have e: "index_byte rbr ?hp = Some (Suc (length h))"
    by simp
  have "split_host ?hp (length h + 2) = Inr (h, 1, length h + 2)"
    using e by (simp add: split_host_def)
  with i show ?thesis
    using assms by (auto simp: SplitHostPort_def bracket_free_def)
qed

lemma SplitHostPort_no_colon:
  "colon \<notin> set hp \<Longrightarrow> SplitHostPort hp = Inl (AddrError missingPort hp)"
  using last_index_byte_None_iff [of colon hp]
  by (simp add: SplitHostPort_def del: last_index_byte_None_iff)

text \<open>Nothing else splits.\<close>

lemma split_host_InrD:
  assumes "split_host (a @ colon # p) (length a) = Inr (h, j, k)"
  shows "(j = 0 \<and> k = 0 \<and> a = h \<and> colon \<notin> set h) \<or>
         (j = 1 \<and> k = length a \<and> a = lbr # h @ [rbr] \<and> rbr \<notin> set h)"
proof (cases "take 1 (a @ colon # p) = [lbr]")
  case False
  with assms show ?thesis
    by (auto simp: split_host_def Let_def split: if_splits)
next
  case True
  then obtain e where e1: "index_byte rbr (a @ colon # p) = Some e"
    using assms by (cases "index_byte rbr (a @ colon # p)") (simp_all add: split_host_def)
  with True assms have e: "index_byte rbr (a @ colon # p) = Some e" "e + 1 = length a"
      "h = drop 1 (take e (a @ colon # p))" "j = 1" "k = e + 1"
    by (auto simp: split_host_def split: if_splits)
  from e(1) obtain x y where xy: "a @ colon # p = x @ rbr # y" "rbr \<notin> set x" "e = length x"
    by (rule index_byte_SomeE)
  have "a @ colon # p = (x @ [rbr]) @ y"
    using xy(1) by simp
  moreover have "length a = length (x @ [rbr])"
    using e(2) xy(3) by simp
  ultimately have a: "a = x @ [rbr]"
    by (metis append_eq_append_conv)
  with True obtain x' where x': "x = lbr # x'"
    by (cases x) auto
  have "h = x'"
    using e(3) xy(1,3) x' by simp
  with x' have x: "x = lbr # h"
    by simp
  then have "rbr \<notin> set h" "a = lbr # h @ [rbr]"
    using a xy(2) by simp_all
  then show ?thesis
    using e(2,4,5) by blast
qed

theorem SplitHostPort_iff:
  "SplitHostPort hp = Inr (h, p) \<longleftrightarrow>
     bracket_free h \<and> bracket_free p \<and> colon \<notin> set p \<and>
     (hp = h @ colon # p \<and> colon \<notin> set h \<or> hp = lbr # h @ rbr # colon # p)"
  (is "?L \<longleftrightarrow> ?R")
proof
  assume ?R
  then show ?L
    by (auto intro: SplitHostPort_plain SplitHostPort_bracketed)
next
  assume ?L
  then obtain i j k where i: "last_index_byte colon hp = Some i"
    and sh: "split_host hp i = Inr (h, j, k)"
    and nb: "lbr \<notin> set (drop j hp)" "rbr \<notin> set (drop k hp)"
    and p: "p = drop (Suc i) hp"
    by (auto simp: SplitHostPort_def split: option.splits sum.splits if_splits)
  from i obtain a b where hp: "hp = a @ colon # b" "colon \<notin> set b" "i = length a"
    by (rule last_index_byte_SomeE)
  with p have b: "b = p"
    by simp
  from split_host_InrD [OF sh [unfolded hp(1,3)]] show ?R
    using hp nb b by (auto simp: bracket_free_def)
qed

section \<open>strconv.ParseInt\<close>

datatype num_err = ErrSyntax | ErrRange

text \<open>\<^verbatim>\<open>strconv.NumError{Func: "ParseInt", Num, Err}\<close>\<close>

datatype num_error = NumError string num_err

definition digit_val :: "char \<Rightarrow> nat option" where
  "digit_val c =
     (let n = of_char c :: nat in if 48 \<le> n \<and> n \<le> 57 then Some (n - 48) else None)"

text \<open>
  The loop of \<^verbatim>\<open>ParseUint\<close> for base 10: \<open>n\<close> is the value so far, \<open>m\<close> the largest value of
  the width. Go's tests for \<^verbatim>\<open>uint64\<close> wrap-around (\<^verbatim>\<open>n >= cutoff\<close>, \<^verbatim>\<open>n1 < n\<close>) both mean
  that the next value is above \<open>m\<close>, because \<open>m\<close> is at most the largest \<^verbatim>\<open>uint64\<close>.
\<close>

fun parse_uint :: "nat \<Rightarrow> nat \<Rightarrow> string \<Rightarrow> num_err + nat" where
  "parse_uint m n [] = Inr n"
| "parse_uint m n (c # cs) =
     (case digit_val c of
        None \<Rightarrow> Inl ErrSyntax
      | Some d \<Rightarrow> if m < n * 10 + d then Inl ErrRange else parse_uint m (n * 10 + d) cs)"

definition ParseUint :: "string \<Rightarrow> nat \<Rightarrow> num_err + nat" where
  "ParseUint s bits = (if s = [] then Inl ErrSyntax else parse_uint (2 ^ bits - 1) 0 s)"

text \<open>The leading sign: whether the number is negative, and the rest of the string.\<close>

definition strip_sign :: "string \<Rightarrow> bool \<times> string" where
  "strip_sign s =
     (case s of
        [] \<Rightarrow> (False, s)
      | c # cs \<Rightarrow> if c = CHR ''+'' then (False, cs) else if c = CHR ''-'' then (True, cs) else (False, s))"

text \<open>The range check on the unsigned value \<open>un\<close>, and the conversion to \<^verbatim>\<open>int64\<close>.\<close>

definition signed_in_range :: "string \<Rightarrow> bool \<Rightarrow> nat \<Rightarrow> nat \<Rightarrow> num_error + int64" where
  "signed_in_range s neg cutoff un =
     (if \<not> neg \<and> cutoff \<le> un then Inl (NumError s ErrRange)
      else if neg \<and> cutoff < un then Inl (NumError s ErrRange)
      else Inr (word_of_int (if neg then - int un else int un)))"

definition ParseInt :: "string \<Rightarrow> nat \<Rightarrow> num_error + int64" where
  "ParseInt s bits =
     (if s = [] then Inl (NumError s ErrSyntax)
      else
        (let (neg, s') = strip_sign s;
             cutoff = 2 ^ (bits - 1)
         in (case ParseUint s' bits of
               Inl ErrSyntax \<Rightarrow> Inl (NumError s ErrSyntax)
             | Inl ErrRange \<Rightarrow> signed_in_range s neg cutoff (2 ^ bits - 1)
             | Inr un \<Rightarrow> signed_in_range s neg cutoff un)))"

definition is_digit :: "char \<Rightarrow> bool" where
  "is_digit c \<longleftrightarrow> digit_val c \<noteq> None"

text \<open>The number a string of digits stands for.\<close>

fun dec_val :: "nat \<Rightarrow> string \<Rightarrow> nat" where
  "dec_val n [] = n"
| "dec_val n (c # cs) = dec_val (n * 10 + (case digit_val c of None \<Rightarrow> 0 | Some d \<Rightarrow> d)) cs"

lemma dec_val_mono: "n \<le> dec_val n s"
proof (induction s arbitrary: n)
  case Nil
  show ?case by simp
next
  case (Cons c cs)
  let ?n' = "n * 10 + (case digit_val c of None \<Rightarrow> 0 | Some d \<Rightarrow> d)"
  have "n \<le> ?n'" by simp
  also have "\<dots> \<le> dec_val ?n' cs" by (rule Cons.IH)
  finally show ?case by simp
qed

lemma parse_uint_digits:
  "\<forall>c \<in> set s. is_digit c \<Longrightarrow> n \<le> m \<Longrightarrow>
   parse_uint m n s = (if dec_val n s \<le> m then Inr (dec_val n s) else Inl ErrRange)"
proof (induction s arbitrary: n)
  case Nil
  then show ?case by simp
next
  case (Cons c cs)
  then obtain d where d: "digit_val c = Some d"
    by (auto simp: is_digit_def)
  show ?case
  proof (cases "m < n * 10 + d")
    case True
    with dec_val_mono [of "n * 10 + d" cs] d show ?thesis
      by simp
  next
    case False
    with Cons d show ?thesis by simp
  qed
qed

lemma parse_uint_InrD: "parse_uint m n s = Inr r \<Longrightarrow> n \<le> m \<Longrightarrow> r \<le> m"
  by (induction s arbitrary: n) (auto split: option.splits if_splits)

lemma strip_sign_digits: "\<forall>c \<in> set s. is_digit c \<Longrightarrow> strip_sign s = (False, s)"
  by (cases s) (auto simp: strip_sign_def is_digit_def digit_val_def)

lemma two_power_half: "0 < bits \<Longrightarrow> (2::nat) ^ (bits - 1) \<le> 2 ^ bits - 1"
proof -
  assume "0 < bits"
  then obtain b where "bits = Suc b" by (cases bits) auto
  moreover have "(1::nat) \<le> 2 ^ b" by simp
  ultimately show ?thesis by simp
qed

text \<open>A string of digits is accepted exactly when its value is below \<open>2 ^ (bits - 1)\<close>.\<close>

theorem ParseInt_digits:
  assumes "\<forall>c \<in> set s. is_digit c" "s \<noteq> []" "0 < bits"
  shows "ParseInt s bits =
     (if dec_val 0 s < 2 ^ (bits - 1) then Inr (word_of_int (int (dec_val 0 s)))
      else Inl (NumError s ErrRange))"
  using assms two_power_half [OF assms(3)]
  by (auto simp: ParseInt_def ParseUint_def strip_sign_digits parse_uint_digits
      signed_in_range_def)

text \<open>Every accepted number lies in the range of the requested width.\<close>

lemma signed_in_range_bounds:
  assumes "signed_in_range s neg (2 ^ b) un = Inr v" "b \<le> 63"
  shows "- (2 ^ b) \<le> sint v \<and> sint v < 2 ^ b"
proof -
  define x where "x = (if neg then - int un else int un)"
  have v: "v = word_of_int x"
    and un: "if neg then un \<le> 2 ^ b else un < 2 ^ b"
    using assms(1) by (auto simp: signed_in_range_def x_def split: if_splits)
  have "neg \<Longrightarrow> int un \<le> 2 ^ b" "\<not> neg \<Longrightarrow> int un < 2 ^ b"
    using un by (metis of_nat_le_iff of_nat_numeral of_nat_power,
        metis of_nat_less_iff of_nat_numeral of_nat_power)
  moreover have "(0::int) < 2 ^ b"
    by simp
  ultimately have x: "- (2 ^ b) \<le> x" "x < 2 ^ b"
    unfolding x_def by (cases neg; simp; linarith)+
  have "(2::int) ^ b \<le> 2 ^ 63"
    using assms(2) by (intro power_increasing) auto
  then have "signed_take_bit 63 x = x"
    using x by (intro signed_take_bit_int_eq_self) auto
  then have "sint v = x"
    by (simp add: v signed_of_int)
  with x show ?thesis by simp
qed

theorem ParseInt_bounds:
  assumes "ParseInt s bits = Inr v" "0 < bits" "bits \<le> 64"
  shows "- (2 ^ (bits - 1)) \<le> sint v \<and> sint v < 2 ^ (bits - 1)"
proof -
  obtain neg s' where "strip_sign s = (neg, s')"
    by fastforce
  with assms(1) obtain un where "signed_in_range s neg (2 ^ (bits - 1)) un = Inr v"
    by (auto simp: ParseInt_def Let_def split: if_splits sum.splits num_err.splits)
  then show ?thesis
    using assms(3) by (intro signed_in_range_bounds) auto
qed

end
