(* ===== verification/Errors.thy ===== *)
theory Errors
  imports GoStd
begin

text \<open>
  Go error values as the provider builds and inspects them: the sentinels of
  \<^verbatim>\<open>controllers/errors.go\<close> and its siblings, the typed error of
  \<^verbatim>\<open>kamajicontrolplane_controller_cluster_patch_errors.go\<close>, the errors of the standard
  library, errors returned by the API machinery, and the wrappers around them. An error keeps
  the tree it was built from, so that \<^verbatim>\<open>errors.Is\<close>, \<^verbatim>\<open>errors.As\<close> and
  \<^verbatim>\<open>Error()\<close> can be computed from it.
\<close>

section \<open>Error values\<close>

datatype sentinel =
    ErrEnqueueBack
  | ErrUnprocessedControlPlaneEndpoint
  | ErrUpdate
  | ErrClientSetCreation
  | ErrUnsupportedCertificateSAN
  | ErrExternalClusterReferenceNotEnabled
  | ErrExternalClusterReferenceCrossNamespaceReference
  | ErrExternalCLusterReferenceSecretEmptyError
  | ErrExternalClusterReferenceSecretKeyEmpty
  | ErrExternalClusterReferenceNonInitializedStore
  | ErrExternalClusterReferenceTenantControlPlaneNotFound

text \<open>
  \<open>Wrap e m\<close> is \<^verbatim>\<open>errors.Wrap(e, m)\<close>; \<open>Errorf m e\<close> is \<^verbatim>\<open>fmt.Errorf(m + "%w", e)\<close>;
  \<open>ErrorfBy e d\<close> is \<^verbatim>\<open>fmt.Errorf("%w: %s", e, d.Error())\<close>, which keeps only the text of
  \<open>d\<close>. \<open>ApiError\<close> is an error of the Kubernetes API machinery with its reason and text.
\<close>

datatype go_error =
    Sentinel sentinel
  | UnmanagedControlPlaneAddressError string
  | NewError string
  | AddrErr addr_error
  | NumErr num_error
  | ApiError string string
  | Wrap go_error string
  | Errorf string go_error
  | ErrorfBy go_error go_error

fun sentinel_text :: "sentinel \<Rightarrow> string" where
  "sentinel_text ErrEnqueueBack = ''enqueue back''"
| "sentinel_text ErrUnprocessedControlPlaneEndpoint =
     ''Control Plane Endpoint is not yet available since unprocessed by Kamaji''"
| "sentinel_text ErrUpdate = ''cannot update KamajiControlPlane resource''"
| "sentinel_text ErrClientSetCreation = ''cannot create Kubernetes Client-set''"
| "sentinel_text ErrUnsupportedCertificateSAN =
     ''a certificate SAN must be made of host only with no port''"
| "sentinel_text ErrExternalClusterReferenceNotEnabled =
     ''external cluster feature gates are not enabled''"
| "sentinel_text ErrExternalClusterReferenceCrossNamespaceReference =
     ''the ExternalClusterReference is enforcing kubeconfig in the same Namespace, ExternalClusterReferenceCrossNamespace must be enabled''"
| "sentinel_text ErrExternalCLusterReferenceSecretEmptyError =
     ''could not extract kubeconfig for external cluster reference, secret is empty''"
| "sentinel_text ErrExternalClusterReferenceSecretKeyEmpty =
     ''could not extract kubeconfig for external cluster reference, key is empty''"
| "sentinel_text ErrExternalClusterReferenceNonInitializedStore =
     ''remote manager is not yet initialized''"
| "sentinel_text ErrExternalClusterReferenceTenantControlPlaneNotFound =
     ''TenantControlPlane custom resource not available in external cluster''"

definition UnmanagedControlPlaneAddressError_Error :: "string \<Rightarrow> string" where
  "UnmanagedControlPlaneAddressError_Error kind =
     ''the '' @ kind @ '' resource is not directly managing the Control Plane address''"

definition NewUnmanagedControlPlaneAddressError :: "string \<Rightarrow> go_error" where
  "NewUnmanagedControlPlaneAddressError kind = UnmanagedControlPlaneAddressError kind"

fun addr_error_text :: "addr_error \<Rightarrow> string" where
  "addr_error_text (AddrError why addr) =
     (if addr \<noteq> '''' then ''address '' @ addr @ '': '' @ why else why)"

text \<open>\<open>quote\<close> is \<^verbatim>\<open>strconv.Quote\<close>, which the text of a number error goes through.\<close>

fun num_error_text :: "(string \<Rightarrow> string) \<Rightarrow> num_error \<Rightarrow> string" where
  "num_error_text quote (NumError num e) =
     ''strconv.ParseInt: parsing '' @ quote num @ '': '' @
     (case e of ErrSyntax \<Rightarrow> ''invalid syntax'' | ErrRange \<Rightarrow> ''value out of range'')"

text \<open>\<^verbatim>\<open>err.Error()\<close>\<close>

fun error_text :: "(string \<Rightarrow> string) \<Rightarrow> go_error \<Rightarrow> string" where
  "error_text q (Sentinel s) = sentinel_text s"
| "error_text q (UnmanagedControlPlaneAddressError kind) = UnmanagedControlPlaneAddressError_Error kind"
| "error_text q (NewError m) = m"
| "error_text q (AddrErr e) = addr_error_text e"
| "error_text q (NumErr e) = num_error_text q e"
| "error_text q (ApiError reason m) = m"
| "error_text q (Wrap e m) = m @ '': '' @ error_text q e"
| "error_text q (Errorf m e) = m @ error_text q e"
| "error_text q (ErrorfBy e d) = error_text q e @ '': '' @ error_text q d"

section \<open>errors.Is and errors.As\<close>

text \<open>The error and what it unwraps to, outermost first.\<close>

fun chain :: "go_error \<Rightarrow> go_error list" where
  "chain (Wrap e m) = Wrap e m # chain e"
| "chain (Errorf m e) = Errorf m e # chain e"
| "chain (ErrorfBy e d) = ErrorfBy e d # chain e"
| "chain e = [e]"

definition errors_Is :: "go_error \<Rightarrow> sentinel \<Rightarrow> bool" where
  "errors_Is e s \<longleftrightarrow> Sentinel s \<in> set (chain e)"

fun is_unmanaged :: "go_error \<Rightarrow> bool" where
  "is_unmanaged (UnmanagedControlPlaneAddressError kind) = True"
| "is_unmanaged _ = False"

text \<open>\<^verbatim>\<open>errors.As(err, &UnmanagedControlPlaneAddressError{})\<close>\<close>

definition errors_As_Unmanaged :: "go_error \<Rightarrow> bool" where
  "errors_As_Unmanaged e \<longleftrightarrow> (\<exists>d \<in> set (chain e). is_unmanaged d)"

lemma errors_Is_simps [simp]:
  "errors_Is (Sentinel t) s \<longleftrightarrow> t = s"
  "errors_Is (Wrap e m) s \<longleftrightarrow> errors_Is e s"
  "errors_Is (Errorf m e) s \<longleftrightarrow> errors_Is e s"
  "errors_Is (ErrorfBy e d) s \<longleftrightarrow> errors_Is e s"
  "\<not> errors_Is (NewError m) s"
  "\<not> errors_Is (UnmanagedControlPlaneAddressError k) s"
  "\<not> errors_Is (AddrErr a) s"
  "\<not> errors_Is (NumErr n) s"
  "\<not> errors_Is (ApiError r m) s"
  by (auto simp: errors_Is_def)

lemma errors_As_Unmanaged_simps [simp]:
  "errors_As_Unmanaged (UnmanagedControlPlaneAddressError k)"
  "errors_As_Unmanaged (Wrap e m) \<longleftrightarrow> errors_As_Unmanaged e"
  "errors_As_Unmanaged (Errorf m e) \<longleftrightarrow> errors_As_Unmanaged e"
  "errors_As_Unmanaged (ErrorfBy e d) \<longleftrightarrow> errors_As_Unmanaged e"
  "\<not> errors_As_Unmanaged (Sentinel t)"
  "\<not> errors_As_Unmanaged (NewError m)"
  "\<not> errors_As_Unmanaged (AddrErr a)"
  "\<not> errors_As_Unmanaged (NumErr n)"
  "\<not> errors_As_Unmanaged (ApiError r m)"
  by (auto simp: errors_As_Unmanaged_def)

end
