(* ===== verification/Platform.thy ===== *)
theory Platform
  imports ApiTypes Errors
begin

text \<open>
  What the provider calls but does not contain: the API server behind a controller-runtime
  client, and the helper packages of Kubernetes, Cluster API and Kamaji. All of it is a
  parameter of the model. \<open>'w\<close> is the type of the outside world (every cluster, the clock,
  the other writers), \<open>'m\<close> the type of a controller-runtime manager. Each call maps the world
  before it to its answer and the world after it, so that conflicts, concurrent writers and
  failures are all answers some world gives. A call that fills in the object it is given, as
  \<^verbatim>\<open>Get\<close> and \<^verbatim>\<open>Update\<close> do, takes the object before the call and returns it after.

  The documented behaviour that some theorems rely on is stated by the predicates whose names
  end in \<open>_doc\<close>.
\<close>

section \<open>The client\<close>

text \<open>A value of an unstructured object (\<^verbatim>\<open>interface{}\<close> after JSON decoding).\<close>

datatype jvalue =
    JString string
  | JInt int64
  | JBool bool
  | JObject "(string \<times> jvalue) list"
  | JOther json

type_synonym unstructured = "(string \<times> jvalue) list"

record GroupVersionKind =
  gvk_Group :: string
  gvk_Version :: string
  gvk_Kind :: string

text \<open>
  \<open>c_create_or_update_tcp f obj kcp\<close> is \<^verbatim>\<open>controllerutil.CreateOrUpdate(ctx, c, obj, f)\<close>; the
  mutate function of the tenant control plane also writes through a pointer of the
  \<^verbatim>\<open>KamajiControlPlane\<close> it captures, which is therefore threaded through.
\<close>

record 'w client =
  c_get_kcp :: "NamespacedName \<Rightarrow> KamajiControlPlane \<Rightarrow> 'w \<Rightarrow> go_error option \<times> KamajiControlPlane \<times> 'w"
  c_update_kcp :: "KamajiControlPlane \<Rightarrow> 'w \<Rightarrow> go_error option \<times> KamajiControlPlane \<times> 'w"
  c_status_update_kcp :: "KamajiControlPlane \<Rightarrow> 'w \<Rightarrow> go_error option \<times> KamajiControlPlane \<times> 'w"
  c_list_kcp :: "string \<Rightarrow> string \<Rightarrow> 'w \<Rightarrow> (go_error + KamajiControlPlane list) \<times> 'w"
  c_get_cluster :: "NamespacedName \<Rightarrow> Cluster \<Rightarrow> 'w \<Rightarrow> go_error option \<times> Cluster \<times> 'w"
  c_get_secret :: "NamespacedName \<Rightarrow> Secret \<Rightarrow> 'w \<Rightarrow> go_error option \<times> Secret \<times> 'w"
  c_list_secret :: "string \<Rightarrow> string \<Rightarrow> 'w \<Rightarrow> (go_error + Secret list) \<times> 'w"
  c_get_tcp :: "NamespacedName \<Rightarrow> TenantControlPlane \<Rightarrow> 'w \<Rightarrow> go_error option \<times> TenantControlPlane \<times> 'w"
  c_delete_tcp :: "TenantControlPlane \<Rightarrow> 'w \<Rightarrow> go_error option \<times> 'w"
  c_get_infra :: "GroupVersionKind \<Rightarrow> NamespacedName \<Rightarrow> 'w \<Rightarrow> (go_error + unstructured) \<times> 'w"
  c_create_or_update_tcp ::
    "(TenantControlPlane \<Rightarrow> KamajiControlPlane \<Rightarrow> go_error option \<times> TenantControlPlane \<times> KamajiControlPlane) \<Rightarrow>
     TenantControlPlane \<Rightarrow> KamajiControlPlane \<Rightarrow> 'w \<Rightarrow>
     go_error option \<times> TenantControlPlane \<times> KamajiControlPlane \<times> 'w"
  c_create_or_update_secret ::
    "(Secret \<Rightarrow> go_error option \<times> Secret) \<Rightarrow> Secret \<Rightarrow> 'w \<Rightarrow> go_error option \<times> Secret \<times> 'w"

section \<open>The libraries\<close>

text \<open>\<^verbatim>\<open>retry.RetryOnConflict(retry.DefaultRetry, fn)\<close>, \<open>'s\<close> being what \<open>fn\<close> captures.\<close>

type_synonym 's retry = "('s \<Rightarrow> go_error option \<times> 's) \<Rightarrow> 's \<Rightarrow> go_error option \<times> 's"

text \<open>
  \<open>l_FindStatusCondition\<close> returns the index of the element it points to.
  \<open>l_NewHelper\<close> returns the snapshot \<^verbatim>\<open>patch.NewHelper\<close> takes; \<open>l_Patch before after\<close>
  sends the difference.
\<close>

record ('w, 'm) lib =
  l_retry_kcp :: "(KamajiControlPlane \<times> 'w) retry"
  l_retry_tcp :: "(TenantControlPlane \<times> KamajiControlPlane \<times> 'w) retry"
  l_retry_secret :: "(Secret \<times> 'w) retry"
  l_IsNotFound :: "go_error \<Rightarrow> bool"
  l_now :: "'w \<Rightarrow> nat"
  l_quote :: "string \<Rightarrow> string"
  l_FindStatusCondition :: "Condition slice \<Rightarrow> string \<Rightarrow> nat option"
  l_SetStatusCondition :: "nat \<Rightarrow> Condition \<Rightarrow> Condition slice \<Rightarrow> Condition slice"
  l_RemoveStatusCondition :: "string \<Rightarrow> Condition slice \<Rightarrow> Condition slice"
  l_UnsortedList :: "string set \<Rightarrow> string list"
  l_IsPaused :: "Cluster \<Rightarrow> KamajiControlPlane \<Rightarrow> bool"
  l_IsDefined :: "ContractVersionedObjectReference \<Rightarrow> bool"
  l_RESTMapping :: "string \<Rightarrow> string \<Rightarrow> 'w \<Rightarrow> (go_error + GroupVersionKind) \<times> 'w"
  l_SetControllerReference_tcp :: "KamajiControlPlane \<Rightarrow> TenantControlPlane \<Rightarrow> go_error option \<times> TenantControlPlane"
  l_SetControllerReference_secret :: "KamajiControlPlane \<Rightarrow> Secret \<Rightarrow> go_error option \<times> Secret"
  l_GetKind :: "unstructured \<Rightarrow> string"
  l_SetNestedMap :: "unstructured \<Rightarrow> (string \<times> jvalue) list \<Rightarrow> string list \<Rightarrow> go_error option \<times> unstructured"
  l_SetNestedField :: "unstructured \<Rightarrow> jvalue \<Rightarrow> string list \<Rightarrow> go_error option \<times> unstructured"
  l_NestedString :: "unstructured \<Rightarrow> string list \<Rightarrow> go_error + string"
  l_NestedInt64 :: "unstructured \<Rightarrow> string list \<Rightarrow> go_error + int64"
  l_NewHelper :: "unstructured \<Rightarrow> 'w \<Rightarrow> (go_error + unstructured) \<times> 'w"
  l_Patch :: "unstructured \<Rightarrow> unstructured \<Rightarrow> 'w \<Rightarrow> go_error option \<times> 'w"
  l_mgr_KindFor :: "'m \<Rightarrow> string \<Rightarrow> 'w \<Rightarrow> go_error option \<times> 'w"
  l_mgr_client :: "'m \<Rightarrow> 'w client"
  k_KubeconfigSecretKeyAnnotation :: string
  k_LastAppliedConfigAnnotation :: string
  k_ClusterNameLabel :: string
  k_ClusterSecretType :: string
  k_TLSCertKey :: string
  k_TLSPrivateKeyKey :: string
  k_VersionReady :: string
  k_VersionUpgrading :: string

section \<open>Documented behaviour\<close>

subsection \<open>RetryOnConflict\<close>

text \<open>The states a sequence of failed attempts of \<open>fn\<close> leads to.\<close>

inductive retried :: "('s \<Rightarrow> go_error option \<times> 's) \<Rightarrow> 's \<Rightarrow> 's \<Rightarrow> bool"
  for fn :: "'s \<Rightarrow> go_error option \<times> 's" and s :: 's
  where
  retried_start: "retried fn s s"
| retried_again: "retried fn s t \<Longrightarrow> fn t = (Some e, u) \<Longrightarrow> retried fn s u"

text \<open>
  A successful attempt ends the loop; the answer is the one of the last attempt, and every
  attempt before it has failed.
\<close>

definition RetryOnConflict_doc :: "'s retry \<Rightarrow> bool" where
  "RetryOnConflict_doc retry \<longleftrightarrow>
     (\<forall>fn s t. fn s = (None, t) \<longrightarrow> retry fn s = (None, t)) \<and>
     (\<forall>fn s t. retry fn s = (None, t) \<longrightarrow> (\<exists>u. retried fn s u \<and> fn u = (None, t))) \<and>
     (\<forall>fn s e t. retry fn s = (Some e, t) \<longrightarrow> (\<exists>u d. retried fn s u \<and> fn u = (Some d, t)))"

lemma retry_once: "RetryOnConflict_doc retry \<Longrightarrow> fn s = (None, t) \<Longrightarrow> retry fn s = (None, t)"
  by (simp add: RetryOnConflict_doc_def)

lemma retried_invariant:
  assumes "retried fn s t" and "I s" and "\<And>x e y. I x \<Longrightarrow> fn x = (Some e, y) \<Longrightarrow> I y"
  shows "I t"
  using assms(1) by induction (use assms(2,3) in blast)+

text \<open>The Hoare rule of the retry loop: an invariant of the attempts, and what the last one adds.\<close>

lemma retry_rule:
  assumes "RetryOnConflict_doc retry" and "retry fn s = (r, t)" and "I s"
    and "\<And>x e y. I x \<Longrightarrow> fn x = (Some e, y) \<Longrightarrow> I y"
    and "\<And>x y. I x \<Longrightarrow> fn x = (None, y) \<Longrightarrow> Q y"
  shows "case r of None \<Rightarrow> Q t | Some e \<Rightarrow> I t"
proof (cases r)
  case None
  with assms(1,2) obtain u where "retried fn s u" "fn u = (None, t)"
    unfolding RetryOnConflict_doc_def by meson
  with assms(3-5) None show ?thesis
    using retried_invariant [of fn s u I] by simp
next
  case (Some e)
  with assms(1,2) obtain u d where "retried fn s u" "fn u = (Some d, t)"
    unfolding RetryOnConflict_doc_def by meson
  with assms(3,4) Some show ?thesis
    using retried_invariant [of fn s u I] by auto
qed

subsection \<open>Status conditions\<close>

text \<open>The condition of a type: the abstract view of a list of conditions.\<close>

definition cond_of :: "Condition slice \<Rightarrow> string \<Rightarrow> Condition option" where
  "cond_of cs t = find (\<lambda>c. co_Type c = t) (elems cs)"

definition distinct_types :: "Condition slice \<Rightarrow> bool" where
  "distinct_types cs \<longleftrightarrow> distinct (map co_Type (elems cs))"

definition FindStatusCondition_doc :: "('w, 'm) lib \<Rightarrow> bool" where
  "FindStatusCondition_doc L \<longleftrightarrow>
     (\<forall>cs t. case l_FindStatusCondition L cs t of
        None \<Rightarrow> cond_of cs t = None
      | Some i \<Rightarrow> i < length (elems cs) \<and> cond_of cs t = Some (elems cs ! i))"

text \<open>
  \<^verbatim>\<open>SetStatusCondition\<close>: the fields of an existing condition of the type are updated, the
  transition time only when the status changes; otherwise the condition is appended. The time
  given is used unless it is zero, then the current one.
\<close>

definition transition_time :: "nat \<Rightarrow> Condition \<Rightarrow> Condition option \<Rightarrow> nat" where
  "transition_time now new old =
     (case old of
        Some c \<Rightarrow>
          if co_Status c = co_Status new then co_LastTransitionTime c
          else if co_LastTransitionTime new = 0 then now else co_LastTransitionTime new
      | None \<Rightarrow> if co_LastTransitionTime new = 0 then now else co_LastTransitionTime new)"

definition SetStatusCondition_doc :: "('w, 'm) lib \<Rightarrow> bool" where
  "SetStatusCondition_doc L \<longleftrightarrow>
     (\<forall>now c cs t. cond_of (l_SetStatusCondition L now c cs) t =
        (if t = co_Type c
         then Some (c\<lparr>co_LastTransitionTime := transition_time now c (cond_of cs (co_Type c))\<rparr>)
         else cond_of cs t)) \<and>
     (\<forall>now c cs. distinct_types cs \<longrightarrow> distinct_types (l_SetStatusCondition L now c cs))"

definition RemoveStatusCondition_doc :: "('w, 'm) lib \<Rightarrow> bool" where
  "RemoveStatusCondition_doc L \<longleftrightarrow>
     (\<forall>cs t u. cond_of (l_RemoveStatusCondition L t cs) u = (if u = t then None else cond_of cs u)) \<and>
     (\<forall>cs t. distinct_types cs \<longrightarrow> distinct_types (l_RemoveStatusCondition L t cs))"

definition conditions_doc :: "('w, 'm) lib \<Rightarrow> bool" where
  "conditions_doc L \<longleftrightarrow>
     FindStatusCondition_doc L \<and> SetStatusCondition_doc L \<and> RemoveStatusCondition_doc L"

lemma cond_of_Set:
  assumes "conditions_doc L"
  shows "cond_of (l_SetStatusCondition L now c cs) t =
    (if t = co_Type c
     then Some (c\<lparr>co_LastTransitionTime := transition_time now c (cond_of cs (co_Type c))\<rparr>)
     else cond_of cs t)"
  using assms by (simp add: conditions_doc_def SetStatusCondition_doc_def)

lemma cond_of_Remove:
  "conditions_doc L \<Longrightarrow> cond_of (l_RemoveStatusCondition L t cs) u = (if u = t then None else cond_of cs u)"
  by (simp add: conditions_doc_def RemoveStatusCondition_doc_def)

lemma Find_Some_cond_of:
  assumes "conditions_doc L" "l_FindStatusCondition L cs t = Some i"
  shows "i < length (elems cs)" "cond_of cs t = Some (elems cs ! i)"
  using assms by (auto simp: conditions_doc_def FindStatusCondition_doc_def split: option.splits)

lemma Find_None_cond_of:
  assumes "conditions_doc L" "l_FindStatusCondition L cs t = None"
  shows "cond_of cs t = None"
  using assms by (force simp: conditions_doc_def FindStatusCondition_doc_def split: option.splits)

lemma cond_of_Type: "cond_of cs t = Some c \<Longrightarrow> co_Type c = t"
  by (auto simp: cond_of_def find_Some_iff)

subsection \<open>Sets of strings\<close>

text \<open>\<^verbatim>\<open>sets.Set[string].UnsortedList()\<close>: each member once, in any order.\<close>

definition UnsortedList_doc :: "('w, 'm) lib \<Rightarrow> bool" where
  "UnsortedList_doc L \<longleftrightarrow> (\<forall>S. finite S \<longrightarrow> set (l_UnsortedList L S) = S \<and> distinct (l_UnsortedList L S))"

end
