(* ===== verification/Conditions.thy ===== *)
theory Conditions
  imports Platform
begin

text \<open>
  \<^verbatim>\<open>controllers/conditions.go\<close> and \<^verbatim>\<open>api/v1alpha2/kamajicontrolplane_conditions.go\<close>: the
  condition types, and \<^verbatim>\<open>TrackConditionType\<close>, which runs one step of the reconciliation and
  records its outcome. The lemmas give the recorded condition exactly, and show that no other
  condition is touched: on the abstract view \<open>cond_of\<close>, tracking a step is one map update.
\<close>

section \<open>Condition types\<close>

datatype KamajiControlPlaneConditionType =
    FoundExternalClusterReferenceConditionType
  | TenantControlPlaneCreatedConditionType
  | TenantControlPlaneAddressReadyConditionType
  | ControlPlaneEndpointPatchedConditionType
  | InfrastructureClusterPatchedConditionType
  | KamajiControlPlaneInitializedConditionType
  | KamajiControlPlaneReadyConditionType
  | KubeadmResourcesCreatedReadyConditionType
  | AvailableConditionType
  | PausedConditionType

fun ctype_text :: "KamajiControlPlaneConditionType \<Rightarrow> string" where
  "ctype_text FoundExternalClusterReferenceConditionType = ''FoundExternalReferenceClient''"
| "ctype_text TenantControlPlaneCreatedConditionType = ''TenantControlPlaneCreated''"
| "ctype_text TenantControlPlaneAddressReadyConditionType = ''TenantControlPlaneAddressReady''"
| "ctype_text ControlPlaneEndpointPatchedConditionType = ''ControlPlaneEndpointPatched''"
| "ctype_text InfrastructureClusterPatchedConditionType = ''InfrastructureClusterPatched''"
| "ctype_text KamajiControlPlaneInitializedConditionType = ''KamajiControlPlaneIsInitialized''"
| "ctype_text KamajiControlPlaneReadyConditionType = ''KamajiControlPlaneIsReady''"
| "ctype_text KubeadmResourcesCreatedReadyConditionType = ''KubeadmResourcesCreated''"
| "ctype_text AvailableConditionType = ''Available''"
| "ctype_text PausedConditionType = ''Paused''"

lemma ctype_text_inject [simp]: "ctype_text a = ctype_text b \<longleftrightarrow> a = b"
  by (cases a; cases b) simp_all

text \<open>The types are finitely many, and can be run through.\<close>

instantiation KamajiControlPlaneConditionType :: enum
begin

definition enum_KamajiControlPlaneConditionType :: "KamajiControlPlaneConditionType list" where
  "enum_KamajiControlPlaneConditionType =
     [FoundExternalClusterReferenceConditionType, TenantControlPlaneCreatedConditionType,
      TenantControlPlaneAddressReadyConditionType, ControlPlaneEndpointPatchedConditionType,
      InfrastructureClusterPatchedConditionType, KamajiControlPlaneInitializedConditionType,
      KamajiControlPlaneReadyConditionType, KubeadmResourcesCreatedReadyConditionType,
      AvailableConditionType, PausedConditionType]"

definition enum_all_KamajiControlPlaneConditionType :: "(KamajiControlPlaneConditionType \<Rightarrow> bool) \<Rightarrow> bool" where
  "enum_all_KamajiControlPlaneConditionType P \<longleftrightarrow> list_all P Enum.enum"

definition enum_ex_KamajiControlPlaneConditionType :: "(KamajiControlPlaneConditionType \<Rightarrow> bool) \<Rightarrow> bool" where
  "enum_ex_KamajiControlPlaneConditionType P \<longleftrightarrow> list_ex P Enum.enum"

instance
proof
  show univ: "UNIV = set (Enum.enum :: KamajiControlPlaneConditionType list)"
  proof (intro set_eqI iffI)
    fix ct :: KamajiControlPlaneConditionType
    show "ct \<in> set Enum.enum"
      by (cases ct) (simp_all add: enum_KamajiControlPlaneConditionType_def)
  qed simp
  show "distinct (Enum.enum :: KamajiControlPlaneConditionType list)"
    by (simp add: enum_KamajiControlPlaneConditionType_def)
  show "Enum.enum_all P \<longleftrightarrow> Ball UNIV P" "Enum.enum_ex P \<longleftrightarrow> Bex UNIV P" for P :: "KamajiControlPlaneConditionType \<Rightarrow> bool"
    unfolding enum_all_KamajiControlPlaneConditionType_def enum_ex_KamajiControlPlaneConditionType_def univ
    by (simp_all add: list_all_iff list_ex_iff)
qed

end

text \<open>The conditions that are the provider's own; whatever else an object has belongs to others.\<close>

definition own_conditions :: "string list" where
  "own_conditions = map ctype_text Enum.enum"

lemma set_own_conditions: "set own_conditions = range ctype_text"
  by (simp add: own_conditions_def enum_UNIV)

section \<open>TrackConditionType\<close>

text \<open>
  What the body of \<^verbatim>\<open>TrackConditionType\<close> does to the condition once \<^verbatim>\<open>fn\<close> has returned; the
  transition time is set only when the status changes.
\<close>

definition track_failed :: "('w, 'm) lib \<Rightarrow> nat \<Rightarrow> go_error \<Rightarrow> Condition \<Rightarrow> Condition" where
  "track_failed L now e c =
     (let c = (if co_Status c \<noteq> ConditionFalse then c\<lparr>co_LastTransitionTime := now\<rparr> else c);
          c = c\<lparr>co_Reason := (if errors_Is e ErrEnqueueBack then ''Failed'' else ''Pending'')\<rparr>
      in c\<lparr>co_Status := ConditionFalse, co_Message := error_text (l_quote L) e\<rparr>)"

definition track_succeeded :: "nat \<Rightarrow> Condition \<Rightarrow> Condition" where
  "track_succeeded now c =
     (let c = (if co_Status c \<noteq> ConditionTrue then c\<lparr>co_LastTransitionTime := now\<rparr> else c)
      in c\<lparr>co_Reason := ''Succeeded'', co_Status := ConditionTrue, co_Message := ''''\<rparr>)"

text \<open>
  A condition that is found is a pointer into the slice: it is changed in place before
  \<^verbatim>\<open>SetStatusCondition\<close> sees it. \<open>fn\<close> runs on whatever it captures, \<open>'s\<close>; \<open>now\<close> reads the
  clock there.
\<close>

definition TrackConditionType ::
  "('w, 'm) lib \<Rightarrow> ('s \<Rightarrow> nat) \<Rightarrow> Condition slice \<Rightarrow> KamajiControlPlaneConditionType \<Rightarrow> int64 \<Rightarrow>
   ('s \<Rightarrow> go_error option \<times> 's) \<Rightarrow> 's \<Rightarrow> Condition slice \<times> 's"
  where
  "TrackConditionType L now conditions ctype gen fn s =
     (let found = l_FindStatusCondition L conditions (ctype_text ctype);
          c0 = (case found of
                  Some i \<Rightarrow> elems conditions ! i
                | None \<Rightarrow> zero_condition\<lparr>co_Type := ctype_text ctype\<rparr>);
          c1 = c0\<lparr>co_ObservedGeneration := gen\<rparr>;
          (err, s') = fn s;
          c2 = (case err of Some e \<Rightarrow> track_failed L (now s') e c1
                          | None \<Rightarrow> track_succeeded (now s') c1);
          conditions' = (case found of
                           Some i \<Rightarrow> Some ((elems conditions)[i := c2])
                         | None \<Rightarrow> conditions)
      in (l_SetStatusCondition L (now s') c2 conditions', s'))"

lemma track_Type [simp]:
  "co_Type (track_failed L now e c) = co_Type c"
  "co_Type (track_succeeded now c) = co_Type c"
  by (simp_all add: track_failed_def track_succeeded_def Let_def)

lemma track_Status [simp]:
  "co_Status (track_failed L now e c) = ConditionFalse"
  "co_Status (track_succeeded now c) = ConditionTrue"
  by (simp_all add: track_failed_def track_succeeded_def Let_def)

text \<open>The step runs exactly once, and nothing else happens to what it captures.\<close>

lemma TrackConditionType_state [simp]:
  "snd (TrackConditionType L now cs ct gen fn s) = snd (fn s)"
  by (simp add: TrackConditionType_def Let_def split: prod.splits)

text \<open>The condition as it stood before the step, or a fresh one.\<close>

definition tracked_before :: "Condition slice \<Rightarrow> KamajiControlPlaneConditionType \<Rightarrow> Condition" where
  "tracked_before cs ct =
     (case cond_of cs (ctype_text ct) of
        Some c \<Rightarrow> c
      | None \<Rightarrow> zero_condition\<lparr>co_Type := ctype_text ct\<rparr>)"

lemma co_Type_tracked_before [simp]: "co_Type (tracked_before cs ct) = ctype_text ct"
  by (simp add: tracked_before_def cond_of_Type split: option.split)

definition track_result ::
  "('w, 'm) lib \<Rightarrow> nat \<Rightarrow> int64 \<Rightarrow> go_error option \<Rightarrow> Condition \<Rightarrow> Condition" where
  "track_result L now gen err c =
     (let c = c\<lparr>co_ObservedGeneration := gen\<rparr>
      in case err of Some e \<Rightarrow> track_failed L now e c | None \<Rightarrow> track_succeeded now c)"

lemma co_Type_track_result [simp]: "co_Type (track_result L now gen err c) = co_Type c"
  by (cases err) (simp_all add: track_result_def Let_def)

lemma co_Status_track_result [simp]:
  "co_Status (track_result L now gen err c) =
     (if err = None then ConditionTrue else ConditionFalse)"
  by (cases err) (simp_all add: track_result_def Let_def)

text \<open>\<open>TrackConditionType\<close>, by whether the condition was there.\<close>

lemma TrackConditionType_fresh:
  assumes "l_FindStatusCondition L cs (ctype_text ct) = None" "fn s = (err, s')"
  shows "TrackConditionType L now cs ct gen fn s =
    (l_SetStatusCondition L (now s')
       (track_result L (now s') gen err (zero_condition\<lparr>co_Type := ctype_text ct\<rparr>)) cs, s')"
  using assms by (cases err) (simp_all add: TrackConditionType_def track_result_def Let_def)

lemma TrackConditionType_found:
  assumes "l_FindStatusCondition L cs (ctype_text ct) = Some i" "fn s = (err, s')"
  shows "TrackConditionType L now cs ct gen fn s =
    (l_SetStatusCondition L (now s') (track_result L (now s') gen err (elems cs ! i))
       (Some ((elems cs)[i := track_result L (now s') gen err (elems cs ! i)])), s')"
  using assms by (cases err) (simp_all add: TrackConditionType_def track_result_def Let_def)

lemma find_update_same:
  assumes "find P xs = Some (xs ! i)" "i < length xs" "P y" "\<forall>j < i. \<not> P (xs ! j)"
  shows "find P (xs[i := y]) = Some y"
  using assms
proof (induction xs arbitrary: i)
  case Nil
  then show ?case by simp
next
  case (Cons x xs)
  show ?case
  proof (cases i)
    case 0
    with Cons.prems show ?thesis by simp
  next
    case (Suc j)
    with Cons.prems(4) have np: "\<not> P x"
      by (metis nth_Cons_0 zero_less_Suc)
    moreover have "find P (xs[j := y]) = Some y"
      using Cons.prems Suc np by (intro Cons.IH) auto
    ultimately show ?thesis
      using Suc by simp
  qed
qed

lemma find_update_other:
  "i < length xs \<Longrightarrow> \<not> P (xs ! i) \<Longrightarrow> \<not> P y \<Longrightarrow> find P (xs[i := y]) = find P xs"
proof (induction xs arbitrary: i)
  case Nil
  then show ?case by simp
next
  case (Cons x xs)
  then show ?case by (cases i) auto
qed

text \<open>
  In a list with one condition per type, the position found is the only one of that type, so
  the change in place is a change of that condition only.
\<close>

lemma cond_of_in_place:
  assumes "distinct_types cs" "i < length (elems cs)" "co_Type (elems cs ! i) = t" "co_Type c = t"
  shows "cond_of (Some ((elems cs)[i := c])) u = (if u = t then Some c else cond_of cs u)"
proof -
  have first: "\<forall>j < i. co_Type (elems cs ! j) \<noteq> t"
  proof (intro allI impI)
    fix j assume "j < i"
    with assms(1-3) show "co_Type (elems cs ! j) \<noteq> t"
      by (auto simp: distinct_types_def distinct_conv_nth)
  qed
  then have "find (\<lambda>c. co_Type c = t) (elems cs) = Some (elems cs ! i)"
    using assms(2,3) by (auto simp: find_Some_iff)
  with first show ?thesis
    using assms(2-4) by (auto simp: cond_of_def find_update_same find_update_other)
qed

lemma distinct_types_in_place:
  assumes "distinct_types cs" "i < length (elems cs)" "co_Type c = co_Type (elems cs ! i)"
  shows "distinct_types (Some ((elems cs)[i := c]))"
proof -
  have "map co_Type ((elems cs)[i := c]) = map co_Type (elems cs)"
    using assms(2,3) by (simp add: map_update list_update_same_conv)
  with assms(1) show ?thesis
    by (simp add: distinct_types_def)
qed

text \<open>
  Refinement: on the abstract view, tracking a step sets the condition of the type to the
  outcome of the step. The transition time that \<^verbatim>\<open>TrackConditionType\<close> chose survives
  \<^verbatim>\<open>SetStatusCondition\<close>.
\<close>

lemma transition_time_self:
  "c\<lparr>co_LastTransitionTime := transition_time now c (Some c)\<rparr> = c"
  by (simp add: transition_time_def)

lemma fresh_transition_time:
  "(track_result L now gen err (zero_condition\<lparr>co_Type := t\<rparr>))
     \<lparr>co_LastTransitionTime := transition_time now
        (track_result L now gen err (zero_condition\<lparr>co_Type := t\<rparr>)) None\<rparr> =
   track_result L now gen err (zero_condition\<lparr>co_Type := t\<rparr>)"
  by (simp add: track_result_def transition_time_def track_failed_def track_succeeded_def
      zero_condition_def Let_def split: option.split)

lemma TrackConditionType_cond_of:
  assumes "conditions_doc L" "distinct_types cs" "fn s = (err, s')"
    "TrackConditionType L now cs ct gen fn s = (cs', s'')"
  shows "cond_of cs' t =
    (if t = ctype_text ct then Some (track_result L (now s') gen err (tracked_before cs ct))
     else cond_of cs t)"
proof (cases "l_FindStatusCondition L cs (ctype_text ct)")
  case None
  with assms(1) have none: "cond_of cs (ctype_text ct) = None"
    by (rule Find_None_cond_of)
  let ?c = "track_result L (now s') gen err (zero_condition\<lparr>co_Type := ctype_text ct\<rparr>)"
  from assms(4) have cs': "cs' = l_SetStatusCondition L (now s') ?c cs"
    unfolding TrackConditionType_fresh [where fn = fn and s = s, OF None assms(3)] by auto
  show ?thesis
    unfolding cs' cond_of_Set [OF assms(1)]
    by (simp add: none tracked_before_def fresh_transition_time)
next
  case (Some i)
  note found = Find_Some_cond_of [OF assms(1) Some]
  let ?c = "track_result L (now s') gen err (elems cs ! i)"
  let ?in = "Some ((elems cs)[i := ?c])"
  from found(2) have ty: "co_Type (elems cs ! i) = ctype_text ct"
    by (rule cond_of_Type)
  from assms(4) have cs': "cs' = l_SetStatusCondition L (now s') ?c ?in"
    unfolding TrackConditionType_found [where fn = fn and s = s, OF Some assms(3)] by auto
  have in_place: "cond_of ?in u = (if u = ctype_text ct then Some ?c else cond_of cs u)" for u
    using assms(2) found(1) ty by (intro cond_of_in_place) auto
  show ?thesis
    unfolding cs' cond_of_Set [OF assms(1)]
    by (simp add: in_place ty found(2) tracked_before_def transition_time_self)
qed

lemma TrackConditionType_distinct:
  assumes "conditions_doc L" "distinct_types cs"
    "TrackConditionType L now cs ct gen fn s = (cs', s')"
  shows "distinct_types cs'"
proof -
  have keep: "distinct_types cs \<Longrightarrow> distinct_types (l_SetStatusCondition L n c cs)" for n c cs
    using assms(1) by (simp add: conditions_doc_def SetStatusCondition_doc_def)
  obtain err u where fn: "fn s = (err, u)"
    by fastforce
  show ?thesis
  proof (cases "l_FindStatusCondition L cs (ctype_text ct)")
    case None
    from assms(3) show ?thesis
      unfolding TrackConditionType_fresh [where fn = fn and s = s, OF None fn] by (auto intro: keep assms(2))
  next
    case (Some i)
    from Find_Some_cond_of [OF assms(1) Some]
    have "distinct_types (Some ((elems cs)[i := track_result L (now u) gen err (elems cs ! i)]))"
      by (intro distinct_types_in_place assms(2)) auto
    with assms(3) show ?thesis
      unfolding TrackConditionType_found [where fn = fn and s = s, OF Some fn] by (auto intro: keep)
  qed
qed

end
