(* ===== verification/NameGenerator.thy ===== *)
theory NameGenerator
  imports Platform
begin

text \<open>
  \<^verbatim>\<open>pkg/externalclusterreference/name_generator.go\<close>: the names of remote tenant control
  planes, and the keys under which the managers of external clusters are stored. The lemmas
  show that the name of a remote tenant control plane leads back to the UID of its
  \<^verbatim>\<open>KamajiControlPlane\<close>, that a key can be taken apart again, and that the key of a
  \<^verbatim>\<open>KamajiControlPlane\<close> is among the keys of a secret exactly when it refers to that secret
  and to one of its entries.
\<close>

section \<open>Definitions\<close>

definition RemoteTCPPrefix :: string where
  "RemoteTCPPrefix = ''kcp-''"

definition ParseKamajiControlPlaneUIDFromTenantControlPlane :: "TenantControlPlane \<Rightarrow> string" where
  "ParseKamajiControlPlaneUIDFromTenantControlPlane tcp =
     (if \<not> HasPrefix (om_Name (tcp_meta tcp)) RemoteTCPPrefix then ''''
      else TrimPrefix (om_Name (tcp_meta tcp)) RemoteTCPPrefix)"

abbreviation external_reference :: "KamajiControlPlane \<Rightarrow> ExternalClusterReference option" where
  "external_reference kcp \<equiv> dc_ExternalClusterReference (f_Deployment (kcp_Spec kcp))"

abbreviation nil_dereference :: string where
  "nil_dereference \<equiv> ''invalid memory address or nil pointer dereference''"

text \<open>The name and the namespace, read through the external cluster reference.\<close>

definition GenerateRemoteTenantControlPlaneNames :: "KamajiControlPlane \<Rightarrow> (string \<times> string) outcome" where
  "GenerateRemoteTenantControlPlaneNames kcp =
     (case external_reference kcp of
        None \<Rightarrow> Panic nil_dereference
      | Some e \<Rightarrow> Return (RemoteTCPPrefix @ om_UID (kcp_meta kcp), ecr_DeploymentNamespace e))"

definition GenerateKeyNameFromSecret :: "Secret \<Rightarrow> string list" where
  "GenerateKeyNameFromSecret secret =
     map (\<lambda>(k, _). om_Namespace (se_meta secret) @ ''/'' @ om_Name (se_meta secret) @ ''/'' @ k)
       (entries (se_Data secret))"

text \<open>The namespace of the kubeconfig secret: the object's own unless one is given.\<close>

definition GenerateKeyNameFromKamaji :: "KamajiControlPlane \<Rightarrow> string outcome" where
  "GenerateKeyNameFromKamaji kcp =
     (case external_reference kcp of
        None \<Rightarrow> Panic nil_dereference
      | Some e \<Rightarrow>
          (let namespace = om_Namespace (kcp_meta kcp);
               namespace = (if ecr_KubeconfigSecretNamespace e \<noteq> ''''
                            then ecr_KubeconfigSecretNamespace e else namespace)
           in Return (namespace @ ''/'' @ ecr_KubeconfigSecretName e @ ''/'' @ ecr_KubeconfigSecretKey e)))"

section \<open>Keys\<close>

abbreviation slash :: char where "slash \<equiv> CHR ''/''"

text \<open>Names of Kubernetes objects, namespaces and keys of a secret contain no slash.\<close>

definition slash_free :: "string \<Rightarrow> bool" where
  "slash_free s \<longleftrightarrow> slash \<notin> set s"

lemma Split_key:
  assumes "slash_free ns" "slash_free n" "slash_free k"
  shows "Split slash (ns @ ''/'' @ n @ ''/'' @ k) = [ns, n, k]"
proof -
  have "Split slash (ns @ slash # n @ slash # k) = ns # n # Split slash k"
    using assms by (simp add: Split_append_sep slash_free_def)
  then show ?thesis
    using assms(3) by (simp add: Split_no_sep slash_free_def)
qed

lemma key_inject:
  assumes "slash_free ns" "slash_free n" "slash_free k" "slash_free ns'" "slash_free n'" "slash_free k'"
  shows "ns @ ''/'' @ n @ ''/'' @ k = ns' @ ''/'' @ n' @ ''/'' @ k' \<longleftrightarrow> ns = ns' \<and> n = n' \<and> k = k'"
  using Split_key [OF assms(1-3)] Split_key [OF assms(4-6)] by (metis list.inject)

text \<open>
  A key has at least two slashes whatever the names are, so the reconciler's
  \<^verbatim>\<open>strings.Split(key, "/")[2]\<close> never runs out of the slice.
\<close>

lemma Split_key_length: "2 < length (Split slash (ns @ ''/'' @ n @ ''/'' @ k))"
  by (simp add: length_Split)

text \<open>The namespace in which the kubeconfig secret of a reference is looked up.\<close>

definition secret_namespace :: "KamajiControlPlane \<Rightarrow> ExternalClusterReference \<Rightarrow> string" where
  "secret_namespace kcp e =
     (if ecr_KubeconfigSecretNamespace e \<noteq> '''' then ecr_KubeconfigSecretNamespace e
      else om_Namespace (kcp_meta kcp))"

lemma GenerateKeyNameFromKamaji_Some:
  "external_reference kcp = Some e \<Longrightarrow>
   GenerateKeyNameFromKamaji kcp =
     Return (secret_namespace kcp e @ ''/'' @ ecr_KubeconfigSecretName e @ ''/'' @ ecr_KubeconfigSecretKey e)"
  by (simp add: GenerateKeyNameFromKamaji_def secret_namespace_def Let_def)

text \<open>The names of a secret, and of a reference, as the API server admits them.\<close>

definition secret_names_ok :: "Secret \<Rightarrow> bool" where
  "secret_names_ok s \<longleftrightarrow>
     slash_free (om_Namespace (se_meta s)) \<and> slash_free (om_Name (se_meta s)) \<and>
     (\<forall>(k, _) \<in> set (entries (se_Data s)). slash_free k)"

definition reference_names_ok :: "KamajiControlPlane \<Rightarrow> ExternalClusterReference \<Rightarrow> bool" where
  "reference_names_ok kcp e \<longleftrightarrow>
     slash_free (secret_namespace kcp e) \<and> slash_free (ecr_KubeconfigSecretName e) \<and>
     slash_free (ecr_KubeconfigSecretKey e)"

text \<open>What a reference means: this secret, and an entry it has.\<close>

definition refers_to :: "KamajiControlPlane \<Rightarrow> ExternalClusterReference \<Rightarrow> Secret \<Rightarrow> bool" where
  "refers_to kcp e s \<longleftrightarrow>
     om_Namespace (se_meta s) = secret_namespace kcp e \<and>
     om_Name (se_meta s) = ecr_KubeconfigSecretName e \<and>
     gm_get (se_Data s) (ecr_KubeconfigSecretKey e) \<noteq> None"

lemma key_of_reference_iff:
  assumes "external_reference kcp = Some e" "reference_names_ok kcp e" "secret_names_ok s"
    "GenerateKeyNameFromKamaji kcp = Return key"
  shows "key \<in> set (GenerateKeyNameFromSecret s) \<longleftrightarrow> refers_to kcp e s"
proof -
  have key: "key = secret_namespace kcp e @ ''/'' @ ecr_KubeconfigSecretName e @ ''/'' @ ecr_KubeconfigSecretKey e"
    using assms(1,4) by (simp add: GenerateKeyNameFromKamaji_Some)
  have "key \<in> set (GenerateKeyNameFromSecret s) \<longleftrightarrow>
      (\<exists>k v. (k, v) \<in> set (entries (se_Data s)) \<and>
         key = om_Namespace (se_meta s) @ ''/'' @ om_Name (se_meta s) @ ''/'' @ k)"
    by (auto simp: GenerateKeyNameFromSecret_def)
  also have "\<dots> \<longleftrightarrow> (\<exists>k v. (k, v) \<in> set (entries (se_Data s)) \<and>
      secret_namespace kcp e = om_Namespace (se_meta s) \<and>
      ecr_KubeconfigSecretName e = om_Name (se_meta s) \<and> ecr_KubeconfigSecretKey e = k)"
    unfolding key
  proof (intro ex_cong1 conj_cong refl)
    fix k v assume "(k, v) \<in> set (entries (se_Data s))"
    then show "(secret_namespace kcp e @ ''/'' @ ecr_KubeconfigSecretName e @ ''/'' @ ecr_KubeconfigSecretKey e =
        om_Namespace (se_meta s) @ ''/'' @ om_Name (se_meta s) @ ''/'' @ k) =
      (secret_namespace kcp e = om_Namespace (se_meta s) \<and>
       ecr_KubeconfigSecretName e = om_Name (se_meta s) \<and> ecr_KubeconfigSecretKey e = k)"
      using assms(2,3) by (intro key_inject) (auto simp: reference_names_ok_def secret_names_ok_def)
  qed
  also have "\<dots> \<longleftrightarrow> refers_to kcp e s"
    by (force simp: refers_to_def gm_get_def map_of_eq_None_iff image_iff)
  finally show ?thesis .
qed

section \<open>Names of remote tenant control planes\<close>

text \<open>
  The contract between the controller that names remote tenant control planes and the one that
  hears of their changes: the name identifies the object it was made for.
\<close>

locale remote_naming =
  fixes name_of :: "'k \<Rightarrow> string"
    and uid_of :: "'k \<Rightarrow> string"
    and parse :: "string \<Rightarrow> string"
  assumes parse_name_of: "parse (name_of k) = uid_of k"
begin

lemma name_of_inject: "name_of k = name_of k' \<Longrightarrow> uid_of k = uid_of k'"
  by (metis parse_name_of)

lemma owners_by_uid:
  "filter (\<lambda>k'. uid_of k' = parse (name_of k)) ks = filter (\<lambda>k'. uid_of k' = uid_of k) ks"
  by (simp add: parse_name_of)

lemma unique_owner:
  assumes "k \<in> set ks" "inj_on uid_of (set ks)" "distinct ks"
  shows "filter (\<lambda>k'. uid_of k' = parse (name_of k)) ks = [k]"
proof -
  have "filter (\<lambda>k'. uid_of k' = uid_of k) ks = filter (\<lambda>k'. k' = k) ks"
    using assms(1,2) by (intro filter_cong) (auto dest: inj_onD)
  also have "\<dots> = [k]"
    using assms(1,3) by (induction ks) (auto simp: filter_empty_conv)
  finally show ?thesis
    by (simp add: owners_by_uid)
qed

end

definition remote_name :: "KamajiControlPlane \<Rightarrow> string" where
  "remote_name kcp = RemoteTCPPrefix @ om_UID (kcp_meta kcp)"

interpretation rn: remote_naming remote_name "\<lambda>kcp. om_UID (kcp_meta kcp)"
    "\<lambda>n. ParseKamajiControlPlaneUIDFromTenantControlPlane
       (zero_tcp\<lparr>tcp_meta := zero_meta\<lparr>om_Name := n\<rparr>\<rparr>)"
  by unfold_locales
    (simp add: remote_name_def ParseKamajiControlPlaneUIDFromTenantControlPlane_def zero_tcp_def)

lemma Generate_remote_name:
  "GenerateRemoteTenantControlPlaneNames kcp = Return (n, ns) \<Longrightarrow> n = remote_name kcp"
  by (auto simp: GenerateRemoteTenantControlPlaneNames_def remote_name_def split: option.splits)

lemma Parse_by_name:
  "ParseKamajiControlPlaneUIDFromTenantControlPlane tcp =
   ParseKamajiControlPlaneUIDFromTenantControlPlane
     (zero_tcp\<lparr>tcp_meta := zero_meta\<lparr>om_Name := om_Name (tcp_meta tcp)\<rparr>\<rparr>)"
  by (simp add: ParseKamajiControlPlaneUIDFromTenantControlPlane_def zero_tcp_def)

end
