(* ===== verification/Store.thy ===== *)
theory Store
  imports Prelude
begin

text \<open>
  \<^verbatim>\<open>pkg/externalclusterreference/store.go\<close>: the store of the managers of external clusters.
  The Go interface \<^verbatim>\<open>Store\<close> is the locale \<open>manager_store\<close>, its contract written over an
  abstraction of the store to a partial map; \<^verbatim>\<open>mapStore\<close> is interpreted in it. Every method
  of \<^verbatim>\<open>mapStore\<close> holds the mutex from start to end, so each is one atomic operation.
\<close>

section \<open>The interface\<close>

text \<open>
  \<open>entry\<close>: what is stored under a name (resource version, manager, cancel function);
  \<open>cancelled\<close>: the cancel functions the store has called, in order.
\<close>

locale manager_store =
  fixes get :: "'s \<Rightarrow> string \<Rightarrow> string \<Rightarrow> 'm option \<times> bool"
    and stop :: "'s \<Rightarrow> string \<Rightarrow> bool \<times> 's"
    and add :: "'s \<Rightarrow> string \<Rightarrow> string \<Rightarrow> 'm \<Rightarrow> 'c \<Rightarrow> bool \<times> 's"
    and entry :: "'s \<Rightarrow> string \<Rightarrow> (string \<times> 'm \<times> 'c) option"
    and cancelled :: "'s \<Rightarrow> 'c list"
  assumes get_entry: "get s n rv =
      (case entry s n of None \<Rightarrow> (None, False) | Some (v, m, c) \<Rightarrow> (Some m, v = rv))"
    and stop_entry: "stop s n = (b, s') \<Longrightarrow>
      b = (entry s n \<noteq> None) \<and> entry s' = (entry s)(n := None) \<and>
      cancelled s' = cancelled s @ (case entry s n of None \<Rightarrow> [] | Some (v, m, c) \<Rightarrow> [c])"
    and add_entry: "add s n rv m c = (b, s') \<Longrightarrow>
      b = (entry s n = None) \<and>
      entry s' = (if entry s n = None then (entry s)(n \<mapsto> (rv, m, c)) else entry s) \<and>
      cancelled s' = cancelled s"
begin

lemma get_found_iff: "get s n rv = (Some m, True) \<longleftrightarrow> (\<exists>c. entry s n = Some (rv, m, c))"
  by (auto simp: get_entry split: option.splits prod.splits)

lemma get_after_stop: "stop s n = (b, s') \<Longrightarrow> get s' n rv = (None, False)"
  by (auto simp: get_entry dest: stop_entry)

lemma stop_twice: "stop s n = (b, s') \<Longrightarrow> stop s' n = (b', s'') \<Longrightarrow>
    \<not> b' \<and> entry s'' = entry s' \<and> cancelled s'' = cancelled s'"
  by (auto dest!: stop_entry)

text \<open>A name is never overwritten: the manager that is there stays, and keeps its cancel function.\<close>

lemma add_occupied: "entry s n \<noteq> None \<Longrightarrow> add s n rv m c = (b, s') \<Longrightarrow> \<not> b \<and> entry s' = entry s"
  by (auto dest: add_entry)

text \<open>
  The client's protocol for a new version of a secret: stop what is there, then add. The
  addition always succeeds, the previous manager has been cancelled exactly once, the new one
  is found, and nothing changes under any other name.
\<close>

lemma restart:
  assumes "stop s n = (b, s1)" "add s1 n rv m c = (b', s2)"
  shows "b'" "get s2 n rv = (Some m, True)" "entry s2 = (entry s)(n \<mapsto> (rv, m, c))"
    "cancelled s2 = cancelled s @ (case entry s n of None \<Rightarrow> [] | Some (v, m, c) \<Rightarrow> [c])"
proof -
  note 1 = stop_entry [OF assms(1)] and 2 = add_entry [OF assms(2)]
  from 1 have free: "entry s1 n = None"
    by simp
  with 2 show "b'"
    by simp
  from 1 2 free show "entry s2 = (entry s)(n \<mapsto> (rv, m, c))"
    by simp
  then show "get s2 n rv = (Some m, True)"
    by (simp add: get_entry)
  from 1 2 show "cancelled s2 = cancelled s @ (case entry s n of None \<Rightarrow> [] | Some (v, m, c) \<Rightarrow> [c])"
    by simp
qed

end

section \<open>mapStore\<close>

text \<open>\<open>'c\<close> identifies the context that \<^verbatim>\<open>StopFunc\<close> cancels.\<close>

record ('m, 'c) instance_rec =
  i_ResourceVersion :: string
  i_Manager :: 'm
  i_StopFunc :: 'c

text \<open>\<open>ms_cancelled\<close> is the record of the calls to \<^verbatim>\<open>StopFunc\<close>, the only effect outside the map.\<close>

record ('m, 'c) mapStore =
  ms_store :: "string \<rightharpoonup> ('m, 'c) instance_rec"
  ms_cancelled :: "'c list"

definition NewStore :: "('m, 'c) mapStore" where
  "NewStore = \<lparr>ms_store = Map.empty, ms_cancelled = []\<rparr>"

definition mapStore_Get :: "('m, 'c) mapStore \<Rightarrow> string \<Rightarrow> string \<Rightarrow> 'm option \<times> bool" where
  "mapStore_Get m name resourceVersion =
     (case ms_store m name of
        None \<Rightarrow> (None, False)
      | Some value \<Rightarrow>
          if i_ResourceVersion value \<noteq> resourceVersion then (Some (i_Manager value), False)
          else (Some (i_Manager value), True))"

definition mapStore_Stop :: "('m, 'c) mapStore \<Rightarrow> string \<Rightarrow> bool \<times> ('m, 'c) mapStore" where
  "mapStore_Stop m name =
     (case ms_store m name of
        None \<Rightarrow> (False, m)
      | Some v \<Rightarrow>
          (True, m\<lparr>ms_cancelled := ms_cancelled m @ [i_StopFunc v], ms_store := (ms_store m)(name := None)\<rparr>))"

definition mapStore_Add ::
  "('m, 'c) mapStore \<Rightarrow> string \<Rightarrow> string \<Rightarrow> 'm \<Rightarrow> 'c \<Rightarrow> bool \<times> ('m, 'c) mapStore" where
  "mapStore_Add m name resourceVersion manager cancelFn =
     (case ms_store m name of
        Some _ \<Rightarrow> (False, m)
      | None \<Rightarrow>
          (True, m\<lparr>ms_store := (ms_store m)(name \<mapsto>
             \<lparr>i_ResourceVersion = resourceVersion, i_Manager = manager, i_StopFunc = cancelFn\<rparr>)\<rparr>))"

lemmas mapStore_defs = mapStore_Get_def mapStore_Stop_def mapStore_Add_def

definition ms_entry :: "('m, 'c) mapStore \<Rightarrow> string \<Rightarrow> (string \<times> 'm \<times> 'c) option" where
  "ms_entry m name =
     map_option (\<lambda>i. (i_ResourceVersion i, i_Manager i, i_StopFunc i)) (ms_store m name)"

interpretation ms: manager_store mapStore_Get mapStore_Stop mapStore_Add ms_entry ms_cancelled
  by unfold_locales (auto simp: mapStore_defs ms_entry_def fun_eq_iff split: option.splits)

lemma ms_entry_NewStore [simp]: "ms_entry NewStore n = None"
  by (simp add: ms_entry_def NewStore_def)

end
