(* ===== verification/Reconciler.thy ===== *)
theory Reconciler
  imports Conditions NameGenerator Store
begin

text \<open>
  What the parts of the \<^verbatim>\<open>KamajiControlPlane\<close> controller share: the feature gates
  (\<^verbatim>\<open>pkg/features/features.go\<close>), the reconciler itself, and
  \<^verbatim>\<open>updateKamajiControlPlaneStatus\<close>, through which every change of the status goes.
\<close>

section \<open>Feature gates\<close>

definition features_ExternalClusterReference :: string where
  "features_ExternalClusterReference = ''ExternalClusterReference''"

definition features_ExternalClusterReferenceCrossNamespace :: string where
  "features_ExternalClusterReferenceCrossNamespace = ''ExternalClusterReferenceCrossNamespace''"

definition features_SkipInfraClusterPatch :: string where
  "features_SkipInfraClusterPatch = ''SkipInfraClusterPatch''"

definition features_DynamicInfrastructureClusterPatch :: string where
  "features_DynamicInfrastructureClusterPatch = ''DynamicInfrastructureClusterPatch''"

lemmas features_defs = features_ExternalClusterReference_def
  features_ExternalClusterReferenceCrossNamespace_def features_SkipInfraClusterPatch_def
  features_DynamicInfrastructureClusterPatch_def

section \<open>The reconciler\<close>

text \<open>\<open>r_FeatureGates\<close> is \<^verbatim>\<open>FeatureGates.Enabled\<close>. The REST mapper is part of the libraries.\<close>

record ('w, 'm, 'c) KamajiControlPlaneReconciler =
  r_ExternalClusterReferenceStore :: "('m, 'c) mapStore"
  r_FeatureGates :: "string \<Rightarrow> bool"
  r_MaxConcurrentReconciles :: int
  r_DynamicInfrastructureClusters :: "string set"
  r_client :: "'w client"

text \<open>
  What the controllers tell the controller builder: the kind they are \<^verbatim>\<open>For\<close>, what they own and
  watch, and the options. Building the controller (\<^verbatim>\<open>Complete\<close>) is a parameter.
\<close>

record controller_setup =
  cs_For :: string
  cs_Owns :: "string list"
  cs_Watches :: "string list"
  cs_RawSources :: "string list"
  cs_MaxConcurrentReconciles :: int
  cs_SkipNameValidation :: bool
  cs_ResourceNotPaused :: bool

definition NewControllerManagedBy :: "string \<Rightarrow> controller_setup" where
  "NewControllerManagedBy kind =
     \<lparr>cs_For = kind, cs_Owns = [], cs_Watches = [], cs_RawSources = [], cs_MaxConcurrentReconciles = 0,
      cs_SkipNameValidation = False, cs_ResourceNotPaused = False\<rparr>"

section \<open>updateKamajiControlPlaneStatus\<close>

text \<open>
  One attempt: read the object again, apply the modifier to what was read, write the status.
\<close>

definition status_attempt ::
  "'w client \<Rightarrow> (KamajiControlPlane \<Rightarrow> KamajiControlPlane) \<Rightarrow> KamajiControlPlane \<times> 'w \<Rightarrow>
   go_error option \<times> KamajiControlPlane \<times> 'w" where
  "status_attempt c modifierFn = (\<lambda>(kcp, w).
     (case c_get_kcp c (ObjectKey (kcp_meta kcp)) kcp w of
        (Some e, kcp, w) \<Rightarrow> (Some e, kcp, w)
      | (None, kcp, w) \<Rightarrow> c_status_update_kcp c (modifierFn kcp) w))"

definition updateKamajiControlPlaneStatus ::
  "('w, 'm) lib \<Rightarrow> 'w client \<Rightarrow> (KamajiControlPlane \<Rightarrow> KamajiControlPlane) \<Rightarrow>
   KamajiControlPlane \<times> 'w \<Rightarrow> go_error option \<times> KamajiControlPlane \<times> 'w" where
  "updateKamajiControlPlaneStatus L c modifierFn s =
     (case l_retry_kcp L (status_attempt c modifierFn) s of
        (Some e, s') \<Rightarrow> (Some (ErrorfBy (Sentinel ErrUpdate) e), s')
      | (None, s') \<Rightarrow> (None, s'))"

text \<open>Every error is reported as \<^verbatim>\<open>ErrUpdate\<close>; the cause survives in the text only.\<close>

lemma updateKamajiControlPlaneStatus_error:
  "updateKamajiControlPlaneStatus L c f s = (Some e, s') \<Longrightarrow> errors_Is e ErrUpdate"
  by (auto simp: updateKamajiControlPlaneStatus_def split: prod.splits option.splits)

lemma updateKamajiControlPlaneStatus_not_enqueue:
  "updateKamajiControlPlaneStatus L c f s = (Some e, s') \<Longrightarrow> \<not> errors_Is e ErrEnqueueBack"
  by (auto simp: updateKamajiControlPlaneStatus_def split: prod.splits option.splits)

text \<open>
  A successful update has written, in its last attempt, the modifier of an object it had just
  read: no field is overwritten from an older copy.
\<close>

lemma updateKamajiControlPlaneStatus_written:
  assumes "RetryOnConflict_doc (l_retry_kcp L)"
    and "updateKamajiControlPlaneStatus L c f (kcp, w) = (None, kcp', w')"
  shows "\<exists>k0 w0 k1 w1. c_get_kcp c (ObjectKey (kcp_meta k0)) k0 w0 = (None, k1, w1) \<and>
     c_status_update_kcp c (f k1) w1 = (None, kcp', w')"
proof -
  from assms(2) have "l_retry_kcp L (status_attempt c f) (kcp, w) = (None, kcp', w')"
    by (auto simp: updateKamajiControlPlaneStatus_def split: prod.splits option.splits)
  with assms(1) obtain k0 w0 where "status_attempt c f (k0, w0) = (None, kcp', w')"
    unfolding RetryOnConflict_doc_def by (metis surj_pair)
  then show ?thesis
    by (fastforce simp: status_attempt_def split: prod.splits option.splits)
qed

text \<open>With no conflict and no error, one attempt is all that happens.\<close>

lemma updateKamajiControlPlaneStatus_once:
  assumes "RetryOnConflict_doc (l_retry_kcp L)"
    and "c_get_kcp c (ObjectKey (kcp_meta kcp)) kcp w = (None, k1, w1)"
    and "c_status_update_kcp c (f k1) w1 = (None, kcp', w')"
  shows "updateKamajiControlPlaneStatus L c f (kcp, w) = (None, kcp', w')"
proof -
  have "status_attempt c f (kcp, w) = (None, kcp', w')"
    using assms(2,3) by (simp add: status_attempt_def)
  then have "l_retry_kcp L (status_attempt c f) (kcp, w) = (None, kcp', w')"
    using assms(1) by (rule retry_once [rotated])
  then show ?thesis
    by (simp add: updateKamajiControlPlaneStatus_def)
qed

subsection \<open>The modifiers\<close>

text \<open>
  The contract of a modifier: it changes nothing but the status, so that a status update never
  carries a change of the metadata or of the specification.
\<close>

locale status_modifier =
  fixes modify :: "KamajiControlPlane \<Rightarrow> KamajiControlPlane"
  assumes modify_meta: "kcp_meta (modify k) = kcp_meta k"
    and modify_spec: "kcp_Spec (modify k) = kcp_Spec k"
begin

lemma written_as_read:
  assumes "RetryOnConflict_doc (l_retry_kcp L)"
    and "updateKamajiControlPlaneStatus L c modify (kcp, w) = (None, kcp', w')"
  shows "\<exists>k0 w0 k1 w1 k2. c_get_kcp c (ObjectKey (kcp_meta k0)) k0 w0 = (None, k1, w1) \<and>
     c_status_update_kcp c k2 w1 = (None, kcp', w') \<and>
     kcp_meta k2 = kcp_meta k1 \<and> kcp_Spec k2 = kcp_Spec k1 \<and> kcp_Status k2 = kcp_Status (modify k1)"
  using updateKamajiControlPlaneStatus_written [OF assms] modify_meta modify_spec by blast

end

definition set_conditions :: "Condition slice \<Rightarrow> KamajiControlPlane \<Rightarrow> KamajiControlPlane" where
  "set_conditions conditions kcp = kcp\<lparr>kcp_Status := (kcp_Status kcp)\<lparr>st_Conditions := conditions\<rparr>\<rparr>"

definition set_initialized :: "KamajiControlPlane \<Rightarrow> KamajiControlPlane" where
  "set_initialized kcp = kcp\<lparr>kcp_Status := SetControlPlaneInitialized True (kcp_Status kcp)\<rparr>"

text \<open>The scaling values and the version, copied from the tenant control plane.\<close>

definition set_report :: "TenantControlPlane \<Rightarrow> KamajiControlPlane \<Rightarrow> KamajiControlPlane" where
  "set_report tcp kcp =
     (let d = tst_Deployment (tcp_Status tcp)
      in kcp\<lparr>kcp_Status := (kcp_Status kcp)
           \<lparr>st_ReadyReplicas := Some (ds_ReadyReplicas d),
            st_Replicas := Some (ds_Replicas d),
            st_Selector := Some (ds_Selector d),
            st_AvailableReplicas := Some (ds_AvailableReplicas d),
            st_UpToDateReplicas := Some (ds_UpdatedReplicas d),
            st_Version := tst_Version (tcp_Status tcp)\<rparr>\<rparr>)"

definition set_ready :: "bool \<Rightarrow> KamajiControlPlane \<Rightarrow> KamajiControlPlane" where
  "set_ready b kcp = kcp\<lparr>kcp_Status := (kcp_Status kcp)\<lparr>st_Ready := b\<rparr>\<rparr>"

lemmas modifier_defs = set_conditions_def set_initialized_def set_report_def set_ready_def Let_def

interpretation sm_conditions: status_modifier "set_conditions cs" for cs
  by unfold_locales (simp_all add: modifier_defs)

interpretation sm_initialized: status_modifier set_initialized
  by unfold_locales (simp_all add: modifier_defs)

interpretation sm_report: status_modifier "set_report tcp" for tcp
  by unfold_locales (simp_all add: modifier_defs)

interpretation sm_ready: status_modifier "set_ready b" for b
  by unfold_locales (simp_all add: modifier_defs)

end
