(* ===== verification/ExternalReference.thy ===== *)
theory ExternalReference
  imports Reconciler
begin

text \<open>
  \<^verbatim>\<open>controllers/kamajicontrolplane_controller_externalreference.go\<close>: access to the external
  cluster a \<^verbatim>\<open>KamajiControlPlane\<close> refers to.
\<close>

definition ExternalClusterReferenceFinalizer :: string where
  "ExternalClusterReferenceFinalizer = ''ecr.kamaji.clastix.io/finalizer''"

text \<open>
  The part after the feature gates: the secret is read, then the store is asked for the manager
  of this version of the secret, then the manager for the resource kind.
\<close>

definition remote_client_from_secret ::
  "('w, 'm, 'c) KamajiControlPlaneReconciler \<Rightarrow> ('w, 'm) lib \<Rightarrow> KamajiControlPlane \<Rightarrow>
   ExternalClusterReference \<Rightarrow> string \<Rightarrow> 'w \<Rightarrow> (go_error + 'w client) outcome \<times> 'w" where
  "remote_client_from_secret r L kcp e namespace w =
     (case c_get_secret (r_client r)
             \<lparr>nn_Namespace = namespace, nn_Name = ecr_KubeconfigSecretName e\<rparr> zero_secret w of
        (Some err, _, w) \<Rightarrow> (Return (Inl (Wrap err ''could not get external cluster reference secret'')), w)
      | (None, secret, w) \<Rightarrow>
          if se_Data secret = None then
            (Return (Inl (Sentinel ErrExternalCLusterReferenceSecretEmptyError)), w)
          else
            (case gm_get (se_Data secret) (ecr_KubeconfigSecretKey e) of
               Some (Some _) \<Rightarrow>
                 (case GenerateKeyNameFromKamaji kcp of
                    Panic p \<Rightarrow> (Panic p, w)
                  | Return key \<Rightarrow>
                      (case mapStore_Get (r_ExternalClusterReferenceStore r) key
                              (om_ResourceVersion (se_meta secret)) of
                         (Some mgr, True) \<Rightarrow>
                           (case l_mgr_KindFor L mgr ''tenantcontrolplanes'' w of
                              (Some _, w) \<Rightarrow>
                                (Return (Inl (Sentinel ErrExternalClusterReferenceTenantControlPlaneNotFound)), w)
                            | (None, w) \<Rightarrow> (Return (Inr (l_mgr_client L mgr)), w))
                       | _ \<Rightarrow> (Return (Inl (Sentinel ErrExternalClusterReferenceNonInitializedStore)), w)))
             | _ \<Rightarrow> (Return (Inl (Sentinel ErrExternalClusterReferenceSecretKeyEmpty)), w)))"

definition extractRemoteClient ::
  "('w, 'm, 'c) KamajiControlPlaneReconciler \<Rightarrow> ('w, 'm) lib \<Rightarrow> KamajiControlPlane \<Rightarrow> 'w \<Rightarrow>
   (go_error + 'w client) outcome \<times> 'w" where
  "extractRemoteClient r L kcp w =
     (if \<not> r_FeatureGates r features_ExternalClusterReference then
        (Return (Inl (Sentinel ErrExternalClusterReferenceNotEnabled)), w)
      else
        (case external_reference kcp of
           None \<Rightarrow> (Panic nil_dereference, w)
         | Some e \<Rightarrow>
             if r_FeatureGates r features_ExternalClusterReference \<and>
                \<not> r_FeatureGates r features_ExternalClusterReferenceCrossNamespace \<and>
                ecr_KubeconfigSecretNamespace e \<noteq> '''' \<and>
                ecr_KubeconfigSecretNamespace e \<noteq> om_Namespace (kcp_meta kcp)
             then (Return (Inl (Sentinel ErrExternalClusterReferenceCrossNamespaceReference)), w)
             else
               (let namespace = (if ecr_KubeconfigSecretNamespace e \<noteq> ''''
                                 then ecr_KubeconfigSecretNamespace e else om_Namespace (kcp_meta kcp))
                in remote_client_from_secret r L kcp e namespace w)))"

section \<open>Lemmas\<close>

lemma extractRemoteClient_disabled:
  "\<not> r_FeatureGates r features_ExternalClusterReference \<Longrightarrow>
   extractRemoteClient r L kcp w = (Return (Inl (Sentinel ErrExternalClusterReferenceNotEnabled)), w)"
  by (simp add: extractRemoteClient_def)

text \<open>With a reference there is no nil pointer to follow.\<close>

lemma remote_client_from_secret_returns:
  "external_reference kcp = Some e \<Longrightarrow> returns (fst (remote_client_from_secret r L kcp e ns w))"
  by (simp add: remote_client_from_secret_def GenerateKeyNameFromKamaji_Some
      split: prod.split option.split bool.split)

lemma extractRemoteClient_no_panic:
  "external_reference kcp \<noteq> None \<Longrightarrow> returns (fst (extractRemoteClient r L kcp w))"
  by (auto simp: extractRemoteClient_def Let_def intro: remote_client_from_secret_returns)

text \<open>
  A client is handed out only for the manager that the store holds under this object's key and
  for the version of the secret that has just been read.
\<close>

lemma remote_client_from_secret_Inr:
  assumes "remote_client_from_secret r L kcp e ns w = (Return (Inr c), w')"
    "external_reference kcp = Some e"
  shows "\<exists>secret w1 mgr key d.
     c_get_secret (r_client r) \<lparr>nn_Namespace = ns, nn_Name = ecr_KubeconfigSecretName e\<rparr> zero_secret w
       = (None, secret, w1) \<and>
     gm_get (se_Data secret) (ecr_KubeconfigSecretKey e) = Some (Some d) \<and>
     GenerateKeyNameFromKamaji kcp = Return key \<and>
     mapStore_Get (r_ExternalClusterReferenceStore r) key (om_ResourceVersion (se_meta secret)) = (Some mgr, True) \<and>
     l_mgr_KindFor L mgr ''tenantcontrolplanes'' w1 = (None, w') \<and> c = l_mgr_client L mgr"
  using assms
  by (auto simp: remote_client_from_secret_def GenerateKeyNameFromKamaji_Some
      split: prod.splits option.splits if_splits bool.splits)

end
