(* ===== verification/Finalizer.thy ===== *)
theory Finalizer
  imports ExternalReference
begin

text \<open>
  \<^verbatim>\<open>controllers/kamajicontrolplane_finalizer.go\<close>: the finalizer that keeps a
  \<^verbatim>\<open>KamajiControlPlane\<close> until its remote tenant control plane is deleted.
\<close>

section \<open>handleFinalizer\<close>

text \<open>
  The set of finalizers is built once, from the object as it was given; every attempt reads the
  object again and then writes that set with the finalizer added.
\<close>

definition finalizer_attempt ::
  "('w, 'm) lib \<Rightarrow> 'w client \<Rightarrow> string set \<Rightarrow> KamajiControlPlane \<times> 'w \<Rightarrow>
   go_error option \<times> KamajiControlPlane \<times> 'w" where
  "finalizer_attempt L c finalizers = (\<lambda>(kcp, w).
     (case c_get_kcp c \<lparr>nn_Namespace = om_Namespace (kcp_meta kcp), nn_Name = om_Name (kcp_meta kcp)\<rparr> kcp w of
        (Some e, kcp, w) \<Rightarrow> (Some e, kcp, w)
      | (None, kcp, w) \<Rightarrow>
          c_update_kcp c (kcp\<lparr>kcp_meta := (kcp_meta kcp)\<lparr>om_Finalizers :=
            Some (l_UnsortedList L (insert ExternalClusterReferenceFinalizer finalizers))\<rparr>\<rparr>) w))"

definition handleFinalizer ::
  "('w, 'm) lib \<Rightarrow> 'w client \<Rightarrow> KamajiControlPlane \<times> 'w \<Rightarrow> go_error option \<times> KamajiControlPlane \<times> 'w" where
  "handleFinalizer L c = (\<lambda>(kcp, w).
     (let finalizers = set (elems (om_Finalizers (kcp_meta kcp)))
      in if ExternalClusterReferenceFinalizer \<notin> finalizers
         then l_retry_kcp L (finalizer_attempt L c finalizers) (kcp, w)
         else (None, kcp, w)))"

section \<open>handleDeletion\<close>

definition deletion_attempt ::
  "('w, 'm) lib \<Rightarrow> 'w client \<Rightarrow> KamajiControlPlane \<times> 'w \<Rightarrow> go_error option \<times> KamajiControlPlane \<times> 'w" where
  "deletion_attempt L c = (\<lambda>(kcp, w).
     (case c_get_kcp c \<lparr>nn_Namespace = om_Namespace (kcp_meta kcp), nn_Name = om_Name (kcp_meta kcp)\<rparr> kcp w of
        (Some e, kcp, w) \<Rightarrow> (Some e, kcp, w)
      | (None, kcp, w) \<Rightarrow>
          c_update_kcp c (kcp\<lparr>kcp_meta := (kcp_meta kcp)\<lparr>om_Finalizers :=
            Some (l_UnsortedList L
              (set (elems (om_Finalizers (kcp_meta kcp))) - {ExternalClusterReferenceFinalizer}))\<rparr>\<rparr>) w))"

text \<open>The object is passed by value: only the error and the world come back.\<close>

definition handleDeletion ::
  "('w, 'm, 'c) KamajiControlPlaneReconciler \<Rightarrow> ('w, 'm) lib \<Rightarrow> KamajiControlPlane \<Rightarrow> 'w \<Rightarrow>
   go_error option outcome \<times> 'w" where
  "handleDeletion r L kcp w =
     (if ExternalClusterReferenceFinalizer \<notin> set (elems (om_Finalizers (kcp_meta kcp))) \<or>
         external_reference kcp = None
      then (Return None, w)
      else
        (case extractRemoteClient r L kcp w of
           (Panic p, w) \<Rightarrow> (Panic p, w)
         | (Return (Inl cErr), w) \<Rightarrow> (Return (Some cErr), w)
         | (Return (Inr remoteClient), w) \<Rightarrow>
             (case GenerateRemoteTenantControlPlaneNames kcp of
                Panic p \<Rightarrow> (Panic p, w)
              | Return (n, ns) \<Rightarrow>
                  (case c_delete_tcp remoteClient
                          (zero_tcp\<lparr>tcp_meta := zero_meta\<lparr>om_Name := n, om_Namespace := ns\<rparr>\<rparr>) w of
                     (Some tcpErr, w) \<Rightarrow>
                       if l_IsNotFound L tcpErr then (Return None, w) else (Return (Some tcpErr), w)
                   | (None, w) \<Rightarrow>
                       (case l_retry_kcp L (deletion_attempt L (r_client r)) (kcp, w) of
                          (Some err, _, w) \<Rightarrow>
                            if l_IsNotFound L err then (Return None, w) else (Return (Some err), w)
                        | (None, _, w) \<Rightarrow> (Return None, w))))))"

section \<open>Lemmas\<close>

lemma handleFinalizer_present:
  "ExternalClusterReferenceFinalizer \<in> set (elems (om_Finalizers (kcp_meta kcp))) \<Longrightarrow>
   handleFinalizer L c (kcp, w) = (None, kcp, w)"
  by (simp add: handleFinalizer_def)

text \<open>What an attempt sends: everything as just read, but for the finalizers.\<close>

lemma finalizer_attempt_None:
  assumes "finalizer_attempt L c fs (kcp, w) = (None, kcp', w')"
  shows "\<exists>k1 w1. c_get_kcp c (ObjectKey (kcp_meta kcp)) kcp w = (None, k1, w1) \<and>
     c_update_kcp c (k1\<lparr>kcp_meta := (kcp_meta k1)\<lparr>om_Finalizers :=
       Some (l_UnsortedList L (insert ExternalClusterReferenceFinalizer fs))\<rparr>\<rparr>) w1 = (None, kcp', w')"
  using assms by (auto simp: finalizer_attempt_def ObjectKey_def split: prod.splits option.splits)

lemma deletion_attempt_None:
  assumes "deletion_attempt L c (kcp, w) = (None, kcp', w')"
  shows "\<exists>k1 w1. c_get_kcp c (ObjectKey (kcp_meta kcp)) kcp w = (None, k1, w1) \<and>
     c_update_kcp c (k1\<lparr>kcp_meta := (kcp_meta k1)\<lparr>om_Finalizers :=
       Some (l_UnsortedList L (set (elems (om_Finalizers (kcp_meta k1))) - {ExternalClusterReferenceFinalizer}))\<rparr>\<rparr>) w1
       = (None, kcp', w')"
  using assms by (auto simp: deletion_attempt_def ObjectKey_def split: prod.splits option.splits)

end
