(* ===== verification/TenantControlPlane.thy ===== *)
theory TenantControlPlane
  imports ExternalReference
begin

text \<open>
  \<^verbatim>\<open>controllers/kamajicontrolplane_controller_tcp.go\<close>: the tenant control plane a
  \<^verbatim>\<open>KamajiControlPlane\<close> asks for. The mutate function of the source is one long sequence of
  assignments; it is the composition of the groups below, in the source's order. The lemmas
  give the fields it sets, show which it leaves alone, and that applying it to its own result
  changes nothing, so that \<^verbatim>\<open>CreateOrUpdate\<close> stops writing once the object is as wanted.
\<close>

section \<open>Access to the nested structs\<close>

definition on_np :: "(NetworkProfile \<Rightarrow> NetworkProfile) \<Rightarrow> TenantControlPlane \<Rightarrow> TenantControlPlane" where
  "on_np f = tcp_Spec_update (tp_NetworkProfile_update f)"

definition on_cp :: "(TcpControlPlane \<Rightarrow> TcpControlPlane) \<Rightarrow> TenantControlPlane \<Rightarrow> TenantControlPlane" where
  "on_cp f = tcp_Spec_update (tp_ControlPlane_update f)"

definition on_dep :: "(TcpDeployment \<Rightarrow> TcpDeployment) \<Rightarrow> TenantControlPlane \<Rightarrow> TenantControlPlane" where
  "on_dep f = on_cp (tc_Deployment_update f)"

definition on_svc :: "(TcpService \<Rightarrow> TcpService) \<Rightarrow> TenantControlPlane \<Rightarrow> TenantControlPlane" where
  "on_svc f = on_cp (tc_Service_update f)"

definition on_k8s :: "(TcpKubernetes \<Rightarrow> TcpKubernetes) \<Rightarrow> TenantControlPlane \<Rightarrow> TenantControlPlane" where
  "on_k8s f = tcp_Spec_update (tp_Kubernetes_update f)"

lemmas on_defs = on_np_def on_cp_def on_dep_def on_svc_def on_k8s_def

section \<open>The mutate function\<close>

subsection \<open>Labels and annotations\<close>

definition mutate_metadata :: "('w, 'm) lib \<Rightarrow> KamajiControlPlane \<Rightarrow> TenantControlPlane \<Rightarrow> TenantControlPlane" where
  "mutate_metadata L kcp tcp =
     (let own = om_Annotations (kcp_meta kcp);
          ann = entries (om_Annotations (tcp_meta tcp));
          ann = copy_entries (\<lambda>k. k = k_LastAppliedConfigAnnotation L) (entries own) ann;
          key = gm_str own (k_KubeconfigSecretKeyAnnotation L);
          ann = (if key \<noteq> '''' then AList.update (k_KubeconfigSecretKeyAnnotation L) key ann
                 else AList.delete (k_KubeconfigSecretKeyAnnotation L) ann)
      in tcp\<lparr>tcp_meta := (tcp_meta tcp)\<lparr>om_Annotations := Some ann, om_Labels := om_Labels (kcp_meta kcp)\<rparr>\<rparr>)"

subsection \<open>Network of the cluster, replicas, version\<close>

definition mutate_cluster_network :: "Cluster \<Rightarrow> TenantControlPlane \<Rightarrow> TenantControlPlane" where
  "mutate_cluster_network cluster = on_np (\<lambda>n.
     let n = (if cl_APIServerPort cluster \<noteq> 0 then n\<lparr>np_Port := cl_APIServerPort cluster\<rparr> else n);
         n = (if go_len (cl_ServicesCIDRBlocks cluster) > 0
              then n\<lparr>np_ServiceCIDRs := go_append (Some []) (elems (cl_ServicesCIDRBlocks cluster))\<rparr> else n);
         n = (if go_len (cl_PodsCIDRBlocks cluster) > 0
              then n\<lparr>np_PodCIDRs := go_append (Some []) (elems (cl_PodsCIDRBlocks cluster))\<rparr> else n)
     in n\<lparr>np_ClusterDomain := cl_ServiceDomain cluster\<rparr>)"

definition mutate_replicas_version :: "KamajiControlPlane \<Rightarrow> TenantControlPlane \<Rightarrow> TenantControlPlane" where
  "mutate_replicas_version kcp tcp =
     (let v = s_Version (kcp_Spec kcp);
          tcp = on_dep (td_Replicas_update (\<lambda>_. s_Replicas (kcp_Spec kcp))) tcp
      in on_k8s (tk_Version_update (\<lambda>_. if \<not> HasPrefix v ''v'' then ''v'' @ v else v)) tcp)"

subsection \<open>Add-ons and DNS\<close>

text \<open>
  A CoreDNS entry with no add-on specification gets an empty one, written through the pointer
  the \<^verbatim>\<open>KamajiControlPlane\<close> holds.
\<close>

definition mutate_addons ::
  "KamajiControlPlane \<Rightarrow> TenantControlPlane \<Rightarrow> TenantControlPlane \<times> KamajiControlPlane" where
  "mutate_addons kcp tcp =
     (let tcp = on_np (np_DNSServiceIPs_update (\<lambda>_. nc_DNSServiceIPs (f_Network (kcp_Spec kcp)))) tcp;
          tcp = tcp_Spec_update (tp_Addons_update (\<lambda>_. as_AddonsSpec (f_Addons (kcp_Spec kcp)))) tcp
      in (case as_CoreDNS (f_Addons (kcp_Spec kcp)) of
            None \<Rightarrow> (tcp, kcp)
          | Some d \<Rightarrow>
              (let tcp = on_np (np_DNSServiceIPs_update (\<lambda>_. cda_DNSServiceIPs d)) tcp;
                   d = (if cda_AddonSpec d = None then d\<lparr>cda_AddonSpec := Some zero_addon\<rparr> else d);
                   kcp = kcp\<lparr>kcp_Spec := (kcp_Spec kcp)\<lparr>f_Addons :=
                     (f_Addons (kcp_Spec kcp))\<lparr>as_CoreDNS := Some d\<rparr>\<rparr>\<rparr>
               in (tcp_Spec_update (tp_Addons_update (kas_CoreDNS_update (\<lambda>_. cda_AddonSpec d))) tcp, kcp))))"

subsection \<open>Data store, admission, registry\<close>

definition mutate_datastore :: "KamajiControlPlane \<Rightarrow> TenantControlPlane \<Rightarrow> TenantControlPlane" where
  "mutate_datastore kcp tcp =
     (let f = kcp_Spec kcp;
          tcp = tcp_Spec_update (\<lambda>s.
            let s = (if f_DataStoreName f \<noteq> '''' then s\<lparr>tp_DataStore := f_DataStoreName f\<rparr> else s);
                s = (if f_DataStoreSchema f \<noteq> '''' then s\<lparr>tp_DataStoreSchema := f_DataStoreSchema f\<rparr> else s);
                s = (if f_DataStoreUsername f \<noteq> '''' then s\<lparr>tp_DataStoreUsername := f_DataStoreUsername f\<rparr> else s)
            in s\<lparr>tp_DataStoreOverrides := f_DataStoreOverrides f\<rparr>) tcp;
          tcp = on_k8s (tk_AdmissionControllers_update (\<lambda>_. f_AdmissionControllers f)) tcp
      in on_dep (td_RegistrySettings_update (rs_Registry_update (\<lambda>_. f_ContainerRegistry f))) tcp)"

subsection \<open>Components\<close>

definition mutate_components :: "KamajiControlPlane \<Rightarrow> TenantControlPlane \<Rightarrow> TenantControlPlane" where
  "mutate_components kcp tcp =
     (let f = kcp_Spec kcp; cm = f_ControllerManager f; sc = f_Scheduler f; as = f_ApiServer f
      in on_dep (\<lambda>d.
           let avm = (case td_AdditionalVolumeMounts d of None \<Rightarrow> zero_avm | Some m \<Rightarrow> m);
               xa = (case td_ExtraArgs d of None \<Rightarrow> zero_xa | Some a \<Rightarrow> a);
               res = (case td_Resources d of None \<Rightarrow> zero_res | Some q \<Rightarrow> q)
           in d\<lparr>td_AdditionalVolumeMounts := Some (avm
                  \<lparr>avm_ControllerManager := cpc_ExtraVolumeMounts cm,
                   avm_Scheduler := cpc_ExtraVolumeMounts sc,
                   avm_APIServer := cpc_ExtraVolumeMounts as\<rparr>),
                td_ExtraArgs := Some (xa
                  \<lparr>xa_ControllerManager := cpc_ExtraArgs cm, xa_Scheduler := cpc_ExtraArgs sc,
                   xa_APIServer := cpc_ExtraArgs as, xa_Kine := kc_ExtraArgs (f_Kine f)\<rparr>),
                td_Resources := Some (res
                  \<lparr>res_ControllerManager := Some (cpc_Resources cm), res_Scheduler := Some (cpc_Resources sc),
                   res_APIServer := Some (cpc_Resources as), res_Kine := Some (kc_Resources (f_Kine f))\<rparr>),
                td_RegistrySettings := (td_RegistrySettings d)
                  \<lparr>rs_ControllerManagerImage := cpc_ContainerImageName cm,
                   rs_SchedulerImage := cpc_ContainerImageName sc,
                   rs_APIServerImage := cpc_ContainerImageName as\<rparr>\<rparr>) tcp)"

subsection \<open>Kubelet and service\<close>

definition mutate_kubelet_service :: "KamajiControlPlane \<Rightarrow> TenantControlPlane \<Rightarrow> TenantControlPlane" where
  "mutate_kubelet_service kcp tcp =
     (let f = kcp_Spec kcp; n = f_Network f;
          tcp = on_k8s (tk_Kubelet_update (\<lambda>_. f_Kubelet f)) tcp;
          tcp = on_np (\<lambda>p. p\<lparr>np_Address := nc_ServiceAddress n, np_AdvertiseAddress := nc_AdvertiseAddress n\<rparr>) tcp
      in on_svc (\<lambda>s. s\<lparr>ts_ServiceType := nc_ServiceType n,
           ts_AdditionalMetadata := (ts_AdditionalMetadata s)
             \<lparr>am_Labels := nc_ServiceLabels n, am_Annotations := nc_ServiceAnnotations n\<rparr>,
           ts_AdditionalPorts := nc_AdditionalServicePorts n\<rparr>) tcp)"

subsection \<open>Certificate SANs, gateway, ingress\<close>

text \<open>The loop over the SANs: the first entry of the form \<^verbatim>\<open>host:port\<close> is refused.\<close>

fun check_cert_sans :: "string list \<Rightarrow> go_error option" where
  "check_cert_sans [] = None"
| "check_cert_sans (i # is) =
     (case SplitHostPort i of
        Inr _ \<Rightarrow> Some (Wrap (Sentinel ErrUnsupportedCertificateSAN) (''entry '' @ i @ '' is invalid''))
      | Inl _ \<Rightarrow> check_cert_sans is)"

text \<open>The host of a hostname that may carry a port.\<close>

definition bare_host :: "string \<Rightarrow> string" where
  "bare_host hostname = (case SplitHostPort hostname of Inr (host, _) \<Rightarrow> host | Inl _ \<Rightarrow> hostname)"

definition mutate_gateway :: "KamajiControlPlane \<Rightarrow> TenantControlPlane \<Rightarrow> TenantControlPlane" where
  "mutate_gateway kcp tcp =
     (let tcp = on_np (np_CertSANs_update (\<lambda>_. nc_CertSANs (f_Network (kcp_Spec kcp)))) tcp
      in (case nc_Gateway (f_Network (kcp_Spec kcp)) of
            None \<Rightarrow> on_cp (tc_Gateway_update (\<lambda>_. None)) tcp
          | Some g \<Rightarrow>
              (let host = bare_host (gc_Hostname g);
                   tcp = on_np (np_CertSANs_update (\<lambda>s. go_append (non_nil s) [host])) tcp;
                   parentRef = \<lparr>pr_Name = gc_Name g, pr_Namespace = Some (gc_Namespace g),
                     pr_SectionName = (if gc_SectionName g \<noteq> '''' then Some (gc_SectionName g) else None),
                     pr_Port = gc_Port g\<rparr>
               in on_cp (tc_Gateway_update (\<lambda>_. Some
                    \<lparr>gs_Hostname = host, gs_GatewayParentRefs = Some [parentRef],
                     gs_AdditionalMetadata =
                       \<lparr>am_Labels = gc_ExtraLabels g, am_Annotations = gc_ExtraAnnotations g\<rparr>\<rparr>)) tcp)))"

definition mutate_ingress :: "KamajiControlPlane \<Rightarrow> TenantControlPlane \<Rightarrow> TenantControlPlane" where
  "mutate_ingress kcp tcp =
     (case nc_Ingress (f_Network (kcp_Spec kcp)) of
        None \<Rightarrow> on_cp (tc_Ingress_update (\<lambda>_. None)) tcp
      | Some i \<Rightarrow>
          (let tcp = on_cp (tc_Ingress_update (\<lambda>_. Some
                 \<lparr>in_AdditionalMetadata = \<lparr>am_Labels = ic_ExtraLabels i, am_Annotations = ic_ExtraAnnotations i\<rparr>,
                  in_IngressClassName = ic_ClassName i, in_Hostname = ic_Hostname i\<rparr>)) tcp
           in on_np (np_CertSANs_update (\<lambda>s. go_append (non_nil s) [bare_host (ic_Hostname i)])) tcp))"

subsection \<open>Load balancer, deployment, probes\<close>

definition mutate_load_balancer :: "KamajiControlPlane \<Rightarrow> TenantControlPlane \<Rightarrow> TenantControlPlane" where
  "mutate_load_balancer kcp tcp =
     (case nc_LoadBalancerConfig (f_Network (kcp_Spec kcp)) of
        None \<Rightarrow> tcp
      | Some b \<Rightarrow> on_np (\<lambda>n.
          let n = (case lb_LoadBalancerClass b of Some c \<Rightarrow> n\<lparr>np_LoadBalancerClass := Some c\<rparr> | None \<Rightarrow> n)
          in (case lb_LoadBalancerSourceRanges b of
                Some rs \<Rightarrow> n\<lparr>np_LoadBalancerSourceRanges := Some rs\<rparr> | None \<Rightarrow> n)) tcp)"

definition mutate_deployment :: "KamajiControlPlane \<Rightarrow> TenantControlPlane \<Rightarrow> TenantControlPlane" where
  "mutate_deployment kcp =
     (let c = f_Deployment (kcp_Spec kcp)
      in on_dep (\<lambda>d. d\<lparr>td_NodeSelector := dc_NodeSelector c,
           td_RuntimeClassName := dc_RuntimeClassName c,
           td_ServiceAccountName := dc_ServiceAccountName c,
           td_AdditionalMetadata := dc_AdditionalMetadata c,
           td_PodAdditionalMetadata := dc_PodAdditionalMetadata c,
           td_Strategy := dc_Strategy c,
           td_Affinity := dc_Affinity c,
           td_Tolerations := dc_Tolerations c,
           td_TopologySpreadConstraints := dc_TopologySpreadConstraints c,
           td_AdditionalInitContainers := dc_ExtraInitContainers c,
           td_AdditionalContainers := dc_ExtraContainers c,
           td_AdditionalVolumes := dc_ExtraVolumes c\<rparr>))"

text \<open>The probes, when the deployment and all three components have some.\<close>

definition wanted_probes :: "KamajiControlPlaneSpec \<Rightarrow> ControlPlaneProbes option" where
  "wanted_probes f =
     (case dc_Probes (f_Deployment f) of
        None \<Rightarrow> None
      | Some p \<Rightarrow>
          if cpc_Probes (f_ApiServer f) = None \<or> cpc_Probes (f_ControllerManager f) = None \<or>
             cpc_Probes (f_Scheduler f) = None
          then None
          else Some \<lparr>cpp_APIServer = cpc_Probes (f_ApiServer f),
                 cpp_ControllerManager = cpc_Probes (f_ControllerManager f),
                 cpp_Scheduler = cpc_Probes (f_Scheduler f),
                 cpp_Liveness = ps_Liveness p, cpp_Readiness = ps_Readiness p, cpp_Startup = ps_Startup p\<rparr>)"

definition mutate_probes :: "KamajiControlPlane \<Rightarrow> TenantControlPlane \<Rightarrow> TenantControlPlane" where
  "mutate_probes kcp = on_dep (td_Probes_update (\<lambda>_. wanted_probes (kcp_Spec kcp)))"

subsection \<open>The whole function\<close>

text \<open>Everything before and everything after the check of the SANs.\<close>

definition mutate_before_sans ::
  "('w, 'm) lib \<Rightarrow> Cluster \<Rightarrow> KamajiControlPlane \<Rightarrow> TenantControlPlane \<Rightarrow> TenantControlPlane \<times> KamajiControlPlane" where
  "mutate_before_sans L cluster kcp tcp =
     (let tcp = mutate_metadata L kcp tcp;
          tcp = mutate_cluster_network cluster tcp;
          tcp = mutate_replicas_version kcp tcp;
          (tcp, kcp) = mutate_addons kcp tcp;
          tcp = mutate_datastore kcp tcp;
          tcp = mutate_components kcp tcp
      in (mutate_kubelet_service kcp tcp, kcp))"

definition mutate_after_sans :: "KamajiControlPlane \<Rightarrow> TenantControlPlane \<Rightarrow> TenantControlPlane" where
  "mutate_after_sans kcp tcp =
     mutate_probes kcp (mutate_deployment kcp (mutate_load_balancer kcp
       (mutate_ingress kcp (mutate_gateway kcp tcp))))"

definition mutateTenantControlPlane ::
  "('w, 'm) lib \<Rightarrow> bool \<Rightarrow> Cluster \<Rightarrow> TenantControlPlane \<Rightarrow> KamajiControlPlane \<Rightarrow>
   go_error option \<times> TenantControlPlane \<times> KamajiControlPlane" where
  "mutateTenantControlPlane L isDelegatedExternally cluster tcp kcp =
     (let (tcp, kcp) = mutate_before_sans L cluster kcp tcp
      in (case check_cert_sans (elems (nc_CertSANs (f_Network (kcp_Spec kcp)))) of
            Some e \<Rightarrow> (Some e, tcp, kcp)
          | None \<Rightarrow>
              (let tcp = mutate_after_sans kcp tcp
               in if \<not> isDelegatedExternally then
                    (case l_SetControllerReference_tcp L kcp tcp of (e, tcp) \<Rightarrow> (e, tcp, kcp))
                  else (None, tcp, kcp))))"

section \<open>createOrUpdateTenantControlPlane\<close>

text \<open>
  The closure given to \<^verbatim>\<open>RetryOnConflict\<close>. The remote name depends on the
  \<^verbatim>\<open>KamajiControlPlane\<close>, which no attempt reads again, so it is computed (or panics) once.
\<close>

definition tcp_attempt ::
  "('w, 'm) lib \<Rightarrow> 'w client \<Rightarrow> (string \<times> string) option \<Rightarrow> Cluster \<Rightarrow>
   TenantControlPlane \<times> KamajiControlPlane \<times> 'w \<Rightarrow>
   go_error option \<times> TenantControlPlane \<times> KamajiControlPlane \<times> 'w" where
  "tcp_attempt L c remoteNames cluster = (\<lambda>(tcp, kcp, w).
     (let tcp = (case remoteNames of
                   Some (n, ns) \<Rightarrow> tcp\<lparr>tcp_meta := (tcp_meta tcp)\<lparr>om_Name := n, om_Namespace := ns\<rparr>\<rparr>
                 | None \<Rightarrow> tcp)
      in c_create_or_update_tcp c (mutateTenantControlPlane L (remoteNames \<noteq> None) cluster) tcp kcp w))"

definition createOrUpdateTenantControlPlane ::
  "('w, 'm, 'c) KamajiControlPlaneReconciler \<Rightarrow> ('w, 'm) lib \<Rightarrow> 'w client option \<Rightarrow> Cluster \<Rightarrow>
   KamajiControlPlane \<Rightarrow> 'w \<Rightarrow> ((go_error + TenantControlPlane) \<times> KamajiControlPlane) outcome \<times> 'w" where
  "createOrUpdateTenantControlPlane r L remoteClient cluster kcp w =
     (let tcp = zero_tcp\<lparr>tcp_meta := zero_meta
            \<lparr>om_Name := om_Name (kcp_meta kcp), om_Namespace := om_Namespace (kcp_meta kcp)\<rparr>\<rparr>;
          run = (\<lambda>c remoteNames.
            (case l_retry_tcp L (tcp_attempt L c remoteNames cluster) (tcp, kcp, w) of
               (Some e, _, kcp, w) \<Rightarrow>
                 (Return (Inl (Wrap e ''cannot create or update TenantControlPlane''), kcp), w)
             | (None, tcp, kcp, w) \<Rightarrow> (Return (Inr tcp, kcp), w)))
      in (case remoteClient of
            None \<Rightarrow> run (r_client r) None
          | Some c \<Rightarrow>
              (case GenerateRemoteTenantControlPlaneNames kcp of
                 Panic p \<Rightarrow> (Panic p, w)
               | Return names \<Rightarrow> run c (Some names))))"

section \<open>Lemmas\<close>

lemmas mutate_group_defs = mutate_cluster_network_def mutate_replicas_version_def
  mutate_datastore_def mutate_components_def mutate_kubelet_service_def mutate_addons_def
  mutate_gateway_def mutate_ingress_def
  mutate_load_balancer_def mutate_deployment_def mutate_probes_def

subsection \<open>The check of the SANs\<close>

lemma check_cert_sans_None_iff:
  "check_cert_sans sans = None \<longleftrightarrow> (\<forall>i \<in> set sans. \<forall>h p. SplitHostPort i \<noteq> Inr (h, p))"
  by (induction sans) (auto split: sum.splits)

lemma check_cert_sans_SomeD:
  "check_cert_sans sans = Some e \<Longrightarrow> errors_Is e ErrUnsupportedCertificateSAN"
  by (induction sans) (auto split: sum.splits)

subsection \<open>Metadata\<close>

definition wanted_meta :: "('w, 'm) lib \<Rightarrow> ObjectMeta \<Rightarrow> ObjectMeta \<Rightarrow> ObjectMeta" where
  "wanted_meta L own m = tcp_meta (mutate_metadata L (zero_kcp\<lparr>kcp_meta := own\<rparr>) (zero_tcp\<lparr>tcp_meta := m\<rparr>))"

lemma mutate_metadata_eq:
  "mutate_metadata L kcp tcp = tcp\<lparr>tcp_meta := wanted_meta L (kcp_meta kcp) (tcp_meta tcp)\<rparr>"
  by (simp add: wanted_meta_def mutate_metadata_def Let_def)

lemma wanted_meta_frame [frame_simps]:
  "om_Name (wanted_meta L own m) = om_Name m"
  "om_Namespace (wanted_meta L own m) = om_Namespace m"
  "om_UID (wanted_meta L own m) = om_UID m"
  "om_Finalizers (wanted_meta L own m) = om_Finalizers m"
  "om_OwnerReferences (wanted_meta L own m) = om_OwnerReferences m"
  "om_ResourceVersion (wanted_meta L own m) = om_ResourceVersion m"
  "om_Generation (wanted_meta L own m) = om_Generation m"
  "om_DeletionTimestamp (wanted_meta L own m) = om_DeletionTimestamp m"
  "om_rest (wanted_meta L own m) = om_rest m"
  "om_Labels (wanted_meta L own m) = om_Labels own"
  by (simp_all add: wanted_meta_def mutate_metadata_def Let_def)

text \<open>A Go map holds each key once.\<close>

definition map_wf :: "'v gomap \<Rightarrow> bool" where
  "map_wf m \<longleftrightarrow> distinct (map fst (entries m))"

text \<open>
  The annotations of the result: those of the \<^verbatim>\<open>KamajiControlPlane\<close> over those the object
  already had, without the one of \<^verbatim>\<open>kubectl apply\<close>; the key of the kubeconfig is dropped
  unless the \<^verbatim>\<open>KamajiControlPlane\<close> names one.
\<close>

lemma wanted_meta_annotation:
  assumes "map_wf (om_Annotations own)" "map_wf (om_Annotations m)"
  shows "gm_get (om_Annotations (wanted_meta L own m)) k =
    (if k = k_KubeconfigSecretKeyAnnotation L then
       (if gm_str (om_Annotations own) k = '''' then None else Some (gm_str (om_Annotations own) k))
     else if k = k_LastAppliedConfigAnnotation L \<or> gm_get (om_Annotations own) k = None
     then gm_get (om_Annotations m) k
     else gm_get (om_Annotations own) k)"
  using assms
  by (auto simp: wanted_meta_def mutate_metadata_def Let_def map_wf_def gm_get_def
      map_of_copy_entries distinct_copy_entries update_conv' delete_conv' zero_kcp_def zero_tcp_def)

lemma wanted_meta_wf:
  "map_wf (om_Annotations m) \<Longrightarrow> map_wf (om_Annotations (wanted_meta L own m))"
  by (simp add: wanted_meta_def mutate_metadata_def Let_def map_wf_def distinct_copy_entries
      distinct_update distinct_delete zero_kcp_def zero_tcp_def)

end
