(* ===== verification/WantedControlPlane.thy ===== *)
theory WantedControlPlane
  imports TenantControlPlane
begin

text \<open>
  What the mutate function of \<open>TenantControlPlane\<close> computes. Its groups of assignments touch
  nine parts of the specification; a frame lemma per group says what it does to each part, and
  the closed forms of the parts after all groups follow by rewriting. From them: applying the
  function to its own result changes nothing.
\<close>

section \<open>The parts of the specification\<close>

abbreviation NP :: "TenantControlPlane \<Rightarrow> NetworkProfile" where
  "NP tcp \<equiv> tp_NetworkProfile (tcp_Spec tcp)"

abbreviation DEP :: "TenantControlPlane \<Rightarrow> TcpDeployment" where
  "DEP tcp \<equiv> tc_Deployment (tp_ControlPlane (tcp_Spec tcp))"

abbreviation SVC :: "TenantControlPlane \<Rightarrow> TcpService" where
  "SVC tcp \<equiv> tc_Service (tp_ControlPlane (tcp_Spec tcp))"

abbreviation GW :: "TenantControlPlane \<Rightarrow> GatewaySpec option" where
  "GW tcp \<equiv> tc_Gateway (tp_ControlPlane (tcp_Spec tcp))"

abbreviation IN :: "TenantControlPlane \<Rightarrow> IngressSpec option" where
  "IN tcp \<equiv> tc_Ingress (tp_ControlPlane (tcp_Spec tcp))"

abbreviation K8S :: "TenantControlPlane \<Rightarrow> TcpKubernetes" where
  "K8S tcp \<equiv> tp_Kubernetes (tcp_Spec tcp)"

abbreviation ADDONS :: "TenantControlPlane \<Rightarrow> KamajiAddonsSpec" where
  "ADDONS tcp \<equiv> tp_Addons (tcp_Spec tcp)"

definition DATA :: "TenantControlPlane \<Rightarrow> string \<times> string \<times> string \<times> DataStoreOverride slice" where
  "DATA tcp = (tp_DataStore (tcp_Spec tcp), tp_DataStoreSchema (tcp_Spec tcp),
     tp_DataStoreUsername (tcp_Spec tcp), tp_DataStoreOverrides (tcp_Spec tcp))"

text \<open>What no group touches.\<close>

definition REST :: "TenantControlPlane \<Rightarrow> ObjectMeta \<times> json \<times> TenantControlPlaneStatus" where
  "REST tcp = (tcp_meta tcp, tp_rest (tcp_Spec tcp), tcp_Status tcp)"

lemma tcp_parts_eqI:
  fixes a b :: TenantControlPlane
  assumes "NP a = NP b" "DEP a = DEP b" "SVC a = SVC b" "GW a = GW b" "IN a = IN b"
    "K8S a = K8S b" "ADDONS a = ADDONS b" "DATA a = DATA b" "REST a = REST b"
  shows "a = b"
  using assms by (simp add: DATA_def REST_def)

section \<open>What each group does to each part\<close>

definition core_dns_filled :: "KamajiControlPlane \<Rightarrow> KamajiControlPlane" where
  "core_dns_filled kcp = snd (mutate_addons kcp zero_tcp)"

lemma core_dns_filled_frame [frame_simps]:
  "kcp_meta (core_dns_filled kcp) = kcp_meta kcp"
  "f_Network (kcp_Spec (core_dns_filled kcp)) = f_Network (kcp_Spec kcp)"
  "f_Deployment (kcp_Spec (core_dns_filled kcp)) = f_Deployment (kcp_Spec kcp)"
  "f_ApiServer (kcp_Spec (core_dns_filled kcp)) = f_ApiServer (kcp_Spec kcp)"
  "f_ControllerManager (kcp_Spec (core_dns_filled kcp)) = f_ControllerManager (kcp_Spec kcp)"
  "f_Scheduler (kcp_Spec (core_dns_filled kcp)) = f_Scheduler (kcp_Spec kcp)"
  "f_Kine (kcp_Spec (core_dns_filled kcp)) = f_Kine (kcp_Spec kcp)"
  "f_Kubelet (kcp_Spec (core_dns_filled kcp)) = f_Kubelet (kcp_Spec kcp)"
  "f_DataStoreName (kcp_Spec (core_dns_filled kcp)) = f_DataStoreName (kcp_Spec kcp)"
  "f_DataStoreSchema (kcp_Spec (core_dns_filled kcp)) = f_DataStoreSchema (kcp_Spec kcp)"
  "f_DataStoreUsername (kcp_Spec (core_dns_filled kcp)) = f_DataStoreUsername (kcp_Spec kcp)"
  "f_DataStoreOverrides (kcp_Spec (core_dns_filled kcp)) = f_DataStoreOverrides (kcp_Spec kcp)"
  "f_AdmissionControllers (kcp_Spec (core_dns_filled kcp)) = f_AdmissionControllers (kcp_Spec kcp)"
  "f_ContainerRegistry (kcp_Spec (core_dns_filled kcp)) = f_ContainerRegistry (kcp_Spec kcp)"
  "s_Version (kcp_Spec (core_dns_filled kcp)) = s_Version (kcp_Spec kcp)"
  "s_Replicas (kcp_Spec (core_dns_filled kcp)) = s_Replicas (kcp_Spec kcp)"
  "kcp_Status (core_dns_filled kcp) = kcp_Status kcp"
  by (simp_all add: core_dns_filled_def mutate_addons_def Let_def split: option.split)

lemma core_dns_filled_idem [simp]: "core_dns_filled (core_dns_filled kcp) = core_dns_filled kcp"
  by (simp add: core_dns_filled_def mutate_addons_def Let_def split: option.split)

lemma snd_mutate_addons [simp]: "snd (mutate_addons kcp tcp) = core_dns_filled kcp"
  by (simp add: core_dns_filled_def mutate_addons_def Let_def split: option.split)

lemma part_on_np [simp]:
  "NP (on_np f t) = f (NP t)" "DEP (on_np f t) = DEP t" "SVC (on_np f t) = SVC t" "GW (on_np f t) = GW t"
  "IN (on_np f t) = IN t" "K8S (on_np f t) = K8S t" "ADDONS (on_np f t) = ADDONS t"
  "DATA (on_np f t) = DATA t" "REST (on_np f t) = REST t"
  by (simp_all add: on_defs DATA_def REST_def)

lemma part_on_dep [simp]:
  "NP (on_dep f t) = NP t" "DEP (on_dep f t) = f (DEP t)" "SVC (on_dep f t) = SVC t" "GW (on_dep f t) = GW t"
  "IN (on_dep f t) = IN t" "K8S (on_dep f t) = K8S t" "ADDONS (on_dep f t) = ADDONS t"
  "DATA (on_dep f t) = DATA t" "REST (on_dep f t) = REST t"
  by (simp_all add: on_defs DATA_def REST_def)

lemma part_on_svc [simp]:
  "NP (on_svc f t) = NP t" "DEP (on_svc f t) = DEP t" "SVC (on_svc f t) = f (SVC t)" "GW (on_svc f t) = GW t"
  "IN (on_svc f t) = IN t" "K8S (on_svc f t) = K8S t" "ADDONS (on_svc f t) = ADDONS t"
  "DATA (on_svc f t) = DATA t" "REST (on_svc f t) = REST t"
  by (simp_all add: on_defs DATA_def REST_def)

lemma part_on_k8s [simp]:
  "NP (on_k8s f t) = NP t" "DEP (on_k8s f t) = DEP t" "SVC (on_k8s f t) = SVC t" "GW (on_k8s f t) = GW t"
  "IN (on_k8s f t) = IN t" "K8S (on_k8s f t) = f (K8S t)" "ADDONS (on_k8s f t) = ADDONS t"
  "DATA (on_k8s f t) = DATA t" "REST (on_k8s f t) = REST t"
  by (simp_all add: on_defs DATA_def REST_def)

lemma part_on_gateway [simp]:
  fixes f :: "GatewaySpec option \<Rightarrow> GatewaySpec option" and t :: TenantControlPlane
  defines "t' \<equiv> on_cp (tc_Gateway_update f) t"
  shows "NP t' = NP t" "DEP t' = DEP t" "SVC t' = SVC t" "GW t' = f (GW t)" "IN t' = IN t"
    "K8S t' = K8S t" "ADDONS t' = ADDONS t" "DATA t' = DATA t" "REST t' = REST t"
  by (simp_all add: t'_def on_defs DATA_def REST_def)

lemma part_on_ingress [simp]:
  fixes f :: "IngressSpec option \<Rightarrow> IngressSpec option" and t :: TenantControlPlane
  defines "t' \<equiv> on_cp (tc_Ingress_update f) t"
  shows "NP t' = NP t" "DEP t' = DEP t" "SVC t' = SVC t" "GW t' = GW t" "IN t' = f (IN t)"
    "K8S t' = K8S t" "ADDONS t' = ADDONS t" "DATA t' = DATA t" "REST t' = REST t"
  by (simp_all add: t'_def on_defs DATA_def REST_def)

lemma part_on_addons [simp]:
  fixes f :: "KamajiAddonsSpec \<Rightarrow> KamajiAddonsSpec" and t :: TenantControlPlane
  defines "t' \<equiv> tcp_Spec_update (tp_Addons_update f) t"
  shows "NP t' = NP t" "DEP t' = DEP t" "SVC t' = SVC t" "GW t' = GW t" "IN t' = IN t"
    "K8S t' = K8S t" "ADDONS t' = f (ADDONS t)" "DATA t' = DATA t" "REST t' = REST t"
  by (simp_all add: t'_def DATA_def REST_def)

lemma part_mutate_datastore [simp]:
  "NP (mutate_datastore kcp t) = NP t" "SVC (mutate_datastore kcp t) = SVC t"
  "GW (mutate_datastore kcp t) = GW t" "IN (mutate_datastore kcp t) = IN t"
  "K8S (mutate_datastore kcp t) = (K8S t)\<lparr>tk_AdmissionControllers := f_AdmissionControllers (kcp_Spec kcp)\<rparr>"
  "DEP (mutate_datastore kcp t) = (DEP t)\<lparr>td_RegistrySettings :=
     (td_RegistrySettings (DEP t))\<lparr>rs_Registry := f_ContainerRegistry (kcp_Spec kcp)\<rparr>\<rparr>"
  "ADDONS (mutate_datastore kcp t) = ADDONS t" "REST (mutate_datastore kcp t) = REST t"
  by (simp_all add: mutate_datastore_def on_defs REST_def Let_def)

section \<open>The composition\<close>

text \<open>All groups but the labels and annotations.\<close>

definition mutate_spec :: "Cluster \<Rightarrow> KamajiControlPlane \<Rightarrow> TenantControlPlane \<Rightarrow> TenantControlPlane" where
  "mutate_spec cluster kcp tcp =
     mutate_after_sans (core_dns_filled kcp) (mutate_kubelet_service (core_dns_filled kcp)
       (mutate_components (core_dns_filled kcp) (mutate_datastore (core_dns_filled kcp)
          (fst (mutate_addons kcp (mutate_replicas_version kcp (mutate_cluster_network cluster tcp)))))))"

lemma mutate_before_sans_snd [simp]: "snd (mutate_before_sans L cluster kcp tcp) = core_dns_filled kcp"
  by (simp add: mutate_before_sans_def Let_def split_beta)

lemma mutate_spec_eq:
  "mutate_after_sans (core_dns_filled kcp) (fst (mutate_before_sans L cluster kcp tcp)) =
     mutate_spec cluster kcp (mutate_metadata L kcp tcp)"
  by (simp add: mutate_before_sans_def mutate_spec_def Let_def split_beta)

lemmas spec_defs = mutate_spec_def mutate_after_sans_def mutate_cluster_network_def
  mutate_replicas_version_def mutate_components_def mutate_kubelet_service_def mutate_addons_def
  mutate_gateway_def mutate_ingress_def mutate_load_balancer_def mutate_deployment_def mutate_probes_def

subsection \<open>Closed forms of the parts\<close>

lemma REST_mutate_spec [simp]: "REST (mutate_spec cluster kcp tcp) = REST tcp"
  by (simp add: spec_defs Let_def split: option.split)

lemma K8S_mutate_spec:
  "K8S (mutate_spec cluster kcp tcp) =
     \<lparr>tk_Version = (if HasPrefix (s_Version (kcp_Spec kcp)) ''v'' then s_Version (kcp_Spec kcp)
                   else ''v'' @ s_Version (kcp_Spec kcp)),
      tk_AdmissionControllers = f_AdmissionControllers (kcp_Spec kcp),
      tk_Kubelet = f_Kubelet (kcp_Spec kcp)\<rparr>"
  by (simp add: spec_defs Let_def frame_simps split: option.split)

lemma ADDONS_mutate_spec:
  "ADDONS (mutate_spec cluster kcp tcp) =
     (let a = f_Addons (kcp_Spec kcp)
      in case as_CoreDNS a of
           None \<Rightarrow> as_AddonsSpec a
         | Some d \<Rightarrow> (as_AddonsSpec a)\<lparr>kas_CoreDNS :=
             Some (case cda_AddonSpec d of None \<Rightarrow> zero_addon | Some s \<Rightarrow> s)\<rparr>)"
  by (simp add: spec_defs Let_def split: option.split)

lemma GW_mutate_spec:
  "GW (mutate_spec cluster kcp tcp) =
     map_option (\<lambda>g. \<lparr>gs_Hostname = bare_host (gc_Hostname g),
       gs_GatewayParentRefs = Some [\<lparr>pr_Name = gc_Name g, pr_Namespace = Some (gc_Namespace g),
          pr_SectionName = (if gc_SectionName g \<noteq> '''' then Some (gc_SectionName g) else None),
          pr_Port = gc_Port g\<rparr>],
       gs_AdditionalMetadata = \<lparr>am_Labels = gc_ExtraLabels g, am_Annotations = gc_ExtraAnnotations g\<rparr>\<rparr>)
     (nc_Gateway (f_Network (kcp_Spec kcp)))"
  by (simp add: spec_defs Let_def frame_simps split: option.split)

lemma IN_mutate_spec:
  "IN (mutate_spec cluster kcp tcp) =
     map_option (\<lambda>i. \<lparr>in_AdditionalMetadata = \<lparr>am_Labels = ic_ExtraLabels i, am_Annotations = ic_ExtraAnnotations i\<rparr>,
       in_IngressClassName = ic_ClassName i, in_Hostname = ic_Hostname i\<rparr>)
     (nc_Ingress (f_Network (kcp_Spec kcp)))"
  by (simp add: spec_defs Let_def frame_simps split: option.split)

lemma SVC_mutate_spec:
  "SVC (mutate_spec cluster kcp tcp) =
     (let n = f_Network (kcp_Spec kcp)
      in (SVC tcp)\<lparr>ts_ServiceType := nc_ServiceType n,
           ts_AdditionalMetadata := \<lparr>am_Labels = nc_ServiceLabels n, am_Annotations = nc_ServiceAnnotations n\<rparr>,
           ts_AdditionalPorts := nc_AdditionalServicePorts n\<rparr>)"
  by (simp add: spec_defs Let_def frame_simps split: option.split)

lemma DATA_mutate_datastore [simp]:
  "DATA (mutate_datastore kcp t) =
     (let f = kcp_Spec kcp
      in (if f_DataStoreName f = '''' then tp_DataStore (tcp_Spec t) else f_DataStoreName f,
          if f_DataStoreSchema f = '''' then tp_DataStoreSchema (tcp_Spec t) else f_DataStoreSchema f,
          if f_DataStoreUsername f = '''' then tp_DataStoreUsername (tcp_Spec t) else f_DataStoreUsername f,
          f_DataStoreOverrides f))"
  by (simp add: mutate_datastore_def on_defs DATA_def Let_def)

definition wanted_data ::
  "KamajiControlPlaneSpec \<Rightarrow> string \<times> string \<times> string \<times> DataStoreOverride slice \<Rightarrow>
   string \<times> string \<times> string \<times> DataStoreOverride slice" where
  "wanted_data f = (\<lambda>(ds, schema, user, _).
     (if f_DataStoreName f = '''' then ds else f_DataStoreName f,
      if f_DataStoreSchema f = '''' then schema else f_DataStoreSchema f,
      if f_DataStoreUsername f = '''' then user else f_DataStoreUsername f,
      f_DataStoreOverrides f))"

lemma DATA_datastore_wanted: "DATA (mutate_datastore kcp t) = wanted_data (kcp_Spec kcp) (DATA t)"
  by (simp add: wanted_data_def DATA_def [of t] Let_def)

lemma wanted_data_filled: "wanted_data (kcp_Spec (core_dns_filled kcp)) = wanted_data (kcp_Spec kcp)"
  by (intro ext) (simp add: wanted_data_def split_beta frame_simps)

lemma DATA_mutate_spec:
  "DATA (mutate_spec cluster kcp tcp) = wanted_data (kcp_Spec kcp) (DATA tcp)"
  by (simp add: spec_defs Let_def DATA_datastore_wanted wanted_data_filled
      del: DATA_mutate_datastore split: option.split)

text \<open>A value that replaces the old one only when it is there.\<close>

definition or_keep :: "'a option \<Rightarrow> 'a option \<Rightarrow> 'a option" where
  "or_keep new old = (case new of None \<Rightarrow> old | Some x \<Rightarrow> Some x)"

lemma or_keep_simps [simp]: "or_keep None old = old" "or_keep (Some x) old = Some x"
  "or_keep new (or_keep new old) = or_keep new old"
  by (simp_all add: or_keep_def split: option.split)

text \<open>The network profile; the names the certificate must cover come last.\<close>

definition wanted_sans :: "NetworkComponent \<Rightarrow> string slice" where
  "wanted_sans n =
     (let s = nc_CertSANs n;
          s = (case nc_Gateway n of None \<Rightarrow> s | Some g \<Rightarrow> Some (elems s @ [bare_host (gc_Hostname g)]))
      in case nc_Ingress n of None \<Rightarrow> s | Some i \<Rightarrow> Some (elems s @ [bare_host (ic_Hostname i)]))"

definition wanted_np :: "Cluster \<Rightarrow> KamajiControlPlane \<Rightarrow> NetworkProfile \<Rightarrow> NetworkProfile" where
  "wanted_np cluster kcp p =
     (let n = f_Network (kcp_Spec kcp); b = nc_LoadBalancerConfig n
      in p\<lparr>np_Port := (if cl_APIServerPort cluster = 0 then np_Port p else cl_APIServerPort cluster),
           np_ServiceCIDRs := (if go_len (cl_ServicesCIDRBlocks cluster) > 0
             then Some (elems (cl_ServicesCIDRBlocks cluster)) else np_ServiceCIDRs p),
           np_PodCIDRs := (if go_len (cl_PodsCIDRBlocks cluster) > 0
             then Some (elems (cl_PodsCIDRBlocks cluster)) else np_PodCIDRs p),
           np_ClusterDomain := cl_ServiceDomain cluster,
           np_DNSServiceIPs := (case as_CoreDNS (f_Addons (kcp_Spec kcp)) of
             None \<Rightarrow> nc_DNSServiceIPs n | Some d \<Rightarrow> cda_DNSServiceIPs d),
           np_Address := nc_ServiceAddress n,
           np_AdvertiseAddress := nc_AdvertiseAddress n,
           np_CertSANs := wanted_sans n,
           np_LoadBalancerClass := or_keep (Option.bind b lb_LoadBalancerClass) (np_LoadBalancerClass p),
           np_LoadBalancerSourceRanges := or_keep (Option.bind b lb_LoadBalancerSourceRanges) (np_LoadBalancerSourceRanges p)\<rparr>)"

lemma NP_mutate_addons [simp]:
  "NP (fst (mutate_addons kcp t)) = (NP t)\<lparr>np_DNSServiceIPs := (case as_CoreDNS (f_Addons (kcp_Spec kcp)) of
     None \<Rightarrow> nc_DNSServiceIPs (f_Network (kcp_Spec kcp)) | Some d \<Rightarrow> cda_DNSServiceIPs d)\<rparr>"
  by (simp add: mutate_addons_def Let_def split: option.split)

lemma NP_mutate_load_balancer [simp]:
  "NP (mutate_load_balancer kcp t) =
     (let b = nc_LoadBalancerConfig (f_Network (kcp_Spec kcp))
      in (NP t)\<lparr>np_LoadBalancerClass := or_keep (Option.bind b lb_LoadBalancerClass) (np_LoadBalancerClass (NP t)),
           np_LoadBalancerSourceRanges := or_keep (Option.bind b lb_LoadBalancerSourceRanges) (np_LoadBalancerSourceRanges (NP t))\<rparr>)"
  by (simp add: mutate_load_balancer_def Let_def split: option.split)

lemma NP_mutate_hosts [simp]:
  "NP (mutate_ingress kcp (mutate_gateway kcp t)) = (NP t)\<lparr>np_CertSANs := wanted_sans (f_Network (kcp_Spec kcp))\<rparr>"
  by (simp add: mutate_ingress_def mutate_gateway_def wanted_sans_def go_append_def Let_def
      split: option.split)

lemma go_append_empty: "go_append (Some []) xs = Some xs"
  by (simp add: go_append_def)

lemma NP_mutate_cluster_network [simp]:
  "NP (mutate_cluster_network cluster t) = (NP t)
     \<lparr>np_Port := (if cl_APIServerPort cluster = 0 then np_Port (NP t) else cl_APIServerPort cluster),
      np_ServiceCIDRs := (if go_len (cl_ServicesCIDRBlocks cluster) > 0
        then Some (elems (cl_ServicesCIDRBlocks cluster)) else np_ServiceCIDRs (NP t)),
      np_PodCIDRs := (if go_len (cl_PodsCIDRBlocks cluster) > 0
        then Some (elems (cl_PodsCIDRBlocks cluster)) else np_PodCIDRs (NP t)),
      np_ClusterDomain := cl_ServiceDomain cluster\<rparr>"
  by (simp add: mutate_cluster_network_def go_append_empty Let_def del: go_len_0_iff)

lemma NP_mutate_spec: "NP (mutate_spec cluster kcp tcp) = wanted_np cluster kcp (NP tcp)"
  by (simp add: mutate_spec_def mutate_after_sans_def mutate_replicas_version_def mutate_components_def
      mutate_kubelet_service_def mutate_deployment_def mutate_probes_def wanted_np_def Let_def frame_simps)

text \<open>The deployment.\<close>

definition wanted_dep :: "KamajiControlPlane \<Rightarrow> TcpDeployment \<Rightarrow> TcpDeployment" where
  "wanted_dep kcp d =
     (let f = kcp_Spec kcp; c = f_Deployment f;
          cm = f_ControllerManager f; sc = f_Scheduler f; as = f_ApiServer f;
          avm = (case td_AdditionalVolumeMounts d of None \<Rightarrow> '''' | Some m \<Rightarrow> avm_rest m);
          xa = (case td_ExtraArgs d of None \<Rightarrow> '''' | Some a \<Rightarrow> xa_rest a);
          res = (case td_Resources d of None \<Rightarrow> '''' | Some q \<Rightarrow> res_rest q)
      in \<lparr>td_Replicas = s_Replicas f,
          td_RegistrySettings = \<lparr>rs_Registry = f_ContainerRegistry f,
            rs_ControllerManagerImage = cpc_ContainerImageName cm,
            rs_SchedulerImage = cpc_ContainerImageName sc, rs_APIServerImage = cpc_ContainerImageName as,
            rs_rest = rs_rest (td_RegistrySettings d)\<rparr>,
          td_AdditionalVolumeMounts = Some \<lparr>avm_ControllerManager = cpc_ExtraVolumeMounts cm,
            avm_Scheduler = cpc_ExtraVolumeMounts sc, avm_APIServer = cpc_ExtraVolumeMounts as, avm_rest = avm\<rparr>,
          td_ExtraArgs = Some \<lparr>xa_ControllerManager = cpc_ExtraArgs cm, xa_Scheduler = cpc_ExtraArgs sc,
            xa_APIServer = cpc_ExtraArgs as, xa_Kine = kc_ExtraArgs (f_Kine f), xa_rest = xa\<rparr>,
          td_Resources = Some \<lparr>res_ControllerManager = Some (cpc_Resources cm),
            res_Scheduler = Some (cpc_Resources sc), res_APIServer = Some (cpc_Resources as),
            res_Kine = Some (kc_Resources (f_Kine f)), res_rest = res\<rparr>,
          td_NodeSelector = dc_NodeSelector c, td_RuntimeClassName = dc_RuntimeClassName c,
          td_ServiceAccountName = dc_ServiceAccountName c,
          td_AdditionalMetadata = dc_AdditionalMetadata c,
          td_PodAdditionalMetadata = dc_PodAdditionalMetadata c,
          td_Strategy = dc_Strategy c, td_Affinity = dc_Affinity c, td_Tolerations = dc_Tolerations c,
          td_TopologySpreadConstraints = dc_TopologySpreadConstraints c,
          td_AdditionalInitContainers = dc_ExtraInitContainers c,
          td_AdditionalContainers = dc_ExtraContainers c, td_AdditionalVolumes = dc_ExtraVolumes c,
          td_Probes = wanted_probes f, td_rest = td_rest d\<rparr>)"

lemma wanted_probes_filled [simp]: "wanted_probes (kcp_Spec (core_dns_filled kcp)) = wanted_probes (kcp_Spec kcp)"
  by (auto simp: wanted_probes_def frame_simps split: option.split)

lemma DEP_untouched [simp]:
  "DEP (mutate_cluster_network cluster t) = DEP t"
  "DEP (fst (mutate_addons kcp t)) = DEP t"
  "DEP (mutate_kubelet_service kcp t) = DEP t"
  "DEP (mutate_gateway kcp t) = DEP t"
  "DEP (mutate_ingress kcp t) = DEP t"
  "DEP (mutate_load_balancer kcp t) = DEP t"
  by (simp_all add: spec_defs Let_def split: option.split)

lemma DEP_mutate_spec: "DEP (mutate_spec cluster kcp tcp) = wanted_dep kcp (DEP tcp)"
  by (simp add: mutate_spec_def mutate_after_sans_def mutate_replicas_version_def mutate_components_def
      mutate_deployment_def mutate_probes_def wanted_dep_def Let_def frame_simps
      zero_avm_def zero_xa_def zero_res_def split: option.split)

lemmas parts_of_mutate_spec = K8S_mutate_spec ADDONS_mutate_spec GW_mutate_spec
  IN_mutate_spec SVC_mutate_spec DATA_mutate_spec NP_mutate_spec DEP_mutate_spec

subsection \<open>Applying the groups twice\<close>

lemma wanted_dep_idem: "wanted_dep kcp (wanted_dep kcp d) = wanted_dep kcp d"
  by (simp add: wanted_dep_def Let_def)

lemma wanted_dep_filled: "wanted_dep (core_dns_filled kcp) = wanted_dep kcp"
  by (intro ext) (simp add: wanted_dep_def Let_def frame_simps)

lemma wanted_np_idem: "wanted_np cluster kcp (wanted_np cluster kcp p) = wanted_np cluster kcp p"
  by (rule NetworkProfile.equality) (simp_all add: wanted_np_def Let_def del: go_len_0_iff)

lemma wanted_np_filled: "wanted_np cluster (core_dns_filled kcp) = wanted_np cluster kcp"
proof -
  have "(case as_CoreDNS (f_Addons (kcp_Spec (core_dns_filled kcp))) of
      None \<Rightarrow> nc_DNSServiceIPs n | Some d \<Rightarrow> cda_DNSServiceIPs d) =
    (case as_CoreDNS (f_Addons (kcp_Spec kcp)) of
      None \<Rightarrow> nc_DNSServiceIPs n | Some d \<Rightarrow> cda_DNSServiceIPs d)" for n :: NetworkComponent
    by (simp add: core_dns_filled_def mutate_addons_def Let_def split: option.split)
  then show ?thesis
    by (intro ext NetworkProfile.equality) (simp_all add: wanted_np_def Let_def frame_simps)
qed

lemma wanted_data_idem: "wanted_data f (wanted_data f x) = wanted_data f x"
  by (simp add: wanted_data_def split_beta)

lemma ADDONS_filled:
  "ADDONS (mutate_spec cluster (core_dns_filled kcp) t) = ADDONS (mutate_spec cluster kcp t')"
  by (simp add: ADDONS_mutate_spec)
    (simp add: core_dns_filled_def mutate_addons_def Let_def split: option.split)

lemma mutate_spec_filled: "mutate_spec cluster (core_dns_filled kcp) tcp = mutate_spec cluster kcp tcp"
proof (rule tcp_parts_eqI)
  show "ADDONS (mutate_spec cluster (core_dns_filled kcp) tcp) = ADDONS (mutate_spec cluster kcp tcp)"
    by (rule ADDONS_filled)
qed (simp_all add: K8S_mutate_spec GW_mutate_spec IN_mutate_spec SVC_mutate_spec
    DATA_mutate_spec NP_mutate_spec DEP_mutate_spec wanted_np_filled wanted_dep_filled wanted_data_filled
    frame_simps)

lemma mutate_spec_idem: "mutate_spec cluster kcp (mutate_spec cluster kcp tcp) = mutate_spec cluster kcp tcp"
  by (rule tcp_parts_eqI)
    (simp_all add: parts_of_mutate_spec wanted_np_idem wanted_dep_idem wanted_data_idem Let_def)

text \<open>The groups neither read nor write the metadata.\<close>

lemma parts_meta [simp]:
  "DATA (tcp\<lparr>tcp_meta := m\<rparr>) = DATA tcp" "REST (tcp\<lparr>tcp_meta := m\<rparr>) = (m, snd (REST tcp))"
  by (simp_all add: DATA_def REST_def)

lemma mutate_spec_meta: "mutate_spec cluster kcp (tcp\<lparr>tcp_meta := m\<rparr>) = (mutate_spec cluster kcp tcp)\<lparr>tcp_meta := m\<rparr>"
  by (rule tcp_parts_eqI)
    (simp_all add: parts_of_mutate_spec)

lemma mutate_spec_frame [simp]:
  "tcp_meta (mutate_spec cluster kcp tcp) = tcp_meta tcp"
  "tcp_Status (mutate_spec cluster kcp tcp) = tcp_Status tcp"
  "tp_rest (tcp_Spec (mutate_spec cluster kcp tcp)) = tp_rest (tcp_Spec tcp)"
  using REST_mutate_spec [of cluster kcp tcp] by (simp_all add: REST_def)

section \<open>The mutate function as a whole\<close>

lemma mutateTenantControlPlane_eq:
  "mutateTenantControlPlane L delegated cluster tcp kcp =
     (case check_cert_sans (elems (nc_CertSANs (f_Network (kcp_Spec kcp)))) of
        Some e \<Rightarrow> (Some e, fst (mutate_before_sans L cluster kcp tcp), core_dns_filled kcp)
      | None \<Rightarrow>
          (let tcp' = mutate_spec cluster kcp (mutate_metadata L kcp tcp)
           in if delegated then (None, tcp', core_dns_filled kcp)
              else (case l_SetControllerReference_tcp L (core_dns_filled kcp) tcp' of
                      (e, tcp'') \<Rightarrow> (e, tcp'', core_dns_filled kcp))))"
  by (simp add: mutateTenantControlPlane_def split_beta Let_def frame_simps mutate_spec_eq
      split: option.split)

subsection \<open>Labels and annotations, twice\<close>

lemma delete_copy_entries:
  "AList.delete x (copy_entries skip src dst) = copy_entries (\<lambda>k. skip k \<or> k = x) src (AList.delete x dst)"
  by (induction skip src dst rule: copy_entries.induct) (auto simp: delete_update delete_update_same)

lemma copy_entries_twice:
  assumes "distinct (map fst src)" "distinct (map fst dst)"
  shows "copy_entries skip src (copy_entries skip src dst) = copy_entries skip src dst"
  using assms by (intro copy_entries_absorbed) (auto simp: distinct_copy_entries map_of_copy_entries split: if_splits)

lemma wanted_meta_annotations:
  "om_Annotations (wanted_meta L own m) =
     (let a = copy_entries (\<lambda>k. k = k_LastAppliedConfigAnnotation L) (entries (om_Annotations own))
            (entries (om_Annotations m));
          x = k_KubeconfigSecretKeyAnnotation L; key = gm_str (om_Annotations own) x
      in Some (if key = '''' then AList.delete x a else AList.update x key a))"
  by (simp add: wanted_meta_def mutate_metadata_def Let_def zero_kcp_def zero_tcp_def)

lemma wanted_meta_twice:
  assumes "map_wf (om_Annotations own)" "map_wf (om_Annotations m)"
  shows "wanted_meta L own ((wanted_meta L own m)\<lparr>om_OwnerReferences := refs\<rparr>) =
    (wanted_meta L own m)\<lparr>om_OwnerReferences := refs\<rparr>"
proof -
  have "om_Annotations (wanted_meta L own ((wanted_meta L own m)\<lparr>om_OwnerReferences := refs\<rparr>)) =
      om_Annotations (wanted_meta L own m)"
  proof (cases "gm_str (om_Annotations own) (k_KubeconfigSecretKeyAnnotation L) = ''''")
    case True
    with assms show ?thesis
      by (simp add: wanted_meta_annotations Let_def map_wf_def delete_copy_entries copy_entries_twice
          distinct_delete delete_idem)
  next
    case False
    let ?own = "entries (om_Annotations own)" and ?x = "k_KubeconfigSecretKeyAnnotation L"
    let ?v = "gm_str (om_Annotations own) ?x"
    let ?a = "AList.update ?x ?v (copy_entries (\<lambda>k. k = k_LastAppliedConfigAnnotation L) ?own
        (entries (om_Annotations m)))"
    have own: "map_of ?own ?x = Some ?v"
      using False by (auto simp: gm_str_def gm_get_def split: option.splits)
    have dist: "distinct (map fst ?a)"
      using assms by (simp add: map_wf_def distinct_copy_entries distinct_update)
    have "copy_entries (\<lambda>k. k = k_LastAppliedConfigAnnotation L) ?own ?a = ?a"
      using assms own dist
      by (intro copy_entries_absorbed)
        (auto simp: map_wf_def update_conv' map_of_copy_entries split: if_splits dest: eq_key_imp_eq_value)
    moreover have "AList.update ?x ?v ?a = ?a"
      using dist by (intro update_same) (simp_all add: update_conv')
    ultimately show ?thesis
      using False by (simp add: wanted_meta_annotations Let_def)
  qed
  then show ?thesis
    by (intro ObjectMeta.equality) (simp_all add: frame_simps)
qed

subsection \<open>The whole function, twice\<close>

text \<open>
  \<^verbatim>\<open>controllerutil.SetControllerReference\<close>: only the owner references of the controlled
  object change, and an object already controlled by the owner stays as it is.
\<close>

definition SetControllerReference_doc :: "('w, 'm) lib \<Rightarrow> bool" where
  "SetControllerReference_doc L \<longleftrightarrow>
     (\<forall>kcp tcp e tcp'. l_SetControllerReference_tcp L kcp tcp = (e, tcp') \<longrightarrow>
        (\<exists>refs. tcp' = tcp\<lparr>tcp_meta := (tcp_meta tcp)\<lparr>om_OwnerReferences := refs\<rparr>\<rparr>) \<and>
        (e = None \<longrightarrow> l_SetControllerReference_tcp L kcp tcp' = (None, tcp')))"

text \<open>What a successful run leaves.\<close>

lemma mutate_ok_shape:
  assumes "SetControllerReference_doc L" "mutateTenantControlPlane L delegated cluster tcp kcp = (None, tcp', kcp')"
  obtains refs where "kcp' = core_dns_filled kcp"
    "tcp' = (mutate_spec cluster kcp tcp)\<lparr>tcp_meta :=
       (wanted_meta L (kcp_meta kcp) (tcp_meta tcp))\<lparr>om_OwnerReferences := refs\<rparr>\<rparr>"
    "check_cert_sans (elems (nc_CertSANs (f_Network (kcp_Spec kcp)))) = None"
    "delegated \<Longrightarrow> refs = om_OwnerReferences (tcp_meta tcp)"
    "\<not> delegated \<Longrightarrow> l_SetControllerReference_tcp L kcp' tcp' = (None, tcp')"
proof -
  let ?x = "mutate_spec cluster kcp (mutate_metadata L kcp tcp)"
  let ?m = "wanted_meta L (kcp_meta kcp) (tcp_meta tcp)"
  have x: "?x = (mutate_spec cluster kcp tcp)\<lparr>tcp_meta := ?m\<rparr>"
    by (simp add: mutate_metadata_eq mutate_spec_meta)
  have sans: "check_cert_sans (elems (nc_CertSANs (f_Network (kcp_Spec kcp)))) = None"
    and kcp: "kcp' = core_dns_filled kcp"
    and plain: "delegated \<Longrightarrow> tcp' = ?x"
    and owned: "\<not> delegated \<Longrightarrow> l_SetControllerReference_tcp L kcp' ?x = (None, tcp')"
    using assms(2) by (auto simp: mutateTenantControlPlane_eq Let_def split: option.splits if_splits prod.splits)
  show thesis
  proof (cases delegated)
    case True
    have "?m = ?m\<lparr>om_OwnerReferences := om_OwnerReferences (tcp_meta tcp)\<rparr>"
      by (rule ObjectMeta.equality) (simp_all add: frame_simps)
    with plain True have "tcp' = (mutate_spec cluster kcp tcp)\<lparr>tcp_meta :=
        ?m\<lparr>om_OwnerReferences := om_OwnerReferences (tcp_meta tcp)\<rparr>\<rparr>"
      by (simp add: x)
    with that [OF kcp] sans True show thesis
      by blast
  next
    case False
    with owned assms(1) obtain refs where "tcp' = ?x\<lparr>tcp_meta := (tcp_meta ?x)\<lparr>om_OwnerReferences := refs\<rparr>\<rparr>"
      and "l_SetControllerReference_tcp L kcp' tcp' = (None, tcp')"
      unfolding SetControllerReference_doc_def by blast
    with that [OF kcp _ sans, of refs] False show thesis
      by (simp add: x)
  qed
qed

lemma mutate_again:
  assumes "SetControllerReference_doc L" "map_wf (om_Annotations (kcp_meta kcp))" "map_wf (om_Annotations (tcp_meta tcp))"
    and ok: "mutateTenantControlPlane L delegated cluster tcp kcp = (None, tcp', kcp')"
    and again: "kcp'' = kcp \<or> kcp'' = kcp'"
  shows "mutateTenantControlPlane L delegated cluster tcp' kcp'' = (None, tcp', kcp')"
proof -
  from mutate_ok_shape [OF assms(1) ok] obtain refs where shape: "kcp' = core_dns_filled kcp"
    "tcp' = (mutate_spec cluster kcp tcp)\<lparr>tcp_meta :=
       (wanted_meta L (kcp_meta kcp) (tcp_meta tcp))\<lparr>om_OwnerReferences := refs\<rparr>\<rparr>"
    "check_cert_sans (elems (nc_CertSANs (f_Network (kcp_Spec kcp)))) = None"
    "\<not> delegated \<Longrightarrow> l_SetControllerReference_tcp L kcp' tcp' = (None, tcp')"
    by metis
  from again shape(1) have kcp'': "kcp_meta kcp'' = kcp_meta kcp" "core_dns_filled kcp'' = kcp'"
    "mutate_spec cluster kcp'' = mutate_spec cluster kcp"
    "f_Network (kcp_Spec kcp'') = f_Network (kcp_Spec kcp)"
    by (auto simp: frame_simps mutate_spec_filled)
  have "mutate_spec cluster kcp'' (mutate_metadata L kcp'' tcp') = tcp'"
    using assms(2,3)
    by (simp add: shape(2) mutate_metadata_eq kcp'' wanted_meta_twice mutate_spec_meta mutate_spec_idem)
  with shape(3,4) kcp'' show ?thesis
    by (simp add: mutateTenantControlPlane_eq)
qed

end
