(* ===== verification/ClusterPatch.thy ===== *)
theory ClusterPatch
  imports Reconciler
begin

text \<open>
  \<^verbatim>\<open>controllers/kamajicontrolplane_controller_cluster_patch.go\<close>: the endpoint of the
  control plane, its copy into the \<^verbatim>\<open>KamajiControlPlane\<close>, and its copy into (or comparison
  with) the infrastructure cluster, whose kind decides how.
\<close>

section \<open>The endpoint\<close>

text \<open>The hostname of the ingress, else of the gateway, else none.\<close>

definition endpoint_hostname :: "KamajiControlPlane \<Rightarrow> string" where
  "endpoint_hostname controlPlane =
     (let n = f_Network (kcp_Spec controlPlane)
      in (case nc_Ingress n of
            Some i \<Rightarrow> ic_Hostname i
          | None \<Rightarrow> (case nc_Gateway n of Some g \<Rightarrow> gc_Hostname g | None \<Rightarrow> '''')))"

definition controlPlaneEndpoint :: "KamajiControlPlane \<Rightarrow> string \<Rightarrow> go_error + string \<times> int64" where
  "controlPlaneEndpoint controlPlane statusEndpoint =
     (case SplitHostPort statusEndpoint of
        Inl err \<Rightarrow> Inl (Wrap (AddrErr err) ''cannot split the Kamaji endpoint host port pair'')
      | Inr (endpoint, strPort) \<Rightarrow>
          (case ParseInt strPort 16 of
             Inl pErr \<Rightarrow> Inl (Wrap (NumErr pErr) ''cannot convert port to integer'')
           | Inr port \<Rightarrow>
               (let hostname = endpoint_hostname controlPlane
                in if hostname \<noteq> '''' then
                     (let hostname = (if length (Split colon hostname) = 1 then hostname @ '':443'' else hostname)
                      in (case SplitHostPort hostname of
                            Inl err \<Rightarrow>
                              Inl (Wrap (AddrErr err) ''cannot split the control plane hostname into endpoint and port'')
                          | Inr (endpoint, strPort) \<Rightarrow>
                              (case ParseInt strPort 64 of
                                 Inl pErr \<Rightarrow>
                                   Inl (Wrap (NumErr pErr) ''cannot parse the control plane port into an integer'')
                               | Inr port \<Rightarrow> Inr (endpoint, port))))
                   else Inr (endpoint, port))))"

section \<open>The KamajiControlPlane\<close>

definition endpoint_attempt ::
  "'w client \<Rightarrow> string \<Rightarrow> int64 \<Rightarrow> KamajiControlPlane \<times> 'w \<Rightarrow> go_error option \<times> KamajiControlPlane \<times> 'w" where
  "endpoint_attempt c endpoint port = (\<lambda>(controlPlane, w).
     (case c_get_kcp c (ObjectKey (kcp_meta controlPlane)) controlPlane w of
        (Some scopedErr, controlPlane, w) \<Rightarrow>
          (Some (Wrap scopedErr ''cannot retrieve *v1alpha2.KamajiControlPlane''), controlPlane, w)
      | (None, controlPlane, w) \<Rightarrow>
          c_update_kcp c (controlPlane\<lparr>kcp_Spec := (kcp_Spec controlPlane)
            \<lparr>s_ControlPlaneEndpoint := \<lparr>ep_Host = endpoint, ep_Port = int32_of port\<rparr>\<rparr>\<rparr>) w))"

definition patchControlPlaneEndpoint ::
  "('w, 'm, 'c) KamajiControlPlaneReconciler \<Rightarrow> ('w, 'm) lib \<Rightarrow> string \<Rightarrow> KamajiControlPlane \<times> 'w \<Rightarrow>
   go_error option \<times> KamajiControlPlane \<times> 'w" where
  "patchControlPlaneEndpoint r L hostPort = (\<lambda>(controlPlane, w).
     (case controlPlaneEndpoint controlPlane hostPort of
        Inl err \<Rightarrow> (Some (Wrap err ''cannot retrieve ControlPlaneEndpoint''), controlPlane, w)
      | Inr (endpoint, port) \<Rightarrow>
          (case l_retry_kcp L (endpoint_attempt (r_client r) endpoint port) (controlPlane, w) of
             (Some err, s) \<Rightarrow> (Some (Wrap err ''cannot update KamajiControlPlane with ControlPlaneEndpoint''), s)
           | (None, s) \<Rightarrow> (None, s))))"

section \<open>The infrastructure cluster\<close>

definition getInfraClusterFromRef ::
  "('w, 'm, 'c) KamajiControlPlaneReconciler \<Rightarrow> ('w, 'm) lib \<Rightarrow> ContractVersionedObjectReference \<Rightarrow>
   string \<Rightarrow> 'w \<Rightarrow> (go_error + unstructured) \<times> 'w" where
  "getInfraClusterFromRef r L ref namespace w =
     (if \<not> l_IsDefined L ref then (Inl (NewError ''object reference is not defined''), w)
      else
        (case l_RESTMapping L (ref_APIGroup ref) (ref_Kind ref) w of
           (Inl err, w) \<Rightarrow>
             (Inl (Wrap err (''cannot resolve API version for '' @ ref_Kind ref @ ''.'' @ ref_APIGroup ref)), w)
         | (Inr gvk, w) \<Rightarrow>
             (case c_get_infra (r_client r) gvk \<lparr>nn_Namespace = namespace, nn_Name = ref_Name ref\<rparr> w of
                (Inl err, w) \<Rightarrow>
                  (Inl (Wrap err (''cannot retrieve '' @ ref_Kind ref @ '' '' @ namespace @ ''/'' @ ref_Name ref)), w)
              | (Inr obj, w) \<Rightarrow> (Inr obj, w))))"

text \<open>The retrieval all handlers start with.\<close>

definition infra_of ::
  "('w, 'm, 'c) KamajiControlPlaneReconciler \<Rightarrow> ('w, 'm) lib \<Rightarrow> Cluster \<Rightarrow> 'w \<Rightarrow> (go_error + unstructured) \<times> 'w" where
  "infra_of r L cluster w =
     (case getInfraClusterFromRef r L (cl_InfrastructureRef cluster) (om_Namespace (cl_meta cluster)) w of
        (Inl err, w) \<Rightarrow>
          (Inl (Wrap err (''cannot retrieve infrastructure cluster '' @ ref_Kind (cl_InfrastructureRef cluster))), w)
      | (Inr obj, w) \<Rightarrow> (Inr obj, w))"

text \<open>The assignments of \<^verbatim>\<open>patchGenericCluster\<close> to the object it has read.\<close>

definition generic_changes ::
  "('w, 'm) lib \<Rightarrow> string \<Rightarrow> int64 \<Rightarrow> bool \<Rightarrow> unstructured \<Rightarrow> go_error + unstructured" where
  "generic_changes L endpoint port patchStatus infraCluster =
     (case l_SetNestedMap L infraCluster [(''host'', JString endpoint), (''port'', JInt port)]
             [''spec'', ''controlPlaneEndpoint''] of
        (Some err, infraCluster) \<Rightarrow>
          Inl (Wrap err (''unable to set unstructured '' @ l_GetKind L infraCluster @ '' spec patch''))
      | (None, infraCluster) \<Rightarrow>
          if patchStatus then
            (case l_SetNestedField L infraCluster (JBool True) [''status'', ''ready''] of
               (Some err, infraCluster) \<Rightarrow>
                 Inl (Wrap err (''unable to set unstructured '' @ l_GetKind L infraCluster @ '' status patch''))
             | (None, infraCluster) \<Rightarrow> Inr infraCluster)
          else Inr infraCluster)"

definition patchGenericCluster ::
  "('w, 'm, 'c) KamajiControlPlaneReconciler \<Rightarrow> ('w, 'm) lib \<Rightarrow> Cluster \<Rightarrow> string \<Rightarrow> int64 \<Rightarrow> bool \<Rightarrow> 'w \<Rightarrow>
   go_error option \<times> 'w" where
  "patchGenericCluster r L cluster endpoint port patchStatus w =
     (case infra_of r L cluster w of
        (Inl err, w) \<Rightarrow> (Some err, w)
      | (Inr infraCluster, w) \<Rightarrow>
          (case l_NewHelper L infraCluster w of
             (Inl err, w) \<Rightarrow> (Some (Wrap err ''unable to create patch helper''), w)
           | (Inr before, w) \<Rightarrow>
               (case generic_changes L endpoint port patchStatus infraCluster of
                  Inl err \<Rightarrow> (Some err, w)
                | Inr infraCluster \<Rightarrow>
                    (case l_Patch L before infraCluster w of
                       (Some err, w) \<Rightarrow>
                         (Some (Wrap err (''cannot perform PATCH update for the '' @ l_GetKind L infraCluster @
                            '' resource'')), w)
                     | (None, w) \<Rightarrow> (None, w)))))"

text \<open>The comparison of \<^verbatim>\<open>checkGenericCluster\<close> on the object it has read.\<close>

definition check_endpoint :: "('w, 'm) lib \<Rightarrow> string \<Rightarrow> int64 \<Rightarrow> unstructured \<Rightarrow> go_error option" where
  "check_endpoint L endpoint port gkc =
     (case l_NestedString L gkc [''spec'', ''controlPlaneEndpoint'', ''host''] of
        Inl err \<Rightarrow> Some (Wrap err ''cannot extract control plane endpoint host'')
      | Inr cpHost \<Rightarrow>
          if cpHost = '''' then Some (NewUnmanagedControlPlaneAddressError (l_GetKind L gkc))
          else
            (case l_NestedInt64 L gkc [''spec'', ''controlPlaneEndpoint'', ''port''] of
               Inl err \<Rightarrow> Some (Wrap err ''cannot extract control plane endpoint host'')
             | Inr cpPort \<Rightarrow>
                 if length cpHost = 0 \<and> cpPort = 0 then
                   Some (NewUnmanagedControlPlaneAddressError (l_GetKind L gkc))
                 else if cpHost \<noteq> endpoint then
                   Some (NewError (''the '' @ l_GetKind L gkc @
                     '' cluster has been provisioned with a mismatching host''))
                 else if cpPort \<noteq> port then
                   Some (NewError (''the '' @ l_GetKind L gkc @
                     '' cluster has been provisioned with a mismatching port''))
                 else None))"

definition checkGenericCluster ::
  "('w, 'm, 'c) KamajiControlPlaneReconciler \<Rightarrow> ('w, 'm) lib \<Rightarrow> Cluster \<Rightarrow> string \<Rightarrow> int64 \<Rightarrow> 'w \<Rightarrow>
   go_error option \<times> 'w" where
  "checkGenericCluster r L cluster endpoint port w =
     (case infra_of r L cluster w of
        (Inl err, w) \<Rightarrow> (Some err, w)
      | (Inr gkc, w) \<Rightarrow> (check_endpoint L endpoint port gkc, w))"

definition checkOrPatchGenericCluster ::
  "('w, 'm, 'c) KamajiControlPlaneReconciler \<Rightarrow> ('w, 'm) lib \<Rightarrow> Cluster \<Rightarrow> string \<Rightarrow> int64 \<Rightarrow> 'w \<Rightarrow>
   go_error option \<times> 'w" where
  "checkOrPatchGenericCluster r L cluster endpoint port w =
     (case checkGenericCluster r L cluster endpoint port w of
        (Some err, w) \<Rightarrow>
          if errors_As_Unmanaged err then patchGenericCluster r L cluster endpoint port False w
          else (Some err, w)
      | (None, w) \<Rightarrow> (None, w))"

definition openstack_changes ::
  "('w, 'm) lib \<Rightarrow> string \<Rightarrow> int64 \<Rightarrow> unstructured \<Rightarrow> go_error + unstructured" where
  "openstack_changes L endpoint port osc =
     (case l_SetNestedField L osc (JString endpoint) [''spec'', ''apiServerFixedIP''] of
        (Some err, osc) \<Rightarrow>
          Inl (Wrap err (''unable to set unstructured '' @ l_GetKind L osc @ '' spec apiServerFixedIP''))
      | (None, osc) \<Rightarrow>
          (case l_SetNestedField L osc (JInt port) [''spec'', ''apiServerPort''] of
             (Some err, osc) \<Rightarrow>
               Inl (Wrap err (''unable to set unstructured '' @ l_GetKind L osc @ '' spec apiServerPort''))
           | (None, osc) \<Rightarrow> Inr osc))"

definition patchOpenStackCluster ::
  "('w, 'm, 'c) KamajiControlPlaneReconciler \<Rightarrow> ('w, 'm) lib \<Rightarrow> Cluster \<Rightarrow> string \<Rightarrow> int64 \<Rightarrow> 'w \<Rightarrow>
   go_error option \<times> 'w" where
  "patchOpenStackCluster r L cluster endpoint port w =
     (case infra_of r L cluster w of
        (Inl err, w) \<Rightarrow> (Some err, w)
      | (Inr osc, w) \<Rightarrow>
          (case l_NewHelper L osc w of
             (Inl err, w) \<Rightarrow> (Some (Wrap err ''unable to create patch helper''), w)
           | (Inr before, w) \<Rightarrow>
               (case openstack_changes L endpoint port osc of
                  Inl err \<Rightarrow> (Some err, w)
                | Inr osc \<Rightarrow>
                    (case l_Patch L before osc w of
                       (Some err, w) \<Rightarrow>
                         (Some (Wrap err ''cannot perform PATCH update for the OpenStackCluster resource''), w)
                     | (None, w) \<Rightarrow> (None, w)))))"

section \<open>Dispatch on the kind\<close>

datatype infra_handling = Patch | PatchWithStatus | Check | CheckOrPatch | OpenStack | Unsupported

fun handling_of :: "string set \<Rightarrow> string \<Rightarrow> infra_handling" where
  "handling_of dynamic kind =
     (if kind = ''AWSCluster'' then Patch
      else if kind = ''AzureCluster'' then Patch
      else if kind = ''HetznerCluster'' then Patch
      else if kind = ''IonosCloudCluster'' then Patch
      else if kind = ''KubevirtCluster'' then PatchWithStatus
      else if kind = ''Metal3Cluster'' then Check
      else if kind = ''MetalStackCluster'' then Check
      else if kind = ''NutanixCluster'' then PatchWithStatus
      else if kind = ''OpenStackCluster'' then OpenStack
      else if kind = ''PacketCluster'' then PatchWithStatus
      else if kind = ''ProxmoxCluster'' then CheckOrPatch
      else if kind = ''TinkerbellCluster'' then CheckOrPatch
      else if kind = ''VSphereCluster'' then CheckOrPatch
      else if kind \<in> dynamic then Patch
      else Unsupported)"

declare handling_of.simps [simp del]

definition patchCluster ::
  "('w, 'm, 'c) KamajiControlPlaneReconciler \<Rightarrow> ('w, 'm) lib \<Rightarrow> Cluster \<Rightarrow> KamajiControlPlane \<Rightarrow> string \<Rightarrow> 'w \<Rightarrow>
   go_error option \<times> 'w" where
  "patchCluster r L cluster controlPlane hostPort w =
     (if \<not> l_IsDefined L (cl_InfrastructureRef cluster) then
        (Some (NewError ''capiv1beta2.Cluster has no InfrastructureRef''), w)
      else
        (case controlPlaneEndpoint controlPlane hostPort of
           Inl err \<Rightarrow> (Some (Wrap err ''cannot retrieve ControlPlaneEndpoint''), w)
         | Inr (endpoint, port) \<Rightarrow>
             (case handling_of (r_DynamicInfrastructureClusters r) (ref_Kind (cl_InfrastructureRef cluster)) of
                Patch \<Rightarrow> patchGenericCluster r L cluster endpoint port False w
              | PatchWithStatus \<Rightarrow> patchGenericCluster r L cluster endpoint port True w
              | Check \<Rightarrow> checkGenericCluster r L cluster endpoint port w
              | CheckOrPatch \<Rightarrow> checkOrPatchGenericCluster r L cluster endpoint port w
              | OpenStack \<Rightarrow> patchOpenStackCluster r L cluster endpoint port w
              | Unsupported \<Rightarrow> (Some (NewError ''unsupported infrastructure provider''), w))))"

section \<open>Lemmas on the endpoint\<close>

lemma controlPlaneEndpoint_status:
  assumes "SplitHostPort statusEndpoint = Inr (h, s)" "ParseInt s 16 = Inr p" "endpoint_hostname kcp = ''''"
  shows "controlPlaneEndpoint kcp statusEndpoint = Inr (h, p)"
  using assms by (simp add: controlPlaneEndpoint_def)

lemma ParseInt_443: "ParseInt ''443'' 64 = Inr 443"
  by (subst ParseInt_digits) (simp_all add: is_digit_def digit_val_def)

lemma bracket_free_443: "bracket_free ''443''"
  by code_simp

lemma SplitHostPort_default_port:
  "colon \<notin> set h \<Longrightarrow> bracket_free h \<Longrightarrow> SplitHostPort (h @ '':443'') = Inr (h, ''443'')"
  using SplitHostPort_plain [of h "''443''"] bracket_free_443 by simp

lemma controlPlaneEndpoint_default_port:
  assumes "SplitHostPort statusEndpoint = Inr (h, s)" "ParseInt s 16 = Inr p"
    and "endpoint_hostname kcp = host" "host \<noteq> ''''" "colon \<notin> set host" "bracket_free host"
  shows "controlPlaneEndpoint kcp statusEndpoint = Inr (host, 443)"
proof -
  have "length (Split colon host) = 1"
    using assms(5) by (simp add: Split_length_one_iff del: One_nat_def)
  with assms show ?thesis
    by (simp add: controlPlaneEndpoint_def Let_def SplitHostPort_default_port ParseInt_443)
qed

lemma controlPlaneEndpoint_hostport:
  assumes "SplitHostPort statusEndpoint = Inr (h, s)" "ParseInt s 16 = Inr p"
    and "endpoint_hostname kcp = host" "SplitHostPort host = Inr (h', s')" "ParseInt s' 64 = Inr p'"
  shows "controlPlaneEndpoint kcp statusEndpoint = Inr (h', p')"
proof -
  have "host \<noteq> ''''" "colon \<in> set host"
    using assms(4) by (auto simp: SplitHostPort_iff)
  then have "length (Split colon host) \<noteq> 1"
    by (simp add: Split_length_one_iff del: One_nat_def)
  with assms \<open>host \<noteq> ''''\<close> show ?thesis
    by (simp add: controlPlaneEndpoint_def Let_def)
qed

lemma controlPlaneEndpoint_InrE:
  assumes "controlPlaneEndpoint kcp statusEndpoint = Inr (e, p)"
  obtains h s q where "SplitHostPort statusEndpoint = Inr (h, s)" "ParseInt s 16 = Inr q"
    "endpoint_hostname kcp = '''' \<Longrightarrow> e = h \<and> p = q"
    "endpoint_hostname kcp \<noteq> '''' \<Longrightarrow> colon \<notin> set (endpoint_hostname kcp) \<Longrightarrow>
       (endpoint_hostname kcp = e \<or> endpoint_hostname kcp = lbr # e @ [rbr]) \<and> p = 443"
    "endpoint_hostname kcp \<noteq> '''' \<Longrightarrow> colon \<in> set (endpoint_hostname kcp) \<Longrightarrow>
       \<exists>s'. SplitHostPort (endpoint_hostname kcp) = Inr (e, s') \<and> ParseInt s' 64 = Inr p"
proof -
  from assms obtain h s q where st: "SplitHostPort statusEndpoint = Inr (h, s)" "ParseInt s 16 = Inr q"
    by (auto simp: controlPlaneEndpoint_def split: sum.splits prod.splits)
  have one: "length (Split colon x) = 1 \<longleftrightarrow> colon \<notin> set x" for x
    by (rule Split_length_one_iff)
  have a: "endpoint_hostname kcp = '''' \<Longrightarrow> e = h \<and> p = q"
    using assms st by (simp add: controlPlaneEndpoint_def)
  have b: "(endpoint_hostname kcp = e \<or> endpoint_hostname kcp = lbr # e @ [rbr]) \<and> p = 443"
    if "endpoint_hostname kcp \<noteq> ''''" "colon \<notin> set (endpoint_hostname kcp)"
  proof -
    from assms st that obtain s' where s': "SplitHostPort (endpoint_hostname kcp @ '':443'') = Inr (e, s')"
      "ParseInt s' 64 = Inr p"
      by (auto simp: controlPlaneEndpoint_def Let_def one simp del: One_nat_def split: sum.splits prod.splits)
    from s'(1) that(2) have "endpoint_hostname kcp = e \<or> endpoint_hostname kcp = lbr # e @ [rbr]" "s' = ''443''"
      by (auto simp: SplitHostPort_iff append_eq_append_conv2 append_eq_Cons_conv Cons_eq_append_conv)
    with s'(2) ParseInt_443 show ?thesis
      by simp
  qed
  have c: "\<exists>s'. SplitHostPort (endpoint_hostname kcp) = Inr (e, s') \<and> ParseInt s' 64 = Inr p"
    if "endpoint_hostname kcp \<noteq> ''''" "colon \<in> set (endpoint_hostname kcp)"
    using assms st that
    by (auto simp: controlPlaneEndpoint_def Let_def one simp del: One_nat_def split: sum.splits prod.splits)
  show thesis
    by (rule that [OF st a b c])
qed

section \<open>The contract of the handlers\<close>

text \<open>
  Whatever a handler does, it does it to the infrastructure cluster it has retrieved: when the
  retrieval fails, its error is the answer and nothing else happens.
\<close>

locale infra_handler =
  fixes r :: "('w, 'm, 'c) KamajiControlPlaneReconciler" and L :: "('w, 'm) lib"
    and handle :: "Cluster \<Rightarrow> 'w \<Rightarrow> go_error option \<times> 'w"
  assumes not_retrieved: "infra_of r L cluster w = (Inl e, w1) \<Longrightarrow> handle cluster w = (Some e, w1)"
begin

lemma handled_only_if_retrieved:
  assumes "handle cluster w = (None, w')"
  obtains obj w1 where "infra_of r L cluster w = (Inr obj, w1)"
  using assms not_retrieved [of cluster w] by (cases "infra_of r L cluster w", cases "fst (infra_of r L cluster w)") auto

lemma undefined_reference:
  assumes "\<not> l_IsDefined L (cl_InfrastructureRef cluster)"
  shows "snd (handle cluster w) = w" and "fst (handle cluster w) \<noteq> None"
  using not_retrieved [of cluster w] assms by (auto simp: infra_of_def getInfraClusterFromRef_def)

end

interpretation ih_patch: infra_handler r L "\<lambda>cluster. patchGenericCluster r L cluster endpoint port st"
  for r :: "('w, 'm, 'c) KamajiControlPlaneReconciler" and L endpoint port st
  by unfold_locales (simp add: patchGenericCluster_def)

interpretation ih_check: infra_handler r L "\<lambda>cluster. checkGenericCluster r L cluster endpoint port"
  for r :: "('w, 'm, 'c) KamajiControlPlaneReconciler" and L endpoint port
  by unfold_locales (simp add: checkGenericCluster_def)

lemma infra_of_managed: "infra_of r L cluster w = (Inl e, w1) \<Longrightarrow> \<exists>d m. e = Wrap d m"
  by (auto simp: infra_of_def split: prod.splits sum.splits)

text \<open>
  For \<^verbatim>\<open>checkOrPatchGenericCluster\<close> the contract holds as long as the API machinery does not
  itself answer with the provider's own error type.
\<close>

definition foreign_errors :: "('w, 'm, 'c) KamajiControlPlaneReconciler \<Rightarrow> ('w, 'm) lib \<Rightarrow> bool" where
  "foreign_errors r L \<longleftrightarrow>
     (\<forall>g k w e w'. l_RESTMapping L g k w = (Inl e, w') \<longrightarrow> \<not> errors_As_Unmanaged e) \<and>
     (\<forall>gvk n w e w'. c_get_infra (r_client r) gvk n w = (Inl e, w') \<longrightarrow> \<not> errors_As_Unmanaged e) \<and>
     (\<forall>obj p e. l_NestedString L obj p = Inl e \<longrightarrow> \<not> errors_As_Unmanaged e) \<and>
     (\<forall>obj p e. l_NestedInt64 L obj p = Inl e \<longrightarrow> \<not> errors_As_Unmanaged e)"

lemma foreign_errorsD:
  assumes "foreign_errors r L"
  shows "l_RESTMapping L g k w = (Inl e, w') \<Longrightarrow> errors_As_Unmanaged e = False"
    and "c_get_infra (r_client r) gvk n w = (Inl e, w') \<Longrightarrow> errors_As_Unmanaged e = False"
  using assms unfolding foreign_errors_def by blast+

lemma infra_of_foreign:
  assumes "foreign_errors r L" "infra_of r L cluster w = (Inl e, w1)"
  shows "\<not> errors_As_Unmanaged e"
  using assms(2) foreign_errorsD(1,2) [OF assms(1)]
  by (auto simp: infra_of_def getInfraClusterFromRef_def split: if_splits prod.splits sum.splits)

interpretation ih_openstack: infra_handler r L "\<lambda>cluster. patchOpenStackCluster r L cluster endpoint port"
  for r :: "('w, 'm, 'c) KamajiControlPlaneReconciler" and L endpoint port
  by unfold_locales (simp add: patchOpenStackCluster_def)

section \<open>Comparison\<close>

lemma check_endpoint_None_iff:
  "check_endpoint L endpoint port obj = None \<longleftrightarrow>
     endpoint \<noteq> '''' \<and>
     l_NestedString L obj [''spec'', ''controlPlaneEndpoint'', ''host''] = Inr endpoint \<and>
     l_NestedInt64 L obj [''spec'', ''controlPlaneEndpoint'', ''port''] = Inr port"
  by (auto simp: check_endpoint_def split: sum.splits)

text \<open>The comparison says "unmanaged" exactly when the host has not been set.\<close>

lemma check_endpoint_unmanaged_iff:
  assumes "foreign_errors r L"
  shows "(\<exists>e. check_endpoint L endpoint port obj = Some e \<and> errors_As_Unmanaged e) \<longleftrightarrow>
    l_NestedString L obj [''spec'', ''controlPlaneEndpoint'', ''host''] = Inr ''''"
  using assms
  by (auto simp: check_endpoint_def foreign_errors_def NewUnmanagedControlPlaneAddressError_def
      split: sum.splits if_splits)

lemma checkGenericCluster_retrieved:
  "infra_of r L cluster w = (Inr obj, w1) \<Longrightarrow>
   checkGenericCluster r L cluster endpoint port w = (check_endpoint L endpoint port obj, w1)"
  by (simp add: checkGenericCluster_def)

lemma checkOrPatch_cases:
  assumes "foreign_errors r L" "infra_of r L cluster w = (Inr obj, w1)"
  shows "checkOrPatchGenericCluster r L cluster endpoint port w =
    (if l_NestedString L obj [''spec'', ''controlPlaneEndpoint'', ''host''] = Inr ''''
     then patchGenericCluster r L cluster endpoint port False w1
     else (check_endpoint L endpoint port obj, w1))"
  using check_endpoint_unmanaged_iff [OF assms(1), of endpoint port obj] assms(2)
  by (auto simp: checkOrPatchGenericCluster_def checkGenericCluster_retrieved split: option.splits)

section \<open>What the changes write\<close>

text \<open>The value at a path of nested objects.\<close>

fun lookup_path :: "unstructured \<Rightarrow> string list \<Rightarrow> jvalue option" where
  "lookup_path obj [] = Some (JObject obj)"
| "lookup_path obj [k] = map_of obj k"
| "lookup_path obj (k # ks) =
     (case map_of obj k of Some (JObject inner) \<Rightarrow> lookup_path inner ks | _ \<Rightarrow> None)"

text \<open>
  \<^verbatim>\<open>unstructured.SetNestedField\<close>, \<^verbatim>\<open>SetNestedMap\<close>, \<^verbatim>\<open>NestedString\<close> and
  \<^verbatim>\<open>NestedInt64\<close>: a write is found at its path and leaves the paths aside alone; a read
  returns the value of the path when its type fits.
\<close>

definition apart :: "string list \<Rightarrow> string list \<Rightarrow> bool" where
  "apart p q \<longleftrightarrow> \<not> prefix p q \<and> \<not> prefix q p"

definition unstructured_doc :: "('w, 'm) lib \<Rightarrow> bool" where
  "unstructured_doc L \<longleftrightarrow>
     (\<forall>obj m p obj'. l_SetNestedMap L obj m p = (None, obj') \<and> p \<noteq> [] \<longrightarrow>
        lookup_path obj' p = Some (JObject m) \<and> (\<forall>q. apart p q \<longrightarrow> lookup_path obj' q = lookup_path obj q)) \<and>
     (\<forall>obj v p obj'. l_SetNestedField L obj v p = (None, obj') \<and> p \<noteq> [] \<longrightarrow>
        lookup_path obj' p = Some v \<and> (\<forall>q. apart p q \<longrightarrow> lookup_path obj' q = lookup_path obj q)) \<and>
     (\<forall>obj p s. lookup_path obj p = Some (JString s) \<longrightarrow> l_NestedString L obj p = Inr s) \<and>
     (\<forall>obj p n. lookup_path obj p = Some (JInt n) \<longrightarrow> l_NestedInt64 L obj p = Inr n)"

lemma unstructured_docD:
  assumes "unstructured_doc L"
  shows "l_SetNestedMap L obj m p = (None, obj') \<Longrightarrow> p \<noteq> [] \<Longrightarrow> lookup_path obj' p = Some (JObject m)"
    and "l_SetNestedField L obj v p = (None, obj') \<Longrightarrow> p \<noteq> [] \<Longrightarrow> lookup_path obj' p = Some v"
    and "l_SetNestedMap L obj m p = (None, obj') \<Longrightarrow> p \<noteq> [] \<Longrightarrow> apart p q \<Longrightarrow> lookup_path obj' q = lookup_path obj q"
    and "l_SetNestedField L obj v p = (None, obj') \<Longrightarrow> p \<noteq> [] \<Longrightarrow> apart p q \<Longrightarrow> lookup_path obj' q = lookup_path obj q"
    and "lookup_path obj p = Some (JString s) \<Longrightarrow> l_NestedString L obj p = Inr s"
    and "lookup_path obj p = Some (JInt n) \<Longrightarrow> l_NestedInt64 L obj p = Inr n"
  using assms unfolding unstructured_doc_def by blast+

lemma lookup_path_deeper:
  "lookup_path obj p = Some (JObject m) \<Longrightarrow> lookup_path obj (p @ [k]) = map_of m k"
  by (induction obj p rule: lookup_path.induct) (auto split: option.splits jvalue.splits)

lemma generic_changes_written:
  assumes "unstructured_doc L" "generic_changes L endpoint port st obj = Inr obj'"
  shows "lookup_path obj' [''spec'', ''controlPlaneEndpoint''] =
      Some (JObject [(''host'', JString endpoint), (''port'', JInt port)])"
    and "st \<Longrightarrow> lookup_path obj' [''status'', ''ready''] = Some (JBool True)"
    and "apart [''spec'', ''controlPlaneEndpoint''] q \<Longrightarrow> apart [''status'', ''ready''] q \<Longrightarrow>
      lookup_path obj' q = lookup_path obj q"
proof -
  let ?p = "[''spec'', ''controlPlaneEndpoint'']" and ?s = "[''status'', ''ready'']"
  from assms(2) obtain o1 where o1:
      "l_SetNestedMap L obj [(''host'', JString endpoint), (''port'', JInt port)] ?p = (None, o1)"
      and o2: "if st then l_SetNestedField L o1 (JBool True) ?s = (None, obj') else obj' = o1"
    by (auto simp: generic_changes_def split: prod.splits option.splits if_splits)
  have "apart ?s ?p" "?p \<noteq> []" "?s \<noteq> []"
    by (simp_all add: apart_def)
  then show "lookup_path obj' ?p = Some (JObject [(''host'', JString endpoint), (''port'', JInt port)])"
    using unstructured_docD(1) [OF assms(1) o1] unstructured_docD(4) [OF assms(1), of o1 "JBool True" ?s obj' ?p] o2
    by (cases st) simp_all
  show "st \<Longrightarrow> lookup_path obj' ?s = Some (JBool True)"
    using o2 unstructured_docD(2) [OF assms(1), of o1 "JBool True" ?s obj'] by simp
  show "apart ?p q \<Longrightarrow> apart ?s q \<Longrightarrow> lookup_path obj' q = lookup_path obj q"
    using unstructured_docD(3) [OF assms(1) o1] unstructured_docD(4) [OF assms(1), of o1 "JBool True" ?s obj' q] o2
    by (cases st) simp_all
qed

lemma openstack_changes_written:
  assumes "unstructured_doc L" "openstack_changes L endpoint port obj = Inr obj'"
  shows "lookup_path obj' [''spec'', ''apiServerFixedIP''] = Some (JString endpoint)"
    and "lookup_path obj' [''spec'', ''apiServerPort''] = Some (JInt port)"
proof -
  let ?p = "[''spec'', ''apiServerFixedIP'']" and ?q = "[''spec'', ''apiServerPort'']"
  from assms(2) obtain o1 where o1: "l_SetNestedField L obj (JString endpoint) ?p = (None, o1)"
      and o2: "l_SetNestedField L o1 (JInt port) ?q = (None, obj')"
    by (auto simp: openstack_changes_def split: prod.splits option.splits)
  have "apart ?q ?p" "?p \<noteq> []" "?q \<noteq> []"
    by (simp_all add: apart_def)
  then show "lookup_path obj' ?p = Some (JString endpoint)" "lookup_path obj' ?q = Some (JInt port)"
    using unstructured_docD(2) [OF assms(1) o1] unstructured_docD(2) [OF assms(1) o2]
      unstructured_docD(4) [OF assms(1) o2, of ?p]
    by (simp_all del: lookup_path.simps)
qed

section \<open>Publication of the endpoint\<close>

text \<open>Where the infrastructure cluster of a kind carries the endpoint.\<close>

definition published :: "('w, 'm) lib \<Rightarrow> infra_handling \<Rightarrow> unstructured \<Rightarrow> string \<Rightarrow> int64 \<Rightarrow> bool" where
  "published L h obj endpoint port \<longleftrightarrow>
     (if h = OpenStack then
        l_NestedString L obj [''spec'', ''apiServerFixedIP''] = Inr endpoint \<and>
        l_NestedInt64 L obj [''spec'', ''apiServerPort''] = Inr port
      else
        l_NestedString L obj [''spec'', ''controlPlaneEndpoint'', ''host''] = Inr endpoint \<and>
        l_NestedInt64 L obj [''spec'', ''controlPlaneEndpoint'', ''port''] = Inr port)"

text \<open>
  Reading gives what is stored: a second read what the first gave, a read after an accepted
  patch the object that was patched. It holds as long as nobody else writes the object.
\<close>

definition read_back :: "('w, 'm, 'c) KamajiControlPlaneReconciler \<Rightarrow> ('w, 'm) lib \<Rightarrow> Cluster \<Rightarrow> bool" where
  "read_back r L cluster \<longleftrightarrow>
     (\<forall>w obj w1. infra_of r L cluster w = (Inr obj, w1) \<longrightarrow> (\<exists>w2. infra_of r L cluster w1 = (Inr obj, w2))) \<and>
     (\<forall>w obj w1 before w2 obj' w3. infra_of r L cluster w = (Inr obj, w1) \<and> l_NewHelper L obj w1 = (Inr before, w2) \<and>
        l_Patch L before obj' w2 = (None, w3) \<longrightarrow> (\<exists>w4. infra_of r L cluster w3 = (Inr obj', w4)))"

lemma read_backD:
  assumes "read_back r L cluster" "infra_of r L cluster w = (Inr obj, w1)"
  shows "\<exists>w2. infra_of r L cluster w1 = (Inr obj, w2)"
    and "l_NewHelper L obj w1 = (Inr before, w2) \<Longrightarrow> l_Patch L before obj' w2 = (None, w3) \<Longrightarrow>
      \<exists>w4. infra_of r L cluster w3 = (Inr obj', w4)"
  using assms unfolding read_back_def by blast+

lemma patchGenericCluster_None:
  assumes "patchGenericCluster r L cluster endpoint port st w = (None, w')"
  obtains obj w1 before w2 obj' where "infra_of r L cluster w = (Inr obj, w1)"
    "l_NewHelper L obj w1 = (Inr before, w2)" "generic_changes L endpoint port st obj = Inr obj'"
    "l_Patch L before obj' w2 = (None, w')"
  using assms by (auto simp: patchGenericCluster_def split: prod.splits sum.splits option.splits)

lemma patchOpenStackCluster_None:
  assumes "patchOpenStackCluster r L cluster endpoint port w = (None, w')"
  obtains obj w1 before w2 obj' where "infra_of r L cluster w = (Inr obj, w1)"
    "l_NewHelper L obj w1 = (Inr before, w2)" "openstack_changes L endpoint port obj = Inr obj'"
    "l_Patch L before obj' w2 = (None, w')"
  using assms by (auto simp: patchOpenStackCluster_def split: prod.splits sum.splits option.splits)

lemma patchGenericCluster_publishes:
  assumes "unstructured_doc L" "read_back r L cluster" "h \<noteq> OpenStack"
    and "patchGenericCluster r L cluster endpoint port st w = (None, w')"
  shows "\<exists>obj w''. infra_of r L cluster w' = (Inr obj, w'') \<and> published L h obj endpoint port"
proof -
  from assms(4) obtain obj w1 before w2 obj' where steps: "infra_of r L cluster w = (Inr obj, w1)"
    "l_NewHelper L obj w1 = (Inr before, w2)" "generic_changes L endpoint port st obj = Inr obj'"
    "l_Patch L before obj' w2 = (None, w')"
    by (rule patchGenericCluster_None)
  from read_backD(2) [OF assms(2) steps(1,2,4)] obtain w4 where w4: "infra_of r L cluster w' = (Inr obj', w4)"
    by blast
  note lookup_path_deeper [OF generic_changes_written(1) [OF assms(1) steps(3)]]
  from this [of "''host''"] this [of "''port''"] have "published L h obj' endpoint port"
    using assms(3) unstructured_docD(5,6) [OF assms(1)] by (simp add: published_def)
  with w4 show ?thesis
    by blast
qed

lemma patchOpenStackCluster_publishes:
  assumes "unstructured_doc L" "read_back r L cluster"
    and "patchOpenStackCluster r L cluster endpoint port w = (None, w')"
  shows "\<exists>obj w''. infra_of r L cluster w' = (Inr obj, w'') \<and> published L OpenStack obj endpoint port"
proof -
  from assms(3) obtain obj w1 before w2 obj' where steps: "infra_of r L cluster w = (Inr obj, w1)"
    "l_NewHelper L obj w1 = (Inr before, w2)" "openstack_changes L endpoint port obj = Inr obj'"
    "l_Patch L before obj' w2 = (None, w')"
    by (rule patchOpenStackCluster_None)
  from read_backD(2) [OF assms(2) steps(1,2,4)] obtain w4 where w4: "infra_of r L cluster w' = (Inr obj', w4)"
    by blast
  from openstack_changes_written [OF assms(1) steps(3)] have "published L OpenStack obj' endpoint port"
    using unstructured_docD(5,6) [OF assms(1)] by (simp add: published_def)
  with w4 show ?thesis
    by blast
qed

lemma checkGenericCluster_published:
  assumes "read_back r L cluster" "h \<noteq> OpenStack" "checkGenericCluster r L cluster endpoint port w = (None, w')"
  shows "\<exists>obj w''. infra_of r L cluster w' = (Inr obj, w'') \<and> published L h obj endpoint port"
proof -
  from assms(3) obtain obj where obj: "infra_of r L cluster w = (Inr obj, w')" "check_endpoint L endpoint port obj = None"
    by (auto simp: checkGenericCluster_def split: prod.splits sum.splits)
  with read_backD(1) [OF assms(1) obj(1)] assms(2) show ?thesis
    by (auto simp: published_def check_endpoint_None_iff)
qed

lemma checkOrPatch_publishes:
  assumes "unstructured_doc L" "read_back r L cluster" "h \<noteq> OpenStack"
    and "checkOrPatchGenericCluster r L cluster endpoint port w = (None, w')"
  shows "\<exists>obj w''. infra_of r L cluster w' = (Inr obj, w'') \<and> published L h obj endpoint port"
  using assms(4) checkGenericCluster_published [OF assms(2,3)] patchGenericCluster_publishes [OF assms(1-3)]
  by (auto simp: checkOrPatchGenericCluster_def split: prod.splits option.splits if_splits)

lemma patchCluster_None:
  assumes "patchCluster r L cluster kcp hostPort w = (None, w')"
  obtains endpoint port where "controlPlaneEndpoint kcp hostPort = Inr (endpoint, port)"
    "l_IsDefined L (cl_InfrastructureRef cluster)"
    "(case handling_of (r_DynamicInfrastructureClusters r) (ref_Kind (cl_InfrastructureRef cluster)) of
                Patch \<Rightarrow> patchGenericCluster r L cluster endpoint port False w
              | PatchWithStatus \<Rightarrow> patchGenericCluster r L cluster endpoint port True w
              | Check \<Rightarrow> checkGenericCluster r L cluster endpoint port w
              | CheckOrPatch \<Rightarrow> checkOrPatchGenericCluster r L cluster endpoint port w
              | OpenStack \<Rightarrow> patchOpenStackCluster r L cluster endpoint port w
              | Unsupported \<Rightarrow> (Some (NewError ''unsupported infrastructure provider''), w)) = (None, w')"
  using assms by (auto simp: patchCluster_def split: if_splits sum.splits prod.splits)

lemma patchCluster_publishes:
  assumes "unstructured_doc L" "read_back r L cluster"
    and "patchCluster r L cluster kcp hostPort w = (None, w')"
  shows "\<exists>endpoint port obj w''. controlPlaneEndpoint kcp hostPort = Inr (endpoint, port) \<and>
    infra_of r L cluster w' = (Inr obj, w'') \<and>
    published L (handling_of (r_DynamicInfrastructureClusters r) (ref_Kind (cl_InfrastructureRef cluster)))
      obj endpoint port"
proof -
  from assms(3) obtain endpoint port where ep: "controlPlaneEndpoint kcp hostPort = Inr (endpoint, port)"
    and run: "(case handling_of (r_DynamicInfrastructureClusters r) (ref_Kind (cl_InfrastructureRef cluster)) of
                Patch \<Rightarrow> patchGenericCluster r L cluster endpoint port False w
              | PatchWithStatus \<Rightarrow> patchGenericCluster r L cluster endpoint port True w
              | Check \<Rightarrow> checkGenericCluster r L cluster endpoint port w
              | CheckOrPatch \<Rightarrow> checkOrPatchGenericCluster r L cluster endpoint port w
              | OpenStack \<Rightarrow> patchOpenStackCluster r L cluster endpoint port w
              | Unsupported \<Rightarrow> (Some (NewError ''unsupported infrastructure provider''), w)) = (None, w')"
    by (rule patchCluster_None)
  from run have "\<exists>obj w''. infra_of r L cluster w' = (Inr obj, w'') \<and>
    published L (handling_of (r_DynamicInfrastructureClusters r) (ref_Kind (cl_InfrastructureRef cluster)))
      obj endpoint port"
    using patchGenericCluster_publishes [OF assms(1,2), of _ endpoint port _ w w']
      checkGenericCluster_published [OF assms(2), of _ endpoint port w w']
      checkOrPatch_publishes [OF assms(1,2), of _ endpoint port w w']
      patchOpenStackCluster_publishes [OF assms(1,2), of endpoint port w w']
    by (auto split: infra_handling.splits)
  with ep show ?thesis
    by blast
qed

end
