(* ===== verification/Resources.thy ===== *)
theory Resources
  imports Reconciler
begin

text \<open>
  \<^verbatim>\<open>controllers/kamajicontrolplane_controller_resources.go\<close>: the secrets with which the
  cluster is handed over to Cluster API, copied from the ones Kamaji writes.
\<close>

section \<open>Labels\<close>

definition capi_labels ::
  "('w, 'm) lib \<Rightarrow> Cluster \<Rightarrow> TenantControlPlane \<Rightarrow> string \<Rightarrow> string gomap \<Rightarrow> string gomap" where
  "capi_labels L cluster tcp secret labels =
     (let name = om_Name (cl_meta cluster);
          m = (case labels of None \<Rightarrow> [] | Some m \<Rightarrow> m);
          m = AList.update (k_ClusterNameLabel L) name m;
          m = AList.update ''kamaji.clastix.io/component'' ''capi'' m;
          m = AList.update ''kamaji.clastix.io/secret'' secret m;
          m = AList.update ''kamaji.clastix.io/cluster'' name m;
          m = AList.update ''kamaji.clastix.io/tcp'' (om_Name (tcp_meta tcp)) m
      in Some m)"

section \<open>Certificate authority\<close>

text \<open>
  The mutate function. The labels are those of the source, whose map the function writes to; a
  further attempt finds there what it would write.
\<close>

definition ca_mutate ::
  "('w, 'm) lib \<Rightarrow> Cluster \<Rightarrow> KamajiControlPlane \<Rightarrow> TenantControlPlane \<Rightarrow> Secret \<Rightarrow> Secret \<Rightarrow>
   go_error option \<times> Secret" where
  "ca_mutate L cluster kcp tcp kamajiCA capiCA =
     (if (case elems (om_OwnerReferences (se_meta capiCA)) of [] \<Rightarrow> False | o1 # _ \<Rightarrow> or_Kind o1 = ''TenantControlPlane'')
      then (None, capiCA)
      else
        (case gm_get (se_Data kamajiCA) ''ca.crt'' of
           None \<Rightarrow> (Some (NewError ''missing Certificate value from *kamajiv1alpha1.TenantControlPlane CA''), capiCA)
         | Some crt \<Rightarrow>
             (case gm_get (se_Data kamajiCA) ''ca.key'' of
                None \<Rightarrow> (Some (NewError ''missing Private Key value from *kamajiv1alpha1.TenantControlPlane CA''), capiCA)
              | Some key \<Rightarrow>
                  (let labels = capi_labels L cluster tcp ''ca'' (om_Labels (se_meta kamajiCA));
                       capiCA = capiCA\<lparr>se_meta := (se_meta capiCA)\<lparr>om_Labels := labels\<rparr>,
                         se_Data := Some (AList.update (k_TLSPrivateKeyKey L) key [(k_TLSCertKey L, crt)]),
                         se_Type := k_ClusterSecretType L\<rparr>
                   in l_SetControllerReference_secret L kcp capiCA))))"

definition createOrUpdateCertificateAuthority ::
  "('w, 'm, 'c) KamajiControlPlaneReconciler \<Rightarrow> ('w, 'm) lib \<Rightarrow> 'w client \<Rightarrow> Cluster \<Rightarrow> KamajiControlPlane \<Rightarrow>
   TenantControlPlane \<Rightarrow> 'w \<Rightarrow> go_error option \<times> 'w" where
  "createOrUpdateCertificateAuthority r L reader cluster kcp tcp w =
     (let capiCA = zero_secret\<lparr>se_meta := zero_meta\<lparr>om_Name := om_Name (cl_meta cluster) @ ''-ca'',
            om_Namespace := om_Namespace (cl_meta cluster)\<rparr>\<rparr>;
          source = \<lparr>nn_Namespace = om_Namespace (tcp_meta tcp), nn_Name = tst_CASecretName (tcp_Status tcp)\<rparr>;
          kamajiCA = zero_secret\<lparr>se_meta := zero_meta\<lparr>om_Name := nn_Name source, om_Namespace := nn_Namespace source\<rparr>\<rparr>
      in (case c_get_secret reader source kamajiCA w of
            (Some err, _, w) \<Rightarrow> (Some (Wrap err ''cannot retrieve source-of-truth as Certificate Authority''), w)
          | (None, kamajiCA, w) \<Rightarrow>
              (case l_retry_secret L
                      (\<lambda>(s, w). c_create_or_update_secret (r_client r) (ca_mutate L cluster kcp tcp kamajiCA) s w)
                      (capiCA, w) of
                 (Some err, _, w) \<Rightarrow> (Some (Wrap err ''cannot create or update CA secret''), w)
               | (None, _, w) \<Rightarrow> (None, w))))"

section \<open>Kubeconfig\<close>

text \<open>The key of the source secret: the annotation wins over the kind of address.\<close>

definition kubeconfig_key :: "('w, 'm) lib \<Rightarrow> KamajiControlPlane \<Rightarrow> string" where
  "kubeconfig_key L kcp =
     (let secretKey = ''admin.conf'';
          secretKey = (if nc_AdvertiseAddress (f_Network (kcp_Spec kcp)) \<noteq> '''' then ''admin.svc'' else secretKey)
      in (case gm_get (om_Annotations (kcp_meta kcp)) (k_KubeconfigSecretKeyAnnotation L) of
            Some v \<Rightarrow> if v \<noteq> '''' then v else secretKey
          | None \<Rightarrow> secretKey))"

text \<open>The map of labels, when there is one, is written before the key is looked up.\<close>

definition kubeconfig_mutate ::
  "('w, 'm) lib \<Rightarrow> Cluster \<Rightarrow> KamajiControlPlane \<Rightarrow> TenantControlPlane \<Rightarrow> Secret \<Rightarrow> Secret \<Rightarrow>
   go_error option \<times> Secret" where
  "kubeconfig_mutate L cluster kcp tcp kamajiAdminKubeconfig capi =
     (let labels = capi_labels L cluster tcp ''kubeconfig'' (om_Labels (se_meta capi));
          labelled = capi\<lparr>se_meta := (se_meta capi)\<lparr>om_Labels := labels\<rparr>\<rparr>
      in (case gm_get (se_Data kamajiAdminKubeconfig) (kubeconfig_key L kcp) of
            None \<Rightarrow>
              (Some (NewError ''missing key from *kamajiv1alpha1.TenantControlPlane admin kubeconfig secret''),
               if om_Labels (se_meta capi) = None then capi else labelled)
          | Some v \<Rightarrow>
              l_SetControllerReference_secret L kcp
                (labelled\<lparr>se_Data := Some [(''value'', v)], se_Type := k_ClusterSecretType L\<rparr>)))"

definition createOrUpdateKubeconfig ::
  "('w, 'm, 'c) KamajiControlPlaneReconciler \<Rightarrow> ('w, 'm) lib \<Rightarrow> 'w client \<Rightarrow> Cluster \<Rightarrow> KamajiControlPlane \<Rightarrow>
   TenantControlPlane \<Rightarrow> 'w \<Rightarrow> go_error option \<times> 'w" where
  "createOrUpdateKubeconfig r L reader cluster kcp tcp w =
     (let capi = zero_secret\<lparr>se_meta := zero_meta\<lparr>om_Name := om_Name (cl_meta cluster) @ ''-kubeconfig'',
            om_Namespace := om_Namespace (cl_meta cluster)\<rparr>\<rparr>;
          source = \<lparr>nn_Namespace = om_Namespace (tcp_meta tcp), nn_Name = tst_AdminSecretName (tcp_Status tcp)\<rparr>;
          kamaji = zero_secret\<lparr>se_meta := zero_meta\<lparr>om_Name := nn_Name source, om_Namespace := nn_Namespace source\<rparr>\<rparr>
      in (case c_get_secret reader source kamaji w of
            (Some err, _, w) \<Rightarrow> (Some (Wrap err ''cannot retrieve source-of-truth for admin kubeconfig''), w)
          | (None, kamaji, w) \<Rightarrow>
              (case l_retry_secret L
                      (\<lambda>(s, w). c_create_or_update_secret (r_client r) (kubeconfig_mutate L cluster kcp tcp kamaji) s w)
                      (capi, w) of
                 (Some err, _, w) \<Rightarrow> (Some (Wrap err ''cannot create or update admin Kubeconfig secret''), w)
               | (None, _, w) \<Rightarrow> (None, w))))"

section \<open>createRequiredResources\<close>

definition createRequiredResources ::
  "('w, 'm, 'c) KamajiControlPlaneReconciler \<Rightarrow> ('w, 'm) lib \<Rightarrow> 'w client option \<Rightarrow> Cluster \<Rightarrow>
   KamajiControlPlane \<Rightarrow> TenantControlPlane \<Rightarrow> 'w \<Rightarrow> go_error option \<times> 'w" where
  "createRequiredResources r L remoteClient cluster kcp tcp w =
     (if length (tst_AdminSecretName (tcp_Status tcp)) = 0 then
        (Some (Errorf ''admin kubeconfig still unprocessed by Kamaji, '' (Sentinel ErrEnqueueBack)), w)
      else
        (let reader = (case remoteClient of None \<Rightarrow> r_client r | Some c \<Rightarrow> c)
         in (case createOrUpdateKubeconfig r L reader cluster kcp tcp w of
               (Some err, w) \<Rightarrow> (Some err, w)
             | (None, w) \<Rightarrow>
                 if length (tst_CASecretName (tcp_Status tcp)) = 0 then
                   (Some (Errorf ''CA still unprocessed by Kamaji, '' (Sentinel ErrEnqueueBack)), w)
                 else
                   (case createOrUpdateCertificateAuthority r L reader cluster kcp tcp w of
                      (Some err, w) \<Rightarrow> (Some err, w)
                    | (None, w) \<Rightarrow> (None, w)))))"

section \<open>The contract of a replica\<close>

text \<open>
  Cluster API finds a secret by its name and label. Both replicas are written through a mutate
  function that either leaves the object as it is or gives it the label of the cluster, the
  type and the owner, and keeps the rest of its identity.
\<close>

definition SetControllerReference_secret_doc :: "('w, 'm) lib \<Rightarrow> bool" where
  "SetControllerReference_secret_doc L \<longleftrightarrow>
     (\<forall>kcp s e s'. l_SetControllerReference_secret L kcp s = (e, s') \<longrightarrow>
        (\<exists>refs. s' = s\<lparr>se_meta := (se_meta s)\<lparr>om_OwnerReferences := refs\<rparr>\<rparr>))"

definition ClusterNameLabel_doc :: "('w, 'm) lib \<Rightarrow> bool" where
  "ClusterNameLabel_doc L \<longleftrightarrow> k_ClusterNameLabel L = ''cluster.x-k8s.io/cluster-name''"

lemma capi_labels_cluster:
  assumes "ClusterNameLabel_doc L"
  shows "gm_get (capi_labels L cluster tcp secret labels) (k_ClusterNameLabel L) = Some (om_Name (cl_meta cluster))"
  using assms by (simp add: capi_labels_def ClusterNameLabel_doc_def gm_get_def update_conv' Let_def)

lemma capi_labels_tcp:
  "gm_get (capi_labels L cluster tcp secret labels) ''kamaji.clastix.io/tcp'' = Some (om_Name (tcp_meta tcp))"
  by (simp add: capi_labels_def gm_get_def update_conv' Let_def)

locale secret_replica =
  fixes L :: "('w, 'm) lib" and cluster :: Cluster and kcp :: KamajiControlPlane and tcp :: TenantControlPlane
    and skip :: "Secret \<Rightarrow> bool" and mutate :: "Secret \<Rightarrow> go_error option \<times> Secret"
  assumes skipped: "skip s \<Longrightarrow> mutate s = (None, s)"
    and written: "mutate s = (None, s') \<Longrightarrow> \<not> skip s \<Longrightarrow>
      \<exists>kind labels data. l_SetControllerReference_secret L kcp
        (s\<lparr>se_meta := (se_meta s)\<lparr>om_Labels := capi_labels L cluster tcp kind labels\<rparr>,
           se_Data := Some data, se_Type := k_ClusterSecretType L\<rparr>) = (None, s')"
begin

lemma replica_shape:
  assumes "SetControllerReference_secret_doc L" "ClusterNameLabel_doc L" "mutate s = (None, s')" "\<not> skip s"
  shows "om_Name (se_meta s') = om_Name (se_meta s)" "om_Namespace (se_meta s') = om_Namespace (se_meta s)"
    "se_Type s' = k_ClusterSecretType L"
    "gm_get (om_Labels (se_meta s')) (k_ClusterNameLabel L) = Some (om_Name (cl_meta cluster))"
proof -
  from written [OF assms(3,4)] obtain kind labels data s2 where
    s2: "s2 = s\<lparr>se_meta := (se_meta s)\<lparr>om_Labels := capi_labels L cluster tcp kind labels\<rparr>,
      se_Data := Some data, se_Type := k_ClusterSecretType L\<rparr>"
    and owned: "l_SetControllerReference_secret L kcp s2 = (None, s')"
    by blast
  from assms(1) owned obtain refs where "s' = s2\<lparr>se_meta := (se_meta s2)\<lparr>om_OwnerReferences := refs\<rparr>\<rparr>"
    unfolding SetControllerReference_secret_doc_def by blast
  with s2 capi_labels_cluster [OF assms(2)] show "om_Name (se_meta s') = om_Name (se_meta s)"
    "om_Namespace (se_meta s') = om_Namespace (se_meta s)" "se_Type s' = k_ClusterSecretType L"
    "gm_get (om_Labels (se_meta s')) (k_ClusterNameLabel L) = Some (om_Name (cl_meta cluster))"
    by simp_all
qed

end

definition managed_by_kamaji :: "Secret \<Rightarrow> bool" where
  "managed_by_kamaji s \<longleftrightarrow>
     (case elems (om_OwnerReferences (se_meta s)) of [] \<Rightarrow> False | o1 # _ \<Rightarrow> or_Kind o1 = ''TenantControlPlane'')"

interpretation rep_ca: secret_replica L cluster kcp tcp managed_by_kamaji "ca_mutate L cluster kcp tcp kamajiCA"
  for L :: "('w, 'm) lib" and cluster kcp tcp kamajiCA
proof
  show "managed_by_kamaji s \<Longrightarrow> ca_mutate L cluster kcp tcp kamajiCA s = (None, s)" for s
    by (simp add: ca_mutate_def managed_by_kamaji_def)
  show "\<exists>kind labels data. l_SetControllerReference_secret L kcp
        (s\<lparr>se_meta := (se_meta s)\<lparr>om_Labels := capi_labels L cluster tcp kind labels\<rparr>,
           se_Data := Some data, se_Type := k_ClusterSecretType L\<rparr>) = (None, s')"
    if "ca_mutate L cluster kcp tcp kamajiCA s = (None, s')" "\<not> managed_by_kamaji s" for s s'
    using that by (fastforce simp: ca_mutate_def managed_by_kamaji_def Let_def split: option.splits)
qed

interpretation rep_kubeconfig: secret_replica L cluster kcp tcp "\<lambda>_. False" "kubeconfig_mutate L cluster kcp tcp kamaji"
  for L :: "('w, 'm) lib" and cluster kcp tcp kamaji
proof
  show "\<exists>kind labels data. l_SetControllerReference_secret L kcp
        (s\<lparr>se_meta := (se_meta s)\<lparr>om_Labels := capi_labels L cluster tcp kind labels\<rparr>,
           se_Data := Some data, se_Type := k_ClusterSecretType L\<rparr>) = (None, s')"
    if "kubeconfig_mutate L cluster kcp tcp kamaji s = (None, s')" for s s'
    using that by (fastforce simp: kubeconfig_mutate_def Let_def split: option.splits)
qed simp_all

end
