(* ===== verification/InMemory.thy ===== *)
theory InMemory
  imports Finalizer WantedControlPlane ClusterPatch Resources
    "HOL-Library.List_Lexorder" "HOL-Library.Char_ord" "HOL-Library.Code_Target_Nat"
begin

text \<open>
  A concrete world for the parameters of the model: an API server that keeps its objects in
  lists, with no other writer and no conflicts, and reference implementations of the library
  functions. It satisfies the documented behaviour that the theorems assume, so their
  hypotheses can be met, and the witnesses evaluate the model in it.
\<close>

section \<open>The world\<close>

record mem =
  mem_kcps :: "KamajiControlPlane list"
  mem_clusters :: "Cluster list"
  mem_secrets :: "Secret list"
  mem_tcps :: "TenantControlPlane list"
  mem_infras :: "((GroupVersionKind \<times> NamespacedName) \<times> unstructured) list"
  mem_clock :: nat

definition mem_empty :: mem where
  "mem_empty = \<lparr>mem_kcps = [], mem_clusters = [], mem_secrets = [], mem_tcps = [], mem_infras = [], mem_clock = 1\<rparr>"

definition not_found :: go_error where
  "not_found = ApiError ''NotFound'' ''not found''"

definition mem_get :: "('o \<Rightarrow> ObjectMeta) \<Rightarrow> 'o list \<Rightarrow> NamespacedName \<Rightarrow> 'o option" where
  "mem_get meta objs key = find (\<lambda>x. ObjectKey (meta x) = key) objs"

definition mem_put :: "('o \<Rightarrow> ObjectMeta) \<Rightarrow> 'o \<Rightarrow> 'o list \<Rightarrow> 'o list" where
  "mem_put meta x objs = map (\<lambda>y. if ObjectKey (meta y) = ObjectKey (meta x) then x else y) objs"

definition mem_read :: "('o \<Rightarrow> ObjectMeta) \<Rightarrow> (mem \<Rightarrow> 'o list) \<Rightarrow> NamespacedName \<Rightarrow> 'o \<Rightarrow> mem \<Rightarrow> go_error option \<times> 'o \<times> mem" where
  "mem_read meta objs key old w =
     (case mem_get meta (objs w) key of None \<Rightarrow> (Some not_found, old, w) | Some x \<Rightarrow> (None, x, w))"

definition mem_update_kcp :: "KamajiControlPlane \<Rightarrow> mem \<Rightarrow> go_error option \<times> KamajiControlPlane \<times> mem" where
  "mem_update_kcp k w =
     (case mem_get kcp_meta (mem_kcps w) (ObjectKey (kcp_meta k)) of
        None \<Rightarrow> (Some not_found, k, w)
      | Some old \<Rightarrow> (let k' = k\<lparr>kcp_Status := kcp_Status old\<rparr>
                    in (None, k', w\<lparr>mem_kcps := mem_put kcp_meta k' (mem_kcps w)\<rparr>)))"

definition mem_status_update_kcp :: "KamajiControlPlane \<Rightarrow> mem \<Rightarrow> go_error option \<times> KamajiControlPlane \<times> mem" where
  "mem_status_update_kcp k w =
     (case mem_get kcp_meta (mem_kcps w) (ObjectKey (kcp_meta k)) of
        None \<Rightarrow> (Some not_found, k, w)
      | Some old \<Rightarrow> (let k' = old\<lparr>kcp_Status := kcp_Status k\<rparr>
                    in (None, k', w\<lparr>mem_kcps := mem_put kcp_meta k' (mem_kcps w)\<rparr>)))"

definition mem_list_kcp :: "string \<Rightarrow> string \<Rightarrow> mem \<Rightarrow> (go_error + KamajiControlPlane list) \<times> mem" where
  "mem_list_kcp field v w =
     (Inr (filter (\<lambda>k.
        if field = ''kamajiControlPlaneUID'' then om_UID (kcp_meta k) = v
        else (case GenerateKeyNameFromKamaji k of Return key \<Rightarrow> key = v | Panic _ \<Rightarrow> False)) (mem_kcps w)), w)"

definition mem_list_secret :: "string \<Rightarrow> string \<Rightarrow> mem \<Rightarrow> (go_error + Secret list) \<times> mem" where
  "mem_list_secret field v w = (Inr (filter (\<lambda>s. v \<in> set (GenerateKeyNameFromSecret s)) (mem_secrets w)), w)"

definition mem_delete_tcp :: "TenantControlPlane \<Rightarrow> mem \<Rightarrow> go_error option \<times> mem" where
  "mem_delete_tcp t w =
     (case mem_get tcp_meta (mem_tcps w) (ObjectKey (tcp_meta t)) of
        None \<Rightarrow> (Some not_found, w)
      | Some _ \<Rightarrow> (None, w\<lparr>mem_tcps := filter (\<lambda>x. ObjectKey (tcp_meta x) \<noteq> ObjectKey (tcp_meta t)) (mem_tcps w)\<rparr>))"

definition mem_get_infra :: "GroupVersionKind \<Rightarrow> NamespacedName \<Rightarrow> mem \<Rightarrow> (go_error + unstructured) \<times> mem" where
  "mem_get_infra gvk key w =
     (case map_of (mem_infras w) (gvk, key) of None \<Rightarrow> (Inl not_found, w) | Some obj \<Rightarrow> (Inr obj, w))"

definition mem_create_or_update_tcp ::
  "(TenantControlPlane \<Rightarrow> KamajiControlPlane \<Rightarrow> go_error option \<times> TenantControlPlane \<times> KamajiControlPlane) \<Rightarrow>
   TenantControlPlane \<Rightarrow> KamajiControlPlane \<Rightarrow> mem \<Rightarrow>
   go_error option \<times> TenantControlPlane \<times> KamajiControlPlane \<times> mem" where
  "mem_create_or_update_tcp f t k w =
     (case mem_get tcp_meta (mem_tcps w) (ObjectKey (tcp_meta t)) of
        None \<Rightarrow>
          (case f t k of
             (Some e, t', k') \<Rightarrow> (Some e, t', k', w)
           | (None, t', k') \<Rightarrow> (None, t', k', w\<lparr>mem_tcps := mem_tcps w @ [t']\<rparr>))
      | Some cur \<Rightarrow>
          (case f cur k of
             (Some e, t', k') \<Rightarrow> (Some e, t', k', w)
           | (None, t', k') \<Rightarrow>
               (None, t', k', if t' = cur then w else w\<lparr>mem_tcps := mem_put tcp_meta t' (mem_tcps w)\<rparr>)))"

definition mem_create_or_update_secret ::
  "(Secret \<Rightarrow> go_error option \<times> Secret) \<Rightarrow> Secret \<Rightarrow> mem \<Rightarrow> go_error option \<times> Secret \<times> mem" where
  "mem_create_or_update_secret f t w =
     (case mem_get se_meta (mem_secrets w) (ObjectKey (se_meta t)) of
        None \<Rightarrow>
          (case f t of
             (Some e, t') \<Rightarrow> (Some e, t', w)
           | (None, t') \<Rightarrow> (None, t', w\<lparr>mem_secrets := mem_secrets w @ [t']\<rparr>))
      | Some cur \<Rightarrow>
          (case f cur of
             (Some e, t') \<Rightarrow> (Some e, t', w)
           | (None, t') \<Rightarrow>
               (None, t', if t' = cur then w else w\<lparr>mem_secrets := mem_put se_meta t' (mem_secrets w)\<rparr>)))"

definition mem_client :: "mem client" where
  "mem_client =
     \<lparr>c_get_kcp = mem_read kcp_meta mem_kcps, c_update_kcp = mem_update_kcp,
      c_status_update_kcp = mem_status_update_kcp, c_list_kcp = mem_list_kcp,
      c_get_cluster = mem_read cl_meta mem_clusters, c_get_secret = mem_read se_meta mem_secrets,
      c_list_secret = mem_list_secret, c_get_tcp = mem_read tcp_meta mem_tcps, c_delete_tcp = mem_delete_tcp,
      c_get_infra = mem_get_infra, c_create_or_update_tcp = mem_create_or_update_tcp,
      c_create_or_update_secret = mem_create_or_update_secret\<rparr>"

section \<open>The libraries\<close>

fun mem_find_condition :: "nat \<Rightarrow> Condition list \<Rightarrow> string \<Rightarrow> nat option" where
  "mem_find_condition n [] t = None"
| "mem_find_condition n (c # cs) t = (if co_Type c = t then Some n else mem_find_condition (Suc n) cs t)"

fun mem_set_condition :: "nat \<Rightarrow> Condition \<Rightarrow> Condition list \<Rightarrow> Condition list" where
  "mem_set_condition now new [] = [new\<lparr>co_LastTransitionTime := transition_time now new None\<rparr>]"
| "mem_set_condition now new (c # cs) =
     (if co_Type c = co_Type new then new\<lparr>co_LastTransitionTime := transition_time now new (Some c)\<rparr> # cs
      else c # mem_set_condition now new cs)"

fun mem_set_path :: "unstructured \<Rightarrow> jvalue \<Rightarrow> string list \<Rightarrow> unstructured option" where
  "mem_set_path obj v [] = None"
| "mem_set_path obj v [k] = Some (AList.update k v obj)"
| "mem_set_path obj v (k # ks) =
     (case map_of obj k of
        None \<Rightarrow> map_option (\<lambda>inner. AList.update k (JObject inner) obj) (mem_set_path [] v ks)
      | Some (JObject inner) \<Rightarrow> map_option (\<lambda>inner. AList.update k (JObject inner) obj) (mem_set_path inner v ks)
      | Some _ \<Rightarrow> None)"

definition mem_set_nested :: "unstructured \<Rightarrow> jvalue \<Rightarrow> string list \<Rightarrow> go_error option \<times> unstructured" where
  "mem_set_nested obj v p =
     (case mem_set_path obj v p of
        None \<Rightarrow> (Some (NewError ''value cannot be set because it is not a map''), obj)
      | Some obj' \<Rightarrow> (None, obj'))"

definition mem_own :: "KamajiControlPlane \<Rightarrow> ObjectMeta \<Rightarrow> ObjectMeta" where
  "mem_own kcp m =
     (if \<exists>o1 \<in> set (elems (om_OwnerReferences m)). or_UID o1 = om_UID (kcp_meta kcp) then m
      else m\<lparr>om_OwnerReferences := Some (elems (om_OwnerReferences m) @
        [\<lparr>or_Kind = ''KamajiControlPlane'', or_Name = om_Name (kcp_meta kcp), or_UID = om_UID (kcp_meta kcp),
          or_rest = ''controller''\<rparr>])\<rparr>)"

definition mem_lib :: "(mem, nat) lib" where
  "mem_lib =
     \<lparr>l_retry_kcp = (\<lambda>fn s. fn s), l_retry_tcp = (\<lambda>fn s. fn s), l_retry_secret = (\<lambda>fn s. fn s),
      l_IsNotFound = (\<lambda>e. case e of ApiError reason _ \<Rightarrow> reason = ''NotFound'' | _ \<Rightarrow> False),
      l_now = mem_clock, l_quote = (\<lambda>s. s),
      l_FindStatusCondition = (\<lambda>cs t. mem_find_condition 0 (elems cs) t),
      l_SetStatusCondition = (\<lambda>now c cs. Some (mem_set_condition now c (elems cs))),
      l_RemoveStatusCondition = (\<lambda>t cs. Some (filter (\<lambda>c. co_Type c \<noteq> t) (elems cs))),
      l_UnsortedList = sorted_list_of_set,
      l_IsPaused = (\<lambda>cl k. gm_get (om_Annotations (kcp_meta k)) ''cluster.x-k8s.io/paused'' \<noteq> None),
      l_IsDefined = (\<lambda>ref. ref_Kind ref \<noteq> '''' \<and> ref_Name ref \<noteq> ''''),
      l_RESTMapping = (\<lambda>g k w. (Inr \<lparr>gvk_Group = g, gvk_Version = ''v1beta1'', gvk_Kind = k\<rparr>, w)),
      l_SetControllerReference_tcp = (\<lambda>kcp t. (None, t\<lparr>tcp_meta := mem_own kcp (tcp_meta t)\<rparr>)),
      l_SetControllerReference_secret = (\<lambda>kcp s. (None, s\<lparr>se_meta := mem_own kcp (se_meta s)\<rparr>)),
      l_GetKind = (\<lambda>obj. case map_of obj ''kind'' of Some (JString k) \<Rightarrow> k | _ \<Rightarrow> ''''),
      l_SetNestedMap = (\<lambda>obj m p. mem_set_nested obj (JObject m) p),
      l_SetNestedField = mem_set_nested,
      l_NestedString = (\<lambda>obj p. case lookup_path obj p of
         None \<Rightarrow> Inr '''' | Some (JString s) \<Rightarrow> Inr s | Some _ \<Rightarrow> Inl (NewError ''not a string'')),
      l_NestedInt64 = (\<lambda>obj p. case lookup_path obj p of
         None \<Rightarrow> Inr 0 | Some (JInt n) \<Rightarrow> Inr n | Some _ \<Rightarrow> Inl (NewError ''not an int64'')),
      l_NewHelper = (\<lambda>obj w. (Inr obj, w)),
      l_Patch = (\<lambda>before obj w. (None, w\<lparr>mem_infras := map (\<lambda>(k, x). (k, if x = before then obj else x)) (mem_infras w)\<rparr>)),
      l_mgr_KindFor = (\<lambda>m r w. (None, w)), l_mgr_client = (\<lambda>m. mem_client),
      k_KubeconfigSecretKeyAnnotation = ''kamaji.clastix.io/kubeconfig-secret-key'',
      k_LastAppliedConfigAnnotation = ''kubectl.kubernetes.io/last-applied-configuration'',
      k_ClusterNameLabel = ''cluster.x-k8s.io/cluster-name'', k_ClusterSecretType = ''cluster.x-k8s.io/secret'',
      k_TLSCertKey = ''tls.crt'', k_TLSPrivateKeyKey = ''tls.key'',
      k_VersionReady = ''Ready'', k_VersionUpgrading = ''Upgrading''\<rparr>"

section \<open>The documented behaviour holds\<close>

lemma mem_retry_doc: "RetryOnConflict_doc (\<lambda>fn s. fn s)"
  unfolding RetryOnConflict_doc_def by (blast intro: retried_start)

lemma mem_find_condition_Some:
  "mem_find_condition n cs t = Some i \<Longrightarrow>
   n \<le> i \<and> i - n < length cs \<and> find (\<lambda>c. co_Type c = t) cs = Some (cs ! (i - n))"
proof (induction n cs t rule: mem_find_condition.induct)
  case (2 n c cs t)
  show ?case
  proof (cases "co_Type c = t")
    case False
    with 2 have "Suc n \<le> i \<and> i - Suc n < length cs \<and> find (\<lambda>c. co_Type c = t) cs = Some (cs ! (i - Suc n))"
      by simp
    moreover from this have "i - n = Suc (i - Suc n)"
      by linarith
    ultimately show ?thesis
      using False by simp
  qed (use 2 in simp)
qed simp

lemma mem_find_condition_None: "mem_find_condition n cs t = None \<Longrightarrow> find (\<lambda>c. co_Type c = t) cs = None"
  by (induction n cs t rule: mem_find_condition.induct) (auto split: if_splits)

lemma mem_find_doc: "FindStatusCondition_doc mem_lib"
  unfolding FindStatusCondition_doc_def
  by (auto simp: mem_lib_def cond_of_def split: option.split
      dest: mem_find_condition_None mem_find_condition_Some)

lemma mem_set_find:
  "find (\<lambda>d. co_Type d = t) (mem_set_condition now c cs) =
     (if t = co_Type c
      then Some (c\<lparr>co_LastTransitionTime := transition_time now c (find (\<lambda>d. co_Type d = t) cs)\<rparr>)
      else find (\<lambda>d. co_Type d = t) cs)"
  by (induction now c cs rule: mem_set_condition.induct) auto

lemma mem_set_types:
  "co_Type ` set (mem_set_condition now c cs) = insert (co_Type c) (co_Type ` set cs)"
  by (induction now c cs rule: mem_set_condition.induct) auto

lemma mem_set_distinct:
  "distinct (map co_Type cs) \<Longrightarrow> distinct (map co_Type (mem_set_condition now c cs))"
proof (induction now c cs rule: mem_set_condition.induct)
  case (2 now new c cs)
  then show ?case
    by (cases "co_Type c = co_Type new") (simp_all add: mem_set_types)
qed simp

lemma mem_set_doc: "SetStatusCondition_doc mem_lib"
  by (simp add: SetStatusCondition_doc_def mem_lib_def cond_of_def mem_set_find distinct_types_def mem_set_distinct)

lemma mem_remove_doc: "RemoveStatusCondition_doc mem_lib"
proof -
  have "find (\<lambda>c. co_Type c = u) (filter (\<lambda>c. co_Type c \<noteq> t) cs) =
      (if u = t then None else find (\<lambda>c. co_Type c = u) cs)" for u t and cs :: "Condition list"
    by (induction cs) auto
  then show ?thesis
    by (auto simp: RemoveStatusCondition_doc_def mem_lib_def cond_of_def distinct_types_def
        intro: distinct_map_filter)
qed

lemma mem_conditions_doc: "conditions_doc mem_lib"
  by (simp add: conditions_doc_def mem_find_doc mem_set_doc mem_remove_doc)

lemma mem_UnsortedList_doc: "UnsortedList_doc mem_lib"
  by (simp add: UnsortedList_doc_def mem_lib_def)

lemma mem_own_twice: "mem_own kcp (mem_own kcp m) = mem_own kcp m"
  by (auto simp: mem_own_def)

lemma mem_own_refs: "\<exists>refs. mem_own kcp m = m\<lparr>om_OwnerReferences := refs\<rparr>"
proof (cases "\<exists>o1 \<in> set (elems (om_OwnerReferences m)). or_UID o1 = om_UID (kcp_meta kcp)")
  case True
  then have "mem_own kcp m = m\<lparr>om_OwnerReferences := om_OwnerReferences m\<rparr>"
    by (simp add: mem_own_def)
  then show ?thesis by blast
next
  case False
  then show ?thesis
    by (auto simp: mem_own_def)
qed

lemma mem_owner_doc: "SetControllerReference_doc mem_lib"
proof -
  have "\<exists>refs. t\<lparr>tcp_meta := mem_own kcp (tcp_meta t)\<rparr> = t\<lparr>tcp_meta := (tcp_meta t)\<lparr>om_OwnerReferences := refs\<rparr>\<rparr>" for kcp and t :: TenantControlPlane
    using mem_own_refs [of kcp "tcp_meta t"] by auto
  then show ?thesis
    by (simp add: SetControllerReference_doc_def mem_lib_def mem_own_twice)
qed

lemma mem_owner_secret_doc: "SetControllerReference_secret_doc mem_lib"
proof -
  have "\<exists>refs. s\<lparr>se_meta := mem_own kcp (se_meta s)\<rparr> = s\<lparr>se_meta := (se_meta s)\<lparr>om_OwnerReferences := refs\<rparr>\<rparr>" for kcp and s :: Secret
    using mem_own_refs [of kcp "se_meta s"] by auto
  then show ?thesis
    by (simp add: SetControllerReference_secret_doc_def mem_lib_def)
qed

lemma mem_label_doc: "ClusterNameLabel_doc mem_lib"
  by (simp add: ClusterNameLabel_doc_def mem_lib_def)

text \<open>Paths: a write is found where it was made, and paths aside keep their value.\<close>

lemma lookup_path_Cons:
  "ks \<noteq> [] \<Longrightarrow> lookup_path obj (k # ks) =
     (case map_of obj k of Some (JObject inner) \<Rightarrow> lookup_path inner ks | _ \<Rightarrow> None)"
  by (cases ks) (auto split: option.split jvalue.split)

lemma mem_set_path_found: "mem_set_path obj v p = Some obj' \<Longrightarrow> lookup_path obj' p = Some v"
  by (induction obj v p arbitrary: obj' rule: mem_set_path.induct)
    (auto simp: update_conv' split: option.splits jvalue.splits)

lemma apart_Cons: "apart (k # p) (l # q) \<longleftrightarrow> k \<noteq> l \<or> apart p q"
  by (auto simp: apart_def)

lemma lookup_path_update_other: "k \<noteq> l \<Longrightarrow> lookup_path (AList.update k v obj) (l # q) = lookup_path obj (l # q)"
  by (cases q) (simp_all add: update_conv')

lemma lookup_path_empty: "q \<noteq> [] \<Longrightarrow> lookup_path [] q = None"
  by (cases "([] :: unstructured, q)" rule: lookup_path.cases) auto

lemma apart_not_Nil: "apart p q \<Longrightarrow> q \<noteq> []"
  by (auto simp: apart_def)

lemma mem_set_path_apart:
  "mem_set_path obj v p = Some obj' \<Longrightarrow> apart p q \<Longrightarrow> lookup_path obj' q = lookup_path obj q"
proof (induction obj v p arbitrary: obj' q rule: mem_set_path.induct)
  case (2 obj v k)
  then obtain l q' where q: "q = l # q'"
    by (cases q) (auto simp: apart_def)
  with 2(2) have "k \<noteq> l"
    by (auto simp: apart_def)
  with 2(1) q show ?case
    using lookup_path_update_other by auto
next
  case (3 obj v k k' ks)
  obtain l q' where q: "q = l # q'"
    using 3(4) by (cases q) (auto simp: apart_def)
  show ?case
  proof (cases "k = l")
    case False
    with 3(3) q show ?thesis
      using lookup_path_update_other by (auto split: option.splits jvalue.splits)
  next
    case True
    with 3(4) q have apart: "apart (k' # ks) q'"
      by (simp add: apart_Cons)
    note q' = apart_not_Nil [OF apart]
    consider inner where "map_of obj k = None" "mem_set_path [] v (k' # ks) = Some inner" "obj' = AList.update k (JObject inner) obj"
      | inner inner' where "map_of obj k = Some (JObject inner)" "mem_set_path inner v (k' # ks) = Some inner'"
          "obj' = AList.update k (JObject inner') obj"
      using 3(3) by (auto split: option.splits jvalue.splits)
    then show ?thesis
    proof cases
      case 1
      with 3(1) [OF 1(1,2) apart] True q q' show ?thesis
        by (simp add: lookup_path_Cons update_conv' lookup_path_empty)
    next
      case 2
      with 3(2) [OF 2(1) refl 2(2) apart] True q q' show ?thesis
        by (simp add: lookup_path_Cons update_conv')
    qed
  qed
qed simp

lemma mem_set_nested_None: "mem_set_nested obj v p = (None, obj') \<longleftrightarrow> mem_set_path obj v p = Some obj'"
  by (auto simp: mem_set_nested_def split: option.splits)

lemma mem_unstructured_doc: "unstructured_doc mem_lib"
  unfolding unstructured_doc_def
  by (auto simp: mem_lib_def mem_set_nested_None mem_set_path_found mem_set_path_apart)

section \<open>A reconciler in this world\<close>

definition mem_reconciler :: "string list \<Rightarrow> string list \<Rightarrow> (mem, nat, nat) KamajiControlPlaneReconciler" where
  "mem_reconciler gates dynamic =
     \<lparr>r_ExternalClusterReferenceStore = NewStore, r_FeatureGates = (\<lambda>g. g \<in> set gates),
      r_MaxConcurrentReconciles = 1, r_DynamicInfrastructureClusters = set dynamic, r_client = mem_client\<rparr>"

lemma mem_infra_world: "infra_of (mem_reconciler gates dynamic) mem_lib cluster w = (res, w') \<Longrightarrow> w' = w"
  by (auto simp: infra_of_def getInfraClusterFromRef_def mem_reconciler_def mem_client_def mem_lib_def mem_get_infra_def
      split: if_splits prod.splits sum.splits option.splits)

lemma mem_infra_of:
  "infra_of (mem_reconciler gates dynamic) mem_lib cluster w = (Inr obj, w) \<longleftrightarrow>
     (let ref = cl_InfrastructureRef cluster
      in ref_Kind ref \<noteq> '''' \<and> ref_Name ref \<noteq> '''' \<and>
         map_of (mem_infras w) (\<lparr>gvk_Group = ref_APIGroup ref, gvk_Version = ''v1beta1'', gvk_Kind = ref_Kind ref\<rparr>,
           \<lparr>nn_Namespace = om_Namespace (cl_meta cluster), nn_Name = ref_Name ref\<rparr>) = Some obj)"
  by (auto simp: infra_of_def getInfraClusterFromRef_def mem_reconciler_def mem_client_def mem_lib_def mem_get_infra_def
      Let_def split: if_splits prod.splits sum.splits option.splits)

lemma map_of_replaced:
  "map_of xs k = Some x \<Longrightarrow> map_of (map (\<lambda>(k, y). (k, if y = x then z else y)) xs) k = Some z"
  by (induction xs) auto

lemma mem_read_back: "read_back (mem_reconciler gates dynamic) mem_lib cluster"
  unfolding read_back_def
proof (intro conjI allI impI)
  let ?r = "mem_reconciler gates dynamic"
  show "\<exists>w2. infra_of ?r mem_lib cluster w1 = (Inr obj, w2)" if "infra_of ?r mem_lib cluster w = (Inr obj, w1)" for w obj w1
    using that mem_infra_world [OF that] by blast
  show "\<exists>w4. infra_of ?r mem_lib cluster w3 = (Inr obj', w4)"
    if a: "infra_of ?r mem_lib cluster w = (Inr obj, w1) \<and> l_NewHelper mem_lib obj w1 = (Inr before, w2) \<and>
      l_Patch mem_lib before obj' w2 = (None, w3)" for w obj w1 before w2 obj' w3
  proof -
    from a have w1: "w1 = w"
      using mem_infra_world by blast
    from a w1 have b: "before = obj" "w3 = w\<lparr>mem_infras := map (\<lambda>(k, x). (k, if x = obj then obj' else x)) (mem_infras w)\<rparr>"
      by (auto simp: mem_lib_def)
    from a w1 have "infra_of ?r mem_lib cluster w = (Inr obj, w)"
      by simp
    then have "infra_of ?r mem_lib cluster w3 = (Inr obj', w3)"
      by (simp add: mem_infra_of Let_def b map_of_replaced)
    then show ?thesis by blast
  qed
qed

lemma mem_foreign_errors: "foreign_errors (mem_reconciler gates dynamic) mem_lib"
  by (auto simp: foreign_errors_def mem_reconciler_def mem_client_def mem_lib_def mem_get_infra_def not_found_def
      split: option.splits jvalue.splits)

lemmas mem_doc = mem_retry_doc mem_conditions_doc mem_UnsortedList_doc mem_owner_doc mem_owner_secret_doc
  mem_label_doc mem_unstructured_doc mem_read_back mem_foreign_errors

lemma mem_retries [simp]:
  "l_retry_kcp mem_lib = (\<lambda>fn s. fn s)" "l_retry_tcp mem_lib = (\<lambda>fn s. fn s)" "l_retry_secret mem_lib = (\<lambda>fn s. fn s)"
  by (simp_all add: mem_lib_def)

end
