(* ===== verification/ControlPlaneProperties.thy ===== *)
theory ControlPlaneProperties
  imports InMemory
begin

text \<open>
  Properties of the tenant control plane the provider asks for: what a run of the mutate
  function leaves, that running it again changes nothing, and that an object that is already as
  wanted is not written again.
\<close>

section \<open>Objects of the witnesses\<close>

definition sample_meta :: "string \<Rightarrow> ObjectMeta" where
  "sample_meta n = zero_meta\<lparr>om_Name := n, om_Namespace := ''ns'', om_UID := ''u-'' @ n\<rparr>"

definition sample_network :: NetworkComponent where
  "sample_network = (f_Network (kcp_Spec zero_kcp))
     \<lparr>nc_CertSANs := Some [''a.io''],
      nc_Ingress := Some \<lparr>ic_ClassName = ''nginx'', ic_Hostname = ''cp.io:6443'', ic_ExtraLabels = None,
        ic_ExtraAnnotations = None\<rparr>\<rparr>"

definition sample_kcp :: KamajiControlPlane where
  "sample_kcp = zero_kcp\<lparr>kcp_meta := sample_meta ''k'',
     kcp_Spec := (kcp_Spec zero_kcp)\<lparr>f_Network := sample_network, s_Version := ''1.30.0''\<rparr>\<rparr>"

lemma sample_sans: "check_cert_sans (elems (nc_CertSANs (f_Network (kcp_Spec sample_kcp)))) = None"
  by code_simp

lemma sample_wf: "map_wf (om_Annotations (kcp_meta sample_kcp))" "map_wf (om_Annotations (tcp_meta zero_tcp))"
  by code_simp+

text \<open>The mutate function succeeds on the sample object.\<close>

lemma sample_mutate_ok:
  "fst (mutateTenantControlPlane mem_lib delegated zero_cluster zero_tcp sample_kcp) = None"
  by (simp add: mutateTenantControlPlane_eq sample_sans Let_def) (simp add: mem_lib_def)

lemma sample_mutate:
  "mutateTenantControlPlane mem_lib delegated zero_cluster zero_tcp sample_kcp =
   (None, snd (mutateTenantControlPlane mem_lib delegated zero_cluster zero_tcp sample_kcp))"
  by (simp add: prod_eq_iff sample_mutate_ok)

section \<open>Properties\<close>

text \<open>
  C1: the mutate function is idempotent. Once it has succeeded on an object, applying it to the
  result, with the \<^verbatim>\<open>KamajiControlPlane\<close> as read again or as it left it, succeeds and changes
  neither the object nor the \<^verbatim>\<open>KamajiControlPlane\<close> any further.
\<close>

theorem mutate_idempotent:
  assumes "SetControllerReference_doc L"
    and "map_wf (om_Annotations (kcp_meta kcp))" "map_wf (om_Annotations (tcp_meta tcp))"
    and "mutateTenantControlPlane L delegated cluster tcp kcp = (None, tcp', kcp')"
    and "kcp'' = kcp \<or> kcp'' = kcp'"
  shows "mutateTenantControlPlane L delegated cluster tcp' kcp'' = (None, tcp', kcp')"
  using assms by (rule mutate_again)

theorem mutate_idempotent_witness:
  "let (e, tcp', kcp') = mutateTenantControlPlane mem_lib False zero_cluster zero_tcp sample_kcp
   in mutateTenantControlPlane mem_lib False zero_cluster tcp' sample_kcp = (None, tcp', kcp')"
proof -
  obtain tcp' kcp' where run: "mutateTenantControlPlane mem_lib False zero_cluster zero_tcp sample_kcp = (None, tcp', kcp')"
    using sample_mutate [of False] by (metis surj_pair)
  then show ?thesis
    using mutate_idempotent [OF mem_owner_doc sample_wf run, of sample_kcp] by simp
qed

definition CreateOrUpdate_doc :: "'w client \<Rightarrow> bool" where
  "CreateOrUpdate_doc c \<longleftrightarrow>
     (\<forall>f obj kcp kcp' w cur w'. c_get_tcp c (ObjectKey (tcp_meta obj)) obj w = (None, cur, w') \<and> f cur kcp = (None, cur, kcp') \<longrightarrow>
        c_create_or_update_tcp c f obj kcp w = (None, cur, kcp', w'))"

text \<open>
  C2: no write without a difference. When the API server already holds the object the mutate
  function produced, the next \<^verbatim>\<open>createOrUpdateTenantControlPlane\<close> reads it, finds nothing to
  change, and answers with it; by the contract of \<^verbatim>\<open>CreateOrUpdate\<close> the server is only read.
\<close>

theorem createOrUpdate_settles:
  assumes doc: "SetControllerReference_doc L" "CreateOrUpdate_doc (r_client r)" "RetryOnConflict_doc (l_retry_tcp L)"
    and wf: "map_wf (om_Annotations (kcp_meta kcp))" "map_wf (om_Annotations (tcp_meta old))"
    and run: "mutateTenantControlPlane L False cluster old kcp = (None, tcp, kcp')"
    and held: "c_get_tcp (r_client r) (ObjectKey (kcp_meta kcp))
      (zero_tcp\<lparr>tcp_meta := zero_meta\<lparr>om_Name := om_Name (kcp_meta kcp), om_Namespace := om_Namespace (kcp_meta kcp)\<rparr>\<rparr>) w
        = (None, tcp, w')"
  shows "createOrUpdateTenantControlPlane r L None cluster kcp w = (Return (Inr tcp, kcp'), w')"
proof -
  let ?new = "zero_tcp\<lparr>tcp_meta := zero_meta\<lparr>om_Name := om_Name (kcp_meta kcp), om_Namespace := om_Namespace (kcp_meta kcp)\<rparr>\<rparr>"
  have "mutateTenantControlPlane L False cluster tcp kcp = (None, tcp, kcp')"
    using mutate_again [OF doc(1) wf run] by simp
  moreover have "ObjectKey (tcp_meta ?new) = ObjectKey (kcp_meta kcp)"
    by (simp add: ObjectKey_def)
  ultimately have "c_create_or_update_tcp (r_client r) (mutateTenantControlPlane L False cluster) ?new kcp w = (None, tcp, kcp', w')"
    using doc(2) held unfolding CreateOrUpdate_doc_def by metis
  then have "l_retry_tcp L (tcp_attempt L (r_client r) None cluster) (?new, kcp, w) = (None, tcp, kcp', w')"
    by (intro retry_once [OF doc(3)]) (simp add: tcp_attempt_def)
  then show ?thesis
    by (simp add: createOrUpdateTenantControlPlane_def Let_def)
qed

lemma mem_CreateOrUpdate_doc: "CreateOrUpdate_doc mem_client"
  by (auto simp: CreateOrUpdate_doc_def mem_client_def mem_read_def mem_create_or_update_tcp_def split: option.splits)

text \<open>The identity of the object survives.\<close>

lemma mutate_ok_key:
  assumes "SetControllerReference_doc L" "mutateTenantControlPlane L delegated cluster tcp kcp = (None, tcp', kcp')"
  shows "ObjectKey (tcp_meta tcp') = ObjectKey (tcp_meta tcp)" "tcp_Status tcp' = tcp_Status tcp"
proof -
  obtain refs where "tcp' = (mutate_spec cluster kcp tcp)\<lparr>tcp_meta :=
      (wanted_meta L (kcp_meta kcp) (tcp_meta tcp))\<lparr>om_OwnerReferences := refs\<rparr>\<rparr>"
    using mutate_ok_shape [OF assms] by metis
  then show "ObjectKey (tcp_meta tcp') = ObjectKey (tcp_meta tcp)" "tcp_Status tcp' = tcp_Status tcp"
    by (simp_all add: ObjectKey_def frame_simps)
qed

definition sample_tcp :: TenantControlPlane where
  "sample_tcp = zero_tcp\<lparr>tcp_meta := zero_meta\<lparr>om_Name := ''k'', om_Namespace := ''ns''\<rparr>\<rparr>"

lemma sample_tcp_runs:
  obtains tcp kcp' where "mutateTenantControlPlane mem_lib delegated zero_cluster sample_tcp sample_kcp = (None, tcp, kcp')"
proof -
  have "fst (mutateTenantControlPlane mem_lib delegated zero_cluster sample_tcp sample_kcp) = None"
    by (simp add: mutateTenantControlPlane_eq sample_sans Let_def) (simp add: mem_lib_def)
  with that show thesis
    by (metis surj_pair fst_conv)
qed

theorem createOrUpdate_settles_witness:
  "\<exists>tcp kcp'. createOrUpdateTenantControlPlane (mem_reconciler [] []) mem_lib None zero_cluster sample_kcp
     (mem_empty\<lparr>mem_tcps := [tcp]\<rparr>) = (Return (Inr tcp, kcp'), mem_empty\<lparr>mem_tcps := [tcp]\<rparr>)"
proof -
  obtain tcp kcp' where run: "mutateTenantControlPlane mem_lib False zero_cluster sample_tcp sample_kcp = (None, tcp, kcp')"
    by (rule sample_tcp_runs)
  have key: "ObjectKey (tcp_meta tcp) = ObjectKey (kcp_meta sample_kcp)"
    using mutate_ok_key(1) [OF mem_owner_doc run]
    by (simp add: ObjectKey_def sample_tcp_def sample_kcp_def sample_meta_def)
  have wf: "map_wf (om_Annotations (tcp_meta sample_tcp))"
    by code_simp
  have "CreateOrUpdate_doc (r_client (mem_reconciler [] []))" "RetryOnConflict_doc (l_retry_tcp mem_lib)"
    using mem_CreateOrUpdate_doc mem_retry_doc by (simp_all add: mem_reconciler_def)
  moreover have "c_get_tcp (r_client (mem_reconciler [] [])) (ObjectKey (kcp_meta sample_kcp)) x (mem_empty\<lparr>mem_tcps := [tcp]\<rparr>)
      = (None, tcp, mem_empty\<lparr>mem_tcps := [tcp]\<rparr>)" for x
    using key by (simp add: mem_reconciler_def mem_client_def mem_read_def mem_get_def)
  ultimately have "createOrUpdateTenantControlPlane (mem_reconciler [] []) mem_lib None zero_cluster sample_kcp
     (mem_empty\<lparr>mem_tcps := [tcp]\<rparr>) = (Return (Inr tcp, kcp'), mem_empty\<lparr>mem_tcps := [tcp]\<rparr>)"
    by (intro createOrUpdate_settles [OF mem_owner_doc _ _ sample_wf(1) wf run])
  then show ?thesis
    by blast
qed






definition global_probes_kcp :: KamajiControlPlane where
  "global_probes_kcp = sample_kcp\<lparr>kcp_Spec := (kcp_Spec sample_kcp)\<lparr>f_Deployment := (f_Deployment (kcp_Spec sample_kcp))
     \<lparr>dc_Probes := Some \<lparr>ps_Liveness = Some (ProbeSpec ''{}''), ps_Readiness = None, ps_Startup = None\<rparr>\<rparr>\<rparr>\<rparr>"


end
