(* ===== verification/EndpointProperties.thy ===== *)
theory EndpointProperties
  imports ControlPlaneProperties
begin

text \<open>
  Properties of the control plane endpoint: how it is computed, what reaches the
  \<^verbatim>\<open>KamajiControlPlane\<close>, and what reaches the infrastructure cluster.
\<close>

section \<open>Objects of the witnesses\<close>

definition sample_cluster :: "string \<Rightarrow> Cluster" where
  "sample_cluster kind = zero_cluster\<lparr>cl_meta := sample_meta ''c'',
     cl_InfrastructureRef := \<lparr>ref_Kind = kind, ref_Name = ''i'', ref_APIGroup = ''infra''\<rparr>\<rparr>"

definition sample_infra :: "string \<Rightarrow> unstructured \<Rightarrow> mem" where
  "sample_infra kind obj = mem_empty\<lparr>mem_infras :=
     [((\<lparr>gvk_Group = ''infra'', gvk_Version = ''v1beta1'', gvk_Kind = kind\<rparr>,
        \<lparr>nn_Namespace = ''ns'', nn_Name = ''i''\<rparr>), obj)]\<rparr>"

text \<open>The object whose endpoint is that of the status, and one that overrides it.\<close>

definition plain_kcp :: KamajiControlPlane where
  "plain_kcp = zero_kcp\<lparr>kcp_meta := sample_meta ''k''\<rparr>"

lemma plain_hostname: "endpoint_hostname plain_kcp = ''''"
  by code_simp

lemma sample_hostname: "endpoint_hostname sample_kcp = ''cp.io:6443''"
  by code_simp

lemma plain_endpoint: "controlPlaneEndpoint plain_kcp ''1.2.3.4:6443'' = Inr (''1.2.3.4'', 6443)"
proof -
  have "SplitHostPort ''1.2.3.4:6443'' = Inr (''1.2.3.4'', ''6443'')"
    by code_simp
  moreover have "ParseInt ''6443'' 16 = Inr 6443"
    by (subst ParseInt_digits) (simp_all add: is_digit_def digit_val_def)
  ultimately show ?thesis
    by (intro controlPlaneEndpoint_status plain_hostname)
qed

section \<open>Properties\<close>


abbreviation vsphere_world :: mem where
  "vsphere_world \<equiv> sample_infra ''VSphereCluster'' [(''kind'', JString ''VSphereCluster'')]"

lemma sample_defined: "l_IsDefined mem_lib (cl_InfrastructureRef (sample_cluster ''VSphereCluster''))"
  by code_simp

lemma sample_handling:
  "handling_of (r_DynamicInfrastructureClusters (mem_reconciler [] [])) (ref_Kind (cl_InfrastructureRef (sample_cluster ''VSphereCluster''))) =
   CheckOrPatch"
  by code_simp

lemma sample_check_or_patch:
  "fst (checkOrPatchGenericCluster (mem_reconciler [] []) mem_lib (sample_cluster ''VSphereCluster'') ''1.2.3.4'' 6443 vsphere_world) = None"
  by code_simp

lemma sample_patch:
  obtains w' where "patchCluster (mem_reconciler [] []) mem_lib (sample_cluster ''VSphereCluster'') plain_kcp ''1.2.3.4:6443''
     vsphere_world = (None, w')"
  using sample_check_or_patch that
  by (cases "checkOrPatchGenericCluster (mem_reconciler [] []) mem_lib (sample_cluster ''VSphereCluster'') ''1.2.3.4'' 6443 vsphere_world")
    (simp add: patchCluster_def plain_endpoint sample_defined sample_handling)


text \<open>
  C7: an endpoint that somebody else provisioned is never overwritten. When the infrastructure
  cluster already carries a host, \<^verbatim>\<open>checkOrPatchGenericCluster\<close> only reads: it succeeds exactly
  when host and port agree, and otherwise reports an error.
\<close>

theorem checkOrPatch_keeps_foreign_endpoint:
  assumes "foreign_errors r L" "infra_of r L cluster w = (Inr obj, w1)"
    and "l_NestedString L obj [''spec'', ''controlPlaneEndpoint'', ''host''] = Inr host" "host \<noteq> ''''"
  shows "snd (checkOrPatchGenericCluster r L cluster endpoint port w) = w1 \<and>
    (fst (checkOrPatchGenericCluster r L cluster endpoint port w) = None \<longleftrightarrow>
       host = endpoint \<and> l_NestedInt64 L obj [''spec'', ''controlPlaneEndpoint'', ''port''] = Inr port)"
  using assms by (auto simp: checkOrPatch_cases check_endpoint_None_iff)

definition foreign_infra :: unstructured where
  "foreign_infra = [(''kind'', JString ''VSphereCluster''),
     (''spec'', JObject [(''controlPlaneEndpoint'', JObject [(''host'', JString ''9.9.9.9''), (''port'', JInt 6443)])])]"

theorem checkOrPatch_keeps_foreign_endpoint_witness:
  "snd (checkOrPatchGenericCluster (mem_reconciler [] []) mem_lib (sample_cluster ''VSphereCluster'') ''1.2.3.4'' 6443
      (sample_infra ''VSphereCluster'' foreign_infra)) = sample_infra ''VSphereCluster'' foreign_infra \<and>
   fst (checkOrPatchGenericCluster (mem_reconciler [] []) mem_lib (sample_cluster ''VSphereCluster'') ''1.2.3.4'' 6443
      (sample_infra ''VSphereCluster'' foreign_infra)) \<noteq> None"
proof -
  let ?w = "sample_infra ''VSphereCluster'' foreign_infra"
  have infra: "infra_of (mem_reconciler [] []) mem_lib (sample_cluster ''VSphereCluster'') ?w = (Inr foreign_infra, ?w)"
    by (simp add: mem_infra_of sample_cluster_def sample_infra_def sample_meta_def)
  have host: "l_NestedString mem_lib foreign_infra [''spec'', ''controlPlaneEndpoint'', ''host''] = Inr ''9.9.9.9''"
    by code_simp
  from checkOrPatch_keeps_foreign_endpoint [OF mem_foreign_errors infra host, of "''1.2.3.4''" 6443] show ?thesis
    by simp
qed

text \<open>
  C8: the endpoint. The address Kamaji reports must be a host and a 16-bit port; without an
  ingress or gateway hostname it is the endpoint. A hostname without a port replaces it with
  port 443, one with a port replaces it as a whole; the ingress goes before the gateway.
\<close>

theorem controlPlaneEndpoint_rule:
  assumes "controlPlaneEndpoint kcp statusEndpoint = Inr (e, p)"
  shows "endpoint_hostname kcp =
      (case (nc_Ingress (f_Network (kcp_Spec kcp)), nc_Gateway (f_Network (kcp_Spec kcp))) of
         (Some i, _) \<Rightarrow> ic_Hostname i | (None, Some g) \<Rightarrow> gc_Hostname g | (None, None) \<Rightarrow> '''') \<and>
    (\<exists>h s q. SplitHostPort statusEndpoint = Inr (h, s) \<and> ParseInt s 16 = Inr q \<and>
    - (2 ^ 15) \<le> sint q \<and> sint q < 2 ^ 15 \<and>
    (if endpoint_hostname kcp = '''' then e = h \<and> p = q
     else if colon \<notin> set (endpoint_hostname kcp)
     then (endpoint_hostname kcp = e \<or> endpoint_hostname kcp = lbr # e @ [rbr]) \<and> p = 443
     else \<exists>s'. SplitHostPort (endpoint_hostname kcp) = Inr (e, s') \<and> ParseInt s' 64 = Inr p))"
proof (rule conjI)
  show "endpoint_hostname kcp =
      (case (nc_Ingress (f_Network (kcp_Spec kcp)), nc_Gateway (f_Network (kcp_Spec kcp))) of
         (Some i, _) \<Rightarrow> ic_Hostname i | (None, Some g) \<Rightarrow> gc_Hostname g | (None, None) \<Rightarrow> '''')"
    by (simp add: endpoint_hostname_def split: option.split)
next
  show "\<exists>h s q. SplitHostPort statusEndpoint = Inr (h, s) \<and> ParseInt s 16 = Inr q \<and>
    - (2 ^ 15) \<le> sint q \<and> sint q < 2 ^ 15 \<and>
    (if endpoint_hostname kcp = '''' then e = h \<and> p = q
     else if colon \<notin> set (endpoint_hostname kcp)
     then (endpoint_hostname kcp = e \<or> endpoint_hostname kcp = lbr # e @ [rbr]) \<and> p = 443
     else \<exists>s'. SplitHostPort (endpoint_hostname kcp) = Inr (e, s') \<and> ParseInt s' 64 = Inr p)"
    using assms
  proof (rule controlPlaneEndpoint_InrE)
    fix h s q
    assume st: "SplitHostPort statusEndpoint = Inr (h, s)" "ParseInt s 16 = Inr q"
      and cases: "endpoint_hostname kcp = '''' \<Longrightarrow> e = h \<and> p = q"
        "endpoint_hostname kcp \<noteq> '''' \<Longrightarrow> colon \<notin> set (endpoint_hostname kcp) \<Longrightarrow>
          (endpoint_hostname kcp = e \<or> endpoint_hostname kcp = lbr # e @ [rbr]) \<and> p = 443"
        "endpoint_hostname kcp \<noteq> '''' \<Longrightarrow> colon \<in> set (endpoint_hostname kcp) \<Longrightarrow>
          \<exists>s'. SplitHostPort (endpoint_hostname kcp) = Inr (e, s') \<and> ParseInt s' 64 = Inr p"
    have "- (2 ^ 15) \<le> sint q \<and> sint q < 2 ^ 15"
      using ParseInt_bounds [OF st(2)] by simp
    with st cases show ?thesis
      by (intro exI [of _ h] exI [of _ s] exI [of _ q]) auto
  qed
qed

theorem controlPlaneEndpoint_rule_witness:
  "controlPlaneEndpoint plain_kcp ''1.2.3.4:6443'' = Inr (''1.2.3.4'', 6443) \<and>
   (\<exists>h s. SplitHostPort ''1.2.3.4:6443'' = Inr (h, s) \<and> h = ''1.2.3.4'')"
  using controlPlaneEndpoint_rule [OF plain_endpoint] plain_endpoint plain_hostname by auto

text \<open>
  C9: a port of the upper half of the range is refused. For every host and every port of digits
  from 32768 on (so for all of 32768 to 65535), the address Kamaji reports is an error, whatever
  hostname the object overrides it with: the port is parsed as a signed 16-bit number.
\<close>

theorem high_port_refused:
  assumes "colon \<notin> set h" "bracket_free h" "bracket_free p" "p \<noteq> ''''" "\<forall>c \<in> set p. is_digit c" "dec_val 0 p \<ge> 32768"
  shows "controlPlaneEndpoint kcp (h @ colon # p) =
    Inl (Wrap (NumErr (NumError p ErrRange)) ''cannot convert port to integer'')"
proof -
  have "colon \<notin> set p"
    using assms(5) by (auto simp: is_digit_def digit_val_def)
  then have "SplitHostPort (h @ colon # p) = Inr (h, p)"
    using assms(1-3) by (intro SplitHostPort_plain)
  moreover have "ParseInt p 16 = Inl (NumError p ErrRange)"
    using assms(4-6) by (subst ParseInt_digits) simp_all
  ultimately show ?thesis
    by (simp add: controlPlaneEndpoint_def)
qed

theorem high_port_refused_witness:
  "controlPlaneEndpoint plain_kcp ''1.2.3.4:40000'' =
     Inl (Wrap (NumErr (NumError ''40000'' ErrRange)) ''cannot convert port to integer'')"
  using high_port_refused [of "''1.2.3.4''" "''40000''" plain_kcp]
  by (simp add: bracket_free_def is_digit_def digit_val_def)

text \<open>
  C10: what \<^verbatim>\<open>patchControlPlaneEndpoint\<close> writes. When it succeeds, its last attempt has sent the
  object as it had just read it, changed in the endpoint only, and the endpoint is the one of
  \<^verbatim>\<open>controlPlaneEndpoint\<close> with the port cut to 32 bits, which is the same number whenever the
  port fits.
\<close>

theorem patchControlPlaneEndpoint_written:
  assumes "RetryOnConflict_doc (l_retry_kcp L)" "patchControlPlaneEndpoint r L hostPort (kcp, w) = (None, kcp', w')"
  shows "\<exists>e p k0 w0 k1 w1. controlPlaneEndpoint kcp hostPort = Inr (e, p) \<and>
    c_get_kcp (r_client r) (ObjectKey (kcp_meta k0)) k0 w0 = (None, k1, w1) \<and>
    c_update_kcp (r_client r) (k1\<lparr>kcp_Spec := (kcp_Spec k1)\<lparr>s_ControlPlaneEndpoint :=
      \<lparr>ep_Host = e, ep_Port = int32_of p\<rparr>\<rparr>\<rparr>) w1 = (None, kcp', w') \<and>
    (- (2 ^ 31) \<le> sint p \<and> sint p < 2 ^ 31 \<longrightarrow> sint (int32_of p) = sint p)"
proof -
  from assms(2) obtain e p where ep: "controlPlaneEndpoint kcp hostPort = Inr (e, p)"
    and retry: "l_retry_kcp L (endpoint_attempt (r_client r) e p) (kcp, w) = (None, kcp', w')"
    by (auto simp: patchControlPlaneEndpoint_def split: sum.splits prod.splits option.splits)
  from retry assms(1) obtain k0 w0 where "endpoint_attempt (r_client r) e p (k0, w0) = (None, kcp', w')"
    unfolding RetryOnConflict_doc_def by (metis surj_pair)
  then obtain k1 w1 where "c_get_kcp (r_client r) (ObjectKey (kcp_meta k0)) k0 w0 = (None, k1, w1)"
    "c_update_kcp (r_client r) (k1\<lparr>kcp_Spec := (kcp_Spec k1)\<lparr>s_ControlPlaneEndpoint :=
      \<lparr>ep_Host = e, ep_Port = int32_of p\<rparr>\<rparr>\<rparr>) w1 = (None, kcp', w')"
    by (auto simp: endpoint_attempt_def split: prod.splits option.splits)
  with ep sint_int32_of [of p] show ?thesis
    by blast
qed

theorem patchControlPlaneEndpoint_written_witness:
  "\<exists>kcp' w'. patchControlPlaneEndpoint (mem_reconciler [] []) mem_lib ''1.2.3.4:6443''
     (plain_kcp, mem_empty\<lparr>mem_kcps := [plain_kcp]\<rparr>) = (None, kcp', w') \<and>
     ep_Host (s_ControlPlaneEndpoint (kcp_Spec kcp')) = ''1.2.3.4''"
proof -
  let ?w = "mem_empty\<lparr>mem_kcps := [plain_kcp]\<rparr>"
  have "fst (endpoint_attempt mem_client ''1.2.3.4'' 6443 (plain_kcp, ?w)) = None"
    by code_simp
  then obtain kcp' w' where attempt: "endpoint_attempt mem_client ''1.2.3.4'' 6443 (plain_kcp, ?w) = (None, kcp', w')"
    by (metis surj_pair fst_conv)
  then have run: "patchControlPlaneEndpoint (mem_reconciler [] []) mem_lib ''1.2.3.4:6443'' (plain_kcp, ?w) = (None, kcp', w')"
    by (simp add: patchControlPlaneEndpoint_def plain_endpoint mem_reconciler_def)
  from patchControlPlaneEndpoint_written [of mem_lib, OF _ run] mem_retry_doc obtain k1 w1 where
    "mem_update_kcp (k1\<lparr>kcp_Spec := (kcp_Spec k1)\<lparr>s_ControlPlaneEndpoint :=
      \<lparr>ep_Host = ''1.2.3.4'', ep_Port = int32_of 6443\<rparr>\<rparr>\<rparr>) w1 = (None, kcp', w')"
    by (auto simp: plain_endpoint mem_reconciler_def mem_client_def)
  then have "ep_Host (s_ControlPlaneEndpoint (kcp_Spec kcp')) = ''1.2.3.4''"
    by (auto simp: mem_update_kcp_def Let_def split: option.splits)
  with run show ?thesis
    by blast
qed

lemma int32_of_word_of_int: "int32_of (word_of_int x) = word_of_int x"
  unfolding int32_of_def by transfer simp

lemma word_of_int_wrapped: "(word_of_int (2 ^ 32 + n) :: int32) = word_of_int n"
  by (simp only: word_of_int_eq_iff) (simp add: take_bit_eq_mod)

lemma sint_int64: "- (2 ^ 63) \<le> x \<Longrightarrow> x < 2 ^ 63 \<Longrightarrow> sint (word_of_int x :: int64) = x"
  by (subst sint_sbintrunc') (simp add: signed_take_bit_int_eq_self)

lemma sint_int32: "- (2 ^ 31) \<le> x \<Longrightarrow> x < 2 ^ 31 \<Longrightarrow> sint (word_of_int x :: int32) = x"
  by (subst sint_sbintrunc') (simp add: signed_take_bit_int_eq_self)


definition wide_port_kcp :: KamajiControlPlane where
  "wide_port_kcp = zero_kcp\<lparr>kcp_Spec := (kcp_Spec zero_kcp)\<lparr>f_Network := (f_Network (kcp_Spec zero_kcp))
     \<lparr>nc_Ingress := Some \<lparr>ic_ClassName = '''', ic_Hostname = ''cp.io:4294967739'', ic_ExtraLabels = None,
       ic_ExtraAnnotations = None\<rparr>\<rparr>\<rparr>\<rparr>"


definition built_in_kinds :: "string list" where
  "built_in_kinds = [''AWSCluster'', ''AzureCluster'', ''HetznerCluster'', ''IonosCloudCluster'', ''KubevirtCluster'',
     ''Metal3Cluster'', ''MetalStackCluster'', ''NutanixCluster'', ''OpenStackCluster'', ''PacketCluster'',
     ''ProxmoxCluster'', ''TinkerbellCluster'', ''VSphereCluster'']"

lemma handling_of_Unsupported_iff:
  "handling_of dynamic kind = Unsupported \<longleftrightarrow> kind \<notin> set built_in_kinds \<union> dynamic"
proof -
  have "handling_of dynamic kind = Unsupported \<longleftrightarrow> kind \<notin> dynamic \<and> handling_of {} kind = Unsupported"
    by (simp add: handling_of.simps)
  moreover have "handling_of {} kind = Unsupported \<longleftrightarrow> kind \<notin> set built_in_kinds"
    unfolding handling_of.simps built_in_kinds_def list.set insert_iff
    by (cases "kind = ''AWSCluster''"; simp split del: if_split)
      (auto split: if_splits)
  ultimately show ?thesis
    by auto
qed

text \<open>
  C12: an infrastructure provider that is neither built in nor configured as a dynamic one is
  refused, and nothing is read or written for it.
\<close>

theorem unsupported_kind_untouched:
  assumes "ref_Kind (cl_InfrastructureRef cluster) \<notin> set built_in_kinds \<union> r_DynamicInfrastructureClusters r"
  shows "\<exists>e. patchCluster r L cluster kcp hostPort w = (Some e, w)"
  using assms handling_of_Unsupported_iff [of "r_DynamicInfrastructureClusters r" "ref_Kind (cl_InfrastructureRef cluster)"]
  by (auto simp: patchCluster_def split: sum.split prod.split)

theorem unsupported_kind_untouched_witness:
  "\<exists>e. patchCluster (mem_reconciler [] [''BarCluster'']) mem_lib (sample_cluster ''FooCluster'') plain_kcp ''1.2.3.4:6443'' mem_empty
     = (Some e, mem_empty)"
  by (rule unsupported_kind_untouched) code_simp

end
