(* ===== verification/KamajiReconciler.thy ===== *)
theory KamajiReconciler
  imports Finalizer WantedControlPlane ClusterPatch Resources
begin

text \<open>
  \<^verbatim>\<open>KamajiControlPlaneReconciler.Reconcile\<close>. The body is a sequence of phases, each of which
  may end the reconciliation; what the phases share (the object, the cluster, the conditions,
  the error variable \<^verbatim>\<open>err\<close>, \<^verbatim>\<open>remoteClient\<close> and \<^verbatim>\<open>tcp\<close>) is one record. The deferred
  function that writes the conditions runs after the phases, however they ended.

  The slice of conditions starts out sharing its array with the object read first; every later
  read replaces the object as a whole, and nothing reads the conditions of the first copy, so
  the slice is a value here.
\<close>

section \<open>Results and phases\<close>

record ctrl_Result =
  RequeueAfter :: nat

definition Second :: nat where
  "Second = 1000000000"

definition no_result :: ctrl_Result where
  "no_result = \<lparr>RequeueAfter = 0\<rparr>"

definition after_second :: ctrl_Result where
  "after_second = \<lparr>RequeueAfter = Second\<rparr>"

text \<open>How a phase ends: by going on, by returning from \<^verbatim>\<open>Reconcile\<close>, or by a panic.\<close>

datatype flow = Next | Stop ctrl_Result "go_error option" | Panicked string

record 'w rstate =
  x_w :: 'w
  x_kcp :: KamajiControlPlane
  x_cluster :: Cluster
  x_conditions :: "Condition slice"
  x_err :: "go_error option"
  x_remoteClient :: "'w client option"
  x_tcp :: TenantControlPlane

type_synonym 'w phase = "'w rstate \<Rightarrow> flow \<times> 'w rstate"

definition seq :: "'w phase \<Rightarrow> 'w phase \<Rightarrow> 'w phase" where
  "seq p q s = (case p s of (Next, s') \<Rightarrow> q s' | (Stop res e, s') \<Rightarrow> (Stop res e, s') | (Panicked m, s') \<Rightarrow> (Panicked m, s'))"

text \<open>\<^verbatim>\<open>TrackConditionType(&conditions, ctype, kcp.Generation, fn)\<close>\<close>

definition tracked ::
  "('w, 'm) lib \<Rightarrow> KamajiControlPlaneConditionType \<Rightarrow> ('w rstate \<Rightarrow> go_error option \<times> 'w rstate) \<Rightarrow>
   'w rstate \<Rightarrow> 'w rstate" where
  "tracked L ctype fn s =
     (case TrackConditionType L (\<lambda>s. l_now L (x_w s)) (x_conditions s) ctype (om_Generation (kcp_meta (x_kcp s))) fn s of
        (cs, s') \<Rightarrow> s'\<lparr>x_conditions := cs\<rparr>)"

text \<open>The same when \<^verbatim>\<open>fn\<close> panics: the deferred \<^verbatim>\<open>SetStatusCondition\<close> still runs.\<close>

definition track_panicked ::
  "('w, 'm) lib \<Rightarrow> KamajiControlPlaneConditionType \<Rightarrow> 'w \<Rightarrow> 'w rstate \<Rightarrow> 'w rstate" where
  "track_panicked L ctype w s =
     (let cs = x_conditions s;
          found = l_FindStatusCondition L cs (ctype_text ctype);
          c = (case found of Some i \<Rightarrow> elems cs ! i | None \<Rightarrow> zero_condition\<lparr>co_Type := ctype_text ctype\<rparr>);
          c = c\<lparr>co_ObservedGeneration := om_Generation (kcp_meta (x_kcp s))\<rparr>;
          cs = (case found of Some i \<Rightarrow> Some ((elems cs)[i := c]) | None \<Rightarrow> cs)
      in s\<lparr>x_w := w, x_conditions := l_SetStatusCondition L (l_now L w) c cs\<rparr>)"

text \<open>\<^verbatim>\<open>if err != nil { return ctrl.Result{}, err }\<close>\<close>

definition return_err :: "'w rstate \<Rightarrow> flow \<times> 'w rstate" where
  "return_err s = (if x_err s \<noteq> None then (Stop no_result (x_err s), s) else (Next, s))"

text \<open>A closure that assigns the error of a call on the object to \<^verbatim>\<open>err\<close> and returns it.\<close>

definition assign_kcp ::
  "(KamajiControlPlane \<times> 'w \<Rightarrow> go_error option \<times> KamajiControlPlane \<times> 'w) \<Rightarrow>
   'w rstate \<Rightarrow> go_error option \<times> 'w rstate" where
  "assign_kcp f s = (case f (x_kcp s, x_w s) of (e, kcp, w) \<Rightarrow> (e, s\<lparr>x_kcp := kcp, x_w := w, x_err := e\<rparr>))"

definition assign_world ::
  "('w \<Rightarrow> go_error option \<times> 'w) \<Rightarrow> 'w rstate \<Rightarrow> go_error option \<times> 'w rstate" where
  "assign_world f s = (case f (x_w s) of (e, w) \<Rightarrow> (e, s\<lparr>x_w := w, x_err := e\<rparr>))"

section \<open>The phases\<close>

definition phase_external :: "('w, 'm, 'c) KamajiControlPlaneReconciler \<Rightarrow> ('w, 'm) lib \<Rightarrow> 'w phase" where
  "phase_external r L s =
     (if external_reference (x_kcp s) = None then (Next, s)
      else
        (case extractRemoteClient r L (x_kcp s) (x_w s) of
           (Panic p, w) \<Rightarrow> (Panicked p, track_panicked L FoundExternalClusterReferenceConditionType w s)
         | (Return res, w) \<Rightarrow>
             (let err = (case res of Inl e \<Rightarrow> Some e | Inr _ \<Rightarrow> None);
                  remoteClient = (case res of Inl _ \<Rightarrow> None | Inr c \<Rightarrow> Some c);
                  s = tracked L FoundExternalClusterReferenceConditionType
                        (\<lambda>s. (err, s\<lparr>x_w := w, x_err := err, x_remoteClient := remoteClient\<rparr>)) s
              in if x_err s \<noteq> None then (Stop no_result (x_err s), s)
                 else return_err (snd (assign_kcp (handleFinalizer L (r_client r)) s)))))"

definition phase_tcp :: "('w, 'm, 'c) KamajiControlPlaneReconciler \<Rightarrow> ('w, 'm) lib \<Rightarrow> 'w phase" where
  "phase_tcp r L s =
     (case createOrUpdateTenantControlPlane r L (x_remoteClient s) (x_cluster s) (x_kcp s) (x_w s) of
        (Panic p, w) \<Rightarrow> (Panicked p, track_panicked L TenantControlPlaneCreatedConditionType w s)
      | (Return (res, kcp), w) \<Rightarrow>
          (let err = (case res of Inl e \<Rightarrow> Some e | Inr _ \<Rightarrow> None);
               tcp = (case res of Inl _ \<Rightarrow> x_tcp s | Inr t \<Rightarrow> t)
           in return_err (tracked L TenantControlPlaneCreatedConditionType
                (\<lambda>s. (err, s\<lparr>x_w := w, x_kcp := kcp, x_err := err, x_tcp := tcp\<rparr>)) s)))"

definition phase_address :: "('w, 'm) lib \<Rightarrow> 'w phase" where
  "phase_address L s =
     (let s = tracked L TenantControlPlaneAddressReadyConditionType
            (\<lambda>s. let err = (if length (tst_ControlPlaneEndpoint (tcp_Status (x_tcp s))) = 0
                            then Some (Sentinel ErrUnprocessedControlPlaneEndpoint) else x_err s)
                 in (err, s\<lparr>x_err := err\<rparr>)) s
      in if x_err s \<noteq> None then (Stop after_second None, s) else (Next, s))"

definition phase_endpoint :: "('w, 'm, 'c) KamajiControlPlaneReconciler \<Rightarrow> ('w, 'm) lib \<Rightarrow> 'w phase" where
  "phase_endpoint r L s =
     return_err (tracked L ControlPlaneEndpointPatchedConditionType
       (\<lambda>s. assign_kcp (patchControlPlaneEndpoint r L (tst_ControlPlaneEndpoint (tcp_Status (x_tcp s)))) s) s)"

definition phase_refetch :: "('w, 'm, 'c) KamajiControlPlaneReconciler \<Rightarrow> ('w, 'm) lib \<Rightarrow> 'w phase" where
  "phase_refetch r L s =
     (case c_get_cluster (r_client r) (ObjectKey (cl_meta (x_cluster s))) (x_cluster s) (x_w s) of
        (Some e, cluster, w) \<Rightarrow>
          (let s = s\<lparr>x_w := w, x_cluster := cluster, x_err := Some e\<rparr>
           in if l_IsNotFound L e then (Stop no_result None, s) else (Stop no_result (Some e), s))
      | (None, cluster, w) \<Rightarrow> (Next, s\<lparr>x_w := w, x_cluster := cluster, x_err := None\<rparr>))"

definition phase_infra :: "('w, 'm, 'c) KamajiControlPlaneReconciler \<Rightarrow> ('w, 'm) lib \<Rightarrow> 'w phase" where
  "phase_infra r L s =
     (if \<not> r_FeatureGates r features_SkipInfraClusterPatch then
        return_err (tracked L InfrastructureClusterPatchedConditionType
          (\<lambda>s. assign_world (patchCluster r L (x_cluster s) (x_kcp s)
             (tst_ControlPlaneEndpoint (tcp_Status (x_tcp s)))) s) s)
      else (Next, s))"

definition phase_validate :: "'w phase" where
  "phase_validate s =
     (if length (ep_Host (cl_ControlPlaneEndpoint (x_cluster s))) = 0 then (Stop after_second None, s)
      else if \<not> (case cl_InfrastructureProvisioned (x_cluster s) of Some b \<Rightarrow> b | None \<Rightarrow> False)
      then (Stop after_second None, s)
      else if tst_VersionStatus (tcp_Status (x_tcp s)) = None then (Stop after_second None, s)
      else (Next, s))"

definition phase_initialize :: "('w, 'm, 'c) KamajiControlPlaneReconciler \<Rightarrow> ('w, 'm) lib \<Rightarrow> 'w phase" where
  "phase_initialize r L s =
     (case tst_VersionStatus (tcp_Status (x_tcp s)) of
        None \<Rightarrow> (Panicked nil_dereference, s)
      | Some status \<Rightarrow>
          (case (if status = k_VersionReady L \<and> \<not> IsControlPlaneInitialized (kcp_Status (x_kcp s)) then
                   return_err (tracked L KamajiControlPlaneInitializedConditionType
                     (\<lambda>s. assign_kcp (updateKamajiControlPlaneStatus L (r_client r) set_initialized) s) s)
                 else (Next, s)) of
             (Next, s) \<Rightarrow>
               if \<not> IsControlPlaneInitialized (kcp_Status (x_kcp s)) then (Stop after_second None, s)
               else (Next, s)
           | stopped \<Rightarrow> stopped))"

definition phase_report :: "('w, 'm, 'c) KamajiControlPlaneReconciler \<Rightarrow> ('w, 'm) lib \<Rightarrow> 'w phase" where
  "phase_report r L s =
     return_err (tracked L KamajiControlPlaneInitializedConditionType
       (\<lambda>s. assign_kcp (updateKamajiControlPlaneStatus L (r_client r) (set_report (x_tcp s))) s) s)"

text \<open>
  The second update of the initialization is not followed by a check of \<^verbatim>\<open>err\<close>, which the call
  of \<^verbatim>\<open>createRequiredResources\<close> overwrites.
\<close>

definition phase_resources :: "('w, 'm, 'c) KamajiControlPlaneReconciler \<Rightarrow> ('w, 'm) lib \<Rightarrow> 'w phase" where
  "phase_resources r L s =
     (let s = tracked L KamajiControlPlaneInitializedConditionType
            (\<lambda>s. assign_kcp (updateKamajiControlPlaneStatus L (r_client r) set_initialized) s) s;
          s = tracked L KubeadmResourcesCreatedReadyConditionType
            (\<lambda>s. assign_world (createRequiredResources r L (x_remoteClient s) (x_cluster s) (x_kcp s) (x_tcp s)) s) s
      in (case x_err s of
            Some e \<Rightarrow> if errors_Is e ErrEnqueueBack then (Stop after_second None, s) else (Stop no_result (Some e), s)
          | None \<Rightarrow> (Next, s)))"

text \<open>The closure of the last tracked step: its own answer is not what it assigns to \<^verbatim>\<open>err\<close>.\<close>

definition report_ready ::
  "('w, 'm, 'c) KamajiControlPlaneReconciler \<Rightarrow> ('w, 'm) lib \<Rightarrow> string \<Rightarrow> 'w rstate \<Rightarrow> go_error option \<times> 'w rstate" where
  "report_ready r L status s =
     (case assign_kcp (updateKamajiControlPlaneStatus L (r_client r)
             (set_ready (status = k_VersionReady L \<or> status = k_VersionUpgrading L))) s of
        (Some e, s) \<Rightarrow> (Some e, s)
      | (None, s) \<Rightarrow>
          if \<not> st_Ready (kcp_Status (x_kcp s))
          then (Some (Errorf (''TenantControlPlane in '' @ status @ '' status, '') (Sentinel ErrEnqueueBack)), s)
          else (None, s))"

definition available_condition :: "KamajiControlPlane \<Rightarrow> Condition" where
  "available_condition kcp = zero_condition
     \<lparr>co_Type := ctype_text AvailableConditionType,
      co_Status := (if st_Ready (kcp_Status kcp) then ConditionTrue else ConditionFalse),
      co_Reason := (if st_Ready (kcp_Status kcp) then ''Available'' else ''NotAvailable''),
      co_ObservedGeneration := om_Generation (kcp_meta kcp)\<rparr>"

definition phase_ready :: "('w, 'm, 'c) KamajiControlPlaneReconciler \<Rightarrow> ('w, 'm) lib \<Rightarrow> 'w phase" where
  "phase_ready r L s =
     (case tst_VersionStatus (tcp_Status (x_tcp s)) of
        None \<Rightarrow> (Panicked nil_dereference, s)
      | Some status \<Rightarrow>
          (let s = tracked L KamajiControlPlaneReadyConditionType (report_ready r L status) s;
               s = s\<lparr>x_conditions := l_SetStatusCondition L (l_now L (x_w s)) (available_condition (x_kcp s))
                      (x_conditions s)\<rparr>
           in (case x_err s of
                 Some e \<Rightarrow> if errors_Is e ErrEnqueueBack then (Stop after_second None, s) else (Stop no_result (Some e), s)
               | None \<Rightarrow> (Stop no_result None, s))))"

section \<open>Reconcile\<close>

text \<open>The phases in the order of the source.\<close>

definition reconcile_phases :: "('w, 'm, 'c) KamajiControlPlaneReconciler \<Rightarrow> ('w, 'm) lib \<Rightarrow> 'w phase" where
  "reconcile_phases r L =
     seq (phase_external r L) (seq (phase_tcp r L) (seq (phase_address L) (seq (phase_endpoint r L)
       (seq (phase_refetch r L) (seq (phase_infra r L) (seq phase_validate (seq (phase_initialize r L)
         (seq (phase_report r L) (seq (phase_resources r L) (phase_ready r L))))))))))"

text \<open>The deferred update of the conditions; its error is only logged.\<close>

definition deferred_update :: "('w, 'm, 'c) KamajiControlPlaneReconciler \<Rightarrow> ('w, 'm) lib \<Rightarrow> 'w rstate \<Rightarrow> 'w" where
  "deferred_update r L s =
     snd (snd (updateKamajiControlPlaneStatus L (r_client r) (set_conditions (x_conditions s)) (x_kcp s, x_w s)))"

definition flow_result :: "flow \<Rightarrow> (ctrl_Result \<times> go_error option) outcome" where
  "flow_result f = (case f of Next \<Rightarrow> Return (no_result, None) | Stop res e \<Rightarrow> Return (res, e) | Panicked p \<Rightarrow> Panic p)"

text \<open>Where the phases start: the conditions are taken over without the one of a pause.\<close>

definition reconcile_start :: "('w, 'm) lib \<Rightarrow> KamajiControlPlane \<Rightarrow> Cluster \<Rightarrow> 'w \<Rightarrow> 'w rstate" where
  "reconcile_start L kcp cluster w =
     \<lparr>x_w = w, x_kcp = kcp, x_cluster = cluster,
      x_conditions = l_RemoveStatusCondition L (ctype_text PausedConditionType) (st_Conditions (kcp_Status kcp)),
      x_err = None, x_remoteClient = None, x_tcp = zero_tcp\<rparr>"

definition reconcile_active ::
  "('w, 'm, 'c) KamajiControlPlaneReconciler \<Rightarrow> ('w, 'm) lib \<Rightarrow> KamajiControlPlane \<Rightarrow> Cluster \<Rightarrow> 'w \<Rightarrow>
   (ctrl_Result \<times> go_error option) outcome \<times> 'w" where
  "reconcile_active r L kcp cluster w =
     (case reconcile_phases r L (reconcile_start L kcp cluster w) of
        (f, s) \<Rightarrow> (flow_result f, deferred_update r L s))"

definition reconcile_paused ::
  "('w, 'm, 'c) KamajiControlPlaneReconciler \<Rightarrow> ('w, 'm) lib \<Rightarrow> KamajiControlPlane \<Rightarrow> 'w \<Rightarrow>
   (ctrl_Result \<times> go_error option) outcome \<times> 'w" where
  "reconcile_paused r L kcp w =
     (let conditions = l_SetStatusCondition L (l_now L w) (zero_condition
            \<lparr>co_Type := ctype_text PausedConditionType, co_Status := ConditionTrue, co_Reason := ''Paused'',
             co_ObservedGeneration := om_Generation (kcp_meta kcp)\<rparr>) (st_Conditions (kcp_Status kcp))
      in (Return (no_result, None),
          snd (snd (updateKamajiControlPlaneStatus L (r_client r) (set_conditions conditions) (kcp, w)))))"

definition Reconcile ::
  "('w, 'm, 'c) KamajiControlPlaneReconciler \<Rightarrow> ('w, 'm) lib \<Rightarrow> NamespacedName \<Rightarrow> 'w \<Rightarrow>
   (ctrl_Result \<times> go_error option) outcome \<times> 'w" where
  "Reconcile r L req w =
     (case c_get_kcp (r_client r) req zero_kcp w of
        (Some e, _, w) \<Rightarrow> (Return (no_result, if l_IsNotFound L e then None else Some e), w)
      | (None, kcp, w) \<Rightarrow>
          (case elems (om_OwnerReferences (kcp_meta kcp)) of
             [] \<Rightarrow> (Return (no_result, None), w)
           | owner # _ \<Rightarrow>
               (let cluster = zero_cluster\<lparr>cl_meta := zero_meta\<lparr>om_Name := or_Name owner,
                      om_Namespace := om_Namespace (kcp_meta kcp)\<rparr>\<rparr>
                in (case c_get_cluster (r_client r) (ObjectKey (cl_meta cluster)) cluster w of
                      (Some e, _, w) \<Rightarrow> (Return (no_result, if l_IsNotFound L e then None else Some e), w)
                    | (None, cluster, w) \<Rightarrow>
                        if l_IsPaused L cluster kcp then reconcile_paused r L kcp w
                        else if om_DeletionTimestamp (kcp_meta kcp) \<noteq> None then
                          (case handleDeletion r L kcp w of
                             (Panic p, w) \<Rightarrow> (Panic p, w)
                           | (Return e, w) \<Rightarrow> (Return (no_result, e), w))
                        else reconcile_active r L kcp cluster w))))"

end
