(* ===== verification/ReconcilerLemmas.thy ===== *)
theory ReconcilerLemmas
  imports KamajiReconciler
begin

text \<open>
  The contract every phase of \<^verbatim>\<open>Reconcile\<close> keeps, stated once as a locale and composed along
  the sequence: the list of conditions stays without duplicates, a phase writes only the
  conditions it is meant to write, an error comes with the empty result, and a requeue is
  always after one second. From the contract of the whole body follow the properties of the
  reconciliation.
\<close>

section \<open>Conditions across a phase\<close>

definition keeps ::
  "('w, 'm) lib \<Rightarrow> KamajiControlPlaneConditionType set \<Rightarrow> Condition slice \<Rightarrow> Condition slice \<Rightarrow> bool" where
  "keeps L T cs cs' \<longleftrightarrow>
     (conditions_doc L \<longrightarrow> distinct_types cs \<longrightarrow>
        distinct_types cs' \<and> (\<forall>t. t \<notin> ctype_text ` T \<longrightarrow> cond_of cs' t = cond_of cs t))"

lemma keeps_refl [simp, intro]: "keeps L T cs cs"
  by (simp add: keeps_def)

lemma keeps_trans: "keeps L T a b \<Longrightarrow> keeps L T b c \<Longrightarrow> keeps L T a c"
  by (simp add: keeps_def)

lemma keeps_mono: "keeps L S a b \<Longrightarrow> S \<subseteq> T \<Longrightarrow> keeps L T a b"
  by (auto simp: keeps_def image_iff)

lemma keeps_set:
  assumes "co_Type c = ctype_text ct" "ct \<in> T"
  shows "keeps L T cs (l_SetStatusCondition L now c cs)"
  unfolding keeps_def
proof (intro impI conjI allI)
  assume doc: "conditions_doc L" and "distinct_types cs"
  then show "distinct_types (l_SetStatusCondition L now c cs)"
    by (simp add: conditions_doc_def SetStatusCondition_doc_def)
  show "cond_of (l_SetStatusCondition L now c cs) t = cond_of cs t" if "t \<notin> ctype_text ` T" for t
    using that assms by (auto simp: cond_of_Set [OF doc])
qed

lemma keeps_in_place:
  assumes "conditions_doc L" "l_FindStatusCondition L cs (ctype_text ct) = Some i" "co_Type c = ctype_text ct" "ct \<in> T"
  shows "keeps L T cs (Some ((elems cs)[i := c]))"
  unfolding keeps_def
proof (intro impI conjI allI)
  assume distinct: "distinct_types cs"
  note found = Find_Some_cond_of [OF assms(1,2)]
  note type_i = cond_of_Type [OF found(2)]
  show "distinct_types (Some ((elems cs)[i := c]))"
    using distinct found(1) type_i assms(3) by (intro distinct_types_in_place) simp_all
  show "cond_of (Some ((elems cs)[i := c])) t = cond_of cs t" if "t \<notin> ctype_text ` T" for t
    using that assms(3,4) distinct cond_of_in_place [OF distinct found(1) type_i assms(3), of t] by auto
qed

section \<open>Tracked steps\<close>

lemma tracked_fields [simp]:
  "x_w (tracked L ct fn s) = x_w (snd (fn s))"
  "x_kcp (tracked L ct fn s) = x_kcp (snd (fn s))"
  "x_cluster (tracked L ct fn s) = x_cluster (snd (fn s))"
  "x_err (tracked L ct fn s) = x_err (snd (fn s))"
  "x_remoteClient (tracked L ct fn s) = x_remoteClient (snd (fn s))"
  "x_tcp (tracked L ct fn s) = x_tcp (snd (fn s))"
  by (simp_all add: tracked_def TrackConditionType_def Let_def split: prod.split)

lemma tracked_conditions:
  assumes "conditions_doc L" "distinct_types (x_conditions s)" "fn s = (e, s')"
  shows "cond_of (x_conditions (tracked L ct fn s)) t =
    (if t = ctype_text ct
     then Some (track_result L (l_now L (x_w s')) (om_Generation (kcp_meta (x_kcp s))) e (tracked_before (x_conditions s) ct))
     else cond_of (x_conditions s) t)"
  using TrackConditionType_cond_of [OF assms(1,2), of fn s e s' "\<lambda>s. l_now L (x_w s)"] assms(3)
  by (simp add: tracked_def split: prod.split)

lemma keeps_tracked:
  assumes "ct \<in> T"
  shows "keeps L T (x_conditions s) (x_conditions (tracked L ct fn s))"
  unfolding keeps_def
proof (intro impI conjI allI)
  assume d: "conditions_doc L" "distinct_types (x_conditions s)"
  show "distinct_types (x_conditions (tracked L ct fn s))"
    using TrackConditionType_distinct [OF d] by (auto simp: tracked_def split: prod.split)
  show "cond_of (x_conditions (tracked L ct fn s)) t = cond_of (x_conditions s) t" if "t \<notin> ctype_text ` T" for t
    using that assms tracked_conditions [OF d, of fn "fst (fn s)" "snd (fn s)" ct t] by auto
qed

lemma keeps_panicked:
  assumes "ct \<in> T"
  shows "keeps L T (x_conditions s) (x_conditions (track_panicked L ct w s))"
proof (cases "conditions_doc L")
  case False
  then show ?thesis by (simp add: keeps_def)
next
  case doc: True
  show ?thesis
  proof (cases "l_FindStatusCondition L (x_conditions s) (ctype_text ct)")
    case None
    with assms show ?thesis
      by (auto simp: track_panicked_def Let_def intro!: keeps_set)
  next
    case (Some i)
    have ty: "co_Type (elems (x_conditions s) ! i) = ctype_text ct"
      using Find_Some_cond_of [OF doc Some] cond_of_Type by blast
    then have "keeps L T (x_conditions s) (Some ((elems (x_conditions s))[i :=
        (elems (x_conditions s) ! i)\<lparr>co_ObservedGeneration := om_Generation (kcp_meta (x_kcp s))\<rparr>]))"
      by (intro keeps_in_place [OF doc Some _ assms]) simp
    with ty Some show ?thesis
      by (simp add: track_panicked_def Let_def) (erule keeps_trans, rule keeps_set [OF _ assms], simp)
  qed
qed

section \<open>The contract of a phase\<close>

locale reconcile_phase =
  fixes L :: "('w, 'm) lib" and touches :: "KamajiControlPlaneConditionType set" and p :: "'w phase"
  assumes keeps_conditions: "p s = (f, s') \<Longrightarrow> keeps L touches (x_conditions s) (x_conditions s')"
    and error_result: "p s = (Stop res (Some e), s') \<Longrightarrow> res = no_result"
    and requeue: "p s = (Stop res er, s') \<Longrightarrow> res = no_result \<or> res = after_second"
begin

text \<open>A returned error never asks for a requeue of its own: the work queue backs off instead.\<close>

lemma well_formed_flow: "p s = (Stop res e, s') \<Longrightarrow> RequeueAfter res = 0 \<or> (RequeueAfter res = Second \<and> e = None)"
  using error_result requeue by (cases e) (fastforce simp: no_result_def after_second_def)+

end

lemma reconcile_phase_mono: "reconcile_phase L A p \<Longrightarrow> A \<subseteq> B \<Longrightarrow> reconcile_phase L B p"
  unfolding reconcile_phase_def by (meson keeps_mono)

lemma seq_cases:
  assumes "seq p q s = (f, s')"
  obtains s1 where "p s = (Next, s1)" "q s1 = (f, s')" | "p s = (f, s')" "f \<noteq> Next"
  using assms by (auto simp: seq_def split: prod.splits flow.splits)

lemma reconcile_phase_seq:
  assumes "reconcile_phase L A p" "reconcile_phase L A q"
  shows "reconcile_phase L A (seq p q)"
proof
  note p = reconcile_phase.keeps_conditions [OF assms(1)] reconcile_phase.error_result [OF assms(1)]
    reconcile_phase.requeue [OF assms(1)]
  note q = reconcile_phase.keeps_conditions [OF assms(2)] reconcile_phase.error_result [OF assms(2)]
    reconcile_phase.requeue [OF assms(2)]
  show "keeps L A (x_conditions s) (x_conditions s')" if "seq p q s = (f, s')" for s f s'
    using that by (rule seq_cases) (auto intro: p(1) q(1) keeps_trans)
  show "res = no_result" if "seq p q s = (Stop res (Some e), s')" for s res e s'
    using that by (rule seq_cases) (auto dest: p(2) q(2))
  show "res = no_result \<or> res = after_second" if "seq p q s = (Stop res er, s')" for s res er s'
    using that by (rule seq_cases) (auto dest: p(3) q(3))
qed

text \<open>The two ways a phase is built: a tracked step whose error is returned, and a step that is not tracked.\<close>

lemma return_err_iff:
  "return_err s = (f, s') \<longleftrightarrow> s' = s \<and> f = (if x_err s = None then Next else Stop no_result (x_err s))"
  by (auto simp: return_err_def)

lemma reconcile_phase_tracked:
  assumes "\<And>s. p s = return_err (tracked L ct (fn s) s)" "ct \<in> A"
  shows "reconcile_phase L A p"
proof
  show "keeps L A (x_conditions s) (x_conditions s')" if "p s = (f, s')" for s f s'
    using that keeps_tracked [OF assms(2)] by (simp add: assms(1) return_err_iff del: tracked_fields)
  show "res = no_result" if "p s = (Stop res (Some e), s')" for s res e s'
    using that by (auto simp: assms(1) return_err_iff split: if_splits)
  show "res = no_result \<or> res = after_second" if "p s = (Stop res er, s')" for s res er s'
    using that by (auto simp: assms(1) return_err_iff split: if_splits)
qed

section \<open>Every phase keeps it\<close>

lemma x_conditions_assign_kcp [simp]: "x_conditions (snd (assign_kcp f s)) = x_conditions s"
  by (simp add: assign_kcp_def split: prod.split)

interpretation ph_endpoint: reconcile_phase L "{ControlPlaneEndpointPatchedConditionType}" "phase_endpoint r L"
  for L :: "('w, 'm) lib" and r :: "('w, 'm, 'c) KamajiControlPlaneReconciler"
  by (rule reconcile_phase_tracked) (simp_all add: phase_endpoint_def [abs_def])

interpretation ph_report: reconcile_phase L "{KamajiControlPlaneInitializedConditionType}" "phase_report r L"
  for L :: "('w, 'm) lib" and r :: "('w, 'm, 'c) KamajiControlPlaneReconciler"
  by (rule reconcile_phase_tracked) (simp_all add: phase_report_def [abs_def])

interpretation ph_validate: reconcile_phase L "{}" phase_validate
  for L :: "('w, 'm) lib"
  by unfold_locales (auto simp: phase_validate_def split: if_splits)

interpretation ph_refetch: reconcile_phase L "{}" "phase_refetch r L"
  for L :: "('w, 'm) lib" and r :: "('w, 'm, 'c) KamajiControlPlaneReconciler"
  by unfold_locales (auto simp: phase_refetch_def Let_def split: if_splits prod.splits option.splits)

interpretation ph_infra: reconcile_phase L "{InfrastructureClusterPatchedConditionType}" "phase_infra r L"
  for L :: "('w, 'm) lib" and r :: "('w, 'm, 'c) KamajiControlPlaneReconciler"
  by unfold_locales (auto simp: phase_infra_def return_err_iff intro!: keeps_tracked split: if_splits)

interpretation ph_address: reconcile_phase L "{TenantControlPlaneAddressReadyConditionType}" "phase_address L"
  for L :: "('w, 'm) lib"
  by unfold_locales (auto simp: phase_address_def Let_def intro!: keeps_tracked split: if_splits)

interpretation ph_external: reconcile_phase L "{FoundExternalClusterReferenceConditionType}" "phase_external r L"
  for L :: "('w, 'm) lib" and r :: "('w, 'm, 'c) KamajiControlPlaneReconciler"
  by unfold_locales (auto simp: phase_external_def return_err_iff Let_def intro!: keeps_tracked keeps_panicked
      split: if_splits prod.splits outcome.splits)

interpretation ph_tcp: reconcile_phase L "{TenantControlPlaneCreatedConditionType}" "phase_tcp r L"
  for L :: "('w, 'm) lib" and r :: "('w, 'm, 'c) KamajiControlPlaneReconciler"
  by unfold_locales (auto simp: phase_tcp_def return_err_iff Let_def intro!: keeps_tracked keeps_panicked
      split: if_splits prod.splits outcome.splits)

interpretation ph_initialize: reconcile_phase L "{KamajiControlPlaneInitializedConditionType}" "phase_initialize r L"
  for L :: "('w, 'm) lib" and r :: "('w, 'm, 'c) KamajiControlPlaneReconciler"
  by unfold_locales (auto simp: phase_initialize_def return_err_iff intro!: keeps_tracked
      split: if_splits prod.splits option.splits flow.splits)

interpretation ph_resources: reconcile_phase L
  "{KamajiControlPlaneInitializedConditionType, KubeadmResourcesCreatedReadyConditionType}" "phase_resources r L"
  for L :: "('w, 'm) lib" and r :: "('w, 'm, 'c) KamajiControlPlaneReconciler"
  by unfold_locales (auto simp: phase_resources_def Let_def intro: keeps_tracked keeps_trans
      split: if_splits option.splits)

lemma keeps_available:
  "keeps L T cs cs' \<Longrightarrow> AvailableConditionType \<in> T \<Longrightarrow>
   keeps L T cs (l_SetStatusCondition L now (available_condition kcp) cs')"
  by (erule keeps_trans, rule keeps_set) (simp_all add: available_condition_def)

interpretation ph_ready: reconcile_phase L
  "{KamajiControlPlaneReadyConditionType, AvailableConditionType}" "phase_ready r L"
  for L :: "('w, 'm) lib" and r :: "('w, 'm, 'c) KamajiControlPlaneReconciler"
  by unfold_locales (auto simp: phase_ready_def Let_def
      intro!: keeps_tracked keeps_available split: if_splits option.splits)

section \<open>The whole body\<close>

abbreviation body_types :: "KamajiControlPlaneConditionType set" where
  "body_types \<equiv> - {PausedConditionType}"

interpretation body: reconcile_phase L body_types "reconcile_phases r L"
  for L :: "('w, 'm) lib" and r :: "('w, 'm, 'c) KamajiControlPlaneReconciler"
  unfolding reconcile_phases_def
  by (intro reconcile_phase_seq)
    (rule reconcile_phase_mono, rule ph_external.reconcile_phase_axioms ph_tcp.reconcile_phase_axioms
      ph_address.reconcile_phase_axioms ph_endpoint.reconcile_phase_axioms ph_refetch.reconcile_phase_axioms
      ph_infra.reconcile_phase_axioms ph_validate.reconcile_phase_axioms ph_initialize.reconcile_phase_axioms
      ph_report.reconcile_phase_axioms ph_resources.reconcile_phase_axioms ph_ready.reconcile_phase_axioms, simp)+

end
