(* ===== verification/ReconcileProperties.thy ===== *)
theory ReconcileProperties
  imports EndpointProperties ReconcilerLemmas
begin

text \<open>
  Properties of \<^verbatim>\<open>KamajiControlPlaneReconciler.Reconcile\<close> as a whole.
\<close>

section \<open>Panics\<close>

lemma seq_Panicked:
  assumes "fst (seq p q s) = Panicked m"
  shows "fst (p s) = Panicked m \<or> (\<exists>s1. p s = (Next, s1) \<and> fst (q s1) = Panicked m)"
  using assms by (auto simp: seq_def split: prod.splits flow.splits)

lemma seq_PanickedE:
  assumes "fst (seq p q s) = Panicked m" "fst (p s) \<noteq> Panicked m"
  obtains s1 where "p s = (Next, s1)" "fst (q s1) = Panicked m"
  using seq_Panicked [OF assms(1)] assms(2) by blast

lemma no_panic_simple:
  "fst (phase_address L s) \<noteq> Panicked m"
  "fst (phase_endpoint r L s) \<noteq> Panicked m"
  "fst (phase_refetch r L s) \<noteq> Panicked m"
  "fst (phase_infra r L s) \<noteq> Panicked m"
  "fst (phase_report r L s) \<noteq> Panicked m"
  "fst (phase_resources r L s) \<noteq> Panicked m"
  "fst (phase_validate s) \<noteq> Panicked m"
  by (auto simp: phase_address_def phase_endpoint_def phase_refetch_def phase_infra_def phase_report_def
      phase_resources_def phase_validate_def return_err_def Let_def split: prod.splits option.splits if_splits)

text \<open>The phases between the validation and the end leave the tenant control plane alone.\<close>

lemma x_tcp_assign [simp]: "x_tcp (snd (assign_kcp f s)) = x_tcp s" "x_tcp (snd (assign_world g s)) = x_tcp s"
  by (simp_all add: assign_kcp_def assign_world_def split: prod.split)

lemma x_tcp_kept:
  "phase_initialize r L s = (Next, s') \<Longrightarrow> x_tcp s' = x_tcp s"
  "phase_report r L s = (Next, s') \<Longrightarrow> x_tcp s' = x_tcp s"
  "phase_resources r L s = (Next, s') \<Longrightarrow> x_tcp s' = x_tcp s"
  "phase_validate s = (Next, s') \<Longrightarrow> s' = s \<and> tst_VersionStatus (tcp_Status (x_tcp s)) \<noteq> None"
  by (auto simp: phase_initialize_def phase_report_def phase_resources_def phase_validate_def return_err_iff Let_def
      split: option.splits if_splits prod.splits flow.splits)

lemma phase_initialize_panic: "fst (phase_initialize r L s) = Panicked m \<Longrightarrow> tst_VersionStatus (tcp_Status (x_tcp s)) = None"
  by (auto simp: phase_initialize_def return_err_def split: option.splits if_splits prod.splits flow.splits)

lemma phase_ready_panic: "fst (phase_ready r L s) = Panicked m \<Longrightarrow> tst_VersionStatus (tcp_Status (x_tcp s)) = None"
  by (auto simp: phase_ready_def Let_def split: option.splits if_splits)

lemma tcp_panic:
  assumes "fst (phase_tcp r L s) = Panicked m"
  shows "x_remoteClient s \<noteq> None" "external_reference (x_kcp s) = None"
  using assms
  by (auto simp: phase_tcp_def createOrUpdateTenantControlPlane_def GenerateRemoteTenantControlPlaneNames_def return_err_def Let_def
      split: prod.splits outcome.splits option.splits if_splits)

lemma external_no_panic: "fst (phase_external r L s) \<noteq> Panicked m"
  using extractRemoteClient_no_panic [of "x_kcp s" r L "x_w s"]
  by (auto simp: phase_external_def return_err_def Let_def split: prod.splits outcome.splits if_splits)

lemma external_none: "external_reference (x_kcp s) = None \<Longrightarrow> phase_external r L s = (Next, s)"
  by (simp add: phase_external_def)

lemma reconcile_phases_panic:
  assumes "fst (reconcile_phases r L s) = Panicked m"
  shows "\<exists>s1. phase_external r L s = (Next, s1) \<and> x_remoteClient s1 \<noteq> None \<and> external_reference (x_kcp s1) = None"
proof -
  from assms external_no_panic obtain s1 where s1: "phase_external r L s = (Next, s1)" and rest: "fst (seq (phase_tcp r L)
      (seq (phase_address L) (seq (phase_endpoint r L) (seq (phase_refetch r L) (seq (phase_infra r L) (seq phase_validate
      (seq (phase_initialize r L) (seq (phase_report r L) (seq (phase_resources r L) (phase_ready r L))))))))) s1) = Panicked m"
    unfolding reconcile_phases_def by (rule seq_PanickedE)
  have "fst (phase_tcp r L s1) = Panicked m"
  proof (rule ccontr)
    assume "fst (phase_tcp r L s1) \<noteq> Panicked m"
    with rest show False
      by (elim seq_PanickedE) (auto elim!: seq_PanickedE simp: no_panic_simple
          dest!: x_tcp_kept phase_initialize_panic phase_ready_panic)
  qed
  with s1 tcp_panic show ?thesis
    by blast
qed

lemma handleDeletion_returns: "returns (fst (handleDeletion r L kcp w))"
  using extractRemoteClient_no_panic [of kcp r L w]
  by (auto simp: handleDeletion_def GenerateRemoteTenantControlPlaneNames_def
      split: prod.split outcome.split sum.split option.split)

section \<open>Objects of the witnesses\<close>

definition owned_meta :: "string \<Rightarrow> ObjectMeta" where
  "owned_meta n = (sample_meta n)\<lparr>om_OwnerReferences :=
     Some [\<lparr>or_Kind = ''Cluster'', or_Name = ''c'', or_UID = ''u-c'', or_rest = ''''\<rparr>]\<rparr>"

definition owned_kcp :: KamajiControlPlane where
  "owned_kcp = zero_kcp\<lparr>kcp_meta := owned_meta ''k''\<rparr>"

definition remote_kcp :: KamajiControlPlane where
  "remote_kcp = owned_kcp\<lparr>kcp_Spec := (kcp_Spec owned_kcp)\<lparr>f_Deployment := (f_Deployment (kcp_Spec owned_kcp))
     \<lparr>dc_ExternalClusterReference := Some \<lparr>ecr_KubeconfigSecretName = ''s'', ecr_KubeconfigSecretKey = ''kc'',
        ecr_KubeconfigSecretNamespace = '''', ecr_DeploymentNamespace = ''remote''\<rparr>\<rparr>\<rparr>\<rparr>"

definition remote_secret :: Secret where
  "remote_secret = zero_secret\<lparr>se_meta := sample_meta ''s'', se_Data := Some [(''kc'', Some ''x'')]\<rparr>"

definition sample_world :: "KamajiControlPlane \<Rightarrow> mem" where
  "sample_world k = mem_empty\<lparr>mem_kcps := [k], mem_clusters := [sample_cluster ''VSphereCluster''],
     mem_secrets := [remote_secret]\<rparr>"

definition sample_req :: NamespacedName where
  "sample_req = \<lparr>nn_Namespace = ''ns'', nn_Name = ''k''\<rparr>"

text \<open>A reconciler whose store has the manager of the remote cluster.\<close>

definition remote_reconciler :: "mem client \<Rightarrow> (mem, nat, nat) KamajiControlPlaneReconciler" where
  "remote_reconciler c = (mem_reconciler [''ExternalClusterReference''] [])
     \<lparr>r_client := c, r_ExternalClusterReferenceStore := snd (mapStore_Add NewStore ''ns/s/kc'' '''' 0 0)\<rparr>"

text \<open>A client whose answer after the first read lacks the reference: somebody removed it.\<close>

definition racing_client :: "mem client" where
  "racing_client = mem_client\<lparr>c_get_kcp := (\<lambda>key old w.
     if old = zero_kcp then (None, remote_kcp, w) else (None, owned_kcp, w))\<rparr>"

section \<open>Properties\<close>

text \<open>
  C13: the answer of \<^verbatim>\<open>Reconcile\<close> keeps the contract of a reconciler: it asks for a requeue
  only without an error, and then after one second.
\<close>

theorem Reconcile_result:
  assumes "fst (Reconcile r L req w) = Return (res, e)"
  shows "RequeueAfter res = 0 \<or> (RequeueAfter res = Second \<and> e = None)"
proof -
  have active: "RequeueAfter res = 0 \<or> (RequeueAfter res = Second \<and> e = None)"
    if run: "fst (reconcile_active r L kcp cluster w) = Return (res, e)" for kcp cluster w
  proof -
    from run obtain s f s' where "reconcile_phases r L s = (f, s')" "flow_result f = Return (res, e)"
      by (auto simp: reconcile_active_def Let_def split: prod.splits)
    then show ?thesis
      using body.well_formed_flow [of r L s res e s']
      by (cases f) (auto simp: flow_result_def no_result_def)
  qed
  show ?thesis
    using assms
    by (auto simp: Reconcile_def reconcile_paused_def no_result_def Let_def active
        split: prod.splits option.splits list.splits if_splits outcome.splits)
qed

theorem Reconcile_result_witness:
  "fst (Reconcile (mem_reconciler [] []) mem_lib sample_req mem_empty) = Return (no_result, None) \<and>
   RequeueAfter no_result = 0"
proof -
  have run: "fst (Reconcile (mem_reconciler [] []) mem_lib sample_req mem_empty) = Return (no_result, None)"
    by code_simp
  from Reconcile_result [OF this] run show ?thesis
    by (auto simp: no_result_def Second_def)
qed

text \<open>
  C14: the only panic. If \<^verbatim>\<open>Reconcile\<close> panics, the object it read had an external cluster
  reference, and the object as read again by \<^verbatim>\<open>handleFinalizer\<close> had lost it; in particular an
  object without such a reference is always reconciled to an answer.
\<close>

theorem Reconcile_panic:
  assumes "fst (Reconcile r L req w) = Panic m"
  shows "\<exists>kcp w1 s s1. c_get_kcp (r_client r) req zero_kcp w = (None, kcp, w1) \<and> external_reference kcp \<noteq> None \<and>
    x_kcp s = kcp \<and> phase_external r L s = (Next, s1) \<and> external_reference (x_kcp s1) = None"
proof -
  have deletion: "(handleDeletion r L k v = (Panic p, v')) = False" for k v p v'
    using handleDeletion_returns [of r L k v] by auto
  from assms obtain kcp w1 cluster w2 where
    kcp: "c_get_kcp (r_client r) req zero_kcp w = (None, kcp, w1)"
    and "fst (reconcile_active r L kcp cluster w2) = Panic m"
    by (auto simp: Reconcile_def reconcile_paused_def Let_def deletion
        split: prod.splits option.splits list.splits if_splits outcome.splits)
  then have panicked: "fst (reconcile_phases r L (reconcile_start L kcp cluster w2)) = Panicked m"
    by (auto simp: reconcile_active_def flow_result_def split: prod.splits flow.splits)
  define s where "s = reconcile_start L kcp cluster w2"
  have s: "x_kcp s = kcp" "x_remoteClient s = None" "fst (reconcile_phases r L s) = Panicked m"
    using panicked by (simp_all add: s_def reconcile_start_def)
  from reconcile_phases_panic [OF s(3)] obtain s1 where s1: "phase_external r L s = (Next, s1)"
    "x_remoteClient s1 \<noteq> None" "external_reference (x_kcp s1) = None"
    by blast
  with s(2) have "external_reference (x_kcp s) \<noteq> None"
    using external_none [of s r L] by (metis prod.inject)
  with kcp s s1 show ?thesis
    by blast
qed

lemma racing_panics:
  "fst (Reconcile (remote_reconciler racing_client) mem_lib sample_req (sample_world remote_kcp)) =
   Panic ''invalid memory address or nil pointer dereference''"
  by code_simp

theorem Reconcile_panic_witness:
  "fst (Reconcile (remote_reconciler racing_client) mem_lib sample_req (sample_world remote_kcp)) =
     Panic ''invalid memory address or nil pointer dereference'' \<and> external_reference remote_kcp \<noteq> None"
proof -
  have "c_get_kcp (r_client (remote_reconciler racing_client)) sample_req zero_kcp (sample_world remote_kcp) =
      (None, remote_kcp, sample_world remote_kcp)"
    by (simp add: remote_reconciler_def racing_client_def)
  with Reconcile_panic [OF racing_panics] racing_panics show ?thesis
    by auto
qed

text \<open>
  C15: the conditions. However the phases end, what the deferred update writes has at most one
  condition per type, none that says the object is paused, and leaves every condition that is
  not one of the provider's own as it was on the object read at the start.
\<close>

theorem Reconcile_conditions:
  assumes "conditions_doc L" "distinct_types (st_Conditions (kcp_Status kcp))"
  shows "\<exists>cs k w1. distinct_types cs \<and> cond_of cs (ctype_text PausedConditionType) = None \<and>
    (\<forall>t. t \<notin> set own_conditions \<longrightarrow> cond_of cs t = cond_of (st_Conditions (kcp_Status kcp)) t) \<and>
    snd (reconcile_active r L kcp cluster w) =
      snd (snd (updateKamajiControlPlaneStatus L (r_client r) (set_conditions cs) (k, w1)))"
proof -
  obtain f s where run: "reconcile_phases r L (reconcile_start L kcp cluster w) = (f, s)"
    by fastforce
  have start: "distinct_types (x_conditions (reconcile_start L kcp cluster w))"
    using assms by (simp add: reconcile_start_def conditions_doc_def RemoveStatusCondition_doc_def)
  have removed: "cond_of (x_conditions (reconcile_start L kcp cluster w)) t =
      (if t = ctype_text PausedConditionType then None else cond_of (st_Conditions (kcp_Status kcp)) t)" for t
    by (simp add: reconcile_start_def cond_of_Remove [OF assms(1)])
  from body.keeps_conditions [OF run] assms(1) start have kept: "distinct_types (x_conditions s)"
    "\<And>t. t \<notin> ctype_text ` body_types \<Longrightarrow>
      cond_of (x_conditions s) t = cond_of (x_conditions (reconcile_start L kcp cluster w)) t"
    by (simp_all add: keeps_def)
  have "ctype_text PausedConditionType \<notin> ctype_text ` body_types"
    by (auto simp del: ctype_text.simps)
  with kept(2) removed have "cond_of (x_conditions s) (ctype_text PausedConditionType) = None"
    by metis
  moreover have "cond_of (x_conditions s) t = cond_of (st_Conditions (kcp_Status kcp)) t" if "t \<notin> range ctype_text" for t
  proof -
    have "t \<noteq> ctype_text PausedConditionType" "t \<notin> ctype_text ` body_types"
      using that by blast+
    then show ?thesis
      using kept(2) [of t] removed [of t] by (simp del: ctype_text.simps)
  qed
  moreover have "snd (reconcile_active r L kcp cluster w) =
      snd (snd (updateKamajiControlPlaneStatus L (r_client r) (set_conditions (x_conditions s)) (x_kcp s, x_w s)))"
    by (simp add: reconcile_active_def run deferred_update_def)
  ultimately show ?thesis
    using kept(1) unfolding set_own_conditions by blast
qed

theorem Reconcile_conditions_witness:
  "\<exists>cs k w1. distinct_types cs \<and>
     snd (reconcile_active (mem_reconciler [] []) mem_lib owned_kcp (sample_cluster ''VSphereCluster'') (sample_world owned_kcp)) =
       snd (snd (updateKamajiControlPlaneStatus mem_lib mem_client (set_conditions cs) (k, w1)))"
proof -
  have "distinct_types (st_Conditions (kcp_Status owned_kcp))"
    by code_simp
  from Reconcile_conditions [OF mem_conditions_doc this, of "mem_reconciler [] []"] show ?thesis
    by (force simp: mem_reconciler_def)
qed


lemma owned_no_reference: "external_reference owned_kcp = None"
  by code_simp

lemma owned_created:
  "fst (phase_tcp (mem_reconciler [] []) mem_lib
     (reconcile_start mem_lib owned_kcp (sample_cluster ''VSphereCluster'') (sample_world owned_kcp))) = Next"
  "tst_ControlPlaneEndpoint (tcp_Status (x_tcp (snd (phase_tcp (mem_reconciler [] []) mem_lib
     (reconcile_start mem_lib owned_kcp (sample_cluster ''VSphereCluster'') (sample_world owned_kcp)))))) = ''''"
  by code_simp+


definition before_ready :: "('w, 'm, 'c) KamajiControlPlaneReconciler \<Rightarrow> ('w, 'm) lib \<Rightarrow> 'w phase" where
  "before_ready r L =
     seq (phase_external r L) (seq (phase_tcp r L) (seq (phase_address L) (seq (phase_endpoint r L)
       (seq (phase_refetch r L) (seq (phase_infra r L) (seq phase_validate (seq (phase_initialize r L)
         (seq (phase_report r L) (phase_resources r L)))))))))"

lemma seq_assoc: "seq (seq p q) t = seq p (seq q t)"
  by (rule ext) (simp add: seq_def split: prod.split flow.split)

lemma reconcile_phases_split: "reconcile_phases r L = seq (before_ready r L) (phase_ready r L)"
  by (simp add: reconcile_phases_def before_ready_def seq_assoc)

interpretation before: reconcile_phase L body_types "before_ready r L"
  for L :: "('w, 'm) lib" and r :: "('w, 'm, 'c) KamajiControlPlaneReconciler"
  unfolding before_ready_def
  by (intro reconcile_phase_seq)
    (rule reconcile_phase_mono, rule ph_external.reconcile_phase_axioms ph_tcp.reconcile_phase_axioms
      ph_address.reconcile_phase_axioms ph_endpoint.reconcile_phase_axioms ph_refetch.reconcile_phase_axioms
      ph_infra.reconcile_phase_axioms ph_validate.reconcile_phase_axioms ph_initialize.reconcile_phase_axioms
      ph_report.reconcile_phase_axioms ph_resources.reconcile_phase_axioms, simp)+

lemma seq_NextE:
  assumes "seq p q s = (Next, s')"
  obtains s1 where "p s = (Next, s1)" "q s1 = (Next, s')"
  using assms by (auto simp: seq_def split: prod.splits flow.splits)

definition condition_true :: "KamajiControlPlaneConditionType \<Rightarrow> 'w rstate \<Rightarrow> bool" where
  "condition_true ct s \<longleftrightarrow>
     (case cond_of (x_conditions s) (ctype_text ct) of Some c \<Rightarrow> co_Status c = ConditionTrue | None \<Rightarrow> False)"

lemma tracked_true:
  assumes "conditions_doc L" "distinct_types (x_conditions s)" "fst (fn s) = None"
  shows "condition_true ct (tracked L ct fn s)"
proof -
  have "fn s = (None, snd (fn s))"
    by (simp add: prod_eq_iff assms(3))
  from tracked_conditions [where fn = fn, OF assms(1,2) this, of ct "ctype_text ct"] show ?thesis
    by (simp add: condition_true_def)
qed

lemma assigned_err [simp]: "x_err (snd (assign_kcp f s)) = fst (assign_kcp f s)" "x_err (snd (assign_world g s)) = fst (assign_world g s)"
  by (simp_all add: assign_kcp_def assign_world_def split: prod.split)

lemma phase_sets_condition:
  assumes d: "conditions_doc L" "distinct_types (x_conditions s)"
  shows "phase_tcp r L s = (Next, s') \<Longrightarrow> condition_true TenantControlPlaneCreatedConditionType s'"
    and "phase_address L s = (Next, s') \<Longrightarrow> condition_true TenantControlPlaneAddressReadyConditionType s'"
    and "phase_endpoint r L s = (Next, s') \<Longrightarrow> condition_true ControlPlaneEndpointPatchedConditionType s'"
    and "phase_infra r L s = (Next, s') \<Longrightarrow> \<not> r_FeatureGates r features_SkipInfraClusterPatch \<Longrightarrow>
      condition_true InfrastructureClusterPatchedConditionType s'"
  using tracked_true [OF d]
  by (auto simp: phase_tcp_def phase_address_def phase_endpoint_def phase_infra_def return_err_iff Let_def
      simp del: ctype_text.simps split: prod.splits outcome.splits sum.splits if_splits)

lemma phase_resources_condition:
  assumes d: "conditions_doc L" "distinct_types (x_conditions s)" and "phase_resources r L s = (Next, s')"
  shows "condition_true KubeadmResourcesCreatedReadyConditionType s'"
proof -
  let ?s = "tracked L KamajiControlPlaneInitializedConditionType
    (\<lambda>s. assign_kcp (updateKamajiControlPlaneStatus L (r_client r) set_initialized) s) s"
  have "distinct_types (x_conditions ?s)"
    using keeps_tracked [of KamajiControlPlaneInitializedConditionType UNIV L s] d by (simp add: keeps_def)
  from tracked_true [OF d(1) this] assms(3) show ?thesis
    by (auto simp: phase_resources_def Let_def simp del: ctype_text.simps split: option.splits if_splits)
qed

text \<open>A condition set by one phase is still there after the next ones.\<close>

lemma condition_kept:
  assumes "keeps L T (x_conditions s) (x_conditions s')" "conditions_doc L" "distinct_types (x_conditions s)"
    "ct \<notin> T" "condition_true ct s"
  shows "condition_true ct s'"
proof -
  have "ctype_text ct \<notin> ctype_text ` T"
    using assms(4) by (auto simp del: ctype_text.simps)
  with assms show ?thesis
    by (simp add: keeps_def condition_true_def del: ctype_text.simps)
qed

lemma keeps_distinct: "keeps L T cs cs' \<Longrightarrow> conditions_doc L \<Longrightarrow> distinct_types cs \<Longrightarrow> distinct_types cs'"
  by (simp add: keeps_def)

text \<open>The phases after the validation keep the cluster it looked at.\<close>

lemma x_cluster_assign [simp]: "x_cluster (snd (assign_kcp f s)) = x_cluster s" "x_cluster (snd (assign_world g s)) = x_cluster s"
  by (simp_all add: assign_kcp_def assign_world_def split: prod.split)

definition cluster_ready :: "Cluster \<Rightarrow> bool" where
  "cluster_ready c \<longleftrightarrow> ep_Host (cl_ControlPlaneEndpoint c) \<noteq> '''' \<and> cl_InfrastructureProvisioned c = Some True"

lemma x_cluster_kept:
  "phase_validate s = (Next, s') \<Longrightarrow> s' = s \<and> cluster_ready (x_cluster s)"
  "phase_initialize r L s = (Next, s') \<Longrightarrow> x_cluster s' = x_cluster s"
  "phase_report r L s = (Next, s') \<Longrightarrow> x_cluster s' = x_cluster s"
  "phase_resources r L s = (Next, s') \<Longrightarrow> x_cluster s' = x_cluster s"
  by (auto simp: phase_initialize_def phase_report_def phase_resources_def phase_validate_def return_err_iff Let_def cluster_ready_def
      split: option.splits if_splits prod.splits flow.splits)

text \<open>Where an object goes on from phase to phase, and what holds of its conditions.\<close>

lemma step_through:
  assumes "reconcile_phase L T p" "p s = (Next, s')" "conditions_doc L" "distinct_types (x_conditions s)"
  shows "distinct_types (x_conditions s') \<and> (\<forall>ct. ct \<notin> T \<longrightarrow> condition_true ct s \<longrightarrow> condition_true ct s')"
  using keeps_distinct [OF reconcile_phase.keeps_conditions [OF assms(1,2)] assms(3,4)]
    condition_kept [OF reconcile_phase.keeps_conditions [OF assms(1,2)] assms(3,4)]
  by blast

text \<open>
  When every phase before the last one has gone on, the object's conditions say that the tenant
  control plane was created, has an address, that the endpoint was written, that the
  infrastructure cluster was patched (unless this is disabled) and that the secrets were
  created, each with the status True; and the cluster it went on with has an endpoint and a
  provisioned infrastructure.
\<close>

lemma completed_conditions:
  assumes "conditions_doc L" "distinct_types (x_conditions s)" "before_ready r L s = (Next, s')"
  shows "(\<forall>ct \<in> {TenantControlPlaneCreatedConditionType, TenantControlPlaneAddressReadyConditionType,
      ControlPlaneEndpointPatchedConditionType, KubeadmResourcesCreatedReadyConditionType}. condition_true ct s') \<and>
    (\<not> r_FeatureGates r features_SkipInfraClusterPatch \<longrightarrow> condition_true InfrastructureClusterPatchedConditionType s') \<and>
    cluster_ready (x_cluster s')"
proof -
  note d = assms(1)
  from assms(3) obtain s1 s2 s3 s4 s5 s6 s7 s8 s9 where
    ph: "phase_external r L s = (Next, s1)" "phase_tcp r L s1 = (Next, s2)" "phase_address L s2 = (Next, s3)"
      "phase_endpoint r L s3 = (Next, s4)" "phase_refetch r L s4 = (Next, s5)" "phase_infra r L s5 = (Next, s6)"
      "phase_validate s6 = (Next, s7)" "phase_initialize r L s7 = (Next, s8)" "phase_report r L s8 = (Next, s9)"
      "phase_resources r L s9 = (Next, s')"
    unfolding before_ready_def by (elim seq_NextE)
  note k1 = step_through [OF ph_external.reconcile_phase_axioms ph(1) d assms(2)]
  note k2 = step_through [OF ph_tcp.reconcile_phase_axioms ph(2) d conjunct1 [OF k1]]
  note k3 = step_through [OF ph_address.reconcile_phase_axioms ph(3) d conjunct1 [OF k2]]
  note k4 = step_through [OF ph_endpoint.reconcile_phase_axioms ph(4) d conjunct1 [OF k3]]
  note k5 = step_through [OF ph_refetch.reconcile_phase_axioms ph(5) d conjunct1 [OF k4]]
  note k6 = step_through [OF ph_infra.reconcile_phase_axioms ph(6) d conjunct1 [OF k5]]
  note k7 = step_through [OF ph_validate.reconcile_phase_axioms ph(7) d conjunct1 [OF k6]]
  note k8 = step_through [OF ph_initialize.reconcile_phase_axioms ph(8) d conjunct1 [OF k7]]
  note k9 = step_through [OF ph_report.reconcile_phase_axioms ph(9) d conjunct1 [OF k8]]
  note k10 = step_through [OF ph_resources.reconcile_phase_axioms ph(10) d conjunct1 [OF k9]]
  note set_2 = phase_sets_condition(1) [OF d conjunct1 [OF k1] ph(2)]
    and set_3 = phase_sets_condition(2) [OF d conjunct1 [OF k2] ph(3)]
    and set_4 = phase_sets_condition(3) [OF d conjunct1 [OF k3] ph(4)]
    and set_6 = phase_sets_condition(4) [OF d conjunct1 [OF k5] ph(6)]
    and set_10 = phase_resources_condition [OF d conjunct1 [OF k9] ph(10)]
  have late: "condition_true ct s6 \<Longrightarrow> ct \<notin> {KamajiControlPlaneInitializedConditionType, KubeadmResourcesCreatedReadyConditionType} \<Longrightarrow>
      condition_true ct s'" for ct
    using k7 k8 k9 k10 by simp
  have "cluster_ready (x_cluster s')"
    using ph(7-10) by (auto dest!: x_cluster_kept)
  then show ?thesis
    using set_2 set_3 set_4 set_6 set_10 k3 k4 k5 k6 late by simp
qed

text \<open>A world in which the reconciliation of \<open>owned_kcp\<close> completes, with the status of the tenant control plane given.\<close>

definition running_tcp :: "string \<Rightarrow> TenantControlPlane" where
  "running_tcp status = zero_tcp\<lparr>tcp_meta := sample_meta ''k'', tcp_Status := (tcp_Status zero_tcp)
     \<lparr>tst_ControlPlaneEndpoint := ''1.2.3.4:6443'', tst_VersionStatus := Some status, tst_Version := ''v1.30.0'',
      tst_AdminSecretName := ''adm'', tst_CASecretName := ''ca''\<rparr>\<rparr>"

definition provisioned_cluster :: Cluster where
  "provisioned_cluster = (sample_cluster ''VSphereCluster'')\<lparr>cl_InfrastructureProvisioned := Some True,
     cl_ControlPlaneEndpoint := \<lparr>ep_Host = ''1.2.3.4'', ep_Port = 6443\<rparr>\<rparr>"

definition running_world :: "KamajiControlPlane \<Rightarrow> string \<Rightarrow> mem" where
  "running_world kcp status = vsphere_world
     \<lparr>mem_kcps := [kcp], mem_clusters := [provisioned_cluster], mem_tcps := [running_tcp status],
      mem_secrets := [zero_secret\<lparr>se_meta := sample_meta ''adm'', se_Data := Some [(''admin.conf'', Some ''x'')]\<rparr>,
        zero_secret\<lparr>se_meta := sample_meta ''ca'', se_Data := Some [(''ca.crt'', Some ''c''), (''ca.key'', Some ''k'')]\<rparr>]\<rparr>"

abbreviation running_start :: "KamajiControlPlane \<Rightarrow> string \<Rightarrow> mem rstate" where
  "running_start kcp status \<equiv> reconcile_start mem_lib kcp provisioned_cluster (running_world kcp status)"

text \<open>All its phases go on, and the status is updated.\<close>

definition running_report :: bool where
  "running_report =
     (case before_ready (mem_reconciler [] [] :: (mem, nat, nat) KamajiControlPlaneReconciler) mem_lib (running_start owned_kcp ''Ready'') of
        (f, s) \<Rightarrow> f = Next \<and> tst_VersionStatus (tcp_Status (x_tcp s)) = Some ''Ready'' \<and>
          (case updateKamajiControlPlaneStatus mem_lib mem_client (set_ready True) (x_kcp s, x_w s) of
             (e, kcp', w') \<Rightarrow> e = None \<and> st_Ready (kcp_Status kcp')))"

lemma running_reports: running_report
  by code_simp

text \<open>The last phase, once its update of the status has succeeded: what it reports is what the object says.\<close>

lemma phase_ready_run:
  assumes "conditions_doc L" "distinct_types (x_conditions s)"
    and "tst_VersionStatus (tcp_Status (x_tcp s)) = Some status"
    and "updateKamajiControlPlaneStatus L (r_client r) (set_ready (status = k_VersionReady L \<or> status = k_VersionUpgrading L))
      (x_kcp s, x_w s) = (None, kcp', w')"
  obtains s' where "phase_ready r L s = (Stop no_result None, s')" "x_kcp s' = kcp'" "x_cluster s' = x_cluster s"
    "cond_of (x_conditions s') (ctype_text KamajiControlPlaneReadyConditionType) =
       Some (track_result L (l_now L w') (om_Generation (kcp_meta (x_kcp s)))
         (if st_Ready (kcp_Status kcp') then None
          else Some (Errorf (''TenantControlPlane in '' @ status @ '' status, '') (Sentinel ErrEnqueueBack)))
         (tracked_before (x_conditions s) KamajiControlPlaneReadyConditionType))"
    "condition_true AvailableConditionType s' \<longleftrightarrow> st_Ready (kcp_Status kcp')"
proof -
  let ?e = "if st_Ready (kcp_Status kcp') then None
    else Some (Errorf (''TenantControlPlane in '' @ status @ '' status, '') (Sentinel ErrEnqueueBack))"
  have ready: "report_ready r L status s = (?e, s\<lparr>x_kcp := kcp', x_w := w', x_err := None\<rparr>)"
    using assms(4) by (simp add: report_ready_def assign_kcp_def)
  define t where "t = tracked L KamajiControlPlaneReadyConditionType (report_ready r L status) s"
  define s' where "s' = t\<lparr>x_conditions := l_SetStatusCondition L (l_now L (x_w t)) (available_condition (x_kcp t)) (x_conditions t)\<rparr>"
  have t: "x_err t = None" "x_kcp t = kcp'" "x_cluster t = x_cluster s"
    by (simp_all add: t_def ready)
  have conditions: "cond_of (x_conditions s') u =
    (if u = ctype_text AvailableConditionType
     then Some ((available_condition kcp')\<lparr>co_LastTransitionTime := transition_time (l_now L (x_w t)) (available_condition kcp')
       (cond_of (x_conditions t) u)\<rparr>)
     else cond_of (x_conditions t) u)" for u
    by (simp add: s'_def t cond_of_Set [OF assms(1)] available_condition_def)
  show ?thesis
  proof
    show "phase_ready r L s = (Stop no_result None, s')"
      using t by (simp add: phase_ready_def assms(3) Let_def s'_def flip: t_def)
    show "x_kcp s' = kcp'" "x_cluster s' = x_cluster s"
      by (simp_all add: s'_def t)
    show "cond_of (x_conditions s') (ctype_text KamajiControlPlaneReadyConditionType) =
       Some (track_result L (l_now L w') (om_Generation (kcp_meta (x_kcp s))) ?e
         (tracked_before (x_conditions s) KamajiControlPlaneReadyConditionType))"
      using conditions tracked_conditions [where fn = "report_ready r L status", OF assms(1,2) ready] by (simp add: t_def)
    show "condition_true AvailableConditionType s' \<longleftrightarrow> st_Ready (kcp_Status kcp')"
      by (simp add: condition_true_def conditions available_condition_def)
  qed
qed

text \<open>
  C17: a ready control plane is reported ready. When every phase before the last one has gone on
  for an object, its tenant control plane has a status, and the API server has accepted the
  update that says it is ready, the reconciliation ends without an error and without a requeue,
  and the conditions that its deferred update writes say that the tenant control plane was
  created, has an address, that the endpoint was written, the secrets created and, unless this
  is disabled, the infrastructure cluster patched, and that the control plane is ready and
  available, each with the status True; and the cluster it went on with has an endpoint and a
  provisioned infrastructure.
\<close>

theorem ready_reported:
  assumes "conditions_doc L" "distinct_types (st_Conditions (kcp_Status kcp))"
    and "before_ready r L (reconcile_start L kcp cluster w) = (Next, s)"
    and "tst_VersionStatus (tcp_Status (x_tcp s)) = Some status"
    and "updateKamajiControlPlaneStatus L (r_client r) (set_ready (status = k_VersionReady L \<or> status = k_VersionUpgrading L))
      (x_kcp s, x_w s) = (None, kcp', w')"
    and "st_Ready (kcp_Status kcp')"
  shows "\<exists>s'. reconcile_active r L kcp cluster w = (Return (no_result, None), deferred_update r L s') \<and> x_kcp s' = kcp' \<and>
    (\<forall>ct \<in> {TenantControlPlaneCreatedConditionType, TenantControlPlaneAddressReadyConditionType,
      ControlPlaneEndpointPatchedConditionType, KubeadmResourcesCreatedReadyConditionType,
      KamajiControlPlaneReadyConditionType, AvailableConditionType}. condition_true ct s') \<and>
    (\<not> r_FeatureGates r features_SkipInfraClusterPatch \<longrightarrow> condition_true InfrastructureClusterPatchedConditionType s') \<and>
    cluster_ready (x_cluster s')"
proof -
  let ?start = "reconcile_start L kcp cluster w"
  have start: "distinct_types (x_conditions ?start)"
    using assms(1,2) by (simp add: reconcile_start_def conditions_doc_def RemoveStatusCondition_doc_def)
  have dist: "distinct_types (x_conditions s)"
    by (rule keeps_distinct [OF before.keeps_conditions [OF assms(3)] assms(1) start])
  obtain s' where run: "phase_ready r L s = (Stop no_result None, s')" and s': "x_kcp s' = kcp'" "x_cluster s' = x_cluster s"
    and ready: "condition_true KamajiControlPlaneReadyConditionType s'" "condition_true AvailableConditionType s'"
    by (rule phase_ready_run [OF assms(1) dist assms(4,5)])
      (use assms(6) in \<open>simp add: condition_true_def track_result_def track_succeeded_def Let_def\<close>)
  have kept: "condition_true ct s \<Longrightarrow> ct \<notin> {KamajiControlPlaneReadyConditionType, AvailableConditionType} \<Longrightarrow> condition_true ct s'" for ct
    using condition_kept [OF ph_ready.keeps_conditions [OF run] assms(1) dist] by blast
  have "reconcile_active r L kcp cluster w = (Return (no_result, None), deferred_update r L s')"
    by (simp add: reconcile_active_def reconcile_phases_split seq_def assms(3) run flow_result_def)
  with completed_conditions [OF assms(1) start assms(3)] kept s' ready show ?thesis
    by (intro exI [of _ s']) simp
qed

theorem ready_reported_witness:
  "\<exists>s'. reconcile_active (mem_reconciler [] []) mem_lib owned_kcp provisioned_cluster (running_world owned_kcp ''Ready'') =
       (Return (no_result, None), deferred_update (mem_reconciler [] []) mem_lib s') \<and>
     condition_true AvailableConditionType s' \<and> condition_true InfrastructureClusterPatchedConditionType s'"
proof -
  let ?r = "mem_reconciler [] [] :: (mem, nat, nat) KamajiControlPlaneReconciler"
  have ready: "''Ready'' = k_VersionReady mem_lib \<or> ''Ready'' = k_VersionUpgrading mem_lib"
    by code_simp
  obtain s kcp' w' where run: "before_ready ?r mem_lib (running_start owned_kcp ''Ready'') = (Next, s)"
    and status: "tst_VersionStatus (tcp_Status (x_tcp s)) = Some ''Ready''"
    and u: "updateKamajiControlPlaneStatus mem_lib (r_client ?r)
      (set_ready (''Ready'' = k_VersionReady mem_lib \<or> ''Ready'' = k_VersionUpgrading mem_lib)) (x_kcp s, x_w s) = (None, kcp', w')"
      "st_Ready (kcp_Status kcp')"
    using running_reports unfolding running_report_def by (auto simp: ready mem_reconciler_def split: prod.splits)
  have "distinct_types (st_Conditions (kcp_Status owned_kcp))"
    by code_simp
  from ready_reported [OF mem_conditions_doc this run status u] show ?thesis
    by (auto simp: mem_reconciler_def)
qed

text \<open>
  C18: a control plane that is not ready is not looked at again. When everything has been done
  but the status of the tenant control plane is neither ready nor upgrading, the conditions
  report it as not ready and not available, yet the reconciliation ends like a completed one,
  without a requeue: the closure returns the request to enqueue back to
  \<^verbatim>\<open>TrackConditionType\<close> only.
\<close>

theorem not_ready_not_requeued:
  assumes "conditions_doc L" "distinct_types (x_conditions s)"
    and "tst_VersionStatus (tcp_Status (x_tcp s)) = Some status"
    and "updateKamajiControlPlaneStatus L (r_client r) (set_ready (status = k_VersionReady L \<or> status = k_VersionUpgrading L))
      (x_kcp s, x_w s) = (None, kcp', w')"
    and "\<not> st_Ready (kcp_Status kcp')"
  shows "\<exists>s' c. phase_ready r L s = (Stop no_result None, s') \<and>
    cond_of (x_conditions s') (ctype_text KamajiControlPlaneReadyConditionType) = Some c \<and>
    co_Status c = ConditionFalse \<and> co_Reason c = ''Failed'' \<and> \<not> condition_true AvailableConditionType s'"
proof -
  obtain s' where run: "phase_ready r L s = (Stop no_result None, s')"
    and available: "condition_true AvailableConditionType s' \<longleftrightarrow> st_Ready (kcp_Status kcp')"
    and ready: "cond_of (x_conditions s') (ctype_text KamajiControlPlaneReadyConditionType) =
       Some (track_result L (l_now L w') (om_Generation (kcp_meta (x_kcp s)))
         (Some (Errorf (''TenantControlPlane in '' @ status @ '' status, '') (Sentinel ErrEnqueueBack)))
         (tracked_before (x_conditions s) KamajiControlPlaneReadyConditionType))"
    by (rule phase_ready_run [OF assms(1-4)]) (use assms(5) in simp)
  from ready have "\<exists>c. cond_of (x_conditions s') (ctype_text KamajiControlPlaneReadyConditionType) = Some c \<and>
      co_Status c = ConditionFalse \<and> co_Reason c = ''Failed''"
    by (simp add: track_result_def track_failed_def Let_def)
  with run available assms(5) show ?thesis
    by blast
qed

definition initialized_kcp :: KamajiControlPlane where
  "initialized_kcp = owned_kcp\<lparr>kcp_Status := SetControlPlaneInitialized True (kcp_Status owned_kcp)\<rparr>"

definition not_ready_state :: "mem rstate" where
  "not_ready_state = (running_start initialized_kcp ''NotReady'')\<lparr>x_tcp := running_tcp ''NotReady''\<rparr>"

text \<open>The whole reconciliation of such an object: no error and no requeue.\<close>

lemma not_ready_reconciled:
  "fst (Reconcile (mem_reconciler [] []) mem_lib sample_req (running_world initialized_kcp ''NotReady'')) = Return (no_result, None)"
  by code_simp

theorem not_ready_not_requeued_witness:
  "fst (phase_ready (mem_reconciler [] []) mem_lib not_ready_state) = Stop no_result None \<and>
   fst (Reconcile (mem_reconciler [] []) mem_lib sample_req (running_world initialized_kcp ''NotReady'')) = Return (no_result, None)"
proof -
  let ?r = "mem_reconciler [] [] :: (mem, nat, nat) KamajiControlPlaneReconciler"
  let ?u = "updateKamajiControlPlaneStatus mem_lib (r_client ?r)
    (set_ready (''NotReady'' = k_VersionReady mem_lib \<or> ''NotReady'' = k_VersionUpgrading mem_lib)) (x_kcp not_ready_state, x_w not_ready_state)"
  have "fst ?u = None" "\<not> st_Ready (kcp_Status (fst (snd ?u)))"
    by code_simp+
  then obtain kcp' w' where u: "?u = (None, kcp', w')" "\<not> st_Ready (kcp_Status kcp')"
    by (metis surj_pair fst_conv snd_conv)
  have "distinct_types (x_conditions not_ready_state)" "tst_VersionStatus (tcp_Status (x_tcp not_ready_state)) = Some ''NotReady''"
    by code_simp+
  from not_ready_not_requeued [OF mem_conditions_doc this u] not_ready_reconciled show ?thesis
    by auto
qed

text \<open>
  C19: a paused object is only marked as such. When the cluster or the object is paused,
  \<^verbatim>\<open>Reconcile\<close> answers without error and without requeue, even when the object is being deleted,
  and its only write is one update of the status, in which the condition of the pause is true
  and every other condition is as it was read.
\<close>

theorem paused_only_marked:
  assumes "conditions_doc L"
    and "c_get_kcp (r_client r) req zero_kcp w = (None, kcp, w1)"
    and "elems (om_OwnerReferences (kcp_meta kcp)) = owner # owners"
    and "c_get_cluster (r_client r) \<lparr>nn_Namespace = om_Namespace (kcp_meta kcp), nn_Name = or_Name owner\<rparr>
      (zero_cluster\<lparr>cl_meta := zero_meta\<lparr>om_Name := or_Name owner, om_Namespace := om_Namespace (kcp_meta kcp)\<rparr>\<rparr>) w1
        = (None, cluster, w2)"
    and "l_IsPaused L cluster kcp"
  shows "\<exists>cs c. Reconcile r L req w = (Return (no_result, None),
      snd (snd (updateKamajiControlPlaneStatus L (r_client r) (set_conditions cs) (kcp, w2)))) \<and>
    cond_of cs (ctype_text PausedConditionType) = Some c \<and> co_Status c = ConditionTrue \<and>
    (\<forall>t. t \<noteq> ctype_text PausedConditionType \<longrightarrow> cond_of cs t = cond_of (st_Conditions (kcp_Status kcp)) t)"
  using assms(2-5)
  by (auto simp: Reconcile_def reconcile_paused_def ObjectKey_def Let_def cond_of_Set [OF assms(1)])

definition paused_kcp :: KamajiControlPlane where
  "paused_kcp = owned_kcp\<lparr>kcp_meta := (kcp_meta owned_kcp)\<lparr>om_Annotations := Some [(''cluster.x-k8s.io/paused'', '''')]\<rparr>\<rparr>"

theorem paused_only_marked_witness:
  "\<exists>cs. Reconcile (mem_reconciler [] []) mem_lib sample_req (running_world paused_kcp ''Ready'') = (Return (no_result, None),
     snd (snd (updateKamajiControlPlaneStatus mem_lib mem_client (set_conditions cs) (paused_kcp, running_world paused_kcp ''Ready''))))"
proof -
  let ?r = "mem_reconciler [] [] :: (mem, nat, nat) KamajiControlPlaneReconciler" and ?w = "running_world paused_kcp ''Ready''"
  have get: "c_get_kcp (r_client ?r) sample_req zero_kcp ?w = (None, paused_kcp, ?w)"
    by code_simp
  have owner: "elems (om_OwnerReferences (kcp_meta paused_kcp)) = \<lparr>or_Kind = ''Cluster'', or_Name = ''c'', or_UID = ''u-c'', or_rest = ''''\<rparr> # []"
    by code_simp
  have cluster: "c_get_cluster (r_client ?r) \<lparr>nn_Namespace = om_Namespace (kcp_meta paused_kcp),
       nn_Name = or_Name \<lparr>or_Kind = ''Cluster'', or_Name = ''c'', or_UID = ''u-c'', or_rest = ''''\<rparr>\<rparr> old ?w = (None, provisioned_cluster, ?w)" for old
    by (simp add: mem_reconciler_def mem_client_def mem_read_def mem_get_def running_world_def provisioned_cluster_def
        sample_cluster_def sample_meta_def ObjectKey_def paused_kcp_def owned_kcp_def owned_meta_def)
  have "l_IsPaused mem_lib provisioned_cluster paused_kcp"
    by code_simp
  from paused_only_marked [OF mem_conditions_doc get owner cluster this] show ?thesis
    by (auto simp: mem_reconciler_def)
qed

end
