(* ===== verification/Indexers.thy ===== *)
theory Indexers
  imports NameGenerator
begin

text \<open>
  \<^verbatim>\<open>pkg/indexers\<close>: the three field indexes that let the controllers look objects up by the key
  of an external cluster reference or by UID. The Go interface is the locale \<open>field_index\<close>;
  each of the three indexers is interpreted in it.
\<close>

section \<open>The interface\<close>

text \<open>
  \<open>selects o v\<close>: what it means that object \<open>o\<close> is listed under the value \<open>v\<close>. The extract
  function answers for every object of its kind, and lists the object under exactly those values.
\<close>

locale field_index =
  fixes values_of :: "'o \<Rightarrow> string slice outcome"
    and selects :: "'o \<Rightarrow> string \<Rightarrow> bool"
  assumes extract_returns: "\<exists>vs. values_of x = Return vs"
    and extract_selects: "values_of x = Return vs \<Longrightarrow> v \<in> set (elems vs) \<longleftrightarrow> selects x v"
begin

text \<open>The objects an index holds under a value: the answer to \<^verbatim>\<open>client.MatchingFields\<close>.\<close>

definition matching :: "string \<Rightarrow> 'o list \<Rightarrow> 'o list" where
  "matching v xs = filter (\<lambda>x. case values_of x of Return vs \<Rightarrow> v \<in> set (elems vs) | Panic _ \<Rightarrow> False) xs"

lemma matching_selects: "matching v xs = filter (\<lambda>x. selects x v) xs"
  unfolding matching_def
proof (rule filter_cong [OF refl])
  fix x
  obtain vs where vs: "values_of x = Return vs"
    using extract_returns by blast
  then show "(case values_of x of Return vs \<Rightarrow> v \<in> set (elems vs) | Panic _ \<Rightarrow> False) = selects x v"
    by (simp add: extract_selects [OF vs])
qed

end

section \<open>The indexers\<close>

definition ExternalClusterReferenceKamajiControlPlaneField :: string where
  "ExternalClusterReferenceKamajiControlPlaneField = ''externalClusterReferenceKamajiControlPlane''"

definition ExternalClusterReferenceKamajiControlPlane_ExtractValue ::
  "KamajiControlPlane \<Rightarrow> string slice outcome" where
  "ExternalClusterReferenceKamajiControlPlane_ExtractValue kcp =
     (if external_reference kcp \<noteq> None then
        (case GenerateKeyNameFromKamaji kcp of
           Return k \<Rightarrow> Return (Some [k])
         | Panic p \<Rightarrow> Panic p)
      else Return None)"

definition ExternalClusterReferenceSecretField :: string where
  "ExternalClusterReferenceSecretField = ''externalClusterReferenceSecret''"

definition ExternalClusterReferenceSecret_ExtractValue :: "Secret \<Rightarrow> string slice outcome" where
  "ExternalClusterReferenceSecret_ExtractValue secret = Return (Some (GenerateKeyNameFromSecret secret))"

definition KamajiControlPlaneUIDField :: string where
  "KamajiControlPlaneUIDField = ''kamajiControlPlaneUID''"

definition KamajiControlPlaneUID_ExtractValue :: "KamajiControlPlane \<Rightarrow> string slice outcome" where
  "KamajiControlPlaneUID_ExtractValue kcp = Return (Some [om_UID (kcp_meta kcp)])"

text \<open>
  The indexers as the manager sees them: \<^verbatim>\<open>Object\<close>, \<^verbatim>\<open>Field\<close> and \<^verbatim>\<open>ExtractValue\<close>, which is called with
  an object behind an interface and panics on one of another type.
\<close>

datatype client_Object = KamajiControlPlaneObject KamajiControlPlane | SecretObject Secret

fun object_kind :: "client_Object \<Rightarrow> string" where
  "object_kind (KamajiControlPlaneObject kcp) = ''KamajiControlPlane''"
| "object_kind (SecretObject secret) = ''Secret''"

record indexer =
  ix_Object :: string
  ix_Field :: string
  ix_ExtractValue :: "client_Object \<Rightarrow> string slice outcome"

definition interface_conversion :: string where
  "interface_conversion = ''interface conversion''"

definition ExternalClusterReferenceKamajiControlPlane :: indexer where
  "ExternalClusterReferenceKamajiControlPlane =
     \<lparr>ix_Object = ''KamajiControlPlane'', ix_Field = ExternalClusterReferenceKamajiControlPlaneField,
      ix_ExtractValue = (\<lambda>object. case object of
         KamajiControlPlaneObject kcp \<Rightarrow> ExternalClusterReferenceKamajiControlPlane_ExtractValue kcp
       | _ \<Rightarrow> Panic interface_conversion)\<rparr>"

definition ExternalClusterReferenceSecret :: indexer where
  "ExternalClusterReferenceSecret =
     \<lparr>ix_Object = ''Secret'', ix_Field = ExternalClusterReferenceSecretField,
      ix_ExtractValue = (\<lambda>object. case object of
         SecretObject secret \<Rightarrow> ExternalClusterReferenceSecret_ExtractValue secret
       | _ \<Rightarrow> Panic interface_conversion)\<rparr>"

definition KamajiControlPlaneUID :: indexer where
  "KamajiControlPlaneUID =
     \<lparr>ix_Object = ''KamajiControlPlane'', ix_Field = KamajiControlPlaneUIDField,
      ix_ExtractValue = (\<lambda>object. case object of
         KamajiControlPlaneObject kcp \<Rightarrow> KamajiControlPlaneUID_ExtractValue kcp
       | _ \<Rightarrow> Panic interface_conversion)\<rparr>"

text \<open>
  \<^verbatim>\<open>indexers.SetupWithManager\<close>: the three indexes are registered in this order, and the first
  error ends it. \<open>index_field\<close> is the manager's \<^verbatim>\<open>IndexField\<close>.
\<close>

definition indexers_list :: "indexer list" where
  "indexers_list = [ExternalClusterReferenceKamajiControlPlane, ExternalClusterReferenceSecret, KamajiControlPlaneUID]"

lemmas indexers_list_defs =
  indexers_list_def ExternalClusterReferenceKamajiControlPlane_def ExternalClusterReferenceSecret_def KamajiControlPlaneUID_def

fun setup_indexers :: "(indexer \<Rightarrow> 'w \<Rightarrow> go_error option \<times> 'w) \<Rightarrow> indexer list \<Rightarrow> 'w \<Rightarrow> go_error option \<times> 'w" where
  "setup_indexers index_field [] w = (None, w)"
| "setup_indexers index_field (ix # ixs) w =
     (case index_field ix w of
        (Some e, w') \<Rightarrow> (Some (Wrap e (''failed to set up indexer '' @ ix_Field ix)), w')
      | (None, w') \<Rightarrow> setup_indexers index_field ixs w')"

definition indexers_SetupWithManager ::
  "(indexer \<Rightarrow> 'w \<Rightarrow> go_error option \<times> 'w) \<Rightarrow> 'w \<Rightarrow> go_error option \<times> 'w" where
  "indexers_SetupWithManager index_field w = setup_indexers index_field indexers_list w"

interpretation ix_kcp: field_index ExternalClusterReferenceKamajiControlPlane_ExtractValue
    "\<lambda>kcp v. external_reference kcp \<noteq> None \<and> GenerateKeyNameFromKamaji kcp = Return v"
  by unfold_locales
    (auto simp: ExternalClusterReferenceKamajiControlPlane_ExtractValue_def
      GenerateKeyNameFromKamaji_def Let_def split: option.splits)

interpretation ix_secret: field_index ExternalClusterReferenceSecret_ExtractValue
    "\<lambda>s v. v \<in> set (GenerateKeyNameFromSecret s)"
  by unfold_locales (auto simp: ExternalClusterReferenceSecret_ExtractValue_def)

interpretation ix_uid: field_index KamajiControlPlaneUID_ExtractValue
    "\<lambda>kcp v. om_UID (kcp_meta kcp) = v"
  by unfold_locales (auto simp: KamajiControlPlaneUID_ExtractValue_def)

text \<open>No two indexes have the same field: a lookup names exactly one of them.\<close>

lemma indexer_fields_distinct: "distinct (map ix_Field indexers_list)"
  by (simp add: indexers_list_defs ExternalClusterReferenceKamajiControlPlaneField_def
      ExternalClusterReferenceSecretField_def KamajiControlPlaneUIDField_def)

text \<open>The cache calls an indexer with objects of the kind it was registered for, and for those none panics.\<close>

lemma indexers_return:
  assumes "ix \<in> set indexers_list" "object_kind object = ix_Object ix"
  shows "\<exists>vs. ix_ExtractValue ix object = Return vs"
proof -
  from assms(1) consider "ix = ExternalClusterReferenceKamajiControlPlane" | "ix = ExternalClusterReferenceSecret" | "ix = KamajiControlPlaneUID"
    by (auto simp: indexers_list_def)
  then show ?thesis
    using assms(2) ix_kcp.extract_returns ix_secret.extract_returns ix_uid.extract_returns
    by cases (cases object; simp add: indexers_list_defs)+
qed

end
