(* ===== verification/EcrController.thy ===== *)
theory EcrController
  imports Indexers Reconciler
begin

text \<open>
  \<^verbatim>\<open>controllers/externalclusterreference_controller.go\<close>: the controller that keeps one running
  manager per kubeconfig entry that a \<^verbatim>\<open>KamajiControlPlane\<close> refers to, and the controller
  inside each of those managers that reports changes of remote tenant control planes. The
  effects are threaded through a record of the world, the store and the goroutines started;
  \<open>EcrInterleaving\<close> has the same operations as interleaved steps.
\<close>

section \<open>What is called\<close>

text \<open>
  \<^verbatim>\<open>clientcmd.RESTConfigFromKubeConfig\<close>, \<^verbatim>\<open>ctrl.NewManager\<close>, the builder's \<^verbatim>\<open>Complete\<close> for a
  manager, and \<^verbatim>\<open>context.WithCancel\<close>, whose cancel function \<open>'c\<close> identifies.
\<close>

record ('w, 'm, 'c) ecr_lib =
  e_RESTConfigFromKubeConfig :: "bytes \<Rightarrow> go_error + json"
  e_NewManager :: "json \<Rightarrow> 'w \<Rightarrow> (go_error + 'm) \<times> 'w"
  e_Complete :: "'m \<Rightarrow> controller_setup \<Rightarrow> 'w \<Rightarrow> go_error option \<times> 'w"
  e_WithCancel :: "'w \<Rightarrow> 'c \<times> 'w"

record 'w ExternalClusterReferenceReconciler =
  er_Client :: "'w client"

record ('w, 'm, 'c) ecr_state =
  es_w :: 'w
  es_store :: "('m, 'c) mapStore"
  es_started :: "('m \<times> 'c \<times> string) list"

section \<open>ExternalClusterReferenceReconciler.Reconcile\<close>

text \<open>
  The first loop: the keys of the secret that are referenced; the managers of the others are
  stopped. The second component of the answer is \<open>Inl\<close> when listing fails.
\<close>

fun referenced_keys ::
  "'w ExternalClusterReferenceReconciler \<Rightarrow> string list \<Rightarrow> ('w, 'm, 'c) ecr_state \<Rightarrow>
   (go_error + string list) \<times> ('w, 'm, 'c) ecr_state" where
  "referenced_keys r [] st = (Inr [], st)"
| "referenced_keys r (key # ks) st =
     (case c_list_kcp (er_Client r) ExternalClusterReferenceKamajiControlPlaneField key (es_w st) of
        (Inl err, w) \<Rightarrow> (Inl err, st\<lparr>es_w := w\<rparr>)
      | (Inr [], w) \<Rightarrow>
          referenced_keys r ks (st\<lparr>es_w := w, es_store := snd (mapStore_Stop (es_store st) key)\<rparr>)
      | (Inr (_ # _), w) \<Rightarrow>
          (case referenced_keys r ks (st\<lparr>es_w := w\<rparr>) of
             (Inl err, st') \<Rightarrow> (Inl err, st')
           | (Inr keys, st') \<Rightarrow> (Inr (key # keys), st')))"

text \<open>
  The kubeconfig of a key: \<^verbatim>\<open>secret.Data[strings.Split(key, "/")[2]]\<close>, nil for a missing entry;
  the index is in range (\<open>Split_key_length\<close>).
\<close>

definition kubeconfig_of :: "Secret \<Rightarrow> string \<Rightarrow> bytes outcome" where
  "kubeconfig_of secret key =
     (let parts = Split slash key
      in if 2 < length parts
         then Return (case gm_get (se_Data secret) (parts ! 2) of Some b \<Rightarrow> b | None \<Rightarrow> None)
         else Panic ''index out of range'')"

text \<open>
  The controller of a manager is built for tenant control planes; the same name may be used in
  several managers.
\<close>

definition PushKamajiChange_SetupWithManager ::
  "(controller_setup \<Rightarrow> 'w \<Rightarrow> go_error option \<times> 'w) \<Rightarrow> 'w \<Rightarrow> go_error option \<times> 'w" where
  "PushKamajiChange_SetupWithManager complete w =
     complete ((NewControllerManagedBy ''TenantControlPlane'')\<lparr>cs_SkipNameValidation := True\<rparr>) w"

text \<open>The body of the second loop; \<open>Return None\<close> goes on with the next key.\<close>

definition load_manager ::
  "('w, 'm, 'c) ecr_lib \<Rightarrow> Secret \<Rightarrow> string \<Rightarrow> ('w, 'm, 'c) ecr_state \<Rightarrow>
   go_error option outcome \<times> ('w, 'm, 'c) ecr_state" where
  "load_manager E secret key st =
     (case mapStore_Get (es_store st) key (om_ResourceVersion (se_meta secret)) of
        (_, True) \<Rightarrow> (Return None, st)
      | (_, False) \<Rightarrow>
          (let st = st\<lparr>es_store := snd (mapStore_Stop (es_store st) key)\<rparr>
           in (case kubeconfig_of secret key of
                 Panic p \<Rightarrow> (Panic p, st)
               | Return data \<Rightarrow>
                   (case e_RESTConfigFromKubeConfig E data of
                      Inl cfgErr \<Rightarrow> (Return (Some cfgErr), st)
                    | Inr cfg \<Rightarrow>
                        (case e_NewManager E cfg (es_w st) of
                           (Inl err, w) \<Rightarrow> (Return (Some err), st\<lparr>es_w := w\<rparr>)
                         | (Inr mgr, w) \<Rightarrow>
                             (case PushKamajiChange_SetupWithManager (e_Complete E mgr) w of
                                (Some err, w) \<Rightarrow> (Return (Some err), st\<lparr>es_w := w\<rparr>)
                              | (None, w) \<Rightarrow>
                                  (case e_WithCancel E w of
                                     (cancelFn, w) \<Rightarrow>
                                       (Return None,
                                        st\<lparr>es_w := w, es_started := es_started st @ [(mgr, cancelFn, key)],
                                           es_store := snd (mapStore_Add (es_store st) key
                                             (om_ResourceVersion (se_meta secret)) mgr cancelFn)\<rparr>))))))))"

fun load_managers ::
  "('w, 'm, 'c) ecr_lib \<Rightarrow> Secret \<Rightarrow> string list \<Rightarrow> ('w, 'm, 'c) ecr_state \<Rightarrow>
   go_error option outcome \<times> ('w, 'm, 'c) ecr_state" where
  "load_managers E secret [] st = (Return None, st)"
| "load_managers E secret (key # ks) st =
     (case load_manager E secret key st of
        (Return None, st') \<Rightarrow> load_managers E secret ks st'
      | stopped \<Rightarrow> stopped)"

definition Ecr_Reconcile ::
  "'w ExternalClusterReferenceReconciler \<Rightarrow> ('w, 'm) lib \<Rightarrow> ('w, 'm, 'c) ecr_lib \<Rightarrow> NamespacedName \<Rightarrow>
   ('w, 'm, 'c) ecr_state \<Rightarrow> go_error option outcome \<times> ('w, 'm, 'c) ecr_state" where
  "Ecr_Reconcile r L E req st =
     (case c_get_secret (er_Client r) req zero_secret (es_w st) of
        (Some err, _, w) \<Rightarrow> (Return (if l_IsNotFound L err then None else Some err), st\<lparr>es_w := w\<rparr>)
      | (None, secret, w) \<Rightarrow>
          (case referenced_keys r (GenerateKeyNameFromSecret secret) (st\<lparr>es_w := w\<rparr>) of
             (Inl err, st) \<Rightarrow> (Return (Some err), st)
           | (Inr keys, st) \<Rightarrow> load_managers E secret keys st))"

section \<open>The watch on KamajiControlPlane objects\<close>

definition getSecretFromKamajiControlPlaneReferences ::
  "'w ExternalClusterReferenceReconciler \<Rightarrow> KamajiControlPlane \<Rightarrow> 'w \<Rightarrow> Secret list outcome \<times> 'w" where
  "getSecretFromKamajiControlPlaneReferences r kcp w =
     (case GenerateKeyNameFromKamaji kcp of
        Panic p \<Rightarrow> (Panic p, w)
      | Return val \<Rightarrow>
          (case c_list_secret (er_Client r) ExternalClusterReferenceSecretField val w of
             (Inl _, w) \<Rightarrow> (Return [], w)
           | (Inr items, w) \<Rightarrow> (Return items, w)))"

definition watch_requests ::
  "'w ExternalClusterReferenceReconciler \<Rightarrow> KamajiControlPlane \<Rightarrow> 'w \<Rightarrow> NamespacedName list outcome \<times> 'w" where
  "watch_requests r kcp w =
     (if external_reference kcp = None then (Return [], w)
      else
        (case getSecretFromKamajiControlPlaneReferences r kcp w of
           (Panic p, w) \<Rightarrow> (Panic p, w)
         | (Return secrets, w) \<Rightarrow>
             (Return (map (\<lambda>s. \<lparr>nn_Namespace = om_Namespace (se_meta s), nn_Name = om_Name (se_meta s)\<rparr>) secrets), w)))"

definition Ecr_SetupWithManager ::
  "(controller_setup \<Rightarrow> 'w ExternalClusterReferenceReconciler \<Rightarrow> 'w \<Rightarrow> go_error option \<times> 'w) \<Rightarrow>
   'w ExternalClusterReferenceReconciler \<Rightarrow> 'w \<Rightarrow> go_error option \<times> 'w" where
  "Ecr_SetupWithManager complete r w =
     complete ((NewControllerManagedBy ''Secret'')\<lparr>cs_Watches := [''KamajiControlPlane'']\<rparr>) r w"

section \<open>PushKamajiChange\<close>

record 'w PushKamajiChange =
  pk_ParentClient :: "'w client"
  pk_Client :: "'w client"

text \<open>The answer carries the objects sent to the trigger channel, in order.\<close>

definition PushKamajiChange_Reconcile ::
  "'w PushKamajiChange \<Rightarrow> ('w, 'm) lib \<Rightarrow> NamespacedName \<Rightarrow> 'w \<Rightarrow>
   go_error option \<times> NamespacedName list \<times> 'w" where
  "PushKamajiChange_Reconcile p L request w =
     (case c_get_tcp (pk_Client p) request zero_tcp w of
        (Some err, _, w) \<Rightarrow> (if l_IsNotFound L err then None else Some err, [], w)
      | (None, tcp, w) \<Rightarrow>
          (let uid = ParseKamajiControlPlaneUIDFromTenantControlPlane tcp
           in if uid = '''' then (None, [], w)
              else
                (case c_list_kcp (pk_ParentClient p) KamajiControlPlaneUIDField uid w of
                   (Inl err, w) \<Rightarrow> (Some err, [], w)
                 | (Inr items, w) \<Rightarrow>
                     (None, map (\<lambda>k. \<lparr>nn_Namespace = om_Namespace (kcp_meta k), nn_Name = om_Name (kcp_meta k)\<rparr>) items,
                      w))))"

section \<open>Lemmas\<close>

text \<open>The keys of a secret can be taken apart, so the index never panics.\<close>

lemma kubeconfig_of_key:
  assumes "key \<in> set (GenerateKeyNameFromSecret secret)"
  shows "returns (kubeconfig_of secret key)"
  using assms Split_key_length by (auto simp: GenerateKeyNameFromSecret_def kubeconfig_of_def Let_def)

text \<open>With admissible names it is the entry the key was made from.\<close>

lemma kubeconfig_of_entry:
  assumes "secret_names_ok secret" "(k, v) \<in> set (entries (se_Data secret))"
  shows "kubeconfig_of secret (om_Namespace (se_meta secret) @ ''/'' @ om_Name (se_meta secret) @ ''/'' @ k) =
    Return (case gm_get (se_Data secret) k of Some b \<Rightarrow> b | None \<Rightarrow> None)"
proof -
  have "Split slash (om_Namespace (se_meta secret) @ ''/'' @ om_Name (se_meta secret) @ ''/'' @ k) =
      [om_Namespace (se_meta secret), om_Name (se_meta secret), k]"
    using assms by (intro Split_key) (auto simp: secret_names_ok_def)
  then show ?thesis
    by (simp add: kubeconfig_of_def)
qed

subsection \<open>The store after a reconciliation\<close>

abbreviation entry_of :: "('w, 'm, 'c) ecr_state \<Rightarrow> string \<Rightarrow> (string \<times> 'm \<times> 'c) option" where
  "entry_of st \<equiv> ms_entry (es_store st)"

lemma entry_after_Stop: "ms_entry (snd (mapStore_Stop m n)) k = (if k = n then None else ms_entry m k)"
  using ms.stop_entry [of m n "fst (mapStore_Stop m n)" "snd (mapStore_Stop m n)"] by simp

text \<open>Loading one key: it ends up stored with the version of the secret, and no other key changes.\<close>

lemma load_manager_stored:
  assumes "load_manager E secret key st = (Return None, st')"
  shows "\<exists>m c. entry_of st' key = Some (om_ResourceVersion (se_meta secret), m, c)"
    and "k \<noteq> key \<Longrightarrow> entry_of st' k = entry_of st k"
proof -
  let ?rv = "om_ResourceVersion (se_meta secret)"
  obtain m b where get: "mapStore_Get (es_store st) key ?rv = (m, b)"
    by fastforce
  have "(\<exists>m c. entry_of st' key = Some (?rv, m, c)) \<and> (\<forall>k. k \<noteq> key \<longrightarrow> entry_of st' k = entry_of st k)"
  proof (cases b)
    case True
    with get have "\<exists>m. mapStore_Get (es_store st) key ?rv = (Some m, True)"
      by (cases m) (auto simp: mapStore_Get_def split: option.splits if_splits)
    moreover from get True assms have "st' = st"
      by (simp add: load_manager_def)
    ultimately show ?thesis
      by (auto simp: ms.get_found_iff)
  next
    case False
    with get assms obtain mgr cancelFn where
      "es_store st' = snd (mapStore_Add (snd (mapStore_Stop (es_store st) key)) key ?rv mgr cancelFn)"
      by (auto simp: load_manager_def Let_def split: outcome.splits sum.splits prod.splits option.splits)
    with ms.restart(3) [of "es_store st" key "fst (mapStore_Stop (es_store st) key)"
        "snd (mapStore_Stop (es_store st) key)" ?rv mgr cancelFn]
    show ?thesis
      by (metis fun_upd_apply prod.collapse)
  qed
  then show "\<exists>m c. entry_of st' key = Some (?rv, m, c)" "k \<noteq> key \<Longrightarrow> entry_of st' k = entry_of st k"
    by blast+
qed

lemma load_managers_stored:
  assumes "load_managers E secret ks st = (Return None, st')"
  shows "(\<forall>k \<in> set ks. \<exists>m c. entry_of st' k = Some (om_ResourceVersion (se_meta secret), m, c)) \<and>
    (\<forall>k. k \<notin> set ks \<longrightarrow> entry_of st' k = entry_of st k)"
  using assms
proof (induction ks arbitrary: st)
  case Nil
  then show ?case by simp
next
  case (Cons key ks)
  from Cons.prems obtain st1 where st1: "load_manager E secret key st = (Return None, st1)"
    and rest: "load_managers E secret ks st1 = (Return None, st')"
    by (auto split: prod.splits outcome.splits option.splits)
  from Cons.IH [OF rest] load_manager_stored [OF st1] show ?case
    by (metis set_ConsD list.set_intros)
qed

text \<open>The first loop: a key that is not referenced is no longer stored; nothing else changes.\<close>

lemma referenced_keys_stopped:
  assumes "referenced_keys r ks st = (Inr keys, st')" "distinct ks"
  shows "set keys \<subseteq> set ks \<and> (\<forall>k \<in> set ks - set keys. entry_of st' k = None) \<and>
    (\<forall>k. k \<notin> set ks - set keys \<longrightarrow> entry_of st' k = entry_of st k)"
  using assms
proof (induction ks arbitrary: st keys)
  case Nil
  then show ?case by simp
next
  case (Cons key ks)
  obtain res w where list: "c_list_kcp (er_Client r) ExternalClusterReferenceKamajiControlPlaneField key (es_w st) = (res, w)"
    by fastforce
  with Cons.prems(1) consider "res = Inr []" | x xs where "res = Inr (x # xs)"
    by (cases res) (auto, metis list.exhaust)
  then show ?case
  proof cases
    case 1
    with list Cons.prems(1) have "referenced_keys r ks
        (st\<lparr>es_w := w, es_store := snd (mapStore_Stop (es_store st) key)\<rparr>) = (Inr keys, st')"
      by simp
    from Cons.IH [OF this] Cons.prems(2) show ?thesis
      by (auto simp: entry_after_Stop)
  next
    case 2
    with list Cons.prems(1) obtain keys' where keys: "keys = key # keys'"
      and rest: "referenced_keys r ks (st\<lparr>es_w := w\<rparr>) = (Inr keys', st')"
      by (auto split: prod.splits sum.splits)
    from Cons.IH [OF rest] Cons.prems(2) keys show ?thesis
      by auto
  qed
qed

lemma distinct_secret_keys:
  assumes "distinct (map fst (entries (se_Data secret)))"
  shows "distinct (GenerateKeyNameFromSecret secret)"
proof -
  have "GenerateKeyNameFromSecret secret =
      map (\<lambda>k. om_Namespace (se_meta secret) @ ''/'' @ om_Name (se_meta secret) @ ''/'' @ k)
        (map fst (entries (se_Data secret)))"
    by (simp add: GenerateKeyNameFromSecret_def split_beta o_def)
  with assms show ?thesis
    by (simp only:) (rule distinct_map [THEN iffD2], simp add: inj_on_def)
qed

lemma load_manager_returns:
  "key \<in> set (GenerateKeyNameFromSecret secret) \<Longrightarrow> returns (fst (load_manager E secret key st))"
  using kubeconfig_of_key [of key secret]
  by (auto simp: load_manager_def Let_def split: prod.split bool.split outcome.split sum.split option.split)

lemma load_managers_returns:
  "set ks \<subseteq> set (GenerateKeyNameFromSecret secret) \<Longrightarrow> returns (fst (load_managers E secret ks st))"
proof (induction ks arbitrary: st)
  case (Cons key ks)
  then show ?case
    using load_manager_returns [of key secret E st]
    by (auto split: prod.split outcome.split option.split)
qed simp

lemma referenced_keys_subset:
  "referenced_keys r ks st = (Inr keys, st') \<Longrightarrow> set keys \<subseteq> set ks"
proof (induction ks arbitrary: st keys)
  case (Cons key ks)
  from Cons.prems show ?case
    by (auto split: prod.splits sum.splits list.splits dest: Cons.IH [THEN subsetD])
qed simp

end
