(* ===== verification/EcrInterleaving.thy ===== *)
theory EcrInterleaving
  imports EcrController
begin

text \<open>
  The external cluster controller with its goroutines. One worker runs \<^verbatim>\<open>Reconcile\<close>
  (\<^verbatim>\<open>MaxConcurrentReconciles\<close> is 1 for this controller); each manager it loads runs in a
  goroutine, \<^verbatim>\<open>startManager\<close>, which on failure stops whatever the store has under its name.
  The steps are the points where these threads touch the store; any interleaving is allowed.
\<close>

section \<open>Transition systems\<close>

locale transition_system =
  fixes init :: "'s \<Rightarrow> bool" and step :: "'s \<Rightarrow> 's \<Rightarrow> bool"
begin

inductive reachable :: "'s \<Rightarrow> bool" where
  reach_init: "init s \<Longrightarrow> reachable s"
| reach_step: "reachable s \<Longrightarrow> step s t \<Longrightarrow> reachable t"

end

text \<open>A system with an inductive invariant.\<close>

locale invariant_system = transition_system init step
  for init :: "'s \<Rightarrow> bool" and step :: "'s \<Rightarrow> 's \<Rightarrow> bool" +
  fixes inv :: "'s \<Rightarrow> bool"
  assumes inv_init: "init s \<Longrightarrow> inv s"
    and inv_step: "inv s \<Longrightarrow> step s t \<Longrightarrow> inv t"
begin

lemma inv_reachable: "reachable s \<Longrightarrow> inv s"
  by (induction rule: reachable.induct) (blast intro: inv_init inv_step)+

end

text \<open>A system some of whose steps use up a finite amount of work.\<close>

locale working_system = invariant_system init step inv
  for init :: "'s \<Rightarrow> bool" and step :: "'s \<Rightarrow> 's \<Rightarrow> bool" and inv :: "'s \<Rightarrow> bool" +
  fixes busy :: "'s \<Rightarrow> 's \<Rightarrow> bool" and work :: "'s \<Rightarrow> nat"
  assumes busy_step: "busy s t \<Longrightarrow> step s t"
    and busy_work: "inv s \<Longrightarrow> busy s t \<Longrightarrow> work t < work s"
begin

lemma busy_bounded: "inv s \<Longrightarrow> (busy ^^ k) s t \<Longrightarrow> inv t \<and> k + work t \<le> work s"
proof (induction k arbitrary: t)
  case (Suc k)
  from Suc.prems(2) obtain u where "(busy ^^ k) s u" "busy u t"
    by auto
  with Suc.IH [OF Suc.prems(1)] show ?case
    using busy_work [of u t] inv_step [OF _ busy_step] by force
qed simp

end

section \<open>The steps\<close>

text \<open>Where the worker is: between keys, or in the middle of loading one.\<close>

datatype ('m, 'c) worker =
    Idle
  | Stopping string string
  | Starting string string
  | Adding string string 'm 'c

text \<open>A goroutine is running its manager, or has seen it fail and is about to stop the name.\<close>

datatype progress = Running | Failed

record ('m, 'c) threads =
  th_store :: "('m, 'c) mapStore"
  th_worker :: "('m, 'c) worker"
  th_goroutines :: "('c \<times> string \<times> progress) set"
  th_contexts :: "'c set"

definition th_init :: "('m, 'c) threads \<Rightarrow> bool" where
  "th_init s \<longleftrightarrow> s = \<lparr>th_store = NewStore, th_worker = Idle, th_goroutines = {}, th_contexts = {}\<rparr>"

inductive th_step :: "('m, 'c) threads \<Rightarrow> ('m, 'c) threads \<Rightarrow> bool" where
  unused: "th_worker s = Idle \<Longrightarrow>
    th_step s (s\<lparr>th_store := snd (mapStore_Stop (th_store s) key)\<rparr>)"
| load: "th_worker s = Idle \<Longrightarrow> snd (mapStore_Get (th_store s) key rv) = False \<Longrightarrow>
    th_step s (s\<lparr>th_worker := Stopping key rv\<rparr>)"
| stop: "th_worker s = Stopping key rv \<Longrightarrow>
    th_step s (s\<lparr>th_store := snd (mapStore_Stop (th_store s) key), th_worker := Starting key rv\<rparr>)"
| give_up: "th_worker s = Starting key rv \<Longrightarrow> th_step s (s\<lparr>th_worker := Idle\<rparr>)"
| spawn: "th_worker s = Starting key rv \<Longrightarrow> c \<notin> th_contexts s \<Longrightarrow>
    th_step s (s\<lparr>th_worker := Adding key rv mgr c, th_contexts := insert c (th_contexts s),
      th_goroutines := insert (c, key, Running) (th_goroutines s)\<rparr>)"
| add: "th_worker s = Adding key rv mgr c \<Longrightarrow>
    th_step s (s\<lparr>th_store := snd (mapStore_Add (th_store s) key rv mgr c), th_worker := Idle\<rparr>)"
| finish: "(c, key, Running) \<in> th_goroutines s \<Longrightarrow>
    th_step s (s\<lparr>th_goroutines := th_goroutines s - {(c, key, Running)}\<rparr>)"
| fail: "(c, key, Running) \<in> th_goroutines s \<Longrightarrow>
    th_step s (s\<lparr>th_goroutines := insert (c, key, Failed) (th_goroutines s - {(c, key, Running)})\<rparr>)"
| clean_up: "(c, key, Failed) \<in> th_goroutines s \<Longrightarrow>
    th_step s (s\<lparr>th_store := snd (mapStore_Stop (th_store s) key),
      th_goroutines := th_goroutines s - {(c, key, Failed)}\<rparr>)"

inductive_cases th_stepE: "th_step s t"

interpretation ecr: transition_system th_init th_step .

section \<open>The invariant\<close>

text \<open>The context of a manager that is about to be added.\<close>

fun adding :: "('m, 'c) worker \<Rightarrow> (string \<times> 'c) set" where
  "adding (Adding key rv mgr c) = {(key, c)}"
| "adding _ = {}"

definition stored :: "('m, 'c) mapStore \<Rightarrow> (string \<times> 'c) set" where
  "stored m = {(key, c). \<exists>i. ms_store m key = Some i \<and> i_StopFunc i = c}"

text \<open>
  The name the worker is loading is free; every context has one owner, which is the store, the
  worker or the record of cancelled contexts; a running goroutine can still be stopped unless
  it has been.
\<close>

definition name_free :: "('m, 'c) threads \<Rightarrow> bool" where
  "name_free s \<longleftrightarrow>
     (case th_worker s of
        Starting key rv \<Rightarrow> ms_store (th_store s) key = None
      | Adding key rv mgr c \<Rightarrow> ms_store (th_store s) key = None
      | _ \<Rightarrow> True)"

definition one_owner :: "('m, 'c) threads \<Rightarrow> bool" where
  "one_owner s \<longleftrightarrow>
     (\<forall>k c k' c'. (k, c) \<in> stored (th_store s) \<union> adding (th_worker s) \<longrightarrow>
        (k', c') \<in> stored (th_store s) \<union> adding (th_worker s) \<longrightarrow> c = c' \<longrightarrow> k = k') \<and>
     (\<forall>k c. (k, c) \<in> stored (th_store s) \<union> adding (th_worker s) \<longrightarrow>
        c \<in> th_contexts s \<and> c \<notin> set (ms_cancelled (th_store s))) \<and>
     set (ms_cancelled (th_store s)) \<subseteq> th_contexts s \<and> distinct (ms_cancelled (th_store s))"

definition no_leak :: "('m, 'c) threads \<Rightarrow> bool" where
  "no_leak s \<longleftrightarrow>
     (\<forall>c key p. (c, key, p) \<in> th_goroutines s \<longrightarrow>
        c \<in> set (ms_cancelled (th_store s)) \<or> (key, c) \<in> stored (th_store s) \<union> adding (th_worker s))"

lemma stored_Stop: "stored (snd (mapStore_Stop m key)) = {(k, c) \<in> stored m. k \<noteq> key}"
  by (auto simp: stored_def mapStore_Stop_def split: option.splits if_splits)

lemma store_Stop: "ms_store (snd (mapStore_Stop m key)) = (ms_store m)(key := None)"
  by (auto simp: mapStore_Stop_def fun_eq_iff split: option.splits)

lemma cancelled_Stop:
  "ms_cancelled (snd (mapStore_Stop m key)) =
     ms_cancelled m @ (case ms_store m key of None \<Rightarrow> [] | Some i \<Rightarrow> [i_StopFunc i])"
  by (simp add: mapStore_Stop_def split: option.split)

lemma in_cancelled_Stop:
  "c \<in> set (ms_cancelled (snd (mapStore_Stop m key))) \<longleftrightarrow> c \<in> set (ms_cancelled m) \<or> (key, c) \<in> stored m"
  by (cases "ms_store m key") (auto simp: cancelled_Stop stored_def)

lemma Stop_free: "ms_store m key = None \<Longrightarrow> snd (mapStore_Stop m key) = m"
  by (simp add: mapStore_Stop_def)

lemma Add_free:
  assumes "ms_store m key = None"
  shows "mapStore_Add m key rv mgr c =
    (True, m\<lparr>ms_store := (ms_store m)(key \<mapsto> \<lparr>i_ResourceVersion = rv, i_Manager = mgr, i_StopFunc = c\<rparr>)\<rparr>)"
  using assms by (simp add: mapStore_Add_def)

lemma stored_Add:
  assumes "ms_store m key = None"
  shows "stored (snd (mapStore_Add m key rv mgr c)) = insert (key, c) (stored m)"
  using assms by (auto simp: Add_free stored_def split: if_splits)

lemma cancelled_Add: "ms_cancelled (snd (mapStore_Add m key rv mgr c)) = ms_cancelled m"
  by (simp add: mapStore_Add_def split: option.split)

lemma name_free_step: "name_free s \<Longrightarrow> th_step s t \<Longrightarrow> name_free t"
  by (erule th_stepE) (auto simp: name_free_def store_Stop split: worker.splits)

lemma one_owner_stop:
  assumes "one_owner s" "t = s\<lparr>th_store := snd (mapStore_Stop (th_store s) key), th_worker := wk, th_goroutines := gs\<rparr>"
    "adding wk \<subseteq> adding (th_worker s)" "\<forall>c. (key, c) \<notin> adding wk"
  shows "one_owner t"
proof -
  have "i_StopFunc i \<notin> set (ms_cancelled (th_store s))" if "ms_store (th_store s) key = Some i" for i
    using assms(1) that unfolding one_owner_def stored_def by blast
  then have "distinct (ms_cancelled (snd (mapStore_Stop (th_store s) key)))"
    using assms(1) by (simp add: one_owner_def cancelled_Stop split: option.split)
  moreover have "c \<notin> set (ms_cancelled (snd (mapStore_Stop (th_store s) key)))"
    if "(k, c) \<in> stored (snd (mapStore_Stop (th_store s) key)) \<union> adding wk" for k c
    using that assms(1,3,4) unfolding one_owner_def in_cancelled_Stop stored_Stop by fast
  ultimately show ?thesis
    using assms(1,3) unfolding one_owner_def assms(2)
    by (simp add: stored_Stop in_cancelled_Stop subset_iff) blast
qed

lemma one_owner_step:
  assumes "name_free s" "one_owner s" "th_step s t"
  shows "one_owner t"
  using assms(3)
proof cases
  case (unused key)
  then show ?thesis
    by (intro one_owner_stop [OF assms(2), where key = key and wk = Idle and gs = "th_goroutines s"]) simp_all
next
  case (stop key rv)
  then show ?thesis
    by (intro one_owner_stop [OF assms(2), where key = key and wk = "Starting key rv" and gs = "th_goroutines s"]) simp_all
next
  case (clean_up c key)
  show ?thesis
  proof (cases "ms_store (th_store s) key")
    case None
    with clean_up assms(2) show ?thesis
      by (simp add: one_owner_def Stop_free)
  next
    case (Some i)
    with assms(1) have "\<forall>c. (key, c) \<notin> adding (th_worker s)"
      by (auto simp: name_free_def split: worker.splits)
    with clean_up show ?thesis
      by (intro one_owner_stop [OF assms(2), where key = key and wk = "th_worker s"
            and gs = "th_goroutines s - {(c, key, Failed)}"]) simp_all
  qed
next
  case (add key rv mgr c)
  with assms(1) have "ms_store (th_store s) key = None"
    by (simp add: name_free_def)
  with add assms(2) show ?thesis
    by (simp add: one_owner_def stored_Add cancelled_Add)
next
  case (spawn key rv c mgr)
  with assms(2) show ?thesis
    by (auto simp: one_owner_def)
qed (use assms(2) in \<open>auto simp: one_owner_def\<close>)

lemma no_leak_step:
  assumes "name_free s" "no_leak s" "th_step s t"
  shows "no_leak t"
  using assms(3)
proof cases
  case (add key rv mgr c)
  with assms(1) have "ms_store (th_store s) key = None"
    by (simp add: name_free_def)
  with add assms(2) show ?thesis
    by (auto simp: no_leak_def stored_Add cancelled_Add)
qed (use assms(2) in \<open>auto simp: no_leak_def stored_Stop in_cancelled_Stop\<close>)

definition th_inv :: "('m, 'c) threads \<Rightarrow> bool" where
  "th_inv s \<longleftrightarrow> name_free s \<and> one_owner s \<and> no_leak s"

interpretation ecr_inv: invariant_system th_init th_step th_inv
proof
  show "th_inv s" if "th_init s" for s :: "('m, 'c) threads"
    using that by (simp add: th_init_def th_inv_def name_free_def one_owner_def no_leak_def stored_def NewStore_def)
  show "th_inv t" if "th_inv s" "th_step s t" for s t :: "('m, 'c) threads"
    using that by (auto simp: th_inv_def intro: name_free_step one_owner_step no_leak_step)
qed

lemmas th_inv_reachable = ecr_inv.inv_reachable

section \<open>The work that is left\<close>

text \<open>
  The steps that finish what has been begun: those of a worker in the middle of a key, and those
  of the goroutines. A goroutine has two at most; a key being loaded has three, and may start a goroutine.
\<close>

definition settling :: "('m, 'c) threads \<Rightarrow> ('m, 'c) threads \<Rightarrow> bool" where
  "settling s t \<longleftrightarrow> th_step s t \<and> (th_worker s \<noteq> Idle \<or> th_goroutines t \<noteq> th_goroutines s)"

fun worker_work :: "('m, 'c) worker \<Rightarrow> nat" where
  "worker_work Idle = 0"
| "worker_work (Adding key rv mgr c) = 1"
| "worker_work (Starting key rv) = 4"
| "worker_work (Stopping key rv) = 5"

definition in_progress :: "('c \<times> string \<times> progress) set \<Rightarrow> progress \<Rightarrow> ('c \<times> string \<times> progress) set" where
  "in_progress gs p = {g \<in> gs. snd (snd g) = p}"

definition th_work :: "('m, 'c) threads \<Rightarrow> nat" where
  "th_work s = worker_work (th_worker s) + 2 * card (in_progress (th_goroutines s) Running)
     + card (in_progress (th_goroutines s) Failed)"

lemma in_progress_insert:
  "in_progress (insert (c, key, p) gs) q = (if p = q then insert (c, key, p) (in_progress gs q) else in_progress gs q)"
  "in_progress (gs - {(c, key, p)}) q = (if p = q then in_progress gs q - {(c, key, p)} else in_progress gs q)"
  by (auto simp: in_progress_def)

lemma in_progress_finite: "finite gs \<Longrightarrow> finite (in_progress gs p)"
  by (simp add: in_progress_def)

lemma in_progress_card: "(c, key, p) \<in> gs \<Longrightarrow> finite gs \<Longrightarrow> card (in_progress gs p) = Suc (card (in_progress gs p - {(c, key, p)}))"
  by (rule card.remove) (simp_all add: in_progress_finite, simp add: in_progress_def)

lemma th_work_le: "finite (th_goroutines s) \<Longrightarrow> th_work s \<le> 5 + 2 * card (th_goroutines s)"
proof -
  assume fin: "finite (th_goroutines s)"
  have "th_goroutines s = in_progress (th_goroutines s) Running \<union> in_progress (th_goroutines s) Failed"
    using progress.exhaust by (auto simp: in_progress_def)
  moreover have "in_progress (th_goroutines s) Running \<inter> in_progress (th_goroutines s) Failed = {}"
    by (auto simp: in_progress_def)
  ultimately have "card (th_goroutines s) = card (in_progress (th_goroutines s) Running) + card (in_progress (th_goroutines s) Failed)"
    using fin by (metis card_Un_disjoint in_progress_finite)
  moreover have "worker_work (th_worker s) \<le> 5"
    by (cases "th_worker s") simp_all
  ultimately show ?thesis
    by (simp add: th_work_def)
qed

lemma settling_work:
  assumes "finite (th_goroutines s)" "settling s t"
  shows "th_work t < th_work s"
proof -
  note fin = in_progress_finite [OF assms(1)]
  from assms(2) have "th_step s t" and new: "th_worker s \<noteq> Idle \<or> th_goroutines t \<noteq> th_goroutines s"
    by (simp_all add: settling_def)
  then show ?thesis
  proof cases
    case (spawn key rv c mgr)
    then show ?thesis
      using fin by (simp add: th_work_def in_progress_insert card_insert_if)
  next
    case (finish c key)
    then show ?thesis
      using in_progress_card [OF finish(2) assms(1)] by (simp add: th_work_def in_progress_insert)
  next
    case (fail c key)
    then show ?thesis
      using in_progress_card [OF fail(2) assms(1)] fin by (simp add: th_work_def in_progress_insert card_insert_if)
  next
    case (clean_up c key)
    then show ?thesis
      using in_progress_card [OF clean_up(2) assms(1)] by (simp add: th_work_def in_progress_insert)
  qed (use new in \<open>auto simp: th_work_def\<close>)
qed

text \<open>Whatever has been begun can go on, until nothing is left.\<close>

lemma settled:
  assumes "\<And>t. \<not> settling s t"
  shows "th_worker s = Idle" "th_goroutines s = {}"
proof -
  have worker: "th_worker s = Idle" if "\<And>t. th_step s t \<Longrightarrow> th_worker s = Idle"
    using th_step.stop [of s] th_step.give_up [of s] th_step.add [of s] that by (cases "th_worker s") blast+
  show idle: "th_worker s = Idle"
    by (rule worker) (use assms in \<open>auto simp: settling_def\<close>)
  show "th_goroutines s = {}"
  proof (rule ccontr)
    assume "th_goroutines s \<noteq> {}"
    then obtain c key p where g: "(c, key, p) \<in> th_goroutines s"
      by auto
    show False
    proof (cases p)
      case Running
      with g have "settling s (s\<lparr>th_goroutines := th_goroutines s - {(c, key, Running)}\<rparr>)"
        by (auto simp: settling_def intro: th_step.finish)
      with assms show False ..
    next
      case Failed
      with g have "settling s (s\<lparr>th_store := snd (mapStore_Stop (th_store s) key), th_goroutines := th_goroutines s - {(c, key, Failed)}\<rparr>)"
        by (auto simp: settling_def intro: th_step.clean_up)
      with assms show False ..
    qed
  qed
qed

interpretation ecr_work: working_system th_init th_step "\<lambda>s. finite (th_goroutines s)" settling th_work
proof
  show "finite (th_goroutines s)" if "th_init s" for s :: "('m, 'c) threads"
    using that by (simp add: th_init_def)
  show "finite (th_goroutines t)" if "finite (th_goroutines s)" "th_step s t" for s t :: "('m, 'c) threads"
    using that(2,1) by cases simp_all
qed (simp_all add: settling_def settling_work)

end
