(* ===== verification/ExternalProperties.thy ===== *)
theory ExternalProperties
  imports ReconcileProperties EcrInterleaving
begin

text \<open>
  Properties of the external cluster references: the finalizer, the deletion, the client of the
  remote cluster, the store of managers, and the way back from a remote tenant control plane to
  its \<^verbatim>\<open>KamajiControlPlane\<close>.
\<close>

section \<open>Finalizer and deletion\<close>


abbreviation remote_start :: "mem rstate" where
  "remote_start \<equiv> reconcile_start mem_lib remote_kcp (sample_cluster ''VSphereCluster'') (sample_world remote_kcp)"

lemma remote_external_next: "fst (phase_external (remote_reconciler mem_client) mem_lib remote_start) = Next"
  by code_simp


text \<open>
  C21: a deletion that the remote cluster does not accept leaves the finalizer. When deleting
  the remote tenant control plane fails, \<^verbatim>\<open>handleDeletion\<close> writes nothing; the error is its
  answer, except that an object that was not found is no error. In that case the finalizer stays
  although there is nothing left to delete, and nothing asks for another attempt.
\<close>

theorem failed_remote_delete_keeps_finalizer:
  assumes "ExternalClusterReferenceFinalizer \<in> set (elems (om_Finalizers (kcp_meta kcp)))"
    and "extractRemoteClient r L kcp w = (Return (Inr c), w1)"
    and "GenerateRemoteTenantControlPlaneNames kcp = Return (n, ns)"
    and "c_delete_tcp c (zero_tcp\<lparr>tcp_meta := zero_meta\<lparr>om_Name := n, om_Namespace := ns\<rparr>\<rparr>) w1 = (Some e, w2)"
  shows "handleDeletion r L kcp w = (Return (if l_IsNotFound L e then None else Some e), w2)"
proof -
  have "external_reference kcp \<noteq> None"
    using assms(3) by (auto simp: GenerateRemoteTenantControlPlaneNames_def split: option.splits)
  with assms show ?thesis
    by (auto simp: handleDeletion_def)
qed

definition finalized_kcp :: KamajiControlPlane where
  "finalized_kcp = remote_kcp\<lparr>kcp_meta := (kcp_meta remote_kcp)
     \<lparr>om_Finalizers := Some [ExternalClusterReferenceFinalizer], om_DeletionTimestamp := Some 7\<rparr>\<rparr>"

lemma remote_extracted:
  "extractRemoteClient (remote_reconciler mem_client) mem_lib remote_kcp (sample_world k) = (Return (Inr mem_client), sample_world k)"
  by (simp add: extractRemoteClient_def remote_client_from_secret_def remote_reconciler_def mem_reconciler_def
      remote_kcp_def owned_kcp_def owned_meta_def sample_meta_def features_defs GenerateKeyNameFromKamaji_def mem_client_def
      mem_read_def mem_get_def sample_world_def remote_secret_def ObjectKey_def mapStore_defs NewStore_def mem_lib_def gm_get_def Let_def)
    (simp add: zero_secret_def zero_meta_def)

text \<open>The extraction looks at the specification and the namespace only.\<close>

lemma remote_same:
  assumes "kcp_Spec k = kcp_Spec k'" "om_Namespace (kcp_meta k) = om_Namespace (kcp_meta k')"
  shows "extractRemoteClient r L k w = extractRemoteClient r L k' w"
proof -
  have key: "GenerateKeyNameFromKamaji k = GenerateKeyNameFromKamaji k'"
    using assms by (simp add: GenerateKeyNameFromKamaji_def Let_def split: option.split)
  have "remote_client_from_secret r L k e ns w = remote_client_from_secret r L k' e ns w" for e ns
    unfolding remote_client_from_secret_def key by (rule refl)
  with assms show ?thesis
    by (simp add: extractRemoteClient_def split: option.split)
qed

theorem failed_remote_delete_keeps_finalizer_witness:
  "handleDeletion (remote_reconciler mem_client) mem_lib finalized_kcp (sample_world finalized_kcp) =
     (Return None, sample_world finalized_kcp)"
proof -
  let ?r = "remote_reconciler mem_client" and ?w = "sample_world finalized_kcp"
  have 1: "ExternalClusterReferenceFinalizer \<in> set (elems (om_Finalizers (kcp_meta finalized_kcp)))"
    by code_simp
  have 2: "extractRemoteClient ?r mem_lib finalized_kcp ?w = (Return (Inr mem_client), ?w)"
    using remote_extracted [of finalized_kcp] remote_same [of finalized_kcp remote_kcp ?r mem_lib ?w]
    by (simp add: finalized_kcp_def)
  have 3: "GenerateRemoteTenantControlPlaneNames finalized_kcp = Return (''kcp-u-k'', ''remote'')"
    by code_simp
  have 4: "c_delete_tcp mem_client x ?w = (Some not_found, ?w)" for x
    by (simp add: mem_client_def mem_delete_tcp_def mem_get_def sample_world_def mem_empty_def)
  have "l_IsNotFound mem_lib not_found"
    by code_simp
  with failed_remote_delete_keeps_finalizer [OF 1 2 3 4] show ?thesis
    by simp
qed

section \<open>The client of the remote cluster\<close>

text \<open>
  C22: a client of a remote cluster is handed out only when the feature is enabled, only from a
  secret of the object's own namespace unless cross-namespace references are enabled, and only
  that of the manager which the store holds for this object's reference and for the version of
  the secret just read.
\<close>

theorem extractRemoteClient_current:
  assumes "extractRemoteClient r L kcp w = (Return (Inr c), w')"
  shows "r_FeatureGates r features_ExternalClusterReference \<and>
    (\<exists>e secret w1 key mgr. external_reference kcp = Some e \<and>
      (secret_namespace kcp e = om_Namespace (kcp_meta kcp) \<or> r_FeatureGates r features_ExternalClusterReferenceCrossNamespace) \<and>
      c_get_secret (r_client r) \<lparr>nn_Namespace = secret_namespace kcp e, nn_Name = ecr_KubeconfigSecretName e\<rparr> zero_secret w
        = (None, secret, w1) \<and>
      GenerateKeyNameFromKamaji kcp = Return key \<and>
      (\<exists>cancel. ms_entry (r_ExternalClusterReferenceStore r) key = Some (om_ResourceVersion (se_meta secret), mgr, cancel)) \<and>
      c = l_mgr_client L mgr)"
proof -
  from assms obtain e where gate: "r_FeatureGates r features_ExternalClusterReference" and e: "external_reference kcp = Some e"
    and ns: "secret_namespace kcp e = om_Namespace (kcp_meta kcp) \<or> r_FeatureGates r features_ExternalClusterReferenceCrossNamespace"
    and run: "remote_client_from_secret r L kcp e (secret_namespace kcp e) w = (Return (Inr c), w')"
    by (auto simp: extractRemoteClient_def secret_namespace_def Let_def split: if_splits option.splits)
  from remote_client_from_secret_Inr [OF run e] obtain secret w1 mgr key where
    "c_get_secret (r_client r) \<lparr>nn_Namespace = secret_namespace kcp e, nn_Name = ecr_KubeconfigSecretName e\<rparr> zero_secret w
      = (None, secret, w1)" "GenerateKeyNameFromKamaji kcp = Return key"
    "mapStore_Get (r_ExternalClusterReferenceStore r) key (om_ResourceVersion (se_meta secret)) = (Some mgr, True)"
    "c = l_mgr_client L mgr"
    by blast
  with gate e ns show ?thesis
    by (simp add: ms.get_found_iff) blast
qed

theorem extractRemoteClient_current_witness:
  "r_FeatureGates (remote_reconciler mem_client) features_ExternalClusterReference \<and>
   ms_entry (r_ExternalClusterReferenceStore (remote_reconciler mem_client)) ''ns/s/kc'' \<noteq> None"
proof -
  have "GenerateKeyNameFromKamaji remote_kcp = Return ''ns/s/kc''"
    by code_simp
  with extractRemoteClient_current [OF remote_extracted [of remote_kcp]] show ?thesis
    by auto
qed



section \<open>From an object to its secret, and back from a remote control plane\<close>

text \<open>
  C24: a change of an object wakes the right secrets. The controller of external clusters is
  asked to reconcile exactly the secrets the object's reference means: of the right namespace
  and name, and with the entry it names. \<^verbatim>\<open>List\<close> answers by the index of the secrets.
\<close>

theorem watch_wakes_referenced_secrets:
  assumes "external_reference kcp = Some e" "reference_names_ok kcp e" "\<forall>s \<in> set secrets. secret_names_ok s"
    and "\<And>v. c_list_secret (er_Client r) ExternalClusterReferenceSecretField v w = (Inr (ix_secret.matching v secrets), w')"
  shows "watch_requests r kcp w =
    (Return (map (\<lambda>s. \<lparr>nn_Namespace = om_Namespace (se_meta s), nn_Name = om_Name (se_meta s)\<rparr>)
       (filter (refers_to kcp e) secrets)), w')"
proof -
  obtain key where key: "GenerateKeyNameFromKamaji kcp = Return key"
    using GenerateKeyNameFromKamaji_Some [OF assms(1)] by blast
  have "ix_secret.matching key secrets = filter (refers_to kcp e) secrets"
    unfolding ix_secret.matching_selects
    using assms(3) key_of_reference_iff [OF assms(1,2) _ key] by (intro filter_cong) auto
  with assms(1,4) key show ?thesis
    by (simp add: watch_requests_def getSecretFromKamajiControlPlaneReferences_def)
qed

definition mem_ecr :: "mem ExternalClusterReferenceReconciler" where
  "mem_ecr = \<lparr>er_Client = mem_client\<rparr>"

theorem watch_wakes_referenced_secrets_witness:
  "watch_requests mem_ecr remote_kcp (sample_world remote_kcp) =
     (Return [\<lparr>nn_Namespace = ''ns'', nn_Name = ''s''\<rparr>], sample_world remote_kcp)"
proof -
  let ?e = "\<lparr>ecr_KubeconfigSecretName = ''s'', ecr_KubeconfigSecretKey = ''kc'',
      ecr_KubeconfigSecretNamespace = '''', ecr_DeploymentNamespace = ''remote''\<rparr>"
  have e: "external_reference remote_kcp = Some ?e"
    by code_simp
  have ok: "reference_names_ok remote_kcp ?e" "\<forall>s \<in> set [remote_secret]. secret_names_ok s"
    by code_simp+
  have list: "c_list_secret (er_Client mem_ecr) ExternalClusterReferenceSecretField v (sample_world remote_kcp) =
      (Inr (ix_secret.matching v [remote_secret]), sample_world remote_kcp)" for v
    by (simp add: mem_ecr_def mem_client_def mem_list_secret_def sample_world_def ix_secret.matching_selects)
  have "refers_to remote_kcp ?e remote_secret" "se_meta remote_secret = sample_meta ''s''"
    by code_simp+
  with watch_wakes_referenced_secrets [OF e ok list] show ?thesis
    by (simp add: sample_meta_def)
qed

text \<open>
  C25: a change of a remote tenant control plane comes home. The tenant control plane that was
  named for an object leads \<^verbatim>\<open>PushKamajiChange\<close> to trigger exactly the objects with that UID; with
  unique UIDs, that object alone. A name without the prefix triggers nothing.
\<close>

theorem push_triggers_owner:
  assumes "c_get_tcp (pk_Client p) req zero_tcp w = (None, tcp, w1)"
    and "GenerateRemoteTenantControlPlaneNames kcp = Return (om_Name (tcp_meta tcp), ns)"
    and "om_UID (kcp_meta kcp) \<noteq> ''''" "kcp \<in> set kcps" "inj_on (\<lambda>k. om_UID (kcp_meta k)) (set kcps)" "distinct kcps"
    and "\<And>v. c_list_kcp (pk_ParentClient p) KamajiControlPlaneUIDField v w1 = (Inr (ix_uid.matching v kcps), w2)"
  shows "PushKamajiChange_Reconcile p L req w =
    (None, [\<lparr>nn_Namespace = om_Namespace (kcp_meta kcp), nn_Name = om_Name (kcp_meta kcp)\<rparr>], w2)"
proof -
  have name: "om_Name (tcp_meta tcp) = remote_name kcp"
    using Generate_remote_name [OF assms(2)] .
  have uid: "ParseKamajiControlPlaneUIDFromTenantControlPlane tcp = om_UID (kcp_meta kcp)"
    using rn.parse_name_of [of kcp] by (subst Parse_by_name) (simp add: name)
  have "ix_uid.matching (om_UID (kcp_meta kcp)) kcps = [kcp]"
    unfolding ix_uid.matching_selects
    using rn.unique_owner [OF assms(4-6)] by (simp add: rn.parse_name_of)
  with assms(1,3,7) uid show ?thesis
    by (simp add: PushKamajiChange_Reconcile_def)
qed

definition remote_tcp :: TenantControlPlane where
  "remote_tcp = zero_tcp\<lparr>tcp_meta := zero_meta\<lparr>om_Name := ''kcp-u-k'', om_Namespace := ''remote''\<rparr>\<rparr>"

theorem push_triggers_owner_witness:
  "PushKamajiChange_Reconcile \<lparr>pk_ParentClient = mem_client, pk_Client = mem_client\<rparr> mem_lib
     \<lparr>nn_Namespace = ''remote'', nn_Name = ''kcp-u-k''\<rparr> ((sample_world remote_kcp)\<lparr>mem_tcps := [remote_tcp]\<rparr>) =
   (None, [\<lparr>nn_Namespace = ''ns'', nn_Name = ''k''\<rparr>], (sample_world remote_kcp)\<lparr>mem_tcps := [remote_tcp]\<rparr>)"
proof -
  let ?p = "\<lparr>pk_ParentClient = mem_client, pk_Client = mem_client\<rparr>" and ?w = "(sample_world remote_kcp)\<lparr>mem_tcps := [remote_tcp]\<rparr>"
  have get: "c_get_tcp (pk_Client ?p) \<lparr>nn_Namespace = ''remote'', nn_Name = ''kcp-u-k''\<rparr> zero_tcp ?w = (None, remote_tcp, ?w)"
    by (simp add: mem_client_def mem_read_def mem_get_def remote_tcp_def ObjectKey_def)
  have name: "GenerateRemoteTenantControlPlaneNames remote_kcp = Return (om_Name (tcp_meta remote_tcp), ''remote'')"
    by code_simp
  have uid: "om_UID (kcp_meta remote_kcp) \<noteq> ''''" "remote_kcp \<in> set [remote_kcp]" "distinct [remote_kcp]"
    by code_simp+
  have list: "c_list_kcp (pk_ParentClient ?p) KamajiControlPlaneUIDField v ?w = (Inr (ix_uid.matching v [remote_kcp]), ?w)" for v
    by (simp add: mem_client_def mem_list_kcp_def KamajiControlPlaneUIDField_def sample_world_def ix_uid.matching_selects)
  from push_triggers_owner [OF get name uid(1,2) _ uid(3) list] show ?thesis
    by (simp add: remote_kcp_def owned_kcp_def owned_meta_def sample_meta_def)
qed

section \<open>The store of managers\<close>

lemma referenced_keys_listed:
  assumes "\<And>k w. \<exists>w'. c_list_kcp (er_Client r) ExternalClusterReferenceKamajiControlPlaneField k w = (Inr (listed k), w')"
  shows "\<exists>st'. referenced_keys r ks st = (Inr (filter (\<lambda>k. listed k \<noteq> []) ks), st')"
proof (induction ks arbitrary: st)
  case (Cons k ks)
  obtain w' where "c_list_kcp (er_Client r) ExternalClusterReferenceKamajiControlPlaneField k (es_w st) = (Inr (listed k), w')"
    using assms by blast
  moreover obtain st1 st2 where "referenced_keys r ks (st\<lparr>es_w := w', es_store := snd (mapStore_Stop (es_store st) k)\<rparr>) =
      (Inr (filter (\<lambda>k. listed k \<noteq> []) ks), st1)"
    "referenced_keys r ks (st\<lparr>es_w := w'\<rparr>) = (Inr (filter (\<lambda>k. listed k \<noteq> []) ks), st2)"
    using Cons.IH by blast
  ultimately show ?case
    by (cases "listed k") simp_all
qed simp

text \<open>The two loops of a run without error.\<close>

lemma Ecr_Reconcile_steps:
  assumes "c_get_secret (er_Client r) req zero_secret (es_w st) = (None, secret, w)"
    and "\<And>k w. \<exists>w'. c_list_kcp (er_Client r) ExternalClusterReferenceKamajiControlPlaneField k w = (Inr (listed k), w')"
    and "Ecr_Reconcile r L E req st = (Return None, st')"
  shows "\<exists>st1. referenced_keys r (GenerateKeyNameFromSecret secret) (st\<lparr>es_w := w\<rparr>) =
      (Inr (filter (\<lambda>k. listed k \<noteq> []) (GenerateKeyNameFromSecret secret)), st1) \<and>
    load_managers E secret (filter (\<lambda>k. listed k \<noteq> []) (GenerateKeyNameFromSecret secret)) st1 = (Return None, st')"
proof -
  obtain st1 where st1: "referenced_keys r (GenerateKeyNameFromSecret secret) (st\<lparr>es_w := w\<rparr>) =
      (Inr (filter (\<lambda>k. listed k \<noteq> []) (GenerateKeyNameFromSecret secret)), st1)"
    using referenced_keys_listed [where listed = listed, OF assms(2)] by blast
  with assms(1,3) show ?thesis
    by (simp add: Ecr_Reconcile_def)
qed

text \<open>
  C26: what a reconciliation of a secret leaves in the store. After a run without error, a key of
  the secret is stored exactly when some object refers to it, and then with a manager for the
  version of the secret just read; the keys of all other secrets are as they were.
\<close>

theorem Ecr_Reconcile_store:
  assumes "c_get_secret (er_Client r) req zero_secret (es_w st) = (None, secret, w)"
    and "distinct (map fst (entries (se_Data secret)))"
    and "\<And>k w. \<exists>w'. c_list_kcp (er_Client r) ExternalClusterReferenceKamajiControlPlaneField k w = (Inr (listed k), w')"
    and "Ecr_Reconcile r L E req st = (Return None, st')"
  shows "(\<forall>key \<in> set (GenerateKeyNameFromSecret secret).
      if listed key = [] then ms_entry (es_store st') key = None
      else \<exists>m c. ms_entry (es_store st') key = Some (om_ResourceVersion (se_meta secret), m, c)) \<and>
    (\<forall>key. key \<notin> set (GenerateKeyNameFromSecret secret) \<longrightarrow> ms_entry (es_store st') key = ms_entry (es_store st) key)"
proof -
  let ?keys = "filter (\<lambda>k. listed k \<noteq> []) (GenerateKeyNameFromSecret secret)"
  from Ecr_Reconcile_steps [where listed = listed, OF assms(1,3,4)] obtain st1 where
    st1: "referenced_keys r (GenerateKeyNameFromSecret secret) (st\<lparr>es_w := w\<rparr>) = (Inr ?keys, st1)"
    and "load_managers E secret ?keys st1 = (Return None, st')"
    by blast
  note loaded = load_managers_stored [OF this(2)]
    and stopped = referenced_keys_stopped [OF st1 distinct_secret_keys [OF assms(2)]]
  show ?thesis
    using loaded stopped by auto
qed

definition mem_ecr_lib :: "(mem, nat, nat) ecr_lib" where
  "mem_ecr_lib = \<lparr>e_RESTConfigFromKubeConfig = (\<lambda>b. if elems b = [] then Inl (NewError ''empty'') else Inr (elems b)),
     e_NewManager = (\<lambda>cfg w. (Inr (length cfg), w)), e_Complete = (\<lambda>m b w. (None, w)), e_WithCancel = (\<lambda>w. (mem_clock w, w))\<rparr>"

abbreviation ecr_start :: "(mem, nat, nat) ecr_state" where
  "ecr_start \<equiv> \<lparr>es_w = sample_world remote_kcp, es_store = NewStore, es_started = []\<rparr>"

abbreviation secret_req :: NamespacedName where
  "secret_req \<equiv> \<lparr>nn_Namespace = ''ns'', nn_Name = ''s''\<rparr>"

text \<open>The world whose only \<^verbatim>\<open>KamajiControlPlane\<close> is the one of the sample, as the index lists it.\<close>

definition fixed_list_client :: "mem client" where
  "fixed_list_client = mem_client\<lparr>c_list_kcp := (\<lambda>field v w. (fst (mem_list_kcp field v (sample_world remote_kcp)), w))\<rparr>"

lemma ecr_sample_run: "fst (Ecr_Reconcile \<lparr>er_Client = fixed_list_client\<rparr> mem_lib mem_ecr_lib secret_req ecr_start) = Return None"
  by code_simp

theorem Ecr_Reconcile_store_witness:
  "\<exists>st'. Ecr_Reconcile \<lparr>er_Client = fixed_list_client\<rparr> mem_lib mem_ecr_lib secret_req ecr_start = (Return None, st') \<and>
     ms_entry (es_store st') ''ns/s/kc'' \<noteq> None"
proof -
  let ?r = "\<lparr>er_Client = fixed_list_client\<rparr>"
  let ?listed = "\<lambda>k. filter (\<lambda>x. case GenerateKeyNameFromKamaji x of Return key \<Rightarrow> key = k | Panic _ \<Rightarrow> False) [remote_kcp]"
  obtain st' where run: "Ecr_Reconcile ?r mem_lib mem_ecr_lib secret_req ecr_start = (Return None, st')"
    using ecr_sample_run by (metis prod.collapse)
  have get: "c_get_secret (er_Client ?r) secret_req zero_secret (es_w ecr_start) = (None, remote_secret, sample_world remote_kcp)"
    by (simp add: fixed_list_client_def mem_client_def mem_read_def mem_get_def sample_world_def remote_secret_def
        sample_meta_def ObjectKey_def)
  have dist: "distinct (map fst (entries (se_Data remote_secret)))"
    by code_simp
  have list: "\<exists>w'. c_list_kcp (er_Client ?r) ExternalClusterReferenceKamajiControlPlaneField k w = (Inr (?listed k), w')" for k w
    by (simp add: fixed_list_client_def mem_list_kcp_def ExternalClusterReferenceKamajiControlPlaneField_def sample_world_def)
  have "''ns/s/kc'' \<in> set (GenerateKeyNameFromSecret remote_secret)" "?listed ''ns/s/kc'' \<noteq> []"
    by code_simp+
  with Ecr_Reconcile_store [where listed = ?listed, OF get dist list run] have "ms_entry (es_store st') ''ns/s/kc'' \<noteq> None"
    by fastforce
  with run show ?thesis
    by blast
qed

text \<open>
  C27: a reconciliation of a secret never panics: the key is always long enough for the index
  into its parts, whatever the names are.
\<close>

theorem Ecr_Reconcile_returns: "returns (fst (Ecr_Reconcile r L E req st))"
  by (auto simp: Ecr_Reconcile_def split: prod.split option.split sum.split
      intro!: load_managers_returns dest: referenced_keys_subset)

section \<open>Interleavings\<close>

lemma Get_False_iff: "snd (mapStore_Get m key rv) = False \<longleftrightarrow> mapStore_Get m key rv = (fst (mapStore_Get m key rv), False)"
  by (simp add: prod_eq_iff)



text \<open>
  C29: an addition to the store is never refused. In every reachable state in which the worker
  is about to add the manager it has started, the name is free, whatever the goroutines of other
  managers have done since the worker stopped the previous one; so ignoring the answer of
  \<^verbatim>\<open>Add\<close> loses nothing.
\<close>

theorem add_never_refused:
  assumes "ecr.reachable s" "th_worker s = Adding key rv mgr c"
  shows "fst (mapStore_Add (th_store s) key rv mgr c) \<and> ms_entry (snd (mapStore_Add (th_store s) key rv mgr c)) key = Some (rv, mgr, c)"
proof -
  have "name_free s"
    using th_inv_reachable [OF assms(1)] by (simp add: th_inv_def)
  with assms(2) have "ms_store (th_store s) key = None"
    by (simp add: name_free_def)
  then show ?thesis
    by (simp add: Add_free ms_entry_def)
qed

text \<open>A run to the point where the manager of a key has been started and not yet added.\<close>

abbreviation started :: "(nat, nat) threads" where
  "started \<equiv> \<lparr>th_store = NewStore, th_worker = Adding ''k'' ''1'' 7 0, th_goroutines = {(0, ''k'', Running)}, th_contexts = {0}\<rparr>"

lemma started_reachable: "ecr.reachable started"
proof -
  let ?s = "\<lambda>worker. \<lparr>th_store = NewStore :: (nat, nat) mapStore, th_worker = worker, th_goroutines = {}, th_contexts = {}\<rparr>"
  have "ecr.reachable (?s Idle)"
    by (rule ecr.reach_init) (simp add: th_init_def)
  moreover have "th_step (?s Idle) (?s (Stopping ''k'' ''1''))"
    using th_step.load [of "?s Idle" "''k''" "''1''"] by (simp add: mapStore_Get_def NewStore_def)
  moreover have "th_step (?s (Stopping ''k'' ''1'')) (?s (Starting ''k'' ''1''))"
    using th_step.stop [of "?s (Stopping ''k'' ''1'')" "''k''" "''1''"] by (simp add: mapStore_Stop_def NewStore_def)
  moreover have "th_step (?s (Starting ''k'' ''1'')) started"
    using th_step.spawn [of "?s (Starting ''k'' ''1'')" "''k''" "''1''" 0 7] by simp
  ultimately show ?thesis
    by (meson ecr.reach_step)
qed

theorem add_never_refused_witness: "fst (mapStore_Add (th_store started) ''k'' ''1'' 7 0)"
  using add_never_refused [OF started_reachable, of "''k''" "''1''" 7 0] by simp

text \<open>
  C30: no manager is out of reach. In every reachable state the context of a running goroutine
  has been cancelled, or the store holds its cancel function under the goroutine's name, or the
  worker is about to put it there; and no context is ever cancelled twice.
\<close>

theorem no_manager_leaked:
  assumes "ecr.reachable s"
  shows "(\<forall>(c, key, p) \<in> th_goroutines s. c \<in> set (ms_cancelled (th_store s)) \<or>
      (\<exists>rv m. ms_entry (th_store s) key = Some (rv, m, c)) \<or> (\<exists>rv m. th_worker s = Adding key rv m c)) \<and>
    distinct (ms_cancelled (th_store s))"
proof -
  have inv: "no_leak s" "one_owner s"
    using th_inv_reachable [OF assms] by (simp_all add: th_inv_def)
  have adding: "(key, c) \<in> adding wk \<Longrightarrow> \<exists>rv m. wk = Adding key rv m c" for key c and wk :: "('a, 'b) worker"
    by (cases wk) auto
  have stored: "(key, c) \<in> stored (th_store s) \<Longrightarrow> \<exists>rv m. ms_entry (th_store s) key = Some (rv, m, c)" for key c
    by (auto simp: stored_def ms_entry_def)
  have "c \<in> set (ms_cancelled (th_store s)) \<or> (\<exists>rv m. ms_entry (th_store s) key = Some (rv, m, c)) \<or>
      (\<exists>rv m. th_worker s = Adding key rv m c)" if "(c, key, p) \<in> th_goroutines s" for c key p
  proof -
    from inv(1) that consider "c \<in> set (ms_cancelled (th_store s))" | "(key, c) \<in> stored (th_store s)" | "(key, c) \<in> adding (th_worker s)"
      unfolding no_leak_def by blast
    then show ?thesis
      using stored adding by cases blast+
  qed
  moreover have "distinct (ms_cancelled (th_store s))"
    using inv(2) by (simp add: one_owner_def)
  ultimately show ?thesis
    by blast
qed

theorem no_manager_leaked_witness:
  "ecr.reachable started \<and> distinct (ms_cancelled (th_store started))"
  using no_manager_leaked [OF started_reachable] started_reachable by simp


text \<open>
  C32: a manager can be stopped by the failure of its predecessor. There is an interleaving in
  which a goroutine whose manager was cancelled and replaced, as the version of the secret
  changed, reports its failure afterwards, and its clean-up stops the new manager under the same
  name.
\<close>

theorem successor_stopped:
  "\<exists>s t :: (nat, nat) threads. ecr.reachable s \<and> th_step s t \<and> 0 \<in> set (ms_cancelled (th_store s)) \<and>
     (0, ''k'', Failed) \<in> th_goroutines s \<and> ms_entry (th_store s) ''k'' = Some (''2'', 8, 1) \<and>
     th_goroutines t = th_goroutines s - {(0, ''k'', Failed)} \<and>
     ms_entry (th_store t) ''k'' = None \<and> 1 \<in> set (ms_cancelled (th_store t)) \<and> (1, ''k'', Running) \<in> th_goroutines t"
proof -
  define m1 where "m1 = snd (mapStore_Add (NewStore :: (nat, nat) mapStore) ''k'' ''1'' 7 0)"
  define m2 where "m2 = snd (mapStore_Stop m1 ''k'')"
  define m3 where "m3 = snd (mapStore_Add m2 ''k'' ''2'' 8 1)"
  note m_defs = m1_def m2_def m3_def mapStore_defs NewStore_def
  let ?s = "\<lambda>store worker G C. \<lparr>th_store = store, th_worker = worker, th_goroutines = G, th_contexts = C\<rparr>"
  let ?G = "{(0, ''k'', Running)}" and ?G1 = "{(1, ''k'', Running), (0, ''k'', Running)}"
  let ?G2 = "{(0, ''k'', Failed), (1, ''k'', Running)}"
  let ?t = "?s (snd (mapStore_Stop m3 ''k'')) Idle {(1, ''k'', Running)} {1, 0}"
  have "th_step started (?s m1 Idle ?G {0})"
    using th_step.add [of started "''k''" "''1''" 7 0] by (simp add: m1_def)
  moreover have "th_step (?s m1 Idle ?G {0}) (?s m1 (Stopping ''k'' ''2'') ?G {0})"
    using th_step.load [of "?s m1 Idle ?G {0}" "''k''" "''2''"] by (simp add: m_defs)
  moreover have "th_step (?s m1 (Stopping ''k'' ''2'') ?G {0}) (?s m2 (Starting ''k'' ''2'') ?G {0})"
    using th_step.stop [of "?s m1 (Stopping ''k'' ''2'') ?G {0}" "''k''" "''2''"] by (simp add: m2_def)
  moreover have "th_step (?s m2 (Starting ''k'' ''2'') ?G {0}) (?s m2 (Adding ''k'' ''2'' 8 1) ?G1 {1, 0})"
    using th_step.spawn [of "?s m2 (Starting ''k'' ''2'') ?G {0}" "''k''" "''2''" 1 8] by simp
  moreover have "th_step (?s m2 (Adding ''k'' ''2'' 8 1) ?G1 {1, 0}) (?s m3 Idle ?G1 {1, 0})"
    using th_step.add [of "?s m2 (Adding ''k'' ''2'' 8 1) ?G1 {1, 0}" "''k''" "''2''" 8 1] by (simp add: m3_def)
  moreover have "th_step (?s m3 Idle ?G1 {1, 0}) (?s m3 Idle ?G2 {1, 0})"
    using th_step.fail [of 0 "''k''" "?s m3 Idle ?G1 {1, 0}"] by (simp add: insert_Diff_if)
  ultimately have "ecr.reachable (?s m3 Idle ?G2 {1, 0})"
    using started_reachable by (meson ecr.reach_step)
  moreover have "th_step (?s m3 Idle ?G2 {1, 0}) ?t"
    using th_step.clean_up [of 0 "''k''" "?s m3 Idle ?G2 {1, 0}"] by (simp add: insert_Diff_if)
  moreover have "ms_entry m3 ''k'' = Some (''2'', 8, 1)" "0 \<in> set (ms_cancelled m3)"
    "ms_entry (snd (mapStore_Stop m3 ''k'')) ''k'' = None" "1 \<in> set (ms_cancelled (snd (mapStore_Stop m3 ''k'')))"
    by (simp_all add: m_defs ms_entry_def)
  ultimately show ?thesis
    by (intro exI [of _ "?s m3 Idle ?G2 {1, 0}"] exI [of _ ?t]) simp
qed



end
