(* ===== verification/Startup.thy ===== *)
theory Startup
  imports EcrController
begin

text \<open>
  \<^verbatim>\<open>main.go\<close> and the registration of the \<^verbatim>\<open>KamajiControlPlane\<close> controller: which feature
  gates there are, which flags are refused, and which parts are set up in which order. The
  calls into controller-runtime are parameters; every error ends the program with exit code 1.
\<close>

section \<open>Feature gates\<close>

record FeatureSpec =
  fs_Default :: bool
  fs_LockToDefault :: bool

definition feature_specs :: "(string \<times> FeatureSpec) list" where
  "feature_specs =
     [(features_ExternalClusterReference, \<lparr>fs_Default = False, fs_LockToDefault = False\<rparr>),
      (features_ExternalClusterReferenceCrossNamespace, \<lparr>fs_Default = False, fs_LockToDefault = False\<rparr>),
      (features_SkipInfraClusterPatch, \<lparr>fs_Default = False, fs_LockToDefault = False\<rparr>),
      (features_DynamicInfrastructureClusterPatch, \<lparr>fs_Default = False, fs_LockToDefault = False\<rparr>)]"

text \<open>\<^verbatim>\<open>FeatureGate.Enabled\<close> once \<^verbatim>\<open>--feature-gates\<close> has been parsed to the list \<open>set_gates\<close>.\<close>

definition gate_enabled :: "(string \<times> bool) list \<Rightarrow> string \<Rightarrow> bool" where
  "gate_enabled set_gates f =
     (case map_of set_gates f of
        Some b \<Rightarrow> b
      | None \<Rightarrow> (case map_of feature_specs f of Some s \<Rightarrow> fs_Default s | None \<Rightarrow> False))"

section \<open>KamajiControlPlaneReconciler.SetupWithManager\<close>

text \<open>The event predicate of the controller: objects that have an owner.\<close>

definition for_predicate :: "ObjectMeta \<Rightarrow> bool" where
  "for_predicate m \<longleftrightarrow> go_len (om_OwnerReferences m) > 0"

text \<open>
  \<open>new_clientset\<close>, \<open>discover\<close> (the discovery of Kamaji's API group) and \<open>complete\<close> (the builder's
  \<^verbatim>\<open>Complete\<close>) are the calls it makes.
\<close>

definition KamajiControlPlane_SetupWithManager ::
  "('w \<Rightarrow> go_error option \<times> 'w) \<Rightarrow> ('w \<Rightarrow> go_error option \<times> 'w) \<Rightarrow>
   (controller_setup \<Rightarrow> ('w, 'm, 'c) KamajiControlPlaneReconciler \<Rightarrow> 'w \<Rightarrow> go_error option \<times> 'w) \<Rightarrow>
   'w client \<Rightarrow> ('w, 'm, 'c) KamajiControlPlaneReconciler \<Rightarrow> 'w \<Rightarrow> go_error option \<times> 'w" where
  "KamajiControlPlane_SetupWithManager new_clientset discover complete mgr_client r w =
     (let r = r\<lparr>r_client := mgr_client\<rparr>;
          b = (NewControllerManagedBy ''KamajiControlPlane'')
                \<lparr>cs_Owns := [''Secret''], cs_RawSources := [''channel''],
                 cs_MaxConcurrentReconciles := r_MaxConcurrentReconciles r, cs_ResourceNotPaused := True\<rparr>
      in (case new_clientset w of
            (Some csErr, w) \<Rightarrow> (Some (ErrorfBy (Sentinel ErrClientSetCreation) csErr), w)
          | (None, w) \<Rightarrow>
              (case discover w of
                 (rsErr, w) \<Rightarrow>
                   (let b = (if rsErr = None then b\<lparr>cs_Owns := cs_Owns b @ [''TenantControlPlane'']\<rparr> else b)
                    in complete b r w))))"

section \<open>main\<close>

datatype exit_status = Exited nat | Stopped

text \<open>The flags, and the options of the manager.\<close>

record main_flags =
  fl_dynamicInfraClusters :: "string list"
  fl_metricsAddr :: string
  fl_probeAddr :: string
  fl_enableLeaderElection :: bool
  fl_maxConcurrentReconciles :: int
  fl_featureGates :: "(string \<times> bool) list"
  fl_managerOpts :: unstructured

text \<open>
  The variables before the arguments are parsed: what the definition of each flag stores there. The
  options of the manager are still the zero value.
\<close>

definition default_flags :: main_flags where
  "default_flags =
     \<lparr>fl_dynamicInfraClusters = [], fl_metricsAddr = '':8080'', fl_probeAddr = '':8081'', fl_enableLeaderElection = False,
      fl_maxConcurrentReconciles = 1, fl_featureGates = [], fl_managerOpts = []\<rparr>"

record manager_Options =
  mo_Metrics :: unstructured
  mo_WebhookPort :: int
  mo_CacheUnstructured :: bool
  mo_HealthProbeBindAddress :: string
  mo_LeaderElection :: bool
  mo_LeaderElectionID :: string

text \<open>
  The calls into the libraries. \<open>mc_AddManagerOptions\<close> defines the flags of the manager's options,
  \<open>mc_Parse\<close> starts from the defaults, \<open>mc_NewManager\<close> answers with the client of the new manager.
\<close>

record ('w, 'm, 'c) main_calls =
  mc_AddManagerOptions :: "unstructured \<Rightarrow> unstructured"
  mc_gate_Add :: "(string \<times> FeatureSpec) list \<Rightarrow> go_error option"
  mc_Parse :: "main_flags \<Rightarrow> string list \<Rightarrow> go_error + main_flags"
  mc_GetManagerOptions :: "unstructured \<Rightarrow> go_error + unstructured"
  mc_NewManager :: "manager_Options \<Rightarrow> 'w \<Rightarrow> (go_error + 'w client) \<times> 'w"
  mc_NewForConfig :: "'w \<Rightarrow> go_error option \<times> 'w"
  mc_ServerResources :: "'w \<Rightarrow> go_error option \<times> 'w"
  mc_Complete_kcp :: "controller_setup \<Rightarrow> ('w, 'm, 'c) KamajiControlPlaneReconciler \<Rightarrow> 'w \<Rightarrow> go_error option \<times> 'w"
  mc_Complete_ecr :: "controller_setup \<Rightarrow> 'w ExternalClusterReferenceReconciler \<Rightarrow> 'w \<Rightarrow> go_error option \<times> 'w"
  mc_IndexField :: "indexer \<Rightarrow> 'w \<Rightarrow> go_error option \<times> 'w"
  mc_AddHealthzCheck :: "string \<Rightarrow> 'w \<Rightarrow> go_error option \<times> 'w"
  mc_AddReadyzCheck :: "string \<Rightarrow> 'w \<Rightarrow> go_error option \<times> 'w"
  mc_Start :: "'w \<Rightarrow> go_error option \<times> 'w"

text \<open>One call of the sequence; an error exits.\<close>

definition or_exit :: "('w \<Rightarrow> go_error option \<times> 'w) \<Rightarrow> ('w \<Rightarrow> exit_status \<times> 'w) \<Rightarrow> 'w \<Rightarrow> exit_status \<times> 'w" where
  "or_exit f g w = (case f w of (Some _, w) \<Rightarrow> (Exited 1, w) | (None, w) \<Rightarrow> g w)"

definition manager_options :: "main_flags \<Rightarrow> unstructured \<Rightarrow> manager_Options" where
  "manager_options fl metricsOpts =
     \<lparr>mo_Metrics = metricsOpts, mo_WebhookPort = 9443, mo_CacheUnstructured = True,
      mo_HealthProbeBindAddress = fl_probeAddr fl, mo_LeaderElection = fl_enableLeaderElection fl,
      mo_LeaderElectionID = ''kamaji.controlplane.cluster.x-k8s.io''\<rparr>"

text \<open>The literal of \<^verbatim>\<open>main\<close>; the client is set by \<^verbatim>\<open>SetupWithManager\<close>, before it is read.\<close>

definition main_reconciler :: "main_flags \<Rightarrow> 'w client \<Rightarrow> ('w, 'm, 'c) KamajiControlPlaneReconciler" where
  "main_reconciler fl nil_client =
     \<lparr>r_ExternalClusterReferenceStore = NewStore, r_FeatureGates = gate_enabled (fl_featureGates fl),
      r_MaxConcurrentReconciles = fl_maxConcurrentReconciles fl,
      r_DynamicInfrastructureClusters = set (fl_dynamicInfraClusters fl), r_client = nil_client\<rparr>"

definition setup_external ::
  "('w, 'm, 'c) main_calls \<Rightarrow> (string \<Rightarrow> bool) \<Rightarrow> 'w client \<Rightarrow> 'w \<Rightarrow> go_error option \<times> 'w" where
  "setup_external mc enabled mgr_client w =
     (if enabled features_ExternalClusterReference \<or> enabled features_ExternalClusterReferenceCrossNamespace
      then (case indexers_SetupWithManager (mc_IndexField mc) w of
              (Some e, w) \<Rightarrow> (Some e, w)
            | (None, w) \<Rightarrow> Ecr_SetupWithManager (mc_Complete_ecr mc) \<lparr>er_Client = mgr_client\<rparr> w)
      else (None, w))"

definition main_run :: "('w, 'm, 'c) main_calls \<Rightarrow> string list \<Rightarrow> 'w \<Rightarrow> exit_status \<times> 'w" where
  "main_run mc args w =
     (let flagSet = default_flags\<lparr>fl_managerOpts := mc_AddManagerOptions mc (fl_managerOpts default_flags)\<rparr>
      in case mc_gate_Add mc feature_specs of
        Some _ \<Rightarrow> (Exited 1, w)
      | None \<Rightarrow>
          (case mc_Parse mc flagSet args of
             Inl _ \<Rightarrow> (Exited 1, w)
           | Inr fl \<Rightarrow>
               (case mc_GetManagerOptions mc (fl_managerOpts fl) of
                  Inl _ \<Rightarrow> (Exited 1, w)
                | Inr metricsOpts \<Rightarrow>
                    (let enabled = gate_enabled (fl_featureGates fl)
                     in if \<not> enabled features_DynamicInfrastructureClusterPatch \<and>
                           length (fl_dynamicInfraClusters fl) > 0
                        then (Exited 1, w)
                        else
                          (case mc_NewManager mc (manager_options fl metricsOpts) w of
                             (Inl _, w) \<Rightarrow> (Exited 1, w)
                           | (Inr cl, w) \<Rightarrow>
                               or_exit (KamajiControlPlane_SetupWithManager (mc_NewForConfig mc)
                                   (mc_ServerResources mc) (mc_Complete_kcp mc) cl (main_reconciler fl cl))
                                 (or_exit (setup_external mc enabled cl)
                                   (or_exit (mc_AddHealthzCheck mc ''healthz'')
                                     (or_exit (mc_AddReadyzCheck mc ''readyz'')
                                       (or_exit (mc_Start mc) (\<lambda>w. (Stopped, w)))))) w)))))"

section \<open>Lemmas\<close>

abbreviation flags_defined :: "('w, 'm, 'c) main_calls \<Rightarrow> main_flags" where
  "flags_defined mc \<equiv> default_flags\<lparr>fl_managerOpts := mc_AddManagerOptions mc (fl_managerOpts default_flags)\<rparr>"

lemma or_exit_Stopped:
  "or_exit f g w = (Stopped, w') \<longleftrightarrow> (\<exists>w1. f w = (None, w1) \<and> g w1 = (Stopped, w'))"
  by (auto simp: or_exit_def split: prod.splits option.splits)

lemma or_exit_status:
  assumes "\<And>w. fst (g w) \<in> {Exited 1, Stopped}"
  shows "fst (or_exit f g w) \<in> {Exited 1, Stopped}"
  using assms by (auto simp: or_exit_def split: prod.splits option.splits)

lemma gate_enabled_default: "gate_enabled [] f = False"
  by (auto simp: gate_enabled_def feature_specs_def split: option.splits)

end
