(* ===== verification/Scheme.thy ===== *)
theory Scheme
  imports Platform
begin

text \<open>
  The registration of the API types: \<^verbatim>\<open>api/v1alpha2/groupversion_info.go\<close>, the \<^verbatim>\<open>init\<close> functions
  of the two files with types, and the \<^verbatim>\<open>init\<close> function of \<^verbatim>\<open>main.go\<close>. A scheme is the set of the
  kinds it knows; \<^verbatim>\<open>metav1.AddToGroupVersion\<close> and the functions of other packages are parameters.
\<close>

type_synonym scheme = "GroupVersionKind set"

record GroupVersion =
  gv_Group :: string
  gv_Version :: string

definition v1alpha2_GroupVersion :: GroupVersion where
  "v1alpha2_GroupVersion = \<lparr>gv_Group = ''controlplane.cluster.x-k8s.io'', gv_Version = ''v1alpha2''\<rparr>"

definition WithKind :: "GroupVersion \<Rightarrow> string \<Rightarrow> GroupVersionKind" where
  "WithKind gv kind = \<lparr>gvk_Group = gv_Group gv, gvk_Version = gv_Version gv, gvk_Kind = kind\<rparr>"

definition AddKnownTypes :: "GroupVersion \<Rightarrow> string list \<Rightarrow> scheme \<Rightarrow> scheme" where
  "AddKnownTypes gv kinds s = s \<union> set (map (WithKind gv) kinds)"

text \<open>A \<^verbatim>\<open>SchemeBuilder\<close> is a list of functions; \<^verbatim>\<open>AddToScheme\<close> runs them until one fails.\<close>

type_synonym scheme_fn = "scheme \<Rightarrow> go_error option \<times> scheme"

fun run_builder :: "scheme_fn list \<Rightarrow> scheme_fn" where
  "run_builder [] s = (None, s)"
| "run_builder (f # fs) s =
     (case f s of (Some e, s') \<Rightarrow> (Some e, s') | (None, s') \<Rightarrow> run_builder fs s')"

definition SchemeBuilder :: "(GroupVersion \<Rightarrow> scheme \<Rightarrow> scheme) \<Rightarrow> scheme_fn list" where
  "SchemeBuilder addToGroupVersion = [\<lambda>s. (None, addToGroupVersion v1alpha2_GroupVersion s)]"

definition init_types :: "scheme_fn list \<Rightarrow> scheme_fn list" where
  "init_types b = b @ [\<lambda>s. (None, AddKnownTypes v1alpha2_GroupVersion [''KamajiControlPlane'', ''KamajiControlPlaneList''] s)]"

definition init_template_types :: "scheme_fn list \<Rightarrow> scheme_fn list" where
  "init_template_types b = b @ [\<lambda>s. (None, AddKnownTypes v1alpha2_GroupVersion
     [''KamajiControlPlaneTemplate'', ''KamajiControlPlaneTemplateList''] s)]"

text \<open>
  \<^verbatim>\<open>AddToScheme\<close> is a method value of the variable \<^verbatim>\<open>SchemeBuilder\<close>, bound to its address: it runs
  what the \<^verbatim>\<open>init\<close> functions registered, which run in the order of the file names.
\<close>

definition v1alpha2_AddToScheme :: "(GroupVersion \<Rightarrow> scheme \<Rightarrow> scheme) \<Rightarrow> scheme_fn" where
  "v1alpha2_AddToScheme addToGroupVersion =
     run_builder (init_template_types (init_types (SchemeBuilder addToGroupVersion)))"

text \<open>\<^verbatim>\<open>utilruntime.Must\<close> in the \<^verbatim>\<open>init\<close> function of \<^verbatim>\<open>main.go\<close>: an error is a panic.\<close>

fun must_all :: "scheme_fn list \<Rightarrow> scheme \<Rightarrow> scheme outcome" where
  "must_all [] s = Return s"
| "must_all (f # fs) s =
     (case f s of (Some _, s') \<Rightarrow> Panic ''Must'' | (None, s') \<Rightarrow> must_all fs s')"

definition main_init ::
  "scheme_fn \<Rightarrow> scheme_fn \<Rightarrow> scheme_fn \<Rightarrow> (GroupVersion \<Rightarrow> scheme \<Rightarrow> scheme) \<Rightarrow> scheme outcome" where
  "main_init clientgo kamaji capi addToGroupVersion =
     must_all [clientgo, kamaji, capi, v1alpha2_AddToScheme addToGroupVersion] {}"

section \<open>Lemmas\<close>

text \<open>Adding to a scheme never takes a kind away.\<close>

definition keeps_known :: "scheme_fn \<Rightarrow> bool" where
  "keeps_known f \<longleftrightarrow> (\<forall>s s'. f s = (None, s') \<longrightarrow> s \<subseteq> s')"

lemma must_all_keeps:
  assumes "\<forall>f \<in> set fs. keeps_known f" "must_all fs s = Return s'"
  shows "s \<subseteq> s'"
  using assms
proof (induction fs arbitrary: s)
  case Nil
  then show ?case by simp
next
  case (Cons f fs)
  from Cons.prems(2) obtain s1 where s1: "f s = (None, s1)" "must_all fs s1 = Return s'"
    by (auto split: prod.splits option.splits)
  then have "s1 \<subseteq> s'"
    using Cons.IH Cons.prems(1) by simp
  moreover have "s \<subseteq> s1"
    using Cons.prems(1) s1(1) by (simp add: keeps_known_def)
  ultimately show ?case by blast
qed

lemma v1alpha2_AddToScheme_eq:
  "v1alpha2_AddToScheme add s =
     (None, add v1alpha2_GroupVersion s \<union> set (map (WithKind v1alpha2_GroupVersion)
       [''KamajiControlPlane'', ''KamajiControlPlaneList'', ''KamajiControlPlaneTemplate'', ''KamajiControlPlaneTemplateList'']))"
  by (simp add: v1alpha2_AddToScheme_def init_template_types_def init_types_def SchemeBuilder_def AddKnownTypes_def insert_commute)

end
