(* ===== verification/StartupProperties.thy ===== *)
theory StartupProperties
  imports Startup Scheme ReconcileProperties
begin

text \<open>
  Properties of \<^verbatim>\<open>main.go\<close>, of the registration of the API types and of the events that reach the
  \<^verbatim>\<open>KamajiControlPlane\<close> controller.
\<close>

section \<open>The order of the set-up\<close>

lemma main_run_Stopped:
  assumes "main_run mc args w = (Stopped, w')"
  obtains fl mo cl w1 w2 w3 w4 w5 where
    "mc_gate_Add mc feature_specs = None" "mc_Parse mc (flags_defined mc) args = Inr fl" "mc_GetManagerOptions mc (fl_managerOpts fl) = Inr mo"
    "gate_enabled (fl_featureGates fl) features_DynamicInfrastructureClusterPatch \<or> fl_dynamicInfraClusters fl = []"
    "mc_NewManager mc (manager_options fl mo) w = (Inr cl, w1)"
    "KamajiControlPlane_SetupWithManager (mc_NewForConfig mc) (mc_ServerResources mc) (mc_Complete_kcp mc) cl
       (main_reconciler fl cl) w1 = (None, w2)"
    "setup_external mc (gate_enabled (fl_featureGates fl)) cl w2 = (None, w3)"
    "mc_AddHealthzCheck mc ''healthz'' w3 = (None, w4)" "mc_AddReadyzCheck mc ''readyz'' w4 = (None, w5)"
    "mc_Start mc w5 = (None, w')"
  using assms
  by (auto simp: main_run_def Let_def or_exit_Stopped split: option.splits sum.splits if_splits prod.splits)

text \<open>
  The program runs only fully set up. When \<^verbatim>\<open>main\<close> returns without having exited, the dynamic
  infrastructure clusters were allowed by their gate, and the \<^verbatim>\<open>KamajiControlPlane\<close> controller had
  been completed with the gates, the number of workers and the dynamic clusters of the flags and
  an empty store; with either gate of the external references, all indexes had been registered
  and the controller of the secrets completed before the manager was started.
\<close>

lemma main_fully_set_up:
  assumes "main_run mc args w = (Stopped, w')"
  shows "\<exists>fl cl w1 w2 w3 w4 b r. mc_Parse mc (flags_defined mc) args = Inr fl \<and>
    (fl_dynamicInfraClusters fl \<noteq> [] \<longrightarrow> gate_enabled (fl_featureGates fl) features_DynamicInfrastructureClusterPatch) \<and>
    mc_Complete_kcp mc b r w1 = (None, w2) \<and> cs_For b = ''KamajiControlPlane'' \<and> ''Secret'' \<in> set (cs_Owns b) \<and>
    cs_MaxConcurrentReconciles b = fl_maxConcurrentReconciles fl \<and>
    r = main_reconciler fl cl \<and> r_client r = cl \<and>
    (if gate_enabled (fl_featureGates fl) features_ExternalClusterReference \<or>
        gate_enabled (fl_featureGates fl) features_ExternalClusterReferenceCrossNamespace
     then \<exists>w5. indexers_SetupWithManager (mc_IndexField mc) w2 = (None, w5) \<and>
        mc_Complete_ecr mc ((NewControllerManagedBy ''Secret'')\<lparr>cs_Watches := [''KamajiControlPlane'']\<rparr>) \<lparr>er_Client = cl\<rparr> w5 = (None, w3)
     else w3 = w2) \<and>
    mc_Start mc w4 = (None, w')"
proof -
  from assms obtain fl cl w1 w2 w3 w5 where parse: "mc_Parse mc (flags_defined mc) args = Inr fl"
    and dyn: "gate_enabled (fl_featureGates fl) features_DynamicInfrastructureClusterPatch \<or> fl_dynamicInfraClusters fl = []"
    and kcp: "KamajiControlPlane_SetupWithManager (mc_NewForConfig mc) (mc_ServerResources mc) (mc_Complete_kcp mc) cl
       (main_reconciler fl cl) w1 = (None, w2)"
    and ecr: "setup_external mc (gate_enabled (fl_featureGates fl)) cl w2 = (None, w3)"
    and start: "mc_Start mc w5 = (None, w')"
    by (rule main_run_Stopped) blast
  let ?r = "main_reconciler fl cl :: ('a, 'b, 'c) KamajiControlPlaneReconciler"
  have r: "?r\<lparr>r_client := cl\<rparr> = ?r" "r_client ?r = cl" "r_MaxConcurrentReconciles ?r = fl_maxConcurrentReconciles fl"
    by (simp_all add: main_reconciler_def)
  from kcp obtain b w1' where "mc_Complete_kcp mc b ?r w1' = (None, w2)" "cs_For b = ''KamajiControlPlane''"
    "''Secret'' \<in> set (cs_Owns b)" "cs_MaxConcurrentReconciles b = fl_maxConcurrentReconciles fl"
    by (auto simp: KamajiControlPlane_SetupWithManager_def r NewControllerManagedBy_def Let_def
        split: prod.splits option.splits if_splits)
  moreover have "if gate_enabled (fl_featureGates fl) features_ExternalClusterReference \<or>
        gate_enabled (fl_featureGates fl) features_ExternalClusterReferenceCrossNamespace
     then \<exists>w5. indexers_SetupWithManager (mc_IndexField mc) w2 = (None, w5) \<and>
        mc_Complete_ecr mc ((NewControllerManagedBy ''Secret'')\<lparr>cs_Watches := [''KamajiControlPlane'']\<rparr>) \<lparr>er_Client = cl\<rparr> w5 = (None, w3)
     else w3 = w2"
    using ecr by (auto simp: setup_external_def Ecr_SetupWithManager_def split: prod.splits option.splits if_splits)
  ultimately show ?thesis
    using parse dyn start r(2) by blast
qed

text \<open>
  Calls that all succeed, and write down what was asked for; \<open>given\<close> is what the arguments change of the flags.
\<close>

datatype event = NewManagerEvent manager_Options | KcpEvent controller_setup "string set" | IndexEvent indexer |
  EcrEvent controller_setup | HealthzEvent string | ReadyzEvent string | StartEvent

definition recording :: "event list client \<Rightarrow> (main_flags \<Rightarrow> main_flags) \<Rightarrow> go_error option \<Rightarrow> (event list, 'm, 'c) main_calls" where
  "recording cl given rsErr =
     \<lparr>mc_AddManagerOptions = (\<lambda>opts. opts), mc_gate_Add = (\<lambda>_. None), mc_Parse = (\<lambda>fl _. Inr (given fl)), mc_GetManagerOptions = Inr,
      mc_NewManager = (\<lambda>opts w. (Inr cl, w @ [NewManagerEvent opts])), mc_NewForConfig = (\<lambda>w. (None, w)),
      mc_ServerResources = (\<lambda>w. (rsErr, w)),
      mc_Complete_kcp = (\<lambda>b r w. (None, w @ [KcpEvent b (r_DynamicInfrastructureClusters r)])),
      mc_Complete_ecr = (\<lambda>b r w. (None, w @ [EcrEvent b])), mc_IndexField = (\<lambda>ix w. (None, w @ [IndexEvent ix])),
      mc_AddHealthzCheck = (\<lambda>n w. (None, w @ [HealthzEvent n])), mc_AddReadyzCheck = (\<lambda>n w. (None, w @ [ReadyzEvent n])),
      mc_Start = (\<lambda>w. (None, w @ [StartEvent]))\<rparr>"

lemma setup_indexers_recorded:
  "setup_indexers (\<lambda>ix w. (None, w @ [IndexEvent ix])) ixs w = (None, w @ map IndexEvent ixs)"
  by (induction ixs arbitrary: w) simp_all


text \<open>
  Without arguments: one worker, no leader election, no dynamic cluster, and of the two
  controllers only that of the objects.
\<close>

lemma main_defaults:
  "main_run (recording cl (\<lambda>fl. fl) None) args [] =
     (Stopped,
      [NewManagerEvent \<lparr>mo_Metrics = [], mo_WebhookPort = 9443, mo_CacheUnstructured = True,
         mo_HealthProbeBindAddress = '':8081'', mo_LeaderElection = False,
         mo_LeaderElectionID = ''kamaji.controlplane.cluster.x-k8s.io''\<rparr>,
       KcpEvent ((NewControllerManagedBy ''KamajiControlPlane'')
         \<lparr>cs_Owns := [''Secret'', ''TenantControlPlane''], cs_RawSources := [''channel''],
          cs_MaxConcurrentReconciles := 1, cs_ResourceNotPaused := True\<rparr>) {},
       HealthzEvent ''healthz'', ReadyzEvent ''readyz'', StartEvent])"
  by (simp add: main_run_def recording_def or_exit_def setup_external_def KamajiControlPlane_SetupWithManager_def
      main_reconciler_def manager_options_def default_flags_def gate_enabled_default Let_def)

section \<open>Events and types\<close>

text \<open>
  The predicate of the controller loses nothing: an event of an object without an owner, which
  it filters out, would have led to a reconciliation that only reads the object.
\<close>

lemma filtered_event_is_idle:
  assumes "\<not> for_predicate (kcp_meta kcp)" "c_get_kcp (r_client r) req zero_kcp w = (None, kcp, w1)"
  shows "Reconcile r L req w = (Return (no_result, None), w1)"
  using assms by (simp add: for_predicate_def go_len_def Reconcile_def)

text \<open>
  The types are registered. When the set-up of the scheme does not panic, the scheme of the
  manager knows the four kinds of this API under its group and version, whatever the other
  packages add, and still knows what the first package added.
\<close>

lemma scheme_registered:
  assumes "main_init clientgo kamaji capi add = Return s" "keeps_known kamaji" "keeps_known capi"
    and "\<And>gv s. s \<subseteq> add gv s"
  shows "(\<forall>kind \<in> {''KamajiControlPlane'', ''KamajiControlPlaneList'', ''KamajiControlPlaneTemplate'', ''KamajiControlPlaneTemplateList''}.
      \<lparr>gvk_Group = ''controlplane.cluster.x-k8s.io'', gvk_Version = ''v1alpha2'', gvk_Kind = kind\<rparr> \<in> s) \<and>
    fst (clientgo {}) = None \<and> snd (clientgo {}) \<subseteq> s"
proof -
  have own: "keeps_known (v1alpha2_AddToScheme add)"
    using assms(4) by (auto simp: keeps_known_def v1alpha2_AddToScheme_eq)
  from assms(1) obtain s1 s3 where s1: "clientgo {} = (None, s1)" "must_all [kamaji, capi, v1alpha2_AddToScheme add] s1 = Return s"
    and s3: "v1alpha2_AddToScheme add s3 = (None, s)"
    by (auto simp: main_init_def split: prod.splits option.splits)
  from s1(2) assms(2,3) own have "s1 \<subseteq> s"
    by (intro must_all_keeps [of "[kamaji, capi, v1alpha2_AddToScheme add]"]) simp_all
  with s1(1) s3 show ?thesis
    by (auto simp: v1alpha2_AddToScheme_eq WithKind_def v1alpha2_GroupVersion_def)
qed

end
