(* ===== verification/ComponentProperties.thy ===== *)
theory ComponentProperties
  imports ReconcileProperties
begin

text \<open>
  Properties of single components: the tracking of conditions, the store of managers, and the
  secrets handed over to Cluster API.
\<close>

section \<open>Conditions\<close>

text \<open>
  C37: tracking a step refines one update of a map from types to conditions. The step runs once;
  the condition of its type then has the observed generation and the outcome of the step, its
  transition time moves only when the status changes, every other condition is untouched, and
  there is still at most one per type. A request to enqueue back is reported with the reason
  Failed, every other error with the reason Pending.
\<close>

theorem track_condition_refines:
  assumes "conditions_doc L" "distinct_types cs" "fn s = (err, s')"
    and "TrackConditionType L now cs ct gen fn s = (cs', s'')"
  shows "s'' = s' \<and> distinct_types cs' \<and> (\<forall>t. t \<noteq> ctype_text ct \<longrightarrow> cond_of cs' t = cond_of cs t) \<and>
    (\<exists>c. cond_of cs' (ctype_text ct) = Some c \<and> co_ObservedGeneration c = gen \<and>
      (case err of
         None \<Rightarrow> co_Status c = ConditionTrue \<and> co_Reason c = ''Succeeded'' \<and> co_Message c = ''''
       | Some e \<Rightarrow> co_Status c = ConditionFalse \<and> co_Message c = error_text (l_quote L) e \<and>
           co_Reason c = (if errors_Is e ErrEnqueueBack then ''Failed'' else ''Pending'')) \<and>
      co_LastTransitionTime c =
        (if co_Status (tracked_before cs ct) = co_Status c then co_LastTransitionTime (tracked_before cs ct) else now s'))"
proof -
  have "s'' = s'"
    using TrackConditionType_state [of L now cs ct gen fn s] assms(3,4) by simp
  moreover have "distinct_types cs'"
    using TrackConditionType_distinct [where fn = fn and s = s, OF assms(1,2,4)] .
  moreover note at = TrackConditionType_cond_of [where fn = fn and s = s, OF assms]
  moreover have "cond_of cs' (ctype_text ct) = Some (track_result L (now s') gen err (tracked_before cs ct))"
    by (simp add: at)
  ultimately show ?thesis
    by (cases err) (simp_all add: track_result_def track_failed_def track_succeeded_def Let_def)
qed

theorem track_condition_refines_witness:
  "\<exists>cs'. TrackConditionType mem_lib (\<lambda>_. 5) None AvailableConditionType 3 (\<lambda>u. (Some (Sentinel ErrEnqueueBack), u)) () = (cs', ()) \<and>
     (\<exists>c. cond_of cs' (ctype_text AvailableConditionType) = Some c \<and> co_Reason c = ''Failed'' \<and> co_Status c = ConditionFalse)"
proof -
  let ?fn = "\<lambda>u :: unit. (Some (Sentinel ErrEnqueueBack), u)"
  obtain cs' where run: "TrackConditionType mem_lib (\<lambda>_. 5) None AvailableConditionType 3 ?fn () = (cs', ())"
    by (metis surj_pair old.unit.exhaust)
  have "distinct_types None"
    by (simp add: distinct_types_def)
  from track_condition_refines [where fn = ?fn, OF mem_conditions_doc this refl run] run show ?thesis
    by auto
qed

section \<open>The store\<close>

text \<open>
  C38: the store implements a map of managers, and replacing an entry is safe. After a stop and
  an addition under the same name, the addition has been accepted, the new manager is found for
  its version and for no other, lookups under every other name are as before, and the only
  cancel function called is that of the manager replaced, once.
\<close>

theorem store_replace:
  assumes "mapStore_Stop m n = (b, m1)" "mapStore_Add m1 n rv mgr c = (b', m2)"
  shows "b' \<and> (b \<longleftrightarrow> ms_entry m n \<noteq> None) \<and> (\<forall>v. mapStore_Get m2 n v = (Some mgr, v = rv)) \<and>
    (\<forall>k v. k \<noteq> n \<longrightarrow> mapStore_Get m2 k v = mapStore_Get m k v) \<and>
    ms_cancelled m2 = ms_cancelled m @ (case ms_entry m n of None \<Rightarrow> [] | Some (_, _, old) \<Rightarrow> [old])"
proof -
  note r = ms.restart [OF assms] and st = ms.stop_entry [OF assms(1)]
  have "mapStore_Get m2 n v = (Some mgr, v = rv)" for v
    by (auto simp: ms.get_entry r(3))
  moreover have "mapStore_Get m2 k v = mapStore_Get m k v" if "k \<noteq> n" for k v
    using that by (simp add: ms.get_entry r(3))
  ultimately show ?thesis
    using r(1,4) st by simp
qed

theorem store_replace_witness:
  "\<exists>m1 m2. mapStore_Stop (snd (mapStore_Add NewStore ''k'' ''1'' (7::nat) (0::nat))) ''k'' = (True, m1) \<and>
     mapStore_Add m1 ''k'' ''2'' 8 1 = (True, m2) \<and> mapStore_Get m2 ''k'' ''2'' = (Some 8, True) \<and> ms_cancelled m2 = [0]"
proof -
  let ?m = "snd (mapStore_Add NewStore ''k'' ''1'' (7::nat) (0::nat))"
  obtain b m1 where st: "mapStore_Stop ?m ''k'' = (b, m1)"
    by fastforce
  obtain b' m2 where ad: "mapStore_Add m1 ''k'' ''2'' 8 1 = (b', m2)"
    by fastforce
  have "ms_entry ?m ''k'' = Some (''1'', 7, 0)" "ms_cancelled ?m = []"
    by (simp_all add: mapStore_Add_def NewStore_def ms_entry_def)
  with store_replace [OF st ad] st ad show ?thesis
    by auto
qed

section \<open>The secrets of the cluster\<close>

text \<open>The keys of a TLS secret, as \<^verbatim>\<open>corev1\<close> has them.\<close>

definition TLS_keys_doc :: "('w, 'm) lib \<Rightarrow> bool" where
  "TLS_keys_doc L \<longleftrightarrow> k_TLSCertKey L = ''tls.crt'' \<and> k_TLSPrivateKeyKey L = ''tls.key''"

lemma ca_mutate_written:
  assumes "SetControllerReference_secret_doc L" "ca_mutate L cluster kcp tcp src s = (None, s')" "\<not> managed_by_kamaji s"
  obtains crt key where "gm_get (se_Data src) ''ca.crt'' = Some crt" "gm_get (se_Data src) ''ca.key'' = Some key"
    "se_Data s' = Some (AList.update (k_TLSPrivateKeyKey L) key [(k_TLSCertKey L, crt)])"
proof -
  from assms(2,3) obtain crt key where src: "gm_get (se_Data src) ''ca.crt'' = Some crt" "gm_get (se_Data src) ''ca.key'' = Some key"
    and own: "l_SetControllerReference_secret L kcp (s\<lparr>se_meta := (se_meta s)\<lparr>om_Labels := capi_labels L cluster tcp ''ca'' (om_Labels (se_meta src))\<rparr>,
        se_Data := Some (AList.update (k_TLSPrivateKeyKey L) key [(k_TLSCertKey L, crt)]), se_Type := k_ClusterSecretType L\<rparr>) = (None, s')"
    by (auto simp: ca_mutate_def managed_by_kamaji_def Let_def split: option.splits)
  have "se_Data s' = Some (AList.update (k_TLSPrivateKeyKey L) key [(k_TLSCertKey L, crt)])"
    using assms(1) own unfolding SetControllerReference_secret_doc_def by fastforce
  with src that show thesis
    by blast
qed

text \<open>
  C39: the certificate authority handed over. Where the mutate function succeeds on a secret that
  Kamaji does not own, the secret keeps its name and namespace, has the type and the label by
  which Cluster API finds it, and holds the certificate and the key of Kamaji's secret under the
  keys of a TLS secret and nothing else; a secret that Kamaji owns is left as it is.
\<close>

theorem ca_replica:
  assumes "SetControllerReference_secret_doc L" "ClusterNameLabel_doc L" "TLS_keys_doc L"
    and "ca_mutate L cluster kcp tcp src s = (None, s')"
  shows "if managed_by_kamaji s then s' = s
    else (\<exists>crt key. gm_get (se_Data src) ''ca.crt'' = Some crt \<and> gm_get (se_Data src) ''ca.key'' = Some key \<and>
      gm_get (se_Data s') = [''tls.crt'' \<mapsto> crt, ''tls.key'' \<mapsto> key]) \<and>
      ObjectKey (se_meta s') = ObjectKey (se_meta s) \<and> se_Type s' = k_ClusterSecretType L \<and>
      gm_get (om_Labels (se_meta s')) ''cluster.x-k8s.io/cluster-name'' = Some (om_Name (cl_meta cluster))"
proof (cases "managed_by_kamaji s")
  case True
  with assms(4) rep_ca.skipped [OF True, of L cluster kcp tcp src] show ?thesis
    by simp
next
  case False
  note shape = rep_ca.replica_shape [OF assms(1,2,4) False]
  from ca_mutate_written [OF assms(1,4) False] obtain crt key where src: "gm_get (se_Data src) ''ca.crt'' = Some crt"
    "gm_get (se_Data src) ''ca.key'' = Some key" "se_Data s' = Some (AList.update (k_TLSPrivateKeyKey L) key [(k_TLSCertKey L, crt)])"
    by blast
  have "gm_get (se_Data s') = [''tls.crt'' \<mapsto> crt, ''tls.key'' \<mapsto> key]"
    using assms(3) by (simp add: src(3) gm_get_def TLS_keys_doc_def update_conv' fun_eq_iff)
  with False shape src assms(2) show ?thesis
    by (simp add: ObjectKey_def ClusterNameLabel_doc_def)
qed

definition ca_source :: Secret where
  "ca_source = zero_secret\<lparr>se_meta := sample_meta ''ca'', se_Data := Some [(''ca.crt'', Some ''c''), (''ca.key'', Some ''k'')]\<rparr>"

definition ca_target :: Secret where
  "ca_target = zero_secret\<lparr>se_meta := sample_meta ''c-ca''\<rparr>"

theorem ca_replica_witness:
  "\<exists>s'. ca_mutate mem_lib (sample_cluster ''VSphereCluster'') plain_kcp zero_tcp ca_source ca_target = (None, s') \<and>
     gm_get (se_Data s') ''tls.key'' = Some (Some ''k'')"
proof -
  let ?run = "ca_mutate mem_lib (sample_cluster ''VSphereCluster'') plain_kcp zero_tcp ca_source ca_target"
  have "fst ?run = None" "\<not> managed_by_kamaji ca_target" "gm_get (se_Data ca_source) ''ca.key'' = Some (Some ''k'')"
    by code_simp+
  moreover from this obtain s' where run: "?run = (None, s')"
    by (metis prod.collapse)
  moreover have "TLS_keys_doc mem_lib"
    by (simp add: TLS_keys_doc_def mem_lib_def)
  ultimately show ?thesis
    using ca_replica [OF mem_owner_secret_doc mem_label_doc _ run] by auto
qed

text \<open>Where Kamaji's secrets are read: in the remote cluster, when there is one.\<close>

definition source_reader :: "('w, 'm, 'c) KamajiControlPlaneReconciler \<Rightarrow> 'w client option \<Rightarrow> 'w client" where
  "source_reader r rc = (case rc of None \<Rightarrow> r_client r | Some c \<Rightarrow> c)"



end
