(* ===== verification/Memory.thy ===== *)
theory Memory
  imports Prelude "HOL-Library.DAList"
begin

text \<open>
  Values with addresses. Where it matters which storage two objects share, a pointer, slice or
  map is a cell: the address of what was allocated, and what is stored there. A value of another
  project is known by its content and by the addresses it reaches. Allocation takes the next
  address of a counter.
\<close>

section \<open>Cells\<close>

type_synonym addr = nat

datatype 'a cell = Cell (cell_addr: addr) (cell_content: 'a)

type_synonym 'a pointer = "'a cell option"
type_synonym 'a hslice = "'a list cell option"
type_synonym hmap = "(string, string) alist cell option"

datatype 'a foreign = Foreign (foreign_reach: "addr set") (foreign_content: 'a)

text \<open>The addresses a value reaches, and the value without its addresses.\<close>

definition pointer_reach :: "('a \<Rightarrow> addr set) \<Rightarrow> 'a pointer \<Rightarrow> addr set" where
  "pointer_reach A p = (case p of None \<Rightarrow> {} | Some c \<Rightarrow> insert (cell_addr c) (A (cell_content c)))"

definition hslice_reach :: "('a \<Rightarrow> addr set) \<Rightarrow> 'a hslice \<Rightarrow> addr set" where
  "hslice_reach A s = (case s of None \<Rightarrow> {} | Some c \<Rightarrow> insert (cell_addr c) (\<Union> (set (map A (cell_content c)))))"

definition hmap_reach :: "hmap \<Rightarrow> addr set" where
  "hmap_reach m = (case m of None \<Rightarrow> {} | Some c \<Rightarrow> {cell_addr c})"

definition pointer_value :: "('a \<Rightarrow> 'b) \<Rightarrow> 'a pointer \<Rightarrow> 'b option" where
  "pointer_value e p = map_option (\<lambda>c. e (cell_content c)) p"

definition hslice_value :: "('a \<Rightarrow> 'b) \<Rightarrow> 'a hslice \<Rightarrow> 'b slice" where
  "hslice_value e s = map_option (\<lambda>c. map e (cell_content c)) s"

definition hmap_value :: "hmap \<Rightarrow> string gomap" where
  "hmap_value m = map_option (\<lambda>c. DAList.impl_of (cell_content c)) m"

lemmas reach_defs = pointer_reach_def hslice_reach_def hmap_reach_def
lemmas value_defs = pointer_value_def hslice_value_def hmap_value_def

section \<open>Copying\<close>

text \<open>A copy starts from a value and the next free address.\<close>

type_synonym 'a copier = "'a \<Rightarrow> addr \<Rightarrow> 'a \<times> addr"

text \<open>\<^verbatim>\<open>**out = **in\<close>, and an element of \<^verbatim>\<open>copy(*out, *in)\<close>: the value itself, which has no address in it.\<close>

definition copy_flat :: "'a copier" where
  "copy_flat x n = (x, n)"

text \<open>\<^verbatim>\<open>for i := range *in { (*in)[i].DeepCopyInto(&(*out)[i]) }\<close>\<close>

fun copy_each :: "'a copier \<Rightarrow> 'a list copier" where
  "copy_each f [] n = ([], n)"
| "copy_each f (x # xs) n =
     (let (y, n) = f x n; (ys, n) = copy_each f xs n in (y # ys, n))"

text \<open>\<^verbatim>\<open>if in != nil { *out = new(T); (*in).DeepCopyInto(*out) }\<close>\<close>

definition copy_pointer :: "'a copier \<Rightarrow> 'a pointer copier" where
  "copy_pointer f p n =
     (case p of
        None \<Rightarrow> (None, n)
      | Some c \<Rightarrow> (let (y, m) = f (cell_content c) (Suc n) in (Some (Cell n y), m)))"

text \<open>\<^verbatim>\<open>if in != nil { *out = make([]T, len(*in)); ... }\<close>\<close>

definition copy_hslice :: "'a copier \<Rightarrow> 'a hslice copier" where
  "copy_hslice f s n =
     (case s of
        None \<Rightarrow> (None, n)
      | Some c \<Rightarrow> (let (ys, m) = copy_each f (cell_content c) (Suc n) in (Some (Cell n ys), m)))"

text \<open>\<^verbatim>\<open>for key, val := range *in { (*out)[key] = val }\<close>\<close>

fun insert_all :: "(string \<times> string) list \<Rightarrow> (string, string) alist \<Rightarrow> (string, string) alist" where
  "insert_all [] m = m"
| "insert_all ((key, val) # kvs) m = insert_all kvs (DAList.update key val m)"

definition copy_hmap :: "hmap copier" where
  "copy_hmap m n =
     (case m of
        None \<Rightarrow> (None, n)
      | Some c \<Rightarrow> (Some (Cell n (insert_all (DAList.impl_of (cell_content c)) DAList.empty)), Suc n))"

section \<open>What a copy promises\<close>

text \<open>
  The counter does not go back, the copy reaches only addresses taken from it, and the copy has
  the value of the original.
\<close>

definition copies :: "'a copier \<Rightarrow> ('a \<Rightarrow> addr set) \<Rightarrow> ('a \<Rightarrow> 'b) \<Rightarrow> bool" where
  "copies f A e \<longleftrightarrow>
     (\<forall>x n. n \<le> snd (f x n) \<and> A (fst (f x n)) \<subseteq> {n..<snd (f x n)} \<and> e (fst (f x n)) = e x)"

lemma copiesI:
  assumes "\<And>x n. n \<le> snd (f x n)" "\<And>x n. A (fst (f x n)) \<subseteq> {n..<snd (f x n)}" "\<And>x n. e (fst (f x n)) = e x"
  shows "copies f A e"
  using assms by (simp add: copies_def)

lemma copies_le: "copies f A e \<Longrightarrow> j \<le> n \<Longrightarrow> j \<le> snd (f x n)"
  unfolding copies_def by (meson order_trans)

lemma copies_reach: "copies f A e \<Longrightarrow> j \<le> n \<Longrightarrow> snd (f x n) \<le> k \<Longrightarrow> A (fst (f x n)) \<subseteq> {j..<k}"
  unfolding copies_def by (metis ivl_subset order_trans)

lemma copies_value: "copies f A e \<Longrightarrow> e (fst (f x n)) = e x"
  by (simp add: copies_def)

lemma copies_flat: "copies copy_flat (\<lambda>_. {}) (\<lambda>x. x)"
  by (simp add: copies_def copy_flat_def)

lemma copies_each:
  assumes "copies f A e"
  shows "copies (copy_each f) (\<lambda>xs. \<Union> (set (map A xs))) (map e)"
proof (rule copiesI)
  show le: "n \<le> snd (copy_each f xs n)" for xs n
  proof (induction xs arbitrary: n)
    case (Cons x xs)
    show ?case
      by (simp add: split_beta) (rule order_trans [OF copies_le [OF assms order_refl, of n x] Cons.IH])
  qed simp
  show "\<Union> (set (map A (fst (copy_each f xs n)))) \<subseteq> {n..<snd (copy_each f xs n)}" for xs n
  proof (induction xs arbitrary: n)
    case (Cons x xs)
    let ?k = "snd (f x n)"
    have "A (fst (f x n)) \<subseteq> {n..<snd (copy_each f xs ?k)}"
      by (rule copies_reach [OF assms order_refl le])
    moreover have "\<Union> (set (map A (fst (copy_each f xs ?k)))) \<subseteq> {n..<snd (copy_each f xs ?k)}"
      using Cons.IH [of ?k] copies_le [OF assms order_refl, of n x] by force
    ultimately show ?case
      by (simp add: split_beta)
  qed simp
  show "map e (fst (copy_each f xs n)) = map e xs" for xs n
    by (induction xs arbitrary: n) (simp_all add: split_beta copies_value [OF assms])
qed

lemma copies_pointer:
  assumes "copies f A e"
  shows "copies (copy_pointer f) (pointer_reach A) (pointer_value e)"
proof (rule copiesI)
  note le = copies_le [OF assms] and reach = copies_reach [OF assms]
  have suc: "n \<le> snd (f x (Suc n))" "n < snd (f x (Suc n))" for x n
    using le [OF order_refl, of "Suc n" x] by simp_all
  show "n \<le> snd (copy_pointer f p n)" for p n
    by (simp add: copy_pointer_def split_beta suc split: option.split)
  show "pointer_reach A (fst (copy_pointer f p n)) \<subseteq> {n..<snd (copy_pointer f p n)}" for p n
    using reach [of n "Suc n"] suc by (simp add: copy_pointer_def pointer_reach_def split_beta split: option.split)
  show "pointer_value e (fst (copy_pointer f p n)) = pointer_value e p" for p n
    by (simp add: copy_pointer_def pointer_value_def split_beta copies_value [OF assms] split: option.split)
qed

lemma copies_hslice:
  assumes "copies f A e"
  shows "copies (copy_hslice f) (hslice_reach A) (hslice_value e)"
proof (rule copiesI)
  note each = copies_each [OF assms]
  have suc: "n \<le> snd (copy_each f xs (Suc n))" "n < snd (copy_each f xs (Suc n))" for xs n
    using copies_le [OF each order_refl, of "Suc n" xs] by simp_all
  show "n \<le> snd (copy_hslice f s n)" for s n
    by (simp add: copy_hslice_def split_beta suc split: option.split)
  show "hslice_reach A (fst (copy_hslice f s n)) \<subseteq> {n..<snd (copy_hslice f s n)}" for s n
    using copies_reach [OF each, of n "Suc n"] suc
    by (simp add: copy_hslice_def hslice_reach_def split_beta split: option.split)
  show "hslice_value e (fst (copy_hslice f s n)) = hslice_value e s" for s n
    using copies_value [OF each]
    by (simp add: copy_hslice_def hslice_value_def split_beta split: option.split)
qed

text \<open>A map rebuilt entry by entry is the map, since no key occurs twice in it.\<close>

lemma update_fresh: "k \<notin> fst ` set al \<Longrightarrow> AList.update k v al = al @ [(k, v)]"
  by (induction al) auto

lemma impl_of_insert_all:
  "distinct (map fst (DAList.impl_of m @ kvs)) \<Longrightarrow> DAList.impl_of (insert_all kvs m) = DAList.impl_of m @ kvs"
proof (induction kvs arbitrary: m)
  case (Cons kv kvs)
  obtain k v where kv: "kv = (k, v)"
    by fastforce
  with Cons.prems have "DAList.impl_of (DAList.update k v m) = DAList.impl_of m @ [(k, v)]"
    by (simp add: update.rep_eq update_fresh)
  with Cons.IH [of "DAList.update k v m"] Cons.prems kv show ?case
    by simp
qed simp

lemma insert_all_impl_of: "insert_all (DAList.impl_of m) DAList.empty = m"
  using impl_of_insert_all [of DAList.empty "DAList.impl_of m"] by (simp add: impl_of_inject empty.rep_eq)

lemma copies_hmap: "copies copy_hmap hmap_reach hmap_value"
  by (rule copiesI) (simp_all add: copy_hmap_def hmap_reach_def hmap_value_def insert_all_impl_of split: option.split)

text \<open>
  A method that replaces one field after the other: what it answers with is \<open>copied\<close> when the
  answer of the rest is, for any answer its first call may give.
\<close>

definition copied :: "('a \<Rightarrow> addr set) \<Rightarrow> ('a \<Rightarrow> 'b) \<Rightarrow> 'a \<Rightarrow> addr \<Rightarrow> 'a \<times> addr \<Rightarrow> bool" where
  "copied A e x n r \<longleftrightarrow> n \<le> snd r \<and> A (fst r) \<subseteq> {n..<snd r} \<and> e (fst r) = e x"

lemma copies_copied: "(\<And>x n. copied A e x n (f x n)) \<Longrightarrow> copies f A e"
  by (simp add: copies_def copied_def)

named_theorems copier_steps

lemma copy_step [copier_steps]:
  assumes "copies f B g"
    and "\<And>y m. n \<le> m \<Longrightarrow> B y \<subseteq> {n..<m} \<Longrightarrow> g y = g x \<Longrightarrow> copied A e z k (body y m)"
  shows "copied A e z k (let (y, m) = f x n in body y m)"
  using assms unfolding copies_def by (simp add: split_beta)

lemma let_step [copier_steps]: "copied A e z k (body y) \<Longrightarrow> copied A e z k (let y = y in body y)"
  by simp

lemma within: "A \<subseteq> {i..<j} \<Longrightarrow> n \<le> i \<Longrightarrow> j \<le> m \<Longrightarrow> A \<subseteq> {n..<m}" for i j n m :: addr
  by force

declare copies_flat [copier_steps] copies_pointer [copier_steps] copies_hslice [copier_steps] copies_hmap [copier_steps]

lemmas copied_simps = copied_def within

text \<open>
  The interface of a \<^verbatim>\<open>DeepCopyInto\<close> method, given that the methods of other projects keep theirs,
  and what follows for \<^verbatim>\<open>DeepCopy\<close>, which allocates the result first.
\<close>

locale deep_copy =
  fixes doc :: bool
    and into :: "'a copier" and reach :: "'a \<Rightarrow> addr set" and val :: "'a \<Rightarrow> 'b"
  assumes law: "doc \<Longrightarrow> copies into reach val"
begin

lemma nil_copy: "copy_pointer into None n = (None, n)"
  by (simp add: copy_pointer_def)

lemma copy_exists: "\<exists>c. fst (copy_pointer into (Some p) n) = Some c"
  by (simp add: copy_pointer_def split_beta)

lemma fresh_copy:
  assumes doc "copy_pointer into p n = (q, m)"
  shows "n \<le> m" "pointer_reach reach q \<subseteq> {n..<m}" "pointer_value val q = pointer_value val p"
proof -
  have c: "copies (copy_pointer into) (pointer_reach reach) (pointer_value val)"
    by (rule copies_pointer [OF law [OF assms(1)]])
  show "n \<le> m"
    using copies_le [OF c order_refl, of n p] assms(2) by simp
  show "pointer_reach reach q \<subseteq> {n..<m}"
    using copies_reach [OF c order_refl order_refl, of p n] assms(2) by simp
  show "pointer_value val q = pointer_value val p"
    using copies_value [OF c, of p n] assms(2) by simp
qed

text \<open>Nothing allocated before shares storage with a copy, and two copies share none.\<close>

lemma separate_copy:
  assumes doc "copy_pointer into p n = (q, m)" "\<forall>a \<in> S. a < n"
  shows "pointer_reach reach q \<inter> S = {}"
  using fresh_copy(2) [OF assms(1,2)] assms(3) by force

lemma separate_copies:
  assumes doc "copy_pointer into p n = (q, m)" "copy_pointer into p m = (q', m')"
  shows "pointer_reach reach q' \<inter> pointer_reach reach q = {}"
  using fresh_copy(2) [OF assms(1,2)] by (intro separate_copy [OF assms(1,3)]) auto

end

end
