(* ===== verification/DeepCopyTypes.thy ===== *)
theory DeepCopyTypes
  imports Memory ApiTypes
begin

text \<open>
  The API types of \<^verbatim>\<open>api/v1alpha2\<close> with the addresses of their pointers, slices and maps: the
  records of \<open>ApiTypes\<close>, each reference a cell. For each of them the addresses it reaches, and
  its value, which is the record of \<open>ApiTypes\<close> (for the objects and lists together with the type
  metadata that \<open>ApiTypes\<close> leaves out). A struct of another project is copied by its own method
  and appears as \<open>foreign\<close>, unless the generated code copies it by assignment, which it does for
  structs without references only.
\<close>

record KineComponent_mem =
  mkc_ExtraArgs :: "string hslice"
  mkc_Resources :: "ResourceRequirements foreign"

record ControlPlaneComponent_mem =
  mcpc_ExtraVolumeMounts :: "VolumeMount foreign hslice"
  mcpc_ExtraArgs :: "string hslice"
  mcpc_Resources :: "ResourceRequirements foreign"
  mcpc_ContainerImageName :: string
  mcpc_Probes :: "ProbeSet foreign pointer"

record CoreDNSAddonSpec_mem =
  mcda_AddonSpec :: "AddonSpec pointer"
  mcda_DNSServiceIPs :: "string hslice"

record AddonsSpec_mem =
  mas_AddonsSpec :: "KamajiAddonsSpec foreign"
  mas_CoreDNS :: "CoreDNSAddonSpec_mem pointer"

record DeploymentComponent_mem =
  mdc_NodeSelector :: hmap
  mdc_RuntimeClassName :: string
  mdc_AdditionalMetadata :: "AdditionalMetadata foreign"
  mdc_PodAdditionalMetadata :: "AdditionalMetadata foreign"
  mdc_ServiceAccountName :: string
  mdc_Strategy :: "DeploymentStrategy foreign"
  mdc_Affinity :: "Affinity foreign pointer"
  mdc_Tolerations :: "Toleration foreign hslice"
  mdc_TopologySpreadConstraints :: "TopologySpreadConstraint foreign hslice"
  mdc_ExtraInitContainers :: "Container foreign hslice"
  mdc_ExtraContainers :: "Container foreign hslice"
  mdc_ExtraVolumes :: "Volume foreign hslice"
  mdc_ExternalClusterReference :: "ExternalClusterReference pointer"
  mdc_Probes :: "ProbeSet foreign pointer"

record GatewayComponent_mem =
  mgc_Name :: string
  mgc_Namespace :: string
  mgc_Hostname :: string
  mgc_SectionName :: string
  mgc_Port :: "int32 pointer"
  mgc_ExtraLabels :: hmap
  mgc_ExtraAnnotations :: hmap

record IngressComponent_mem =
  mic_ClassName :: string
  mic_Hostname :: string
  mic_ExtraLabels :: hmap
  mic_ExtraAnnotations :: hmap

record LoadBalancerConfig_mem =
  mlb_LoadBalancerSourceRanges :: "string hslice"
  mlb_LoadBalancerClass :: "string pointer"

record NetworkComponent_mem =
  mnc_LoadBalancerConfig :: "LoadBalancerConfig_mem pointer"
  mnc_Gateway :: "GatewayComponent_mem pointer"
  mnc_Ingress :: "IngressComponent_mem pointer"
  mnc_ServiceType :: string
  mnc_ServiceAddress :: string
  mnc_AdvertiseAddress :: string
  mnc_ServiceLabels :: hmap
  mnc_ServiceAnnotations :: hmap
  mnc_AdditionalServicePorts :: "AdditionalPort foreign hslice"
  mnc_CertSANs :: "string hslice"
  mnc_DNSServiceIPs :: "string hslice"

record KamajiControlPlaneFields_mem =
  mf_DataStoreName :: string
  mf_DataStoreSchema :: string
  mf_DataStoreUsername :: string
  mf_DataStoreOverrides :: "DataStoreOverride hslice"
  mf_Addons :: AddonsSpec_mem
  mf_AdmissionControllers :: "AdmissionController hslice"
  mf_ContainerRegistry :: string
  mf_ControllerManager :: ControlPlaneComponent_mem
  mf_ApiServer :: ControlPlaneComponent_mem
  mf_Scheduler :: ControlPlaneComponent_mem
  mf_Kine :: KineComponent_mem
  mf_Kubelet :: "KubeletSpec foreign"
  mf_Network :: NetworkComponent_mem
  mf_Deployment :: DeploymentComponent_mem

record KamajiControlPlaneSpec_mem =
  ms_KamajiControlPlaneFields :: KamajiControlPlaneFields_mem
  ms_ControlPlaneEndpoint :: APIEndpoint
  ms_Replicas :: "int32 pointer"
  ms_Version :: string

record KamajiControlPlaneInitializationStatus_mem =
  mis_ControlPlaneInitialized :: "bool pointer"

record KamajiControlPlaneStatus_mem =
  mst_Initialization :: "KamajiControlPlaneInitializationStatus_mem pointer"
  mst_Ready :: bool
  mst_ReadyReplicas :: "int32 pointer"
  mst_Replicas :: "int32 pointer"
  mst_Selector :: "string pointer"
  mst_AvailableReplicas :: "int32 pointer"
  mst_UpToDateReplicas :: "int32 pointer"
  mst_ExternalManagedControlPlane :: "bool pointer"
  mst_FailureReason :: string
  mst_FailureMessage :: string
  mst_Version :: string
  mst_Conditions :: "Condition foreign hslice"

record KamajiControlPlane_mem =
  mkcp_TypeMeta :: json
  mkcp_ObjectMeta :: "ObjectMeta foreign"
  mkcp_Spec :: KamajiControlPlaneSpec_mem
  mkcp_Status :: KamajiControlPlaneStatus_mem

record KamajiControlPlaneList_mem =
  mkcpl_TypeMeta :: json
  mkcpl_ListMeta :: "json foreign"
  mkcpl_Items :: "KamajiControlPlane_mem hslice"

record KamajiControlPlaneTemplateResource_mem =
  mtr_ObjectMeta :: "json foreign"
  mtr_Spec :: KamajiControlPlaneFields_mem

record KamajiControlPlaneTemplateSpec_mem =
  mts_Template :: KamajiControlPlaneTemplateResource_mem

record KamajiControlPlaneTemplate_mem =
  mkcpt_TypeMeta :: json
  mkcpt_ObjectMeta :: "ObjectMeta foreign"
  mkcpt_Spec :: KamajiControlPlaneTemplateSpec_mem

record KamajiControlPlaneTemplateList_mem =
  mkcptl_TypeMeta :: json
  mkcptl_ListMeta :: "json foreign"
  mkcptl_Items :: "KamajiControlPlaneTemplate_mem hslice"

section \<open>The addresses reached\<close>

definition KineComponent_reach :: "KineComponent_mem \<Rightarrow> addr set" where
  "KineComponent_reach x =
     hslice_reach (\<lambda>_. {}) (mkc_ExtraArgs x) \<union> foreign_reach (mkc_Resources x)"

definition ControlPlaneComponent_reach :: "ControlPlaneComponent_mem \<Rightarrow> addr set" where
  "ControlPlaneComponent_reach x =
     hslice_reach foreign_reach (mcpc_ExtraVolumeMounts x) \<union>
     hslice_reach (\<lambda>_. {}) (mcpc_ExtraArgs x) \<union> foreign_reach (mcpc_Resources x) \<union>
     pointer_reach foreign_reach (mcpc_Probes x)"

definition CoreDNSAddonSpec_reach :: "CoreDNSAddonSpec_mem \<Rightarrow> addr set" where
  "CoreDNSAddonSpec_reach x =
     pointer_reach (\<lambda>_. {}) (mcda_AddonSpec x) \<union>
     hslice_reach (\<lambda>_. {}) (mcda_DNSServiceIPs x)"

definition AddonsSpec_reach :: "AddonsSpec_mem \<Rightarrow> addr set" where
  "AddonsSpec_reach x =
     foreign_reach (mas_AddonsSpec x) \<union> pointer_reach CoreDNSAddonSpec_reach (mas_CoreDNS x)"

definition DeploymentComponent_reach :: "DeploymentComponent_mem \<Rightarrow> addr set" where
  "DeploymentComponent_reach x =
     hmap_reach (mdc_NodeSelector x) \<union> foreign_reach (mdc_AdditionalMetadata x) \<union>
     foreign_reach (mdc_PodAdditionalMetadata x) \<union> foreign_reach (mdc_Strategy x) \<union>
     pointer_reach foreign_reach (mdc_Affinity x) \<union>
     hslice_reach foreign_reach (mdc_Tolerations x) \<union>
     hslice_reach foreign_reach (mdc_TopologySpreadConstraints x) \<union>
     hslice_reach foreign_reach (mdc_ExtraInitContainers x) \<union>
     hslice_reach foreign_reach (mdc_ExtraContainers x) \<union>
     hslice_reach foreign_reach (mdc_ExtraVolumes x) \<union>
     pointer_reach (\<lambda>_. {}) (mdc_ExternalClusterReference x) \<union>
     pointer_reach foreign_reach (mdc_Probes x)"

definition GatewayComponent_reach :: "GatewayComponent_mem \<Rightarrow> addr set" where
  "GatewayComponent_reach x =
     pointer_reach (\<lambda>_. {}) (mgc_Port x) \<union> hmap_reach (mgc_ExtraLabels x) \<union>
     hmap_reach (mgc_ExtraAnnotations x)"

definition IngressComponent_reach :: "IngressComponent_mem \<Rightarrow> addr set" where
  "IngressComponent_reach x =
     hmap_reach (mic_ExtraLabels x) \<union> hmap_reach (mic_ExtraAnnotations x)"

definition LoadBalancerConfig_reach :: "LoadBalancerConfig_mem \<Rightarrow> addr set" where
  "LoadBalancerConfig_reach x =
     hslice_reach (\<lambda>_. {}) (mlb_LoadBalancerSourceRanges x) \<union>
     pointer_reach (\<lambda>_. {}) (mlb_LoadBalancerClass x)"

definition NetworkComponent_reach :: "NetworkComponent_mem \<Rightarrow> addr set" where
  "NetworkComponent_reach x =
     pointer_reach LoadBalancerConfig_reach (mnc_LoadBalancerConfig x) \<union>
     pointer_reach GatewayComponent_reach (mnc_Gateway x) \<union>
     pointer_reach IngressComponent_reach (mnc_Ingress x) \<union> hmap_reach (mnc_ServiceLabels x) \<union>
     hmap_reach (mnc_ServiceAnnotations x) \<union>
     hslice_reach foreign_reach (mnc_AdditionalServicePorts x) \<union>
     hslice_reach (\<lambda>_. {}) (mnc_CertSANs x) \<union>
     hslice_reach (\<lambda>_. {}) (mnc_DNSServiceIPs x)"

definition KamajiControlPlaneFields_reach :: "KamajiControlPlaneFields_mem \<Rightarrow> addr set" where
  "KamajiControlPlaneFields_reach x =
     hslice_reach (\<lambda>_. {}) (mf_DataStoreOverrides x) \<union>
     AddonsSpec_reach (mf_Addons x) \<union>
     hslice_reach (\<lambda>_. {}) (mf_AdmissionControllers x) \<union>
     ControlPlaneComponent_reach (mf_ControllerManager x) \<union>
     ControlPlaneComponent_reach (mf_ApiServer x) \<union>
     ControlPlaneComponent_reach (mf_Scheduler x) \<union> KineComponent_reach (mf_Kine x) \<union>
     foreign_reach (mf_Kubelet x) \<union> NetworkComponent_reach (mf_Network x) \<union>
     DeploymentComponent_reach (mf_Deployment x)"

definition KamajiControlPlaneSpec_reach :: "KamajiControlPlaneSpec_mem \<Rightarrow> addr set" where
  "KamajiControlPlaneSpec_reach x =
     KamajiControlPlaneFields_reach (ms_KamajiControlPlaneFields x) \<union>
     pointer_reach (\<lambda>_. {}) (ms_Replicas x)"

definition KamajiControlPlaneInitializationStatus_reach :: "KamajiControlPlaneInitializationStatus_mem \<Rightarrow> addr set" where
  "KamajiControlPlaneInitializationStatus_reach x =
     pointer_reach (\<lambda>_. {}) (mis_ControlPlaneInitialized x)"

definition KamajiControlPlaneStatus_reach :: "KamajiControlPlaneStatus_mem \<Rightarrow> addr set" where
  "KamajiControlPlaneStatus_reach x =
     pointer_reach KamajiControlPlaneInitializationStatus_reach (mst_Initialization x) \<union>
     pointer_reach (\<lambda>_. {}) (mst_ReadyReplicas x) \<union>
     pointer_reach (\<lambda>_. {}) (mst_Replicas x) \<union>
     pointer_reach (\<lambda>_. {}) (mst_Selector x) \<union>
     pointer_reach (\<lambda>_. {}) (mst_AvailableReplicas x) \<union>
     pointer_reach (\<lambda>_. {}) (mst_UpToDateReplicas x) \<union>
     pointer_reach (\<lambda>_. {}) (mst_ExternalManagedControlPlane x) \<union>
     hslice_reach foreign_reach (mst_Conditions x)"

definition KamajiControlPlane_reach :: "KamajiControlPlane_mem \<Rightarrow> addr set" where
  "KamajiControlPlane_reach x =
     foreign_reach (mkcp_ObjectMeta x) \<union> KamajiControlPlaneSpec_reach (mkcp_Spec x) \<union>
     KamajiControlPlaneStatus_reach (mkcp_Status x)"

definition KamajiControlPlaneList_reach :: "KamajiControlPlaneList_mem \<Rightarrow> addr set" where
  "KamajiControlPlaneList_reach x =
     foreign_reach (mkcpl_ListMeta x) \<union> hslice_reach KamajiControlPlane_reach (mkcpl_Items x)"

definition KamajiControlPlaneTemplateResource_reach :: "KamajiControlPlaneTemplateResource_mem \<Rightarrow> addr set" where
  "KamajiControlPlaneTemplateResource_reach x =
     foreign_reach (mtr_ObjectMeta x) \<union> KamajiControlPlaneFields_reach (mtr_Spec x)"

definition KamajiControlPlaneTemplateSpec_reach :: "KamajiControlPlaneTemplateSpec_mem \<Rightarrow> addr set" where
  "KamajiControlPlaneTemplateSpec_reach x =
     KamajiControlPlaneTemplateResource_reach (mts_Template x)"

definition KamajiControlPlaneTemplate_reach :: "KamajiControlPlaneTemplate_mem \<Rightarrow> addr set" where
  "KamajiControlPlaneTemplate_reach x =
     foreign_reach (mkcpt_ObjectMeta x) \<union> KamajiControlPlaneTemplateSpec_reach (mkcpt_Spec x)"

definition KamajiControlPlaneTemplateList_reach :: "KamajiControlPlaneTemplateList_mem \<Rightarrow> addr set" where
  "KamajiControlPlaneTemplateList_reach x =
     foreign_reach (mkcptl_ListMeta x) \<union>
     hslice_reach KamajiControlPlaneTemplate_reach (mkcptl_Items x)"

section \<open>The values\<close>

definition KineComponent_value :: "KineComponent_mem \<Rightarrow> KineComponent" where
  "KineComponent_value x =
     \<lparr>kc_ExtraArgs = hslice_value (\<lambda>x. x) (mkc_ExtraArgs x),
      kc_Resources = foreign_content (mkc_Resources x)\<rparr>"

definition ControlPlaneComponent_value :: "ControlPlaneComponent_mem \<Rightarrow> ControlPlaneComponent" where
  "ControlPlaneComponent_value x =
     \<lparr>cpc_ExtraVolumeMounts = hslice_value foreign_content (mcpc_ExtraVolumeMounts x),
      cpc_ExtraArgs = hslice_value (\<lambda>x. x) (mcpc_ExtraArgs x),
      cpc_Resources = foreign_content (mcpc_Resources x),
      cpc_ContainerImageName = mcpc_ContainerImageName x,
      cpc_Probes = pointer_value foreign_content (mcpc_Probes x)\<rparr>"

definition CoreDNSAddonSpec_value :: "CoreDNSAddonSpec_mem \<Rightarrow> CoreDNSAddonSpec" where
  "CoreDNSAddonSpec_value x =
     \<lparr>cda_AddonSpec = pointer_value (\<lambda>x. x) (mcda_AddonSpec x),
      cda_DNSServiceIPs = hslice_value (\<lambda>x. x) (mcda_DNSServiceIPs x)\<rparr>"

definition AddonsSpec_value :: "AddonsSpec_mem \<Rightarrow> AddonsSpec" where
  "AddonsSpec_value x =
     \<lparr>as_AddonsSpec = foreign_content (mas_AddonsSpec x),
      as_CoreDNS = pointer_value CoreDNSAddonSpec_value (mas_CoreDNS x)\<rparr>"

definition DeploymentComponent_value :: "DeploymentComponent_mem \<Rightarrow> DeploymentComponent" where
  "DeploymentComponent_value x =
     \<lparr>dc_NodeSelector = hmap_value (mdc_NodeSelector x), dc_RuntimeClassName = mdc_RuntimeClassName x,
      dc_AdditionalMetadata = foreign_content (mdc_AdditionalMetadata x),
      dc_PodAdditionalMetadata = foreign_content (mdc_PodAdditionalMetadata x),
      dc_ServiceAccountName = mdc_ServiceAccountName x, dc_Strategy = foreign_content (mdc_Strategy x),
      dc_Affinity = pointer_value foreign_content (mdc_Affinity x),
      dc_Tolerations = hslice_value foreign_content (mdc_Tolerations x),
      dc_TopologySpreadConstraints = hslice_value foreign_content (mdc_TopologySpreadConstraints x),
      dc_ExtraInitContainers = hslice_value foreign_content (mdc_ExtraInitContainers x),
      dc_ExtraContainers = hslice_value foreign_content (mdc_ExtraContainers x),
      dc_ExtraVolumes = hslice_value foreign_content (mdc_ExtraVolumes x),
      dc_ExternalClusterReference = pointer_value (\<lambda>x. x) (mdc_ExternalClusterReference x),
      dc_Probes = pointer_value foreign_content (mdc_Probes x)\<rparr>"

definition GatewayComponent_value :: "GatewayComponent_mem \<Rightarrow> GatewayComponent" where
  "GatewayComponent_value x =
     \<lparr>gc_Name = mgc_Name x, gc_Namespace = mgc_Namespace x, gc_Hostname = mgc_Hostname x,
      gc_SectionName = mgc_SectionName x, gc_Port = pointer_value (\<lambda>x. x) (mgc_Port x),
      gc_ExtraLabels = hmap_value (mgc_ExtraLabels x),
      gc_ExtraAnnotations = hmap_value (mgc_ExtraAnnotations x)\<rparr>"

definition IngressComponent_value :: "IngressComponent_mem \<Rightarrow> IngressComponent" where
  "IngressComponent_value x =
     \<lparr>ic_ClassName = mic_ClassName x, ic_Hostname = mic_Hostname x,
      ic_ExtraLabels = hmap_value (mic_ExtraLabels x),
      ic_ExtraAnnotations = hmap_value (mic_ExtraAnnotations x)\<rparr>"

definition LoadBalancerConfig_value :: "LoadBalancerConfig_mem \<Rightarrow> LoadBalancerConfig" where
  "LoadBalancerConfig_value x =
     \<lparr>lb_LoadBalancerSourceRanges = hslice_value (\<lambda>x. x) (mlb_LoadBalancerSourceRanges x),
      lb_LoadBalancerClass = pointer_value (\<lambda>x. x) (mlb_LoadBalancerClass x)\<rparr>"

definition NetworkComponent_value :: "NetworkComponent_mem \<Rightarrow> NetworkComponent" where
  "NetworkComponent_value x =
     \<lparr>nc_LoadBalancerConfig = pointer_value LoadBalancerConfig_value (mnc_LoadBalancerConfig x),
      nc_Gateway = pointer_value GatewayComponent_value (mnc_Gateway x),
      nc_Ingress = pointer_value IngressComponent_value (mnc_Ingress x), nc_ServiceType = mnc_ServiceType x,
      nc_ServiceAddress = mnc_ServiceAddress x, nc_AdvertiseAddress = mnc_AdvertiseAddress x,
      nc_ServiceLabels = hmap_value (mnc_ServiceLabels x),
      nc_ServiceAnnotations = hmap_value (mnc_ServiceAnnotations x),
      nc_AdditionalServicePorts = hslice_value foreign_content (mnc_AdditionalServicePorts x),
      nc_CertSANs = hslice_value (\<lambda>x. x) (mnc_CertSANs x),
      nc_DNSServiceIPs = hslice_value (\<lambda>x. x) (mnc_DNSServiceIPs x)\<rparr>"

definition KamajiControlPlaneFields_value :: "KamajiControlPlaneFields_mem \<Rightarrow> KamajiControlPlaneFields" where
  "KamajiControlPlaneFields_value x =
     \<lparr>f_DataStoreName = mf_DataStoreName x, f_DataStoreSchema = mf_DataStoreSchema x,
      f_DataStoreUsername = mf_DataStoreUsername x,
      f_DataStoreOverrides = hslice_value (\<lambda>x. x) (mf_DataStoreOverrides x),
      f_Addons = AddonsSpec_value (mf_Addons x),
      f_AdmissionControllers = hslice_value (\<lambda>x. x) (mf_AdmissionControllers x),
      f_ContainerRegistry = mf_ContainerRegistry x,
      f_ControllerManager = ControlPlaneComponent_value (mf_ControllerManager x),
      f_ApiServer = ControlPlaneComponent_value (mf_ApiServer x),
      f_Scheduler = ControlPlaneComponent_value (mf_Scheduler x), f_Kine = KineComponent_value (mf_Kine x),
      f_Kubelet = foreign_content (mf_Kubelet x), f_Network = NetworkComponent_value (mf_Network x),
      f_Deployment = DeploymentComponent_value (mf_Deployment x)\<rparr>"

definition KamajiControlPlaneSpec_value :: "KamajiControlPlaneSpec_mem \<Rightarrow> KamajiControlPlaneSpec" where
  "KamajiControlPlaneSpec_value x =
     KamajiControlPlaneFields.extend (KamajiControlPlaneFields_value (ms_KamajiControlPlaneFields x))
       (KamajiControlPlaneSpec.fields (ms_ControlPlaneEndpoint x) (pointer_value (\<lambda>x. x) (ms_Replicas x)) (ms_Version x))"

definition KamajiControlPlaneInitializationStatus_value :: "KamajiControlPlaneInitializationStatus_mem \<Rightarrow> KamajiControlPlaneInitializationStatus" where
  "KamajiControlPlaneInitializationStatus_value x =
     \<lparr>is_ControlPlaneInitialized = pointer_value (\<lambda>x. x) (mis_ControlPlaneInitialized x)\<rparr>"

definition KamajiControlPlaneStatus_value :: "KamajiControlPlaneStatus_mem \<Rightarrow> KamajiControlPlaneStatus" where
  "KamajiControlPlaneStatus_value x =
     \<lparr>st_Initialization = pointer_value KamajiControlPlaneInitializationStatus_value (mst_Initialization x),
      st_Ready = mst_Ready x, st_ReadyReplicas = pointer_value (\<lambda>x. x) (mst_ReadyReplicas x),
      st_Replicas = pointer_value (\<lambda>x. x) (mst_Replicas x),
      st_Selector = pointer_value (\<lambda>x. x) (mst_Selector x),
      st_AvailableReplicas = pointer_value (\<lambda>x. x) (mst_AvailableReplicas x),
      st_UpToDateReplicas = pointer_value (\<lambda>x. x) (mst_UpToDateReplicas x),
      st_ExternalManagedControlPlane = pointer_value (\<lambda>x. x) (mst_ExternalManagedControlPlane x),
      st_FailureReason = mst_FailureReason x, st_FailureMessage = mst_FailureMessage x,
      st_Version = mst_Version x, st_Conditions = hslice_value foreign_content (mst_Conditions x)\<rparr>"

definition KamajiControlPlane_value :: "KamajiControlPlane_mem \<Rightarrow> json \<times> KamajiControlPlane" where
  "KamajiControlPlane_value x =
     (mkcp_TypeMeta x,
      \<lparr>kcp_meta = foreign_content (mkcp_ObjectMeta x), kcp_Spec = KamajiControlPlaneSpec_value (mkcp_Spec x),
       kcp_Status = KamajiControlPlaneStatus_value (mkcp_Status x)\<rparr>)"

definition KamajiControlPlaneList_value :: "KamajiControlPlaneList_mem \<Rightarrow> json \<times> json \<times> (json \<times> KamajiControlPlane) slice" where
  "KamajiControlPlaneList_value x = (mkcpl_TypeMeta x, foreign_content (mkcpl_ListMeta x), hslice_value KamajiControlPlane_value (mkcpl_Items x))"

definition KamajiControlPlaneTemplateResource_value :: "KamajiControlPlaneTemplateResource_mem \<Rightarrow> KamajiControlPlaneTemplateResource" where
  "KamajiControlPlaneTemplateResource_value x =
     \<lparr>tr_ObjectMeta = foreign_content (mtr_ObjectMeta x),
      tr_Spec = KamajiControlPlaneFields_value (mtr_Spec x)\<rparr>"

definition KamajiControlPlaneTemplateSpec_value :: "KamajiControlPlaneTemplateSpec_mem \<Rightarrow> KamajiControlPlaneTemplateResource" where
  "KamajiControlPlaneTemplateSpec_value x = KamajiControlPlaneTemplateResource_value (mts_Template x)"

definition KamajiControlPlaneTemplate_value :: "KamajiControlPlaneTemplate_mem \<Rightarrow> json \<times> KamajiControlPlaneTemplate" where
  "KamajiControlPlaneTemplate_value x =
     (mkcpt_TypeMeta x,
      \<lparr>kcpt_meta = foreign_content (mkcpt_ObjectMeta x), kcpt_Template = KamajiControlPlaneTemplateSpec_value (mkcpt_Spec x)\<rparr>)"

definition KamajiControlPlaneTemplateList_value :: "KamajiControlPlaneTemplateList_mem \<Rightarrow> json \<times> json \<times> (json \<times> KamajiControlPlaneTemplate) slice" where
  "KamajiControlPlaneTemplateList_value x = (mkcptl_TypeMeta x, foreign_content (mkcptl_ListMeta x), hslice_value KamajiControlPlaneTemplate_value (mkcptl_Items x))"

end
