(* ===== verification/DeepCopy.thy ===== *)
theory DeepCopy
  imports DeepCopyTypes
begin

text \<open>
  \<^verbatim>\<open>api/v1alpha2/zz_generated.deepcopy.go\<close>. Each \<^verbatim>\<open>DeepCopyInto\<close> starts from \<^verbatim>\<open>*out = *in\<close>, which
  shares every reference, and replaces the references field by field. The methods of other
  projects are parameters; what is documented of them is that they copy, as the methods here do.
\<close>

section \<open>The methods of other projects\<close>

record deepcopy_lib =
  d_VolumeMount :: "VolumeMount foreign copier"
  d_ResourceRequirements :: "ResourceRequirements foreign copier"
  d_ProbeSet :: "ProbeSet foreign copier"
  d_KamajiAddonsSpec :: "KamajiAddonsSpec foreign copier"
  d_AdditionalMetadata :: "AdditionalMetadata foreign copier"
  d_DeploymentStrategy :: "DeploymentStrategy foreign copier"
  d_Affinity :: "Affinity foreign copier"
  d_Toleration :: "Toleration foreign copier"
  d_TopologySpreadConstraint :: "TopologySpreadConstraint foreign copier"
  d_Container :: "Container foreign copier"
  d_Volume :: "Volume foreign copier"
  d_AdditionalPort :: "AdditionalPort foreign copier"
  d_KubeletSpec :: "KubeletSpec foreign copier"
  d_Condition :: "Condition foreign copier"
  d_ObjectMeta :: "ObjectMeta foreign copier"
  d_ListMeta :: "json foreign copier"
  d_TemplateMeta :: "json foreign copier"

definition foreign_copier :: "'a foreign copier \<Rightarrow> bool" where
  "foreign_copier f \<longleftrightarrow> copies f foreign_reach foreign_content"

definition deepcopy_doc :: "deepcopy_lib \<Rightarrow> bool" where
  "deepcopy_doc D \<longleftrightarrow>
     foreign_copier (d_VolumeMount D) \<and> foreign_copier (d_ResourceRequirements D) \<and>
     foreign_copier (d_ProbeSet D) \<and> foreign_copier (d_KamajiAddonsSpec D) \<and>
     foreign_copier (d_AdditionalMetadata D) \<and> foreign_copier (d_DeploymentStrategy D) \<and>
     foreign_copier (d_Affinity D) \<and> foreign_copier (d_Toleration D) \<and>
     foreign_copier (d_TopologySpreadConstraint D) \<and> foreign_copier (d_Container D) \<and>
     foreign_copier (d_Volume D) \<and> foreign_copier (d_AdditionalPort D) \<and>
     foreign_copier (d_KubeletSpec D) \<and> foreign_copier (d_Condition D) \<and>
     foreign_copier (d_ObjectMeta D) \<and> foreign_copier (d_ListMeta D) \<and>
     foreign_copier (d_TemplateMeta D)"

section \<open>The generated methods\<close>

definition KineComponent_DeepCopyInto :: "deepcopy_lib \<Rightarrow> KineComponent_mem copier" where
  "KineComponent_DeepCopyInto D inn n =
     (let out = inn;
          (x, n) = copy_hslice copy_flat (mkc_ExtraArgs inn) n; out = out\<lparr>mkc_ExtraArgs := x\<rparr>;
          (x, n) = d_ResourceRequirements D (mkc_Resources inn) n; out = out\<lparr>mkc_Resources := x\<rparr>
      in (out, n))"

definition KineComponent_DeepCopy :: "deepcopy_lib \<Rightarrow> KineComponent_mem pointer copier" where
  "KineComponent_DeepCopy D = copy_pointer (KineComponent_DeepCopyInto D)"

definition ControlPlaneComponent_DeepCopyInto :: "deepcopy_lib \<Rightarrow> ControlPlaneComponent_mem copier" where
  "ControlPlaneComponent_DeepCopyInto D inn n =
     (let out = inn;
          (x, n) = copy_hslice (d_VolumeMount D) (mcpc_ExtraVolumeMounts inn) n; out = out\<lparr>mcpc_ExtraVolumeMounts := x\<rparr>;
          (x, n) = copy_hslice copy_flat (mcpc_ExtraArgs inn) n; out = out\<lparr>mcpc_ExtraArgs := x\<rparr>;
          (x, n) = d_ResourceRequirements D (mcpc_Resources inn) n; out = out\<lparr>mcpc_Resources := x\<rparr>;
          (x, n) = copy_pointer (d_ProbeSet D) (mcpc_Probes inn) n; out = out\<lparr>mcpc_Probes := x\<rparr>
      in (out, n))"

definition ControlPlaneComponent_DeepCopy :: "deepcopy_lib \<Rightarrow> ControlPlaneComponent_mem pointer copier" where
  "ControlPlaneComponent_DeepCopy D = copy_pointer (ControlPlaneComponent_DeepCopyInto D)"

definition CoreDNSAddonSpec_DeepCopyInto :: "deepcopy_lib \<Rightarrow> CoreDNSAddonSpec_mem copier" where
  "CoreDNSAddonSpec_DeepCopyInto D inn n =
     (let out = inn;
          (x, n) = copy_pointer copy_flat (mcda_AddonSpec inn) n; out = out\<lparr>mcda_AddonSpec := x\<rparr>;
          (x, n) = copy_hslice copy_flat (mcda_DNSServiceIPs inn) n; out = out\<lparr>mcda_DNSServiceIPs := x\<rparr>
      in (out, n))"

definition CoreDNSAddonSpec_DeepCopy :: "deepcopy_lib \<Rightarrow> CoreDNSAddonSpec_mem pointer copier" where
  "CoreDNSAddonSpec_DeepCopy D = copy_pointer (CoreDNSAddonSpec_DeepCopyInto D)"

definition AddonsSpec_DeepCopyInto :: "deepcopy_lib \<Rightarrow> AddonsSpec_mem copier" where
  "AddonsSpec_DeepCopyInto D inn n =
     (let out = inn;
          (x, n) = d_KamajiAddonsSpec D (mas_AddonsSpec inn) n; out = out\<lparr>mas_AddonsSpec := x\<rparr>;
          (x, n) = copy_pointer (CoreDNSAddonSpec_DeepCopyInto D) (mas_CoreDNS inn) n; out = out\<lparr>mas_CoreDNS := x\<rparr>
      in (out, n))"

definition AddonsSpec_DeepCopy :: "deepcopy_lib \<Rightarrow> AddonsSpec_mem pointer copier" where
  "AddonsSpec_DeepCopy D = copy_pointer (AddonsSpec_DeepCopyInto D)"

definition ExternalClusterReference_DeepCopyInto :: "ExternalClusterReference copier" where
  "ExternalClusterReference_DeepCopyInto inn n = (let out = inn in (out, n))"

definition ExternalClusterReference_DeepCopy :: "ExternalClusterReference pointer copier" where
  "ExternalClusterReference_DeepCopy = copy_pointer ExternalClusterReference_DeepCopyInto"

definition DeploymentComponent_DeepCopyInto :: "deepcopy_lib \<Rightarrow> DeploymentComponent_mem copier" where
  "DeploymentComponent_DeepCopyInto D inn n =
     (let out = inn;
          (x, n) = copy_hmap (mdc_NodeSelector inn) n; out = out\<lparr>mdc_NodeSelector := x\<rparr>;
          (x, n) = d_AdditionalMetadata D (mdc_AdditionalMetadata inn) n; out = out\<lparr>mdc_AdditionalMetadata := x\<rparr>;
          (x, n) = d_AdditionalMetadata D (mdc_PodAdditionalMetadata inn) n; out = out\<lparr>mdc_PodAdditionalMetadata := x\<rparr>;
          (x, n) = d_DeploymentStrategy D (mdc_Strategy inn) n; out = out\<lparr>mdc_Strategy := x\<rparr>;
          (x, n) = copy_pointer (d_Affinity D) (mdc_Affinity inn) n; out = out\<lparr>mdc_Affinity := x\<rparr>;
          (x, n) = copy_hslice (d_Toleration D) (mdc_Tolerations inn) n; out = out\<lparr>mdc_Tolerations := x\<rparr>;
          (x, n) = copy_hslice (d_TopologySpreadConstraint D) (mdc_TopologySpreadConstraints inn) n; out = out\<lparr>mdc_TopologySpreadConstraints := x\<rparr>;
          (x, n) = copy_hslice (d_Container D) (mdc_ExtraInitContainers inn) n; out = out\<lparr>mdc_ExtraInitContainers := x\<rparr>;
          (x, n) = copy_hslice (d_Container D) (mdc_ExtraContainers inn) n; out = out\<lparr>mdc_ExtraContainers := x\<rparr>;
          (x, n) = copy_hslice (d_Volume D) (mdc_ExtraVolumes inn) n; out = out\<lparr>mdc_ExtraVolumes := x\<rparr>;
          (x, n) = copy_pointer copy_flat (mdc_ExternalClusterReference inn) n; out = out\<lparr>mdc_ExternalClusterReference := x\<rparr>;
          (x, n) = copy_pointer (d_ProbeSet D) (mdc_Probes inn) n; out = out\<lparr>mdc_Probes := x\<rparr>
      in (out, n))"

definition DeploymentComponent_DeepCopy :: "deepcopy_lib \<Rightarrow> DeploymentComponent_mem pointer copier" where
  "DeploymentComponent_DeepCopy D = copy_pointer (DeploymentComponent_DeepCopyInto D)"

definition GatewayComponent_DeepCopyInto :: "deepcopy_lib \<Rightarrow> GatewayComponent_mem copier" where
  "GatewayComponent_DeepCopyInto D inn n =
     (let out = inn;
          (x, n) = copy_pointer copy_flat (mgc_Port inn) n; out = out\<lparr>mgc_Port := x\<rparr>;
          (x, n) = copy_hmap (mgc_ExtraLabels inn) n; out = out\<lparr>mgc_ExtraLabels := x\<rparr>;
          (x, n) = copy_hmap (mgc_ExtraAnnotations inn) n; out = out\<lparr>mgc_ExtraAnnotations := x\<rparr>
      in (out, n))"

definition GatewayComponent_DeepCopy :: "deepcopy_lib \<Rightarrow> GatewayComponent_mem pointer copier" where
  "GatewayComponent_DeepCopy D = copy_pointer (GatewayComponent_DeepCopyInto D)"

definition IngressComponent_DeepCopyInto :: "deepcopy_lib \<Rightarrow> IngressComponent_mem copier" where
  "IngressComponent_DeepCopyInto D inn n =
     (let out = inn;
          (x, n) = copy_hmap (mic_ExtraLabels inn) n; out = out\<lparr>mic_ExtraLabels := x\<rparr>;
          (x, n) = copy_hmap (mic_ExtraAnnotations inn) n; out = out\<lparr>mic_ExtraAnnotations := x\<rparr>
      in (out, n))"

definition IngressComponent_DeepCopy :: "deepcopy_lib \<Rightarrow> IngressComponent_mem pointer copier" where
  "IngressComponent_DeepCopy D = copy_pointer (IngressComponent_DeepCopyInto D)"

definition LoadBalancerConfig_DeepCopyInto :: "deepcopy_lib \<Rightarrow> LoadBalancerConfig_mem copier" where
  "LoadBalancerConfig_DeepCopyInto D inn n =
     (let out = inn;
          (x, n) = copy_hslice copy_flat (mlb_LoadBalancerSourceRanges inn) n; out = out\<lparr>mlb_LoadBalancerSourceRanges := x\<rparr>;
          (x, n) = copy_pointer copy_flat (mlb_LoadBalancerClass inn) n; out = out\<lparr>mlb_LoadBalancerClass := x\<rparr>
      in (out, n))"

definition LoadBalancerConfig_DeepCopy :: "deepcopy_lib \<Rightarrow> LoadBalancerConfig_mem pointer copier" where
  "LoadBalancerConfig_DeepCopy D = copy_pointer (LoadBalancerConfig_DeepCopyInto D)"

definition NetworkComponent_DeepCopyInto :: "deepcopy_lib \<Rightarrow> NetworkComponent_mem copier" where
  "NetworkComponent_DeepCopyInto D inn n =
     (let out = inn;
          (x, n) = copy_pointer (LoadBalancerConfig_DeepCopyInto D) (mnc_LoadBalancerConfig inn) n; out = out\<lparr>mnc_LoadBalancerConfig := x\<rparr>;
          (x, n) = copy_pointer (GatewayComponent_DeepCopyInto D) (mnc_Gateway inn) n; out = out\<lparr>mnc_Gateway := x\<rparr>;
          (x, n) = copy_pointer (IngressComponent_DeepCopyInto D) (mnc_Ingress inn) n; out = out\<lparr>mnc_Ingress := x\<rparr>;
          (x, n) = copy_hmap (mnc_ServiceLabels inn) n; out = out\<lparr>mnc_ServiceLabels := x\<rparr>;
          (x, n) = copy_hmap (mnc_ServiceAnnotations inn) n; out = out\<lparr>mnc_ServiceAnnotations := x\<rparr>;
          (x, n) = copy_hslice (d_AdditionalPort D) (mnc_AdditionalServicePorts inn) n; out = out\<lparr>mnc_AdditionalServicePorts := x\<rparr>;
          (x, n) = copy_hslice copy_flat (mnc_CertSANs inn) n; out = out\<lparr>mnc_CertSANs := x\<rparr>;
          (x, n) = copy_hslice copy_flat (mnc_DNSServiceIPs inn) n; out = out\<lparr>mnc_DNSServiceIPs := x\<rparr>
      in (out, n))"

definition NetworkComponent_DeepCopy :: "deepcopy_lib \<Rightarrow> NetworkComponent_mem pointer copier" where
  "NetworkComponent_DeepCopy D = copy_pointer (NetworkComponent_DeepCopyInto D)"

definition KamajiControlPlaneFields_DeepCopyInto :: "deepcopy_lib \<Rightarrow> KamajiControlPlaneFields_mem copier" where
  "KamajiControlPlaneFields_DeepCopyInto D inn n =
     (let out = inn;
          (x, n) = copy_hslice copy_flat (mf_DataStoreOverrides inn) n; out = out\<lparr>mf_DataStoreOverrides := x\<rparr>;
          (x, n) = AddonsSpec_DeepCopyInto D (mf_Addons inn) n; out = out\<lparr>mf_Addons := x\<rparr>;
          (x, n) = copy_hslice copy_flat (mf_AdmissionControllers inn) n; out = out\<lparr>mf_AdmissionControllers := x\<rparr>;
          (x, n) = ControlPlaneComponent_DeepCopyInto D (mf_ControllerManager inn) n; out = out\<lparr>mf_ControllerManager := x\<rparr>;
          (x, n) = ControlPlaneComponent_DeepCopyInto D (mf_ApiServer inn) n; out = out\<lparr>mf_ApiServer := x\<rparr>;
          (x, n) = ControlPlaneComponent_DeepCopyInto D (mf_Scheduler inn) n; out = out\<lparr>mf_Scheduler := x\<rparr>;
          (x, n) = KineComponent_DeepCopyInto D (mf_Kine inn) n; out = out\<lparr>mf_Kine := x\<rparr>;
          (x, n) = d_KubeletSpec D (mf_Kubelet inn) n; out = out\<lparr>mf_Kubelet := x\<rparr>;
          (x, n) = NetworkComponent_DeepCopyInto D (mf_Network inn) n; out = out\<lparr>mf_Network := x\<rparr>;
          (x, n) = DeploymentComponent_DeepCopyInto D (mf_Deployment inn) n; out = out\<lparr>mf_Deployment := x\<rparr>
      in (out, n))"

definition KamajiControlPlaneFields_DeepCopy :: "deepcopy_lib \<Rightarrow> KamajiControlPlaneFields_mem pointer copier" where
  "KamajiControlPlaneFields_DeepCopy D = copy_pointer (KamajiControlPlaneFields_DeepCopyInto D)"

definition KamajiControlPlaneSpec_DeepCopyInto :: "deepcopy_lib \<Rightarrow> KamajiControlPlaneSpec_mem copier" where
  "KamajiControlPlaneSpec_DeepCopyInto D inn n =
     (let out = inn;
          (x, n) = KamajiControlPlaneFields_DeepCopyInto D (ms_KamajiControlPlaneFields inn) n; out = out\<lparr>ms_KamajiControlPlaneFields := x\<rparr>;
          out = out\<lparr>ms_ControlPlaneEndpoint := ms_ControlPlaneEndpoint inn\<rparr>;
          (x, n) = copy_pointer copy_flat (ms_Replicas inn) n; out = out\<lparr>ms_Replicas := x\<rparr>
      in (out, n))"

definition KamajiControlPlaneSpec_DeepCopy :: "deepcopy_lib \<Rightarrow> KamajiControlPlaneSpec_mem pointer copier" where
  "KamajiControlPlaneSpec_DeepCopy D = copy_pointer (KamajiControlPlaneSpec_DeepCopyInto D)"

definition KamajiControlPlaneInitializationStatus_DeepCopyInto :: "deepcopy_lib \<Rightarrow> KamajiControlPlaneInitializationStatus_mem copier" where
  "KamajiControlPlaneInitializationStatus_DeepCopyInto D inn n =
     (let out = inn;
          (x, n) = copy_pointer copy_flat (mis_ControlPlaneInitialized inn) n; out = out\<lparr>mis_ControlPlaneInitialized := x\<rparr>
      in (out, n))"

definition KamajiControlPlaneInitializationStatus_DeepCopy :: "deepcopy_lib \<Rightarrow> KamajiControlPlaneInitializationStatus_mem pointer copier" where
  "KamajiControlPlaneInitializationStatus_DeepCopy D = copy_pointer (KamajiControlPlaneInitializationStatus_DeepCopyInto D)"

definition KamajiControlPlaneStatus_DeepCopyInto :: "deepcopy_lib \<Rightarrow> KamajiControlPlaneStatus_mem copier" where
  "KamajiControlPlaneStatus_DeepCopyInto D inn n =
     (let out = inn;
          (x, n) = copy_pointer (KamajiControlPlaneInitializationStatus_DeepCopyInto D) (mst_Initialization inn) n; out = out\<lparr>mst_Initialization := x\<rparr>;
          (x, n) = copy_pointer copy_flat (mst_ReadyReplicas inn) n; out = out\<lparr>mst_ReadyReplicas := x\<rparr>;
          (x, n) = copy_pointer copy_flat (mst_Replicas inn) n; out = out\<lparr>mst_Replicas := x\<rparr>;
          (x, n) = copy_pointer copy_flat (mst_Selector inn) n; out = out\<lparr>mst_Selector := x\<rparr>;
          (x, n) = copy_pointer copy_flat (mst_AvailableReplicas inn) n; out = out\<lparr>mst_AvailableReplicas := x\<rparr>;
          (x, n) = copy_pointer copy_flat (mst_UpToDateReplicas inn) n; out = out\<lparr>mst_UpToDateReplicas := x\<rparr>;
          (x, n) = copy_pointer copy_flat (mst_ExternalManagedControlPlane inn) n; out = out\<lparr>mst_ExternalManagedControlPlane := x\<rparr>;
          (x, n) = copy_hslice (d_Condition D) (mst_Conditions inn) n; out = out\<lparr>mst_Conditions := x\<rparr>
      in (out, n))"

definition KamajiControlPlaneStatus_DeepCopy :: "deepcopy_lib \<Rightarrow> KamajiControlPlaneStatus_mem pointer copier" where
  "KamajiControlPlaneStatus_DeepCopy D = copy_pointer (KamajiControlPlaneStatus_DeepCopyInto D)"

definition KamajiControlPlane_DeepCopyInto :: "deepcopy_lib \<Rightarrow> KamajiControlPlane_mem copier" where
  "KamajiControlPlane_DeepCopyInto D inn n =
     (let out = inn;
          out = out\<lparr>mkcp_TypeMeta := mkcp_TypeMeta inn\<rparr>;
          (x, n) = d_ObjectMeta D (mkcp_ObjectMeta inn) n; out = out\<lparr>mkcp_ObjectMeta := x\<rparr>;
          (x, n) = KamajiControlPlaneSpec_DeepCopyInto D (mkcp_Spec inn) n; out = out\<lparr>mkcp_Spec := x\<rparr>;
          (x, n) = KamajiControlPlaneStatus_DeepCopyInto D (mkcp_Status inn) n; out = out\<lparr>mkcp_Status := x\<rparr>
      in (out, n))"

definition KamajiControlPlane_DeepCopy :: "deepcopy_lib \<Rightarrow> KamajiControlPlane_mem pointer copier" where
  "KamajiControlPlane_DeepCopy D = copy_pointer (KamajiControlPlane_DeepCopyInto D)"

definition KamajiControlPlaneList_DeepCopyInto :: "deepcopy_lib \<Rightarrow> KamajiControlPlaneList_mem copier" where
  "KamajiControlPlaneList_DeepCopyInto D inn n =
     (let out = inn;
          out = out\<lparr>mkcpl_TypeMeta := mkcpl_TypeMeta inn\<rparr>;
          (x, n) = d_ListMeta D (mkcpl_ListMeta inn) n; out = out\<lparr>mkcpl_ListMeta := x\<rparr>;
          (x, n) = copy_hslice (KamajiControlPlane_DeepCopyInto D) (mkcpl_Items inn) n; out = out\<lparr>mkcpl_Items := x\<rparr>
      in (out, n))"

definition KamajiControlPlaneList_DeepCopy :: "deepcopy_lib \<Rightarrow> KamajiControlPlaneList_mem pointer copier" where
  "KamajiControlPlaneList_DeepCopy D = copy_pointer (KamajiControlPlaneList_DeepCopyInto D)"

definition KamajiControlPlaneTemplateResource_DeepCopyInto :: "deepcopy_lib \<Rightarrow> KamajiControlPlaneTemplateResource_mem copier" where
  "KamajiControlPlaneTemplateResource_DeepCopyInto D inn n =
     (let out = inn;
          (x, n) = d_TemplateMeta D (mtr_ObjectMeta inn) n; out = out\<lparr>mtr_ObjectMeta := x\<rparr>;
          (x, n) = KamajiControlPlaneFields_DeepCopyInto D (mtr_Spec inn) n; out = out\<lparr>mtr_Spec := x\<rparr>
      in (out, n))"

definition KamajiControlPlaneTemplateResource_DeepCopy :: "deepcopy_lib \<Rightarrow> KamajiControlPlaneTemplateResource_mem pointer copier" where
  "KamajiControlPlaneTemplateResource_DeepCopy D = copy_pointer (KamajiControlPlaneTemplateResource_DeepCopyInto D)"

definition KamajiControlPlaneTemplateSpec_DeepCopyInto :: "deepcopy_lib \<Rightarrow> KamajiControlPlaneTemplateSpec_mem copier" where
  "KamajiControlPlaneTemplateSpec_DeepCopyInto D inn n =
     (let out = inn;
          (x, n) = KamajiControlPlaneTemplateResource_DeepCopyInto D (mts_Template inn) n; out = out\<lparr>mts_Template := x\<rparr>
      in (out, n))"

definition KamajiControlPlaneTemplateSpec_DeepCopy :: "deepcopy_lib \<Rightarrow> KamajiControlPlaneTemplateSpec_mem pointer copier" where
  "KamajiControlPlaneTemplateSpec_DeepCopy D = copy_pointer (KamajiControlPlaneTemplateSpec_DeepCopyInto D)"

definition KamajiControlPlaneTemplate_DeepCopyInto :: "deepcopy_lib \<Rightarrow> KamajiControlPlaneTemplate_mem copier" where
  "KamajiControlPlaneTemplate_DeepCopyInto D inn n =
     (let out = inn;
          out = out\<lparr>mkcpt_TypeMeta := mkcpt_TypeMeta inn\<rparr>;
          (x, n) = d_ObjectMeta D (mkcpt_ObjectMeta inn) n; out = out\<lparr>mkcpt_ObjectMeta := x\<rparr>;
          (x, n) = KamajiControlPlaneTemplateSpec_DeepCopyInto D (mkcpt_Spec inn) n; out = out\<lparr>mkcpt_Spec := x\<rparr>
      in (out, n))"

definition KamajiControlPlaneTemplate_DeepCopy :: "deepcopy_lib \<Rightarrow> KamajiControlPlaneTemplate_mem pointer copier" where
  "KamajiControlPlaneTemplate_DeepCopy D = copy_pointer (KamajiControlPlaneTemplate_DeepCopyInto D)"

definition KamajiControlPlaneTemplateList_DeepCopyInto :: "deepcopy_lib \<Rightarrow> KamajiControlPlaneTemplateList_mem copier" where
  "KamajiControlPlaneTemplateList_DeepCopyInto D inn n =
     (let out = inn;
          out = out\<lparr>mkcptl_TypeMeta := mkcptl_TypeMeta inn\<rparr>;
          (x, n) = d_ListMeta D (mkcptl_ListMeta inn) n; out = out\<lparr>mkcptl_ListMeta := x\<rparr>;
          (x, n) = copy_hslice (KamajiControlPlaneTemplate_DeepCopyInto D) (mkcptl_Items inn) n; out = out\<lparr>mkcptl_Items := x\<rparr>
      in (out, n))"

definition KamajiControlPlaneTemplateList_DeepCopy :: "deepcopy_lib \<Rightarrow> KamajiControlPlaneTemplateList_mem pointer copier" where
  "KamajiControlPlaneTemplateList_DeepCopy D = copy_pointer (KamajiControlPlaneTemplateList_DeepCopyInto D)"

text \<open>\<^verbatim>\<open>DeepCopyObject\<close> answers with an interface, which is nil for a nil receiver.\<close>

datatype runtime_Object =
    Object_KamajiControlPlane "KamajiControlPlane_mem cell"
  | Object_KamajiControlPlaneList "KamajiControlPlaneList_mem cell"
  | Object_KamajiControlPlaneTemplate "KamajiControlPlaneTemplate_mem cell"
  | Object_KamajiControlPlaneTemplateList "KamajiControlPlaneTemplateList_mem cell"

definition KamajiControlPlane_DeepCopyObject :: "deepcopy_lib \<Rightarrow> KamajiControlPlane_mem pointer \<Rightarrow> addr \<Rightarrow> runtime_Object option \<times> addr" where
  "KamajiControlPlane_DeepCopyObject D inn n =
     (case KamajiControlPlane_DeepCopy D inn n of (Some c, n) \<Rightarrow> (Some (Object_KamajiControlPlane c), n) | (None, n) \<Rightarrow> (None, n))"

definition KamajiControlPlaneList_DeepCopyObject :: "deepcopy_lib \<Rightarrow> KamajiControlPlaneList_mem pointer \<Rightarrow> addr \<Rightarrow> runtime_Object option \<times> addr" where
  "KamajiControlPlaneList_DeepCopyObject D inn n =
     (case KamajiControlPlaneList_DeepCopy D inn n of (Some c, n) \<Rightarrow> (Some (Object_KamajiControlPlaneList c), n) | (None, n) \<Rightarrow> (None, n))"

definition KamajiControlPlaneTemplate_DeepCopyObject :: "deepcopy_lib \<Rightarrow> KamajiControlPlaneTemplate_mem pointer \<Rightarrow> addr \<Rightarrow> runtime_Object option \<times> addr" where
  "KamajiControlPlaneTemplate_DeepCopyObject D inn n =
     (case KamajiControlPlaneTemplate_DeepCopy D inn n of (Some c, n) \<Rightarrow> (Some (Object_KamajiControlPlaneTemplate c), n) | (None, n) \<Rightarrow> (None, n))"

definition KamajiControlPlaneTemplateList_DeepCopyObject :: "deepcopy_lib \<Rightarrow> KamajiControlPlaneTemplateList_mem pointer \<Rightarrow> addr \<Rightarrow> runtime_Object option \<times> addr" where
  "KamajiControlPlaneTemplateList_DeepCopyObject D inn n =
     (case KamajiControlPlaneTemplateList_DeepCopy D inn n of (Some c, n) \<Rightarrow> (Some (Object_KamajiControlPlaneTemplateList c), n) | (None, n) \<Rightarrow> (None, n))"


section \<open>The contract\<close>

text \<open>The methods of other projects, one by one.\<close>

lemma doc_copies [copier_steps]:
  assumes "deepcopy_doc D"
  shows "copies (d_VolumeMount D) foreign_reach foreign_content"
    "copies (d_ResourceRequirements D) foreign_reach foreign_content"
    "copies (d_ProbeSet D) foreign_reach foreign_content"
    "copies (d_KamajiAddonsSpec D) foreign_reach foreign_content"
    "copies (d_AdditionalMetadata D) foreign_reach foreign_content"
    "copies (d_DeploymentStrategy D) foreign_reach foreign_content"
    "copies (d_Affinity D) foreign_reach foreign_content"
    "copies (d_Toleration D) foreign_reach foreign_content"
    "copies (d_TopologySpreadConstraint D) foreign_reach foreign_content"
    "copies (d_Container D) foreign_reach foreign_content"
    "copies (d_Volume D) foreign_reach foreign_content"
    "copies (d_AdditionalPort D) foreign_reach foreign_content"
    "copies (d_KubeletSpec D) foreign_reach foreign_content"
    "copies (d_Condition D) foreign_reach foreign_content"
    "copies (d_ObjectMeta D) foreign_reach foreign_content"
    "copies (d_ListMeta D) foreign_reach foreign_content"
    "copies (d_TemplateMeta D) foreign_reach foreign_content"
  using assms by (simp_all add: deepcopy_doc_def foreign_copier_def)

text \<open>
  Every generated method copies. The calls are met by \<open>copier_steps\<close>, which has the contracts of
  the methods called; what is left is that no field of the result was forgotten.
\<close>

lemma ExternalClusterReference_copies: "copies ExternalClusterReference_DeepCopyInto (\<lambda>_. {}) (\<lambda>x. x)"
  by (rule copies_copied) (simp add: copied_def ExternalClusterReference_DeepCopyInto_def)

lemma KineComponent_copies [copier_steps]:
  assumes "deepcopy_doc D"
  shows "copies (KineComponent_DeepCopyInto D) KineComponent_reach KineComponent_value"
  by (rule copies_copied, unfold KineComponent_DeepCopyInto_def, (rule copier_steps assms)+)
    (simp add: copied_simps KineComponent_reach_def KineComponent_value_def)

lemma ControlPlaneComponent_copies [copier_steps]:
  assumes "deepcopy_doc D"
  shows "copies (ControlPlaneComponent_DeepCopyInto D) ControlPlaneComponent_reach ControlPlaneComponent_value"
  by (rule copies_copied, unfold ControlPlaneComponent_DeepCopyInto_def, (rule copier_steps assms)+)
    (simp add: copied_simps ControlPlaneComponent_reach_def ControlPlaneComponent_value_def)

lemma CoreDNSAddonSpec_copies [copier_steps]:
  assumes "deepcopy_doc D"
  shows "copies (CoreDNSAddonSpec_DeepCopyInto D) CoreDNSAddonSpec_reach CoreDNSAddonSpec_value"
  by (rule copies_copied, unfold CoreDNSAddonSpec_DeepCopyInto_def, (rule copier_steps assms)+)
    (simp add: copied_simps CoreDNSAddonSpec_reach_def CoreDNSAddonSpec_value_def)

lemma AddonsSpec_copies [copier_steps]:
  assumes "deepcopy_doc D"
  shows "copies (AddonsSpec_DeepCopyInto D) AddonsSpec_reach AddonsSpec_value"
  by (rule copies_copied, unfold AddonsSpec_DeepCopyInto_def, (rule copier_steps assms)+)
    (simp add: copied_simps AddonsSpec_reach_def AddonsSpec_value_def)

lemma DeploymentComponent_copies [copier_steps]:
  assumes "deepcopy_doc D"
  shows "copies (DeploymentComponent_DeepCopyInto D) DeploymentComponent_reach DeploymentComponent_value"
  by (rule copies_copied, unfold DeploymentComponent_DeepCopyInto_def, (rule copier_steps assms)+)
    (simp add: copied_simps DeploymentComponent_reach_def DeploymentComponent_value_def)

lemma GatewayComponent_copies [copier_steps]:
  assumes "deepcopy_doc D"
  shows "copies (GatewayComponent_DeepCopyInto D) GatewayComponent_reach GatewayComponent_value"
  by (rule copies_copied, unfold GatewayComponent_DeepCopyInto_def, (rule copier_steps assms)+)
    (simp add: copied_simps GatewayComponent_reach_def GatewayComponent_value_def)

lemma IngressComponent_copies [copier_steps]:
  assumes "deepcopy_doc D"
  shows "copies (IngressComponent_DeepCopyInto D) IngressComponent_reach IngressComponent_value"
  by (rule copies_copied, unfold IngressComponent_DeepCopyInto_def, (rule copier_steps assms)+)
    (simp add: copied_simps IngressComponent_reach_def IngressComponent_value_def)

lemma LoadBalancerConfig_copies [copier_steps]:
  assumes "deepcopy_doc D"
  shows "copies (LoadBalancerConfig_DeepCopyInto D) LoadBalancerConfig_reach LoadBalancerConfig_value"
  by (rule copies_copied, unfold LoadBalancerConfig_DeepCopyInto_def, (rule copier_steps assms)+)
    (simp add: copied_simps LoadBalancerConfig_reach_def LoadBalancerConfig_value_def)

lemma NetworkComponent_copies [copier_steps]:
  assumes "deepcopy_doc D"
  shows "copies (NetworkComponent_DeepCopyInto D) NetworkComponent_reach NetworkComponent_value"
  by (rule copies_copied, unfold NetworkComponent_DeepCopyInto_def, (rule copier_steps assms)+)
    (simp add: copied_simps NetworkComponent_reach_def NetworkComponent_value_def)

lemma KamajiControlPlaneFields_copies [copier_steps]:
  assumes "deepcopy_doc D"
  shows "copies (KamajiControlPlaneFields_DeepCopyInto D) KamajiControlPlaneFields_reach KamajiControlPlaneFields_value"
  by (rule copies_copied, unfold KamajiControlPlaneFields_DeepCopyInto_def, (rule copier_steps assms)+)
    (simp add: copied_simps KamajiControlPlaneFields_reach_def KamajiControlPlaneFields_value_def)

lemma KamajiControlPlaneSpec_copies [copier_steps]:
  assumes "deepcopy_doc D"
  shows "copies (KamajiControlPlaneSpec_DeepCopyInto D) KamajiControlPlaneSpec_reach KamajiControlPlaneSpec_value"
  by (rule copies_copied, unfold KamajiControlPlaneSpec_DeepCopyInto_def, (rule copier_steps assms)+)
    (simp add: copied_simps KamajiControlPlaneSpec_reach_def KamajiControlPlaneSpec_value_def)

lemma KamajiControlPlaneInitializationStatus_copies [copier_steps]:
  assumes "deepcopy_doc D"
  shows "copies (KamajiControlPlaneInitializationStatus_DeepCopyInto D) KamajiControlPlaneInitializationStatus_reach KamajiControlPlaneInitializationStatus_value"
  by (rule copies_copied, unfold KamajiControlPlaneInitializationStatus_DeepCopyInto_def, (rule copier_steps assms)+)
    (simp add: copied_simps KamajiControlPlaneInitializationStatus_reach_def KamajiControlPlaneInitializationStatus_value_def)

lemma KamajiControlPlaneStatus_copies [copier_steps]:
  assumes "deepcopy_doc D"
  shows "copies (KamajiControlPlaneStatus_DeepCopyInto D) KamajiControlPlaneStatus_reach KamajiControlPlaneStatus_value"
  by (rule copies_copied, unfold KamajiControlPlaneStatus_DeepCopyInto_def, (rule copier_steps assms)+)
    (simp add: copied_simps KamajiControlPlaneStatus_reach_def KamajiControlPlaneStatus_value_def)

lemma KamajiControlPlane_copies [copier_steps]:
  assumes "deepcopy_doc D"
  shows "copies (KamajiControlPlane_DeepCopyInto D) KamajiControlPlane_reach KamajiControlPlane_value"
  by (rule copies_copied, unfold KamajiControlPlane_DeepCopyInto_def, (rule copier_steps assms)+)
    (simp add: copied_simps KamajiControlPlane_reach_def KamajiControlPlane_value_def)

lemma KamajiControlPlaneList_copies [copier_steps]:
  assumes "deepcopy_doc D"
  shows "copies (KamajiControlPlaneList_DeepCopyInto D) KamajiControlPlaneList_reach KamajiControlPlaneList_value"
  by (rule copies_copied, unfold KamajiControlPlaneList_DeepCopyInto_def, (rule copier_steps assms)+)
    (simp add: copied_simps KamajiControlPlaneList_reach_def KamajiControlPlaneList_value_def)

lemma KamajiControlPlaneTemplateResource_copies [copier_steps]:
  assumes "deepcopy_doc D"
  shows "copies (KamajiControlPlaneTemplateResource_DeepCopyInto D) KamajiControlPlaneTemplateResource_reach KamajiControlPlaneTemplateResource_value"
  by (rule copies_copied, unfold KamajiControlPlaneTemplateResource_DeepCopyInto_def, (rule copier_steps assms)+)
    (simp add: copied_simps KamajiControlPlaneTemplateResource_reach_def KamajiControlPlaneTemplateResource_value_def)

lemma KamajiControlPlaneTemplateSpec_copies [copier_steps]:
  assumes "deepcopy_doc D"
  shows "copies (KamajiControlPlaneTemplateSpec_DeepCopyInto D) KamajiControlPlaneTemplateSpec_reach KamajiControlPlaneTemplateSpec_value"
  by (rule copies_copied, unfold KamajiControlPlaneTemplateSpec_DeepCopyInto_def, (rule copier_steps assms)+)
    (simp add: copied_simps KamajiControlPlaneTemplateSpec_reach_def KamajiControlPlaneTemplateSpec_value_def)

lemma KamajiControlPlaneTemplate_copies [copier_steps]:
  assumes "deepcopy_doc D"
  shows "copies (KamajiControlPlaneTemplate_DeepCopyInto D) KamajiControlPlaneTemplate_reach KamajiControlPlaneTemplate_value"
  by (rule copies_copied, unfold KamajiControlPlaneTemplate_DeepCopyInto_def, (rule copier_steps assms)+)
    (simp add: copied_simps KamajiControlPlaneTemplate_reach_def KamajiControlPlaneTemplate_value_def)

lemma KamajiControlPlaneTemplateList_copies [copier_steps]:
  assumes "deepcopy_doc D"
  shows "copies (KamajiControlPlaneTemplateList_DeepCopyInto D) KamajiControlPlaneTemplateList_reach KamajiControlPlaneTemplateList_value"
  by (rule copies_copied, unfold KamajiControlPlaneTemplateList_DeepCopyInto_def, (rule copier_steps assms)+)
    (simp add: copied_simps KamajiControlPlaneTemplateList_reach_def KamajiControlPlaneTemplateList_value_def)

text \<open>So each has what the interface gives for \<^verbatim>\<open>DeepCopy\<close>.\<close>

interpretation ecr_copy: deep_copy True ExternalClusterReference_DeepCopyInto "\<lambda>_. {}" "\<lambda>x. x"
  by unfold_locales (rule ExternalClusterReference_copies)

interpretation kc_copy: deep_copy "deepcopy_doc D" "KineComponent_DeepCopyInto D" KineComponent_reach KineComponent_value for D
  by unfold_locales (rule KineComponent_copies)

interpretation cpc_copy: deep_copy "deepcopy_doc D" "ControlPlaneComponent_DeepCopyInto D" ControlPlaneComponent_reach ControlPlaneComponent_value for D
  by unfold_locales (rule ControlPlaneComponent_copies)

interpretation cda_copy: deep_copy "deepcopy_doc D" "CoreDNSAddonSpec_DeepCopyInto D" CoreDNSAddonSpec_reach CoreDNSAddonSpec_value for D
  by unfold_locales (rule CoreDNSAddonSpec_copies)

interpretation as_copy: deep_copy "deepcopy_doc D" "AddonsSpec_DeepCopyInto D" AddonsSpec_reach AddonsSpec_value for D
  by unfold_locales (rule AddonsSpec_copies)

interpretation dc_copy: deep_copy "deepcopy_doc D" "DeploymentComponent_DeepCopyInto D" DeploymentComponent_reach DeploymentComponent_value for D
  by unfold_locales (rule DeploymentComponent_copies)

interpretation gc_copy: deep_copy "deepcopy_doc D" "GatewayComponent_DeepCopyInto D" GatewayComponent_reach GatewayComponent_value for D
  by unfold_locales (rule GatewayComponent_copies)

interpretation ic_copy: deep_copy "deepcopy_doc D" "IngressComponent_DeepCopyInto D" IngressComponent_reach IngressComponent_value for D
  by unfold_locales (rule IngressComponent_copies)

interpretation lb_copy: deep_copy "deepcopy_doc D" "LoadBalancerConfig_DeepCopyInto D" LoadBalancerConfig_reach LoadBalancerConfig_value for D
  by unfold_locales (rule LoadBalancerConfig_copies)

interpretation nc_copy: deep_copy "deepcopy_doc D" "NetworkComponent_DeepCopyInto D" NetworkComponent_reach NetworkComponent_value for D
  by unfold_locales (rule NetworkComponent_copies)

interpretation f_copy: deep_copy "deepcopy_doc D" "KamajiControlPlaneFields_DeepCopyInto D" KamajiControlPlaneFields_reach KamajiControlPlaneFields_value for D
  by unfold_locales (rule KamajiControlPlaneFields_copies)

interpretation s_copy: deep_copy "deepcopy_doc D" "KamajiControlPlaneSpec_DeepCopyInto D" KamajiControlPlaneSpec_reach KamajiControlPlaneSpec_value for D
  by unfold_locales (rule KamajiControlPlaneSpec_copies)

interpretation is_copy: deep_copy "deepcopy_doc D" "KamajiControlPlaneInitializationStatus_DeepCopyInto D" KamajiControlPlaneInitializationStatus_reach KamajiControlPlaneInitializationStatus_value for D
  by unfold_locales (rule KamajiControlPlaneInitializationStatus_copies)

interpretation st_copy: deep_copy "deepcopy_doc D" "KamajiControlPlaneStatus_DeepCopyInto D" KamajiControlPlaneStatus_reach KamajiControlPlaneStatus_value for D
  by unfold_locales (rule KamajiControlPlaneStatus_copies)

interpretation kcp_copy: deep_copy "deepcopy_doc D" "KamajiControlPlane_DeepCopyInto D" KamajiControlPlane_reach KamajiControlPlane_value for D
  by unfold_locales (rule KamajiControlPlane_copies)

interpretation kcpl_copy: deep_copy "deepcopy_doc D" "KamajiControlPlaneList_DeepCopyInto D" KamajiControlPlaneList_reach KamajiControlPlaneList_value for D
  by unfold_locales (rule KamajiControlPlaneList_copies)

interpretation tr_copy: deep_copy "deepcopy_doc D" "KamajiControlPlaneTemplateResource_DeepCopyInto D" KamajiControlPlaneTemplateResource_reach KamajiControlPlaneTemplateResource_value for D
  by unfold_locales (rule KamajiControlPlaneTemplateResource_copies)

interpretation ts_copy: deep_copy "deepcopy_doc D" "KamajiControlPlaneTemplateSpec_DeepCopyInto D" KamajiControlPlaneTemplateSpec_reach KamajiControlPlaneTemplateSpec_value for D
  by unfold_locales (rule KamajiControlPlaneTemplateSpec_copies)

interpretation kcpt_copy: deep_copy "deepcopy_doc D" "KamajiControlPlaneTemplate_DeepCopyInto D" KamajiControlPlaneTemplate_reach KamajiControlPlaneTemplate_value for D
  by unfold_locales (rule KamajiControlPlaneTemplate_copies)

interpretation kcptl_copy: deep_copy "deepcopy_doc D" "KamajiControlPlaneTemplateList_DeepCopyInto D" KamajiControlPlaneTemplateList_reach KamajiControlPlaneTemplateList_value for D
  by unfold_locales (rule KamajiControlPlaneTemplateList_copies)

section \<open>What a caller relies on\<close>

text \<open>
  The interface answered with is nil for a nil receiver only: no interface holds a nil pointer.
\<close>

lemmas DeepCopyObject_defs =
  KamajiControlPlane_DeepCopyObject_def KamajiControlPlaneList_DeepCopyObject_def
  KamajiControlPlaneTemplate_DeepCopyObject_def KamajiControlPlaneTemplateList_DeepCopyObject_def

lemmas DeepCopy_object_defs =
  KamajiControlPlane_DeepCopy_def KamajiControlPlaneList_DeepCopy_def
  KamajiControlPlaneTemplate_DeepCopy_def KamajiControlPlaneTemplateList_DeepCopy_def

lemma DeepCopyObject_nil:
  "fst (KamajiControlPlane_DeepCopyObject D p n) = None \<longleftrightarrow> p = None"
  "fst (KamajiControlPlaneList_DeepCopyObject D ps n) = None \<longleftrightarrow> ps = None"
  "fst (KamajiControlPlaneTemplate_DeepCopyObject D t n) = None \<longleftrightarrow> t = None"
  "fst (KamajiControlPlaneTemplateList_DeepCopyObject D ts n) = None \<longleftrightarrow> ts = None"
  by (simp_all add: DeepCopyObject_defs DeepCopy_object_defs copy_pointer_def split_beta split: option.split)

text \<open>A library of which the documentation holds: it allocates once for each value it copies.\<close>

definition allocating :: "'a foreign copier" where
  "allocating x n = (Foreign {n} (foreign_content x), Suc n)"

lemma allocating_copies: "foreign_copier allocating"
  by (simp add: foreign_copier_def copies_def allocating_def)

definition allocating_lib :: deepcopy_lib where
  "allocating_lib =
     \<lparr>d_VolumeMount = allocating, d_ResourceRequirements = allocating, d_ProbeSet = allocating,
      d_KamajiAddonsSpec = allocating, d_AdditionalMetadata = allocating,
      d_DeploymentStrategy = allocating, d_Affinity = allocating, d_Toleration = allocating, d_TopologySpreadConstraint = allocating,
      d_Container = allocating, d_Volume = allocating, d_AdditionalPort = allocating, d_KubeletSpec = allocating,
      d_Condition = allocating, d_ObjectMeta = allocating, d_ListMeta = allocating, d_TemplateMeta = allocating\<rparr>"

lemma allocating_doc: "deepcopy_doc allocating_lib"
  by (simp add: deepcopy_doc_def allocating_lib_def allocating_copies)

text \<open>
  C33: \<^verbatim>\<open>DeepCopy\<close> of a control plane object separates. The answer is nil for nil only, and else an
  object with the value of the original in every field, all of whose storage was allocated by
  the call. When what the original reaches had been allocated before, the two share no pointer,
  slice or map, at any depth, and neither do two copies. \<^verbatim>\<open>DeepCopyObject\<close> answers with the same object.
\<close>

theorem DeepCopy_separates:
  assumes "deepcopy_doc D"
    and "\<forall>a \<in> pointer_reach KamajiControlPlane_reach p. a < n"
    and "KamajiControlPlane_DeepCopy D p n = (q, m)"
    and "KamajiControlPlane_DeepCopy D p m = (q', m')"
  shows "(q = None \<longleftrightarrow> p = None)
    \<and> pointer_value KamajiControlPlane_value q = pointer_value KamajiControlPlane_value p
    \<and> pointer_reach KamajiControlPlane_reach q \<subseteq> {n..<m}
    \<and> pointer_reach KamajiControlPlane_reach q \<inter> pointer_reach KamajiControlPlane_reach p = {}
    \<and> pointer_reach KamajiControlPlane_reach q' \<inter> pointer_reach KamajiControlPlane_reach q = {}
    \<and> KamajiControlPlane_DeepCopyObject D p n = (map_option Object_KamajiControlPlane q, m)"
proof (intro conjI)
  note copy = assms(3,4) [unfolded KamajiControlPlane_DeepCopy_def]
  show "q = None \<longleftrightarrow> p = None"
    using copy(1) by (auto simp: copy_pointer_def split_beta split: option.splits)
  show "pointer_value KamajiControlPlane_value q = pointer_value KamajiControlPlane_value p"
    by (rule kcp_copy.fresh_copy(3) [OF assms(1) copy(1)])
  show "pointer_reach KamajiControlPlane_reach q \<subseteq> {n..<m}"
    by (rule kcp_copy.fresh_copy(2) [OF assms(1) copy(1)])
  show "pointer_reach KamajiControlPlane_reach q \<inter> pointer_reach KamajiControlPlane_reach p = {}"
    by (rule kcp_copy.separate_copy [OF assms(1) copy(1) assms(2)])
  show "pointer_reach KamajiControlPlane_reach q' \<inter> pointer_reach KamajiControlPlane_reach q = {}"
    by (rule kcp_copy.separate_copies [OF assms(1) copy])
  show "KamajiControlPlane_DeepCopyObject D p n = (map_option Object_KamajiControlPlane q, m)"
    by (simp add: KamajiControlPlane_DeepCopyObject_def assms(3) split: option.split)
qed

text \<open>An object with labels, a gateway with a port, names for the certificate, two conditions and replicas.\<close>

definition sample_component_mem :: ControlPlaneComponent_mem where
  "sample_component_mem = \<lparr>mcpc_ExtraVolumeMounts = None, mcpc_ExtraArgs = Some (Cell 1 [''--v=4'']),
     mcpc_Resources = Foreign {} (ResourceRequirements ''''), mcpc_ContainerImageName = '''', mcpc_Probes = None\<rparr>"

definition sample_gateway_mem :: GatewayComponent_mem where
  "sample_gateway_mem = \<lparr>mgc_Name = ''gw'', mgc_Namespace = ''infra'', mgc_Hostname = ''api.example'', mgc_SectionName = '''',
     mgc_Port = Some (Cell 3 8443), mgc_ExtraLabels = Some (Cell 4 (DAList.update ''app'' ''kcp'' DAList.empty)), mgc_ExtraAnnotations = None\<rparr>"

definition sample_network_mem :: NetworkComponent_mem where
  "sample_network_mem = \<lparr>mnc_LoadBalancerConfig = None, mnc_Gateway = Some (Cell 2 sample_gateway_mem), mnc_Ingress = None,
     mnc_ServiceType = '''', mnc_ServiceAddress = '''', mnc_AdvertiseAddress = '''', mnc_ServiceLabels = None,
     mnc_ServiceAnnotations = None, mnc_AdditionalServicePorts = None, mnc_CertSANs = Some (Cell 5 [''api.example'']),
     mnc_DNSServiceIPs = None\<rparr>"

definition sample_deployment_mem :: DeploymentComponent_mem where
  "sample_deployment_mem = \<lparr>mdc_NodeSelector = None, mdc_RuntimeClassName = '''', mdc_AdditionalMetadata = Foreign {} zero_am,
     mdc_PodAdditionalMetadata = Foreign {} zero_am, mdc_ServiceAccountName = '''', mdc_Strategy = Foreign {} (DeploymentStrategy ''''),
     mdc_Affinity = None, mdc_Tolerations = None, mdc_TopologySpreadConstraints = None, mdc_ExtraInitContainers = None,
     mdc_ExtraContainers = None, mdc_ExtraVolumes = None, mdc_ExternalClusterReference = None, mdc_Probes = None\<rparr>"

definition sample_spec_mem :: KamajiControlPlaneSpec_mem where
  "sample_spec_mem =
     \<lparr>ms_KamajiControlPlaneFields = \<lparr>mf_DataStoreName = '''', mf_DataStoreSchema = '''', mf_DataStoreUsername = '''',
        mf_DataStoreOverrides = None, mf_Addons = \<lparr>mas_AddonsSpec = Foreign {} \<lparr>kas_CoreDNS = None, kas_rest = ''''\<rparr>, mas_CoreDNS = None\<rparr>,
        mf_AdmissionControllers = None, mf_ContainerRegistry = '''', mf_ControllerManager = sample_component_mem,
        mf_ApiServer = sample_component_mem, mf_Scheduler = sample_component_mem,
        mf_Kine = \<lparr>mkc_ExtraArgs = None, mkc_Resources = Foreign {} (ResourceRequirements '''')\<rparr>,
        mf_Kubelet = Foreign {} (KubeletSpec ''''), mf_Network = sample_network_mem, mf_Deployment = sample_deployment_mem\<rparr>,
      ms_ControlPlaneEndpoint = zero_endpoint, ms_Replicas = Some (Cell 6 2), ms_Version = ''1.33.0''\<rparr>"

definition sample_status_mem :: KamajiControlPlaneStatus_mem where
  "sample_status_mem = \<lparr>mst_Initialization = Some (Cell 7 \<lparr>mis_ControlPlaneInitialized = Some (Cell 8 True)\<rparr>), mst_Ready = True,
     mst_ReadyReplicas = None, mst_Replicas = None, mst_Selector = None, mst_AvailableReplicas = None, mst_UpToDateReplicas = None,
     mst_ExternalManagedControlPlane = None, mst_FailureReason = '''', mst_FailureMessage = '''', mst_Version = '''',
     mst_Conditions = Some (Cell 9 [Foreign {10} zero_condition, Foreign {11} zero_condition])\<rparr>"

definition sample_mem :: KamajiControlPlane_mem where
  "sample_mem = \<lparr>mkcp_TypeMeta = '''', mkcp_ObjectMeta = Foreign {12, 13} zero_meta, mkcp_Spec = sample_spec_mem, mkcp_Status = sample_status_mem\<rparr>"

lemmas sample_mem_defs =
  sample_mem_def sample_status_mem_def sample_spec_mem_def sample_deployment_mem_def sample_network_mem_def
  sample_gateway_mem_def sample_component_mem_def

lemmas object_reach_defs =
  KamajiControlPlane_reach_def KamajiControlPlaneStatus_reach_def KamajiControlPlaneInitializationStatus_reach_def
  KamajiControlPlaneSpec_reach_def KamajiControlPlaneFields_reach_def DeploymentComponent_reach_def NetworkComponent_reach_def
  GatewayComponent_reach_def ControlPlaneComponent_reach_def AddonsSpec_reach_def KineComponent_reach_def

lemma sample_mem_reach: "pointer_reach KamajiControlPlane_reach (Some (Cell 0 sample_mem)) = {0..<14}"
  by (simp add: sample_mem_defs object_reach_defs reach_defs lessThan_nat_numeral lessThan_Suc flip: lessThan_atLeast0) blast

theorem DeepCopy_separates_witness:
  "\<exists>c m. KamajiControlPlane_DeepCopy allocating_lib (Some (Cell 0 sample_mem)) 14 = (Some c, m)
     \<and> KamajiControlPlane_value (cell_content c) = KamajiControlPlane_value sample_mem
     \<and> pointer_reach KamajiControlPlane_reach (Some c) \<inter> {0..<14} = {}"
proof -
  let ?p = "Some (Cell 0 sample_mem)"
  obtain q m q' m' where copy: "KamajiControlPlane_DeepCopy allocating_lib ?p 14 = (q, m)"
    "KamajiControlPlane_DeepCopy allocating_lib ?p m = (q', m')"
    by (metis surj_pair)
  have "\<forall>a \<in> pointer_reach KamajiControlPlane_reach ?p. a < 14"
    by (simp add: sample_mem_reach)
  note DeepCopy_separates [OF allocating_doc this copy]
  then have "q \<noteq> None" "pointer_value KamajiControlPlane_value q = Some (KamajiControlPlane_value sample_mem)"
    "pointer_reach KamajiControlPlane_reach q \<inter> {0..<14} = {}"
    by (auto simp: sample_mem_reach pointer_value_def)
  with copy(1) show ?thesis
    by (auto simp: pointer_value_def)
qed

end
