(* ===== verification/Spec2Isabelle.thy ===== *)
theory Spec2Isabelle
  imports ExternalProperties StartupProperties ComponentProperties DeepCopy
begin

text \<open>
  \<^bold>\<open>The Kamaji control plane provider for Cluster API, verified.\<close>

  The program (\<^verbatim>\<open>src/main.go\<close>) runs controllers. The one of \<^verbatim>\<open>KamajiControlPlane\<close> objects turns each of
  them into a \<^verbatim>\<open>TenantControlPlane\<close> for the Kamaji operator, waits for its address, publishes the
  endpoint on the object and on the infrastructure cluster, copies Kamaji's secrets to where
  Cluster API looks for them, and reports the status through conditions. A tenant control plane
  may live in another cluster: a second controller then keeps, per entry of a kubeconfig secret,
  one running manager in a store, from which the first controller takes its client; inside each
  manager a third controller reports remote changes back over a channel.

  \<^bold>\<open>Theories, in the order of the code.\<close>

  \<^item> \<open>Prelude\<close>, \<open>GoStd\<close>: Go's slices and maps with nil, panics as the type \<open>outcome\<close>, machine
    integers as words, the functions of \<^verbatim>\<open>strings\<close>, \<^verbatim>\<open>net.SplitHostPort\<close> and \<^verbatim>\<open>strconv.ParseInt\<close> with
    their errors.
  \<^item> \<open>Errors\<close>: error values as a datatype with wrapping, \<^verbatim>\<open>errors.Is\<close> and \<^verbatim>\<open>errors.As\<close>
    (\<^verbatim>\<open>controllers/errors.go\<close>, \<^verbatim>\<open>..._cluster_patch_errors.go\<close>).
  \<^item> \<open>ApiTypes\<close>: the structs of \<^verbatim>\<open>api/v1alpha2\<close> as records, and those of other packages as far as
    the code looks into them; types the code only copies are opaque.
  \<^item> \<open>Scheme\<close>: the registration of the types (\<^verbatim>\<open>groupversion_info.go\<close> and the \<^verbatim>\<open>init\<close> functions).
  \<^item> \<open>Platform\<close>: the API client and the libraries as records of functions, and what is documented
    of them (\<open>RetryOnConflict_doc\<close>, \<open>conditions_doc\<close>, \<open>UnsortedList_doc\<close>). The state of everything
    outside the program is a type variable \<open>'w\<close> that every call may change.
  \<^item> \<open>Conditions\<close>: \<^verbatim>\<open>TrackConditionType\<close>; \<open>NameGenerator\<close>, \<open>Store\<close>: \<^verbatim>\<open>pkg/externalclusterreference\<close>;
    \<open>Indexers\<close>: \<^verbatim>\<open>pkg/indexers\<close>.
  \<^item> \<open>Reconciler\<close>: feature gates, the reconciler, \<^verbatim>\<open>updateKamajiControlPlaneStatus\<close>;
    \<open>ExternalReference\<close>: \<^verbatim>\<open>extractRemoteClient\<close>; \<open>Finalizer\<close>: \<^verbatim>\<open>handleFinalizer\<close> and
    \<^verbatim>\<open>handleDeletion\<close>; \<open>TenantControlPlane\<close>: the mutate function of
    \<^verbatim>\<open>createOrUpdateTenantControlPlane\<close>, one definition per block of assignments;
    \<open>WantedControlPlane\<close>: its closed form; \<open>ClusterPatch\<close>: the endpoint and the infrastructure
    clusters; \<open>Resources\<close>: the secrets.
  \<^item> \<open>KamajiReconciler\<close>: \<^verbatim>\<open>Reconcile\<close> as a sequence of phases on one record of its variables, with
    the deferred update at the end; \<open>ReconcilerLemmas\<close>: what every phase keeps.
  \<^item> \<open>EcrController\<close>: \<^verbatim>\<open>externalclusterreference_controller.go\<close>, sequentially; \<open>EcrInterleaving\<close>: the
    same store operations as atomic steps of the worker and of the managers' goroutines.
  \<^item> \<open>Startup\<close>: \<^verbatim>\<open>main\<close>, from the defaults of its flags to the start of the manager.
  \<^item> \<open>Memory\<close>, \<open>DeepCopyTypes\<close>, \<open>DeepCopy\<close>: the methods of \<^verbatim>\<open>zz_generated.deepcopy.go\<close>. Only here do
    pointers, slices and maps have addresses: \<open>Memory\<close> has cells and the copying of each kind of
    field, \<open>DeepCopyTypes\<close> the structs of \<open>ApiTypes\<close> with cells, the addresses they reach and their
    values, \<open>DeepCopy\<close> the methods.
  \<^item> \<open>InMemory\<close>: an API server and libraries that compute and satisfy everything the properties
    assume of them; the witnesses run on it.
  \<^item> \<open>ControlPlaneProperties\<close>, \<open>EndpointProperties\<close>, \<open>ReconcileProperties\<close>, \<open>ExternalProperties\<close>,
    \<open>StartupProperties\<close>, \<open>ComponentProperties\<close>: the properties C1 to C40, apart from C33, which is in
    \<open>DeepCopy\<close>, and C35, which spans both controllers and stands here.

  \<^bold>\<open>Interfaces.\<close> The locales are \<open>manager_store\<close> (a store is a map of managers, interpreted for
  \<^verbatim>\<open>mapStore\<close>), \<open>field_index\<close> (the three indexers), \<open>remote_naming\<close> (a remote name leads back to its
  object), \<open>status_modifier\<close> (a status update changes the status only, interpreted for the four
  modifiers), \<open>infra_handler\<close> (the three ways of handling an infrastructure cluster),
  \<open>secret_replica\<close> (both secrets), \<open>reconcile_phase\<close> (every phase touches only its own conditions
  and answers as a reconciler may, interpreted for each phase and their sequence),
  \<open>transition_system\<close> (reachability) and its extensions \<open>invariant_system\<close> and \<open>working_system\<close> (a
  measure that some steps use up), interpreted for the interleavings, and \<open>deep_copy\<close> (what a
  \<^verbatim>\<open>DeepCopyInto\<close> promises, interpreted for the method of every struct).

  \<^bold>\<open>What is shown.\<close>

  \<^item> C1 to C5: the mutate function is idempotent, so that a settled tenant control plane is not
    written again; which names its certificate covers; what it sets and keeps; the probes.
  \<^item> C6 to C12: how the endpoint is computed, published and written, when a foreign endpoint stays,
    which ports and kinds are refused, and where a port is cut.
  \<^item> C13 to C19: the answer, the panics and the conditions of \<^verbatim>\<open>Reconcile\<close>, the order of publication,
    how a ready control plane is reported, objects not ready and paused.
  \<^item> C20 to C27: finalizer, deletion, remote clients, the watch, the way back from remote control
    planes, the store after a reconciliation of a secret.
  \<^item> C28 to C32, C36: the interleavings: no addition to the store is refused, no manager is out of
    reach, no context is cancelled twice, what has been begun comes to an end; and two runs that
    end badly.
  \<^item> C33: a deep copy has the value of the original and shares no storage with it.
  \<^item> C34: the set-up of the program; C35, below: after a reconciliation of a secret, the objects
    that refer to it get their remote client.
  \<^item> C37 to C40: the tracking of conditions as a map update, the store as a map, the secrets.

  \<^bold>\<open>Loops and bounds.\<close> No definition needs fuel. The loops of the program run over slices and maps
  and are recursions on lists. \<^verbatim>\<open>RetryOnConflict\<close> is a parameter: what is assumed of it is that an
  attempt that succeeds ends it and that its answer is the one of some attempt. Ports are kept at
  the widths of the source (16-bit parsing, 64-bit values, the conversion to 32 bits), and
  \<^verbatim>\<open>time.Duration\<close> values are natural numbers of nanoseconds.

  \<^bold>\<open>Modelling decisions.\<close> Outside of \<open>DeepCopy\<close>, objects are values and a copy is the value itself,
  which C33 justifies: the copy has that value, and no later write to either reaches the other. Where the code
  writes through a pointer that outlives the call, the model says so: the pointer of the CoreDNS
  addon, which the mutate function fills in on the \<^verbatim>\<open>KamajiControlPlane\<close> it was given, and the
  condition inside the slice, which \<^verbatim>\<open>TrackConditionType\<close> changes in place. The order of a Go map's
  iteration is the order of its association list, and nothing proved depends on it being any
  particular one. Panics are values, so that the theorems about them are about all runs.

  \<^bold>\<open>Not modelled.\<close> Logging and its options; the parsing of arguments, which is a function of pflag
  and a parameter; the test suite, the chart and the manifests. The admission rules of the
  API types are written as comments for a generator and are enforced by the API server; the
  properties do not assume them, apart from names without a slash (\<open>secret_names_ok\<close>,
  \<open>reference_names_ok\<close>).
\<close>

section \<open>From the secret to the remote client\<close>

text \<open>
  C35: the two controllers work together. Once the controller of the secrets has reconciled a
  secret without error, the controller of the objects gets a client of the remote cluster for
  every object whose reference means an entry of that secret, as long as the secret is still at
  the version that was loaded, the gates allow the reference, and the remote cluster serves
  tenant control planes.
\<close>

theorem remote_client_available:
  assumes ref: "external_reference kcp = Some e" "reference_names_ok kcp e" "secret_names_ok secret"
      "refers_to kcp e secret" "gm_get (se_Data secret) (ecr_KubeconfigSecretKey e) \<noteq> Some None"
    and run: "c_get_secret (er_Client er) req zero_secret (es_w st) = (None, secret, w)"
      "\<And>k w. \<exists>w'. c_list_kcp (er_Client er) ExternalClusterReferenceKamajiControlPlaneField k w = (Inr (ix_kcp.matching k kcps), w')"
      "kcp \<in> set kcps" "Ecr_Reconcile er L E req st = (Return None, st')"
    and gates: "r_FeatureGates r features_ExternalClusterReference"
      "r_FeatureGates r features_ExternalClusterReferenceCrossNamespace \<or> secret_namespace kcp e = om_Namespace (kcp_meta kcp)"
    and same: "r_ExternalClusterReferenceStore r = es_store st'"
      "c_get_secret (r_client r) \<lparr>nn_Namespace = secret_namespace kcp e, nn_Name = ecr_KubeconfigSecretName e\<rparr> zero_secret w0
        = (None, secret, w1)"
    and served: "\<And>mgr. fst (l_mgr_KindFor L mgr ''tenantcontrolplanes'' w1) = None"
  shows "\<exists>mgr w'. extractRemoteClient r L kcp w0 = (Return (Inr (l_mgr_client L mgr)), w')"
proof -
  obtain key where key: "GenerateKeyNameFromKamaji kcp = Return key"
    using GenerateKeyNameFromKamaji_Some [OF ref(1)] by blast
  have "kcp \<in> set (ix_kcp.matching key kcps)"
    using run(3) ref(1) key by (simp add: ix_kcp.matching_selects)
  moreover have "key \<in> set (GenerateKeyNameFromSecret secret)"
    using key_of_reference_iff [OF ref(1-3) key] ref(4) by simp
  ultimately have referenced: "key \<in> set (filter (\<lambda>k. ix_kcp.matching k kcps \<noteq> []) (GenerateKeyNameFromSecret secret))"
    by auto
  from Ecr_Reconcile_steps [where listed = "\<lambda>k. ix_kcp.matching k kcps", OF run(1,2,4)] obtain st1 where
    "load_managers E secret (filter (\<lambda>k. ix_kcp.matching k kcps \<noteq> []) (GenerateKeyNameFromSecret secret)) st1 = (Return None, st')"
    by blast
  from load_managers_stored [OF this] referenced obtain mgr c where
    "ms_entry (es_store st') key = Some (om_ResourceVersion (se_meta secret), mgr, c)"
    by blast
  then have get: "mapStore_Get (r_ExternalClusterReferenceStore r) key (om_ResourceVersion (se_meta secret)) = (Some mgr, True)"
    using same(1) by (simp add: ms.get_found_iff)
  from ref(4,5) obtain d where d: "gm_get (se_Data secret) (ecr_KubeconfigSecretKey e) = Some (Some d)"
    by (auto simp: refers_to_def)
  then have "se_Data secret \<noteq> None"
    by (cases "se_Data secret") simp_all
  with same(2) d key get served [of mgr]
  have "\<exists>w'. remote_client_from_secret r L kcp e (secret_namespace kcp e) w0 = (Return (Inr (l_mgr_client L mgr)), w')"
    by (auto simp: remote_client_from_secret_def split: prod.split option.split)
  with gates ref(1) show ?thesis
    by (auto simp: extractRemoteClient_def secret_namespace_def Let_def split: if_splits)
qed

text \<open>The store after the reconciliation of the sample secret, given to a reconciler.\<close>

definition loaded_reconciler :: "(mem, nat, nat) KamajiControlPlaneReconciler" where
  "loaded_reconciler = (mem_reconciler [''ExternalClusterReference''] [])
     \<lparr>r_ExternalClusterReferenceStore :=
        es_store (snd (Ecr_Reconcile \<lparr>er_Client = fixed_list_client\<rparr> mem_lib mem_ecr_lib secret_req ecr_start))\<rparr>"

theorem remote_client_available_witness:
  "\<exists>mgr w'. extractRemoteClient loaded_reconciler mem_lib remote_kcp (sample_world remote_kcp) =
     (Return (Inr (l_mgr_client mem_lib mgr)), w')"
proof -
  let ?e = "\<lparr>ecr_KubeconfigSecretName = ''s'', ecr_KubeconfigSecretKey = ''kc'',
      ecr_KubeconfigSecretNamespace = '''', ecr_DeploymentNamespace = ''remote''\<rparr>"
  let ?er = "\<lparr>er_Client = fixed_list_client\<rparr>"
  define st' where "st' = snd (Ecr_Reconcile ?er mem_lib mem_ecr_lib secret_req ecr_start)"
  have run: "Ecr_Reconcile ?er mem_lib mem_ecr_lib secret_req ecr_start = (Return None, st')"
    using ecr_sample_run by (simp add: st'_def prod_eq_iff)
  have ref: "external_reference remote_kcp = Some ?e" "reference_names_ok remote_kcp ?e" "secret_names_ok remote_secret"
    "refers_to remote_kcp ?e remote_secret" "gm_get (se_Data remote_secret) (ecr_KubeconfigSecretKey ?e) \<noteq> Some None"
    by code_simp+
  have get: "c_get_secret (er_Client ?er) secret_req zero_secret (es_w ecr_start) = (None, remote_secret, sample_world remote_kcp)"
    by (simp add: fixed_list_client_def mem_client_def mem_read_def mem_get_def sample_world_def remote_secret_def
        sample_meta_def ObjectKey_def)
  have sel: "(case GenerateKeyNameFromKamaji remote_kcp of Return key \<Rightarrow> key = k | Panic _ \<Rightarrow> False) \<longleftrightarrow>
      external_reference remote_kcp \<noteq> None \<and> GenerateKeyNameFromKamaji remote_kcp = Return k" for k
    by (simp add: ref(1) split: outcome.split)
  have list: "\<exists>w'. c_list_kcp (er_Client ?er) ExternalClusterReferenceKamajiControlPlaneField k w = (Inr (ix_kcp.matching k [remote_kcp]), w')" for k w
    unfolding ix_kcp.matching_selects using sel [of k]
    by (simp add: fixed_list_client_def mem_list_kcp_def ExternalClusterReferenceKamajiControlPlaneField_def sample_world_def)
  have gates: "r_FeatureGates loaded_reconciler features_ExternalClusterReference"
    "r_FeatureGates loaded_reconciler features_ExternalClusterReferenceCrossNamespace \<or> secret_namespace remote_kcp ?e = om_Namespace (kcp_meta remote_kcp)"
    by (simp_all add: loaded_reconciler_def mem_reconciler_def features_defs secret_namespace_def)
  have same: "r_ExternalClusterReferenceStore loaded_reconciler = es_store st'"
    by (simp add: loaded_reconciler_def st'_def)
  have read: "c_get_secret (r_client loaded_reconciler) \<lparr>nn_Namespace = secret_namespace remote_kcp ?e, nn_Name = ecr_KubeconfigSecretName ?e\<rparr>
      zero_secret (sample_world remote_kcp) = (None, remote_secret, sample_world remote_kcp)"
    by (simp add: loaded_reconciler_def mem_reconciler_def mem_client_def mem_read_def mem_get_def sample_world_def remote_secret_def
        sample_meta_def ObjectKey_def secret_namespace_def remote_kcp_def owned_kcp_def owned_meta_def)
  have "fst (l_mgr_KindFor mem_lib mgr ''tenantcontrolplanes'' (sample_world remote_kcp)) = None" for mgr
    by (simp add: mem_lib_def)
  then show ?thesis
    by (rule remote_client_available [OF ref get list _ run gates same read, rotated]) simp
qed

end
